(* ===== verification/Float64.thy ===== *)
theory Float64
  imports Complex_Main
begin

text \<open>
  Go's \<^verbatim>\<open>float64\<close>: IEEE 754 binary64 with round-to-nearest, ties to even, over exact rationals.
  A finite value is \<open>Fin r\<close> with \<open>r\<close> the rational it denotes; every operation computes
  the exact result and rounds it to 53 significant bits (gradual underflow at \<open>2 ^ -1074\<close>, overflow
  to an infinity at \<open>2 ^ 1024\<close>). NaN compares false with everything, as in Go. The sign of zero
  is not represented (a zero divisor counts as +0), which no comparison can observe.
\<close>

section \<open>Rounding a rational to 53 bits\<close>

definition pow2 :: "int \<Rightarrow> rat" where
  "pow2 e = (if 0 \<le> e then 2 ^ nat e else 1 / 2 ^ nat (- e))"

function nbits :: "int \<Rightarrow> int" where
  "nbits n = (if n \<le> 0 then 0 else 1 + nbits (n div 2))"
  by pat_completeness auto
termination
  by (relation "measure nat") auto

declare nbits.simps [simp del]

text \<open>\<open>ilog2 x\<close> is the exponent of the leading bit of \<open>x > 0\<close>.\<close>

definition ilog2 :: "rat \<Rightarrow> int" where
  "ilog2 x = (let (a, b) = quotient_of x; e = nbits a - nbits b
              in if pow2 e \<le> x then e else e - 1)"

text \<open>Round half to even.\<close>

definition rhe :: "rat \<Rightarrow> int" where
  "rhe q = (let f = \<lfloor>q\<rfloor>; d = q - of_int f
            in if d < 1/2 then f else if 1/2 < d then f + 1 else if even f then f else f + 1)"

definition ulp_exp :: "rat \<Rightarrow> int" where
  "ulp_exp x = max (ilog2 \<bar>x\<bar> - 52) (- 1074)"

definition rnd :: "rat \<Rightarrow> rat" where
  "rnd x = (if x = 0 then 0 else of_int (rhe (x / pow2 (ulp_exp x))) * pow2 (ulp_exp x))"

lemma pow2_powi: "pow2 e = 2 powi e"
  by (auto simp: pow2_def power_int_def field_simps)

lemma pow2_pos [simp]: "0 < pow2 e"
  by (simp add: pow2_def)

lemma pow2_nz [simp]: "pow2 e \<noteq> 0"
  using pow2_pos [of e] by linarith

lemma pow2_0 [simp]: "pow2 0 = 1" and pow2_1: "pow2 1 = 2"
  by (simp_all add: pow2_def)

lemma pow2_nonneg [simp]: "0 \<le> pow2 e" and abs_pow2 [simp]: "\<bar>pow2 e\<bar> = pow2 e"
  using pow2_pos [of e] by linarith+

lemma pow2_add: "pow2 (a + b) = pow2 a * pow2 b"
  by (simp add: pow2_powi power_int_add)

lemma pow2_diff: "pow2 (a - b) = pow2 a / pow2 b"
  by (simp add: pow2_powi power_int_diff)

lemma pow2_less: "a < b \<Longrightarrow> pow2 a < pow2 b"
  by (simp add: pow2_powi power_int_strict_increasing)

lemma pow2_less_iff: "pow2 a < pow2 b \<longleftrightarrow> a < b"
  by (metis linorder_neqE_linordered_idom order_less_asym pow2_less)

lemma pow2_le_iff: "pow2 a \<le> pow2 b \<longleftrightarrow> a \<le> b"
  by (metis linorder_not_less pow2_less_iff)

lemma pow2_nat: "0 \<le> k \<Longrightarrow> pow2 k = of_int (2 ^ nat k)"
  by (simp add: pow2_def)

lemma nbits_nonneg: "0 \<le> nbits n"
  by (induction n rule: nbits.induct) (simp add: nbits.simps)

lemma nbits_pos: "0 < n \<Longrightarrow> 0 < nbits n"
  using nbits_nonneg [of "n div 2"] by (simp add: nbits.simps [of n])

lemma nbits_bounds: "0 < n \<Longrightarrow> pow2 (nbits n - 1) \<le> of_int n \<and> of_int n < pow2 (nbits n)"
proof (induction n rule: nbits.induct)
  case (1 n)
  show ?case
  proof (cases "n = 1")
    case True
    have "nbits 1 = 1" by (simp add: nbits.simps)
    with True show ?thesis by (simp add: pow2_def)
  next
    case False
    with "1.prems" have h: "0 < n div 2" by presburger
    with "1.IH" "1.prems" have ih: "pow2 (nbits (n div 2) - 1) \<le> of_int (n div 2)"
      "of_int (n div 2) < pow2 (nbits (n div 2))" by auto
    let ?k = "nbits (n div 2)"
    have k: "0 < ?k" using h by (rule nbits_pos)
    have nb: "nbits n = ?k + 1" using "1.prems" by (simp add: nbits.simps [of n])
    have two: "pow2 ?k = 2 * pow2 (?k - 1)" "pow2 (?k + 1) = 2 * pow2 ?k"
      using pow2_add [of 1 "?k - 1"] pow2_add [of 1 ?k] by (simp_all add: pow2_1 add.commute)
    have "(of_int (n div 2) :: rat) < of_int (2 ^ nat ?k)" using ih(2) k pow2_nat [of ?k] by simp
    then have "n div 2 < 2 ^ nat ?k" unfolding of_int_less_iff .
    then have "n < 2 * 2 ^ nat ?k" by linarith
    then have "(of_int n :: rat) < of_int (2 * 2 ^ nat ?k)" by (simp only: of_int_less_iff)
    then have up: "of_int n < pow2 (?k + 1)" using k by (simp add: two(2) pow2_nat)
    have "(2 * of_int (n div 2) :: rat) \<le> of_int n"
      using div_mult_mod_eq [of n 2] by (metis add_increasing2 mult.commute of_int_le_iff of_int_mult
          of_int_numeral order_refl pos_mod_sign zero_less_numeral)
    with ih(1) two(1) up nb show ?thesis by simp
  qed
qed

lemma ilog2_bounds:
  assumes "0 < x"
  shows "pow2 (ilog2 x) \<le> x" and "x < pow2 (ilog2 x + 1)"
proof -
  obtain a b where q: "quotient_of x = (a, b)" by (cases "quotient_of x")
  have x: "x = of_int a / of_int b" using q by (rule quotient_of_div)
  have b: "0 < b" using q by (rule quotient_of_denom_pos)
  have a: "0 < a" using assms x b by (simp add: zero_less_divide_iff)
  let ?e = "nbits a - nbits b"
  have na: "pow2 (nbits a - 1) \<le> of_int a" "of_int a < pow2 (nbits a)"
    and nb: "pow2 (nbits b - 1) \<le> of_int b" "of_int b < pow2 (nbits b)"
    using nbits_bounds a b by auto
  have b': "(0::rat) < of_int b" using b by simp
  have "x < pow2 (nbits a) / pow2 (nbits b - 1)"
    unfolding x using na(2) nb(1) a b' by (intro frac_less) auto
  then have up: "x < pow2 (?e + 1)" by (simp add: pow2_diff [symmetric] algebra_simps)
  have "pow2 (nbits a - 1) / pow2 (nbits b) < x"
    unfolding x using na(1) nb(2) a b' by (intro frac_less2) auto
  then have lo: "pow2 (?e - 1) < x" by (simp add: pow2_diff [symmetric] algebra_simps)
  have il: "ilog2 x = (if pow2 ?e \<le> x then ?e else ?e - 1)"
    by (simp add: ilog2_def q Let_def)
  show "pow2 (ilog2 x) \<le> x" "x < pow2 (ilog2 x + 1)"
    using up lo by (auto simp: il)
qed

lemma ilog2_mono: "0 < x \<Longrightarrow> x \<le> y \<Longrightarrow> ilog2 x \<le> ilog2 y"
  using ilog2_bounds [of x] ilog2_bounds [of y] pow2_less_iff [of "ilog2 x" "ilog2 y + 1"] by force

lemma rhe_int [simp]: "rhe (of_int n) = n"
  by (simp add: rhe_def Let_def)

lemma rhe_uminus: "rhe (- q) = - rhe q"
proof (cases "q \<in> \<int>")
  case True
  then obtain n where "q = of_int n" by (elim Ints_cases)
  then show ?thesis using rhe_int [of "- n"] by (simp del: rhe_int) (metis of_int_minus rhe_int)
next
  case False
  then have c: "\<lceil>q\<rceil> = \<lfloor>q\<rfloor> + 1" by (metis Ints_of_int ceiling_altdef)
  have "\<lfloor>- q\<rfloor> = - (\<lfloor>q\<rfloor> + 1)" using c by (simp add: floor_minus)
  then show ?thesis by (auto simp: rhe_def Let_def)
qed

lemma rhe_floor: "\<lfloor>q\<rfloor> \<le> rhe q" and rhe_floor1: "rhe q \<le> \<lfloor>q\<rfloor> + 1"
  by (auto simp: rhe_def Let_def)

lemma rhe_mono: "p \<le> q \<Longrightarrow> rhe p \<le> rhe q"
proof -
  assume le: "p \<le> q"
  then have fl: "\<lfloor>p\<rfloor> \<le> \<lfloor>q\<rfloor>" by (rule floor_mono)
  show ?thesis
  proof (cases "\<lfloor>p\<rfloor> = \<lfloor>q\<rfloor>")
    case True
    with le show ?thesis by (auto simp: rhe_def Let_def)
  next
    case False
    with fl have "\<lfloor>p\<rfloor> + 1 \<le> \<lfloor>q\<rfloor>" by simp
    then show ?thesis using rhe_floor1 [of p] rhe_floor [of q] by linarith
  qed
qed

lemma rhe_le_int: "q \<le> of_int n \<Longrightarrow> rhe q \<le> n"
  using rhe_mono [of q "of_int n"] by simp

lemma int_le_rhe: "of_int n \<le> q \<Longrightarrow> n \<le> rhe q"
  using rhe_mono [of "of_int n" q] by simp

lemma rnd_0 [simp]: "rnd 0 = 0"
  by (simp add: rnd_def)

lemma rnd_uminus [simp]: "rnd (- x) = - rnd x"
  by (simp add: rnd_def ulp_exp_def rhe_uminus)

lemma rnd_nonneg: "0 \<le> x \<Longrightarrow> 0 \<le> rnd x"
  using int_le_rhe [of 0 "x / pow2 (ulp_exp x)"] by (simp add: rnd_def divide_nonneg_pos)

lemma rnd_mono_pos:
  assumes "0 < x" and "x \<le> y"
  shows "rnd x \<le> rnd y"
proof -
  have y: "0 < y" using assms by simp
  let ?e = "ulp_exp x" and ?f = "ulp_exp y"
  have ex: "rnd x = of_int (rhe (x / pow2 ?e)) * pow2 ?e" and ey: "rnd y = of_int (rhe (y / pow2 ?f)) * pow2 ?f"
    using assms y by (simp_all add: rnd_def)
  have le: "?e \<le> ?f" using ilog2_mono [OF assms] assms y by (simp add: ulp_exp_def)
  show ?thesis
  proof (cases "?e = ?f")
    case True
    have "x / pow2 ?e \<le> y / pow2 ?e" using assms(2) by (simp add: divide_right_mono less_imp_le)
    then have "rhe (x / pow2 ?e) \<le> rhe (y / pow2 ?f)" using True by (simp add: rhe_mono)
    then show ?thesis unfolding ex ey using True by (simp add: mult_right_mono)
  next
    case False
    with le have lt: "?e < ?f" by simp
    have f: "?f = ilog2 y - 52" and il: "ilog2 x < ilog2 y"
      using lt assms y by (auto simp: ulp_exp_def)
    have yB: "pow2 (?f + 52) \<le> y" using ilog2_bounds(1) [OF y] f by simp
    have "x < pow2 (ilog2 x + 1)" by (rule ilog2_bounds(2) [OF assms(1)])
    also have "\<dots> \<le> pow2 (?f + 52)" using il f by (simp add: pow2_le_iff)
    finally have xB: "x \<le> pow2 (?f + 52)" by simp
    have "of_int (2 ^ 52) \<le> y / pow2 ?f"
      using yB by (simp add: pow2_add le_divide_eq) (simp add: pow2_def mult.commute)
    then have "2 ^ 52 \<le> rhe (y / pow2 ?f)" by (rule int_le_rhe)
    then have "(of_int (2 ^ 52) :: rat) \<le> of_int (rhe (y / pow2 ?f))" by (simp only: of_int_le_iff)
    then have "of_int (2 ^ 52) * pow2 ?f \<le> rnd y" unfolding ey by (simp only: mult_right_mono pow2_pos less_imp_le)
    then have 1: "pow2 (?f + 52) \<le> rnd y" by (simp add: pow2_add) (simp add: pow2_def mult.commute)
    have k: "0 \<le> ?f + 52 - ?e" using lt by simp
    have "x / pow2 ?e \<le> pow2 (?f + 52 - ?e)" using xB by (simp add: pow2_diff divide_right_mono less_imp_le)
    then have "rhe (x / pow2 ?e) \<le> 2 ^ nat (?f + 52 - ?e)" using pow2_nat [OF k] by (simp only: rhe_le_int)
    then have "(of_int (rhe (x / pow2 ?e)) :: rat) \<le> of_int (2 ^ nat (?f + 52 - ?e))" by (simp only: of_int_le_iff)
    then have "rnd x \<le> pow2 (?f + 52 - ?e) * pow2 ?e"
      unfolding ex using pow2_nat [OF k] by (simp only: mult_right_mono pow2_pos less_imp_le)
    then have 2: "rnd x \<le> pow2 (?f + 52)" by (simp add: pow2_add [symmetric])
    from 1 2 show ?thesis by simp
  qed
qed

lemma rnd_mono: "x \<le> y \<Longrightarrow> rnd x \<le> rnd y"
proof -
  assume le: "x \<le> y"
  consider "0 < x" | "x \<le> 0" "0 \<le> y" | "y < 0" by linarith
  then show ?thesis
  proof cases
    case 1
    with le show ?thesis by (rule rnd_mono_pos [rotated])
  next
    case 2
    have "0 \<le> rnd (- x)" "0 \<le> rnd y" using 2 by (simp_all only: rnd_nonneg neg_0_le_iff_le)
    then show ?thesis by simp
  next
    case 3
    have "rnd (- y) \<le> rnd (- x)" using 3 le by (intro rnd_mono_pos) auto
    then show ?thesis by simp
  qed
qed

text \<open>A value with at most 53 significant bits is its own rounding.\<close>

lemma rnd_exact:
  assumes m: "\<bar>m\<bar> \<le> 2 ^ 53" and k: "- 1074 \<le> k"
  shows "rnd (of_int m * pow2 k) = of_int m * pow2 k"
proof (cases "m = 0")
  case False
  let ?r = "of_int m * pow2 k" and ?e = "ulp_exp (of_int m * pow2 k)"
  have r0: "?r \<noteq> 0" using False by simp
  have abs: "\<bar>?r\<bar> = of_int \<bar>m\<bar> * pow2 k" by (simp add: abs_mult)
  have "\<exists>n. ?r / pow2 ?e = of_int n"
  proof (cases "?e \<le> k")
    case True
    then have "?r / pow2 ?e = of_int (m * 2 ^ nat (k - ?e))"
      using pow2_nat [of "k - ?e"] by (simp add: pow2_diff flip: times_divide_eq_right)
    then show ?thesis by blast
  next
    case False
    have e: "?e = ilog2 \<bar>?r\<bar> - 52" using False k by (simp add: ulp_exp_def)
    have lo: "pow2 (?e + 52) \<le> \<bar>?r\<bar>" using ilog2_bounds(1) [of "\<bar>?r\<bar>"] r0 e by simp
    have "(of_int \<bar>m\<bar> :: rat) \<le> of_int (2 ^ 53)" using m by (simp only: of_int_le_iff)
    then have "\<bar>?r\<bar> \<le> pow2 53 * pow2 k"
      unfolding abs by (intro mult_right_mono) (simp_all add: pow2_def)
    then have "pow2 (?e + 52) \<le> pow2 (53 + k)" using lo by (simp add: pow2_add)
    then have ek: "?e = k + 1" using False by (simp add: pow2_le_iff)
    have "pow2 (k + 53) \<le> of_int \<bar>m\<bar> * pow2 k" using lo ek abs by (simp add: algebra_simps)
    then have "pow2 53 \<le> of_int \<bar>m\<bar>" by (simp add: pow2_add mult.commute)
    then have "(of_int (2 ^ 53) :: rat) \<le> of_int \<bar>m\<bar>" by (simp add: pow2_def)
    then have "2 ^ 53 \<le> \<bar>m\<bar>" by (simp only: of_int_le_iff)
    with m have "\<bar>m\<bar> = 2 * 2 ^ 52" by simp
    then obtain n where "m = 2 * n" by (metis abs_mult dvd_abs_iff dvd_triv_left dvdE)
    then have "?r / pow2 ?e = of_int n" unfolding ek by (simp add: pow2_add) (simp add: pow2_def)
    then show ?thesis by blast
  qed
  then obtain n where n: "?r / pow2 ?e = of_int n" by blast
  then have "rnd ?r = of_int n * pow2 ?e" using r0 by (simp add: rnd_def)
  also have "\<dots> = ?r" using n by (simp add: divide_eq_eq)
  finally show ?thesis .
qed simp


lemma rnd_form:
  obtains m k where "rnd x = of_int m * pow2 k" "\<bar>m\<bar> \<le> 2 ^ 53" "- 1074 \<le> k"
proof (cases "x = 0")
  case True
  then show ?thesis using that [of 0 0] by simp
next
  case False
  let ?e = "ulp_exp x" and ?m = "rhe (x / pow2 (ulp_exp x))"
  have "\<bar>x\<bar> < pow2 (ilog2 \<bar>x\<bar> + 1)" using ilog2_bounds(2) [of "\<bar>x\<bar>"] False by simp
  also have "\<dots> \<le> pow2 (?e + 53)" by (simp add: ulp_exp_def pow2_le_iff)
  finally have "\<bar>x\<bar> / pow2 ?e \<le> pow2 53"
    by (simp add: pow2_add divide_le_eq mult.commute less_imp_le)
  then have b: "\<bar>x / pow2 ?e\<bar> \<le> of_int (2 ^ 53)" by (simp add: pow2_def)
  have "?m \<le> 2 ^ 53" using b by (intro rhe_le_int) linarith
  moreover have "- (2 ^ 53) \<le> ?m" using b by (intro int_le_rhe) linarith
  ultimately show ?thesis using that [of ?m ?e] False by (simp add: rnd_def ulp_exp_def)
qed

lemma rnd_idem [simp]: "rnd (rnd x) = rnd x"
  by (rule rnd_form [of x]) (simp add: rnd_exact)

lemma rnd_le: "x \<le> y \<Longrightarrow> rnd y = y \<Longrightarrow> rnd x \<le> y"
  using rnd_mono [of x y] by simp

lemma le_rnd: "x \<le> y \<Longrightarrow> rnd x = x \<Longrightarrow> x \<le> rnd y"
  using rnd_mono [of x y] by simp

lemma rnd_int: "\<bar>n\<bar> \<le> 2 ^ 53 \<Longrightarrow> rnd (of_int n) = of_int n"
  using rnd_exact [of n 0] by simp

lemma rnd_1 [simp]: "rnd 1 = 1"
  using rnd_int [of 1] by simp

lemma rnd_numeral: "(numeral n :: int) \<le> 2 ^ 53 \<Longrightarrow> rnd (numeral n) = numeral n"
  using rnd_int [of "numeral n"] by simp

text \<open>Every binary64 value is a multiple of \<open>2 ^ -1074\<close>, so two different ones never subtract to
  zero (gradual underflow).\<close>

lemma rnd_multiple: "\<exists>n. rnd x = of_int n * pow2 (- 1074)"
proof (rule rnd_form [of x])
  fix m k assume r: "rnd x = of_int m * pow2 k" and k: "- 1074 \<le> k"
  have "pow2 k = of_int (2 ^ nat (k + 1074)) * pow2 (- 1074)"
    using k pow2_nat [of "k + 1074"] pow2_add [of "k + 1074" "- 1074"] by simp
  with r have "rnd x = of_int (m * 2 ^ nat (k + 1074)) * pow2 (- 1074)" by simp
  then show ?thesis by blast
qed

lemma multiple_ge: "0 < of_int n * pow2 (- 1074) \<Longrightarrow> pow2 (- 1074) \<le> of_int n * pow2 (- 1074)"
proof -
  assume "0 < of_int n * pow2 (- 1074)"
  then have "0 < n" using pow2_pos [of "- 1074"] by (simp add: zero_less_mult_iff)
  then have "(1::rat) \<le> of_int n" by (metis of_int_1 of_int_le_iff zless_imp_add1_zle add_0)
  then show ?thesis using mult_right_mono [of 1 "of_int n" "pow2 (- 1074)"] by simp
qed

lemma rnd_pos_ge: "rnd b = b \<Longrightarrow> 0 < b \<Longrightarrow> pow2 (- 1074) \<le> b"
  using rnd_multiple [of b] multiple_ge by auto

lemma rnd_ge_tiny: "pow2 (- 1074) \<le> x \<Longrightarrow> pow2 (- 1074) \<le> rnd x"
  using rnd_exact [of 1 "- 1074"] by (intro le_rnd) simp_all

lemma rnd_diff_pos:
  assumes "rnd a = a" "rnd b = b" "a < b"
  shows "0 < rnd (b - a)"
proof -
  obtain m n where "a = of_int m * pow2 (- 1074)" "b = of_int n * pow2 (- 1074)"
    using rnd_multiple [of a] rnd_multiple [of b] assms by auto
  then have "b - a = of_int (n - m) * pow2 (- 1074)" by (simp add: algebra_simps)
  with assms(3) have "pow2 (- 1074) \<le> b - a" using multiple_ge [of "n - m"] by simp
  then show ?thesis using rnd_ge_tiny [of "b - a"] pow2_pos [of "- 1074"] by linarith
qed

subsection \<open>Evaluation\<close>

text \<open>
  Code equations over the integers: a value that already has at most 53 significant bits is
  returned as it is, any other is rounded by one integer division.
\<close>

function ispow2 :: "int \<Rightarrow> bool" where
  "ispow2 b = (if b \<le> 1 then b = 1 else b mod 2 = 0 \<and> ispow2 (b div 2))"
  by pat_completeness auto
termination
  by (relation "measure nat") auto

declare ispow2.simps [simp del]

definition rhe_quot :: "int \<Rightarrow> int \<Rightarrow> int" where
  "rhe_quot n d = (let f = n div d; r = 2 * (n mod d)
                   in if r < d then f else if d < r then f + 1 else if f mod 2 = 0 then f else f + 1)"

definition rnd_quot :: "int \<Rightarrow> int \<Rightarrow> int \<Rightarrow> rat" where
  "rnd_quot a b e = (if 0 \<le> e then of_int (rhe_quot a (b * 2 ^ nat e) * 2 ^ nat e)
                     else Fract (rhe_quot (a * 2 ^ nat (- e)) b) (2 ^ nat (- e)))"

lemma ispow2_nbits: "ispow2 b \<Longrightarrow> of_int b = pow2 (nbits b - 1)"
proof (induction b rule: ispow2.induct)
  case (1 b)
  show ?case
  proof (cases "b = 1")
    case True
    then show ?thesis by (simp add: nbits.simps)
  next
    case False
    with "1.prems" have b: "1 < b" "b mod 2 = 0" "ispow2 (b div 2)" by (auto simp: ispow2.simps [of b] split: if_splits)
    with "1.IH" have ih: "of_int (b div 2) = pow2 (nbits (b div 2) - 1)" by simp
    have "nbits b - 1 = 1 + (nbits (b div 2) - 1)" using b(1) by (simp add: nbits.simps [of b])
    then have "pow2 (nbits b - 1) = 2 * of_int (b div 2)" by (simp only: pow2_add pow2_1 ih)
    also have "\<dots> = of_int (2 * (b div 2))" by simp
    also have "2 * (b div 2) = b" using b(2) by presburger
    finally show ?thesis by simp
  qed
qed

lemma rhe_quot: "0 < d \<Longrightarrow> rhe (of_int n / of_int d) = rhe_quot n d"
proof -
  assume d: "0 < d"
  have fl: "\<lfloor>of_int n / of_int d :: rat\<rfloor> = n div d" by (simp add: floor_divide_of_int_eq)
  have "(of_int n :: rat) = of_int (n div d) * of_int d + of_int (n mod d)"
    by (metis div_mult_mod_eq of_int_add of_int_mult)
  then have fr: "of_int n / of_int d - of_int (n div d) = (of_int (n mod d) / of_int d :: rat)"
    using d by (simp add: field_simps)
  have lt: "(of_int (n mod d) / of_int d < (1 / 2 :: rat)) = (2 * (n mod d) < d)"
    using d by (simp add: divide_less_eq) linarith
  have gt: "((1 / 2 :: rat) < of_int (n mod d) / of_int d) = (d < 2 * (n mod d))"
    using d by (simp add: less_divide_eq) linarith
  show ?thesis unfolding rhe_def rhe_quot_def Let_def fl fr lt gt by (simp add: even_iff_mod_2_eq_zero)
qed

lemma rnd_quot:
  assumes "0 < b"
  shows "of_int (rhe (of_int a / of_int b / pow2 e)) * pow2 e = rnd_quot a b e"
proof (cases "0 \<le> e")
  case True
  have "rhe (of_int a / of_int b / pow2 e) = rhe_quot a (b * 2 ^ nat e)"
    using rhe_quot [of "b * 2 ^ nat e" a] assms True by (simp add: pow2_def)
  then show ?thesis using True by (simp add: rnd_quot_def pow2_def)
next
  case False
  have "rhe (of_int a / of_int b / pow2 e) = rhe_quot (a * 2 ^ nat (- e)) b"
    using rhe_quot [of b "a * 2 ^ nat (- e)"] assms False by (simp add: pow2_def)
  then show ?thesis using False by (simp add: rnd_quot_def pow2_def Fract_of_int_quotient)
qed

lemma rnd_code [code]:
  "rnd x = (case quotient_of x of (a, b) \<Rightarrow>
     if \<bar>a\<bar> \<le> 9007199254740992 \<and> nbits b \<le> 1075 \<and> ispow2 b then x
     else rnd_quot a b (ulp_exp x))"
proof -
  obtain a b where q: "quotient_of x = (a, b)" by (cases "quotient_of x")
  have x: "x = of_int a / of_int b" using q by (rule quotient_of_div)
  have b: "0 < b" using q by (rule quotient_of_denom_pos)
  have "rnd x = x" if "\<bar>a\<bar> \<le> 9007199254740992" "nbits b \<le> 1075" "ispow2 b"
  proof -
    have "x = of_int a * pow2 (1 - nbits b)"
      using x ispow2_nbits [OF that(3)] pow2_diff [of 0 "nbits b - 1"] by simp
    then show ?thesis using rnd_exact [of a "1 - nbits b"] that by simp
  qed
  moreover have "rnd x = rnd_quot a b (ulp_exp x)" if "a \<noteq> 0"
    using that x b rnd_quot [OF b, of a "ulp_exp x"] by (simp add: rnd_def)
  moreover have "nbits 1 = 1" "ispow2 1" by (simp_all add: nbits.simps ispow2.simps)
  moreover have "b = 1" if "a = 0" using that q x by (simp add: rat_zero_code)
  ultimately show ?thesis unfolding q by (cases "a = 0") (auto split: if_splits)
qed

section \<open>The values and the operations\<close>

datatype f64 = NaN | PInf | NInf | Fin rat

definition overflows :: "rat \<Rightarrow> bool" where
  "overflows r \<longleftrightarrow> r \<noteq> 0 \<and> 1024 \<le> ilog2 \<bar>r\<bar>"

definition round64 :: "rat \<Rightarrow> f64" where
  "round64 x = (let r = rnd x in if overflows r then (if 0 < r then PInf else NInf) else Fin r)"

fun is_f64 :: "f64 \<Rightarrow> bool" where
  "is_f64 (Fin r) \<longleftrightarrow> rnd r = r \<and> \<not> overflows r"
| "is_f64 _ \<longleftrightarrow> True"

text \<open>Go's \<^verbatim>\<open>!math.IsNaN(v) && !math.IsInf(v, 0)\<close>.\<close>

fun finite64 :: "f64 \<Rightarrow> bool" where
  "finite64 (Fin _) \<longleftrightarrow> True"
| "finite64 _ \<longleftrightarrow> False"

fun is_nan :: "f64 \<Rightarrow> bool" where
  "is_nan NaN \<longleftrightarrow> True"
| "is_nan _ \<longleftrightarrow> False"

text \<open>The arithmetic and order of Go's \<^verbatim>\<open>float64\<close>, with the usual symbols.\<close>

instantiation f64 :: "{zero, one, plus, minus, uminus, times, inverse, abs, ord}"
begin

definition zero_f64 :: f64 where
  "zero_f64 = Fin 0"

definition one_f64 :: f64 where
  "one_f64 = Fin 1"

fun uminus_f64 :: "f64 \<Rightarrow> f64" where
  "uminus_f64 (Fin a) = Fin (- a)"
| "uminus_f64 PInf = NInf"
| "uminus_f64 NInf = PInf"
| "uminus_f64 NaN = NaN"

fun plus_f64 :: "f64 \<Rightarrow> f64 \<Rightarrow> f64" where
  "plus_f64 (Fin a) (Fin b) = round64 (a + b)"
| "plus_f64 NaN _ = NaN"
| "plus_f64 _ NaN = NaN"
| "plus_f64 PInf NInf = NaN"
| "plus_f64 NInf PInf = NaN"
| "plus_f64 PInf _ = PInf"
| "plus_f64 NInf _ = NInf"
| "plus_f64 (Fin _) PInf = PInf"
| "plus_f64 (Fin _) NInf = NInf"

definition minus_f64 :: "f64 \<Rightarrow> f64 \<Rightarrow> f64" where
  "minus_f64 x y = x + (- y)"

fun inf_of_sign :: "rat \<Rightarrow> f64" where
  "inf_of_sign s = (if 0 < s then PInf else if s < 0 then NInf else NaN)"

fun times_f64 :: "f64 \<Rightarrow> f64 \<Rightarrow> f64" where
  "times_f64 (Fin a) (Fin b) = round64 (a * b)"
| "times_f64 NaN _ = NaN"
| "times_f64 _ NaN = NaN"
| "times_f64 PInf PInf = PInf"
| "times_f64 NInf NInf = PInf"
| "times_f64 PInf NInf = NInf"
| "times_f64 NInf PInf = NInf"
| "times_f64 PInf (Fin b) = inf_of_sign b"
| "times_f64 (Fin a) PInf = inf_of_sign a"
| "times_f64 NInf (Fin b) = inf_of_sign (- b)"
| "times_f64 (Fin a) NInf = inf_of_sign (- a)"

fun divide_f64 :: "f64 \<Rightarrow> f64 \<Rightarrow> f64" where
  "divide_f64 (Fin a) (Fin b) = (if b = 0 then inf_of_sign a else round64 (a / b))"
| "divide_f64 NaN _ = NaN"
| "divide_f64 _ NaN = NaN"
| "divide_f64 (Fin _) _ = Fin 0"
| "divide_f64 PInf (Fin b) = (if b < 0 then NInf else PInf)"
| "divide_f64 NInf (Fin b) = (if b < 0 then PInf else NInf)"
| "divide_f64 _ _ = NaN"

definition inverse_f64 :: "f64 \<Rightarrow> f64" where
  "inverse_f64 x = divide (Fin 1) x"

fun abs_f64 :: "f64 \<Rightarrow> f64" where
  "abs_f64 (Fin a) = Fin \<bar>a\<bar>"
| "abs_f64 NaN = NaN"
| "abs_f64 _ = PInf"

fun less_f64 :: "f64 \<Rightarrow> f64 \<Rightarrow> bool" where
  "less_f64 (Fin a) (Fin b) \<longleftrightarrow> a < b"
| "less_f64 NInf PInf \<longleftrightarrow> True"
| "less_f64 NInf (Fin _) \<longleftrightarrow> True"
| "less_f64 (Fin _) PInf \<longleftrightarrow> True"
| "less_f64 _ _ \<longleftrightarrow> False"

definition less_eq_f64 :: "f64 \<Rightarrow> f64 \<Rightarrow> bool" where
  "less_eq_f64 x y \<longleftrightarrow> x < y \<or> (x = y \<and> \<not> is_nan x)"

instance ..

end

text \<open>Go's \<^verbatim>\<open>==\<close> on floats: NaN is different from itself.\<close>

definition feq :: "f64 \<Rightarrow> f64 \<Rightarrow> bool" where
  "feq x y \<longleftrightarrow> x = y \<and> \<not> is_nan x"

text \<open>A literal or an integer converted to \<^verbatim>\<open>float64\<close>; \<^verbatim>\<open>math.Trunc\<close>, \<^verbatim>\<open>math.Ceil\<close>.\<close>

definition lit :: "rat \<Rightarrow> f64" where
  "lit = round64"

definition of_int64 :: "int \<Rightarrow> f64" where
  "of_int64 n = round64 (of_int n)"

fun ftrunc :: "f64 \<Rightarrow> f64" where
  "ftrunc (Fin a) = Fin (of_int (if 0 \<le> a then \<lfloor>a\<rfloor> else \<lceil>a\<rceil>))"
| "ftrunc x = x"

fun fceil :: "f64 \<Rightarrow> f64" where
  "fceil (Fin a) = Fin (of_int \<lceil>a\<rceil>)"
| "fceil x = x"


section \<open>Laws of the operations\<close>

declare is_f64.simps(1) [simp del]
lemmas is_f64_Fin = is_f64.simps(1)

lemma overflows_iff: "overflows r \<longleftrightarrow> pow2 1024 \<le> \<bar>r\<bar>"
proof (cases "r = 0")
  case True
  then show ?thesis by (simp add: overflows_def not_le)
next
  case False
  then show ?thesis
    using ilog2_bounds [of "\<bar>r\<bar>"] pow2_le_iff [of 1024 "ilog2 \<bar>r\<bar>"] pow2_less_iff [of 1024 "ilog2 \<bar>r\<bar> + 1"]
    by (auto simp: overflows_def)
qed

lemma overflows_mono: "\<bar>a\<bar> \<le> \<bar>b\<bar> \<Longrightarrow> overflows a \<Longrightarrow> overflows b"
  by (simp add: overflows_iff)

lemma round64_cases:
  obtains (fin) "round64 x = Fin (rnd x)" "\<not> overflows (rnd x)"
    | (pinf) "round64 x = PInf" "overflows (rnd x)" "0 < rnd x"
    | (ninf) "round64 x = NInf" "overflows (rnd x)" "rnd x < 0"
  by (cases "overflows (rnd x)"; cases "0 < rnd x") (auto simp: round64_def overflows_def)

lemma is_f64_round64 [simp]: "is_f64 (round64 x)"
  by (rule round64_cases [of x]) (auto simp: is_f64_Fin)

lemma not_nan_round64 [simp]: "\<not> is_nan (round64 x)"
  by (rule round64_cases [of x]) auto

lemma round64_exact: "is_f64 (Fin r) \<Longrightarrow> round64 r = Fin r"
  by (simp add: round64_def is_f64_Fin)

lemma less_eq_f64_simps [simp]:
  "Fin a \<le> Fin b \<longleftrightarrow> a \<le> b" "NInf \<le> Fin b" "Fin a \<le> PInf" "NInf \<le> PInf" "PInf \<le> PInf" "NInf \<le> NInf"
  "\<not> NaN \<le> y" "\<not> x \<le> NaN" "\<not> PInf \<le> Fin b" "\<not> Fin a \<le> NInf" "\<not> PInf \<le> NInf"
  by (auto simp: less_eq_f64_def elim: less_f64.elims)

lemma round64_mono: "a \<le> b \<Longrightarrow> round64 a \<le> round64 b"
proof -
  assume "a \<le> b"
  then have le: "rnd a \<le> rnd b" by (rule rnd_mono)
  have up: "overflows (rnd b)" if "overflows (rnd a)" "0 < rnd a"
    using that le by (intro overflows_mono [of "rnd a" "rnd b"]) simp_all
  have dn: "overflows (rnd a)" if "overflows (rnd b)" "rnd b < 0"
    using that le by (intro overflows_mono [of "rnd b" "rnd a"]) simp_all
  show ?thesis
  proof (cases a rule: round64_cases)
    case fin
    then show ?thesis using le dn by (cases b rule: round64_cases) auto
  next
    case pinf
    then show ?thesis using le up by (cases b rule: round64_cases) auto
  next
    case ninf
    then show ?thesis by (cases b rule: round64_cases) auto
  qed
qed

text \<open>
  What the bounds in the components rest on: a rounding that is monotone and leaves the
  representable values alone keeps every exact result between two representable bounds
  between them.
\<close>

locale monotone_rounding =
  fixes rd :: "rat \<Rightarrow> rat"
  assumes rd_mono: "x \<le> y \<Longrightarrow> rd x \<le> rd y"
    and rd_idem: "rd (rd x) = rd x"
begin

lemma between: "rd l = l \<Longrightarrow> rd u = u \<Longrightarrow> l \<le> x \<Longrightarrow> x \<le> u \<Longrightarrow> l \<le> rd x \<and> rd x \<le> u"
  using rd_mono [of l x] rd_mono [of x u] by simp

lemma order_preserved: "x \<le> y \<Longrightarrow> rd x \<le> rd y \<and> rd (rd x) \<le> rd y"
  by (simp add: rd_idem rd_mono)

end

interpretation rne: monotone_rounding rnd
  by unfold_locales (simp_all add: rnd_mono)

lemma round64_between:
  assumes "is_f64 (Fin l)" "is_f64 (Fin u)" "l \<le> x" "x \<le> u"
  obtains "round64 x = Fin (rnd x)" "l \<le> rnd x" "rnd x \<le> u"
proof -
  have b: "l \<le> rnd x" "rnd x \<le> u" using rne.between [of l u x] assms by (auto simp: is_f64_Fin)
  have "\<not> overflows (rnd x)"
    using b assms overflows_mono [of "rnd x" l] overflows_mono [of "rnd x" u]
    by (cases "0 \<le> rnd x") (auto simp: is_f64_Fin)
  then show ?thesis using that b by (simp add: round64_def)
qed

lemma is_f64_int: "\<bar>n\<bar> \<le> 2 ^ 53 \<Longrightarrow> is_f64 (Fin (of_int n))"
proof -
  assume n: "\<bar>n\<bar> \<le> 2 ^ 53"
  then have "(of_int \<bar>n\<bar> :: rat) \<le> of_int (2 ^ 53)" by (simp only: of_int_le_iff)
  also have "\<dots> = pow2 53" by (simp add: pow2_def)
  also have "\<dots> < pow2 1024" by (simp add: pow2_less_iff)
  finally have "\<not> overflows (of_int n :: rat)" by (simp add: overflows_iff)
  with n show ?thesis by (simp add: rnd_int is_f64_Fin)
qed

lemma is_f64_0 [simp]: "is_f64 (Fin 0)" and is_f64_1 [simp]: "is_f64 (Fin 1)"
  using is_f64_int [of 0] is_f64_int [of 1] by simp_all

lemma is_f64_uminus [simp]: "is_f64 (Fin (- r)) = is_f64 (Fin r)"
  by (simp add: overflows_iff is_f64_Fin)

lemma of_int64_exact: "\<bar>n\<bar> \<le> 2 ^ 53 \<Longrightarrow> of_int64 n = Fin (of_int n)"
  using is_f64_int [of n] by (simp add: of_int64_def round64_exact)

lemma of_int64_nonneg: "0 \<le> n \<Longrightarrow> 0 \<le> of_int64 n"
  using round64_mono [of 0 "of_int n"] by (simp add: of_int64_def zero_f64_def round64_exact)

lemma of_int64_pos: "0 < n \<Longrightarrow> 1 \<le> of_int64 n"
proof -
  assume "0 < n"
  then have "(1::rat) \<le> of_int n" by simp
  then have "round64 1 \<le> round64 (of_int n)" by (rule round64_mono)
  then show ?thesis by (simp add: of_int64_def one_f64_def round64_exact)
qed

subsection \<open>The order on the values that are not NaN\<close>

lemma f64_less_irrefl [simp]: "\<not> x < (x :: f64)"
  by (cases x) auto

lemma f64_less_trans: "x < y \<Longrightarrow> y < z \<Longrightarrow> x < (z :: f64)"
  by (cases x; cases y; cases z) auto

lemma f64_less_asym: "x < y \<Longrightarrow> \<not> y < (x :: f64)"
  using f64_less_trans [of x y x] by auto

lemma f64_less_imp_le: "x < y \<Longrightarrow> x \<le> (y :: f64)"
  by (simp add: less_eq_f64_def)

lemma f64_le_trans: "x \<le> y \<Longrightarrow> y \<le> z \<Longrightarrow> x \<le> (z :: f64)"
  by (cases x; cases y; cases z) auto

lemma f64_less_le_trans: "x < y \<Longrightarrow> y \<le> z \<Longrightarrow> x < (z :: f64)"
  by (cases x; cases y; cases z) auto

lemma f64_le_less_trans: "x \<le> y \<Longrightarrow> y < z \<Longrightarrow> x < (z :: f64)"
  by (cases x; cases y; cases z) auto

lemma f64_not_less: "\<not> is_nan x \<Longrightarrow> \<not> is_nan y \<Longrightarrow> \<not> x < y \<longleftrightarrow> y \<le> (x :: f64)"
  by (cases x; cases y) auto

lemma f64_not_le: "\<not> is_nan x \<Longrightarrow> \<not> is_nan y \<Longrightarrow> \<not> x \<le> y \<longleftrightarrow> y < (x :: f64)"
  by (cases x; cases y) auto

lemma f64_le_nan: "x \<le> y \<Longrightarrow> \<not> is_nan x \<and> \<not> is_nan (y :: f64)"
  by (cases x; cases y) auto

lemma f64_less_nan: "x < y \<Longrightarrow> \<not> is_nan x \<and> \<not> is_nan (y :: f64)"
  by (cases x; cases y) auto

lemma f64_le_refl [simp]: "x \<le> (x :: f64) \<longleftrightarrow> \<not> is_nan x"
  by (cases x) auto

lemma f64_neqE: "\<not> is_nan x \<Longrightarrow> \<not> is_nan y \<Longrightarrow> x \<noteq> y \<Longrightarrow> \<not> x < y \<Longrightarrow> y < (x :: f64)"
  by (cases x; cases y) auto

lemma finite64_iff: "finite64 x \<longleftrightarrow> (\<exists>r. x = Fin r)"
  by (cases x) auto

lemma finite64_not_nan: "finite64 x \<Longrightarrow> \<not> is_nan x"
  by (cases x) auto

lemma abs_f64_nonneg: "\<not> is_nan x \<Longrightarrow> 0 \<le> \<bar>x :: f64\<bar>"
  by (cases x) (auto simp: zero_f64_def)

lemma is_nan_abs [simp]: "is_nan \<bar>x :: f64\<bar> = is_nan x"
  by (cases x) auto

lemma is_f64_plus [simp]: "is_f64 (Fin a + Fin b)"
  by simp

lemma is_f64_lit [simp]: "is_f64 (lit x)"
  by (simp add: lit_def)


subsection \<open>Arithmetic between representable bounds\<close>

lemma minus_Fin: "Fin a - Fin b = round64 (a - b)"
  by (simp add: minus_f64_def)

lemma rnd_is_f64: "is_f64 (Fin l) \<Longrightarrow> is_f64 (Fin u) \<Longrightarrow> l \<le> x \<Longrightarrow> x \<le> u \<Longrightarrow> is_f64 (Fin (rnd x))"
  by (metis is_f64_round64 round64_between)

lemma diff_between:
  assumes "is_f64 (Fin a)" "0 \<le> b" "b \<le> a"
  obtains "Fin a - Fin b = Fin (rnd (a - b))" "0 \<le> rnd (a - b)" "rnd (a - b) \<le> a"
  using round64_between [of 0 a "a - b"] assms by (metis diff_ge_0_iff_ge diff_le_eq is_f64_0 le_add_same_cancel1 minus_Fin)

lemma div_unit:
  assumes "0 \<le> a" "a \<le> b" "0 < b"
  obtains "Fin a / Fin b = Fin (rnd (a / b))" "0 \<le> rnd (a / b)" "rnd (a / b) \<le> 1"
  using round64_between [of 0 1 "a / b"] assms by (auto simp: divide_le_eq_1)

lemma mult_unit:
  assumes "is_f64 (Fin m)" "0 \<le> m" "0 \<le> u" "u \<le> 1"
  obtains "Fin m * Fin u = Fin (rnd (m * u))" "0 \<le> rnd (m * u)" "rnd (m * u) \<le> m"
  using round64_between [of 0 m "m * u"] assms by (auto simp: mult_left_le)

lemma one_minus_unit:
  assumes "0 \<le> u" "u \<le> 1"
  obtains "1 - Fin u = Fin (rnd (1 - u))" "0 \<le> rnd (1 - u)" "rnd (1 - u) \<le> 1"
  using diff_between [of 1 u] assms by (auto simp: one_f64_def)


lemma plus_bounded:
  assumes "0 \<le> a" "a \<le> of_int m" "0 \<le> b" "b \<le> of_int n" "m + n \<le> 2 ^ 53"
  obtains c where "Fin a + Fin b = Fin c" "0 \<le> c" "c \<le> of_int (m + n)"
proof -
  have "(0::rat) \<le> of_int (m + n)" using assms by simp
  then have "\<bar>m + n\<bar> \<le> 2 ^ 53" using assms(5) by (simp only: of_int_0_le_iff)
  then have "is_f64 (Fin (of_int (m + n)))" by (rule is_f64_int)
  moreover have "0 \<le> a + b" "a + b \<le> of_int (m + n)" using assms by auto
  ultimately show ?thesis using round64_between [of 0 "of_int (m + n)" "a + b"] that by auto
qed

text \<open>\<open>x / (x + c)\<close> for \<open>x \<ge> 0\<close> and \<open>c > 0\<close> is a share in [0, 1].\<close>

lemma share_unit:
  assumes "is_f64 (Fin x)" "0 \<le> x" "is_f64 (Fin c)" "0 < c"
  obtains u where "Fin x / (Fin x + Fin c) = Fin u" "0 \<le> u" "u \<le> 1"
proof -
  have "rnd x \<le> rnd (x + c)" "rnd c \<le> rnd (x + c)" using assms by (auto intro: rnd_mono)
  then have d: "x \<le> rnd (x + c)" "0 < rnd (x + c)" using assms by (auto simp: is_f64_Fin)
  show ?thesis
  proof (cases "x + c" rule: round64_cases)
    case fin
    show ?thesis by (rule div_unit [OF assms(2) d]) (use fin that in auto)
  next
    case pinf
    then show ?thesis using that [of 0] by simp
  next
    case ninf
    then show ?thesis using d by simp
  qed
qed

end
