(* ===== verification/Wbot_Prelude.thy ===== *)
theory Wbot_Prelude
  imports Float64 "HOL-Library.List_Lexorder" "HOL-Library.Char_ord" "HOL-Library.Product_Lexorder" "HOL-Library.Multiset"
begin

text \<open>
  What the components share: Go strings (byte lists, with the ASCII part of the
  \<^verbatim>\<open>strings\<close> package), the number formats the messages use, stable sorting by a
  comparison function (\<^verbatim>\<open>sort.SliceStable\<close>), Go maps as association lists whose list
  order is the iteration order, 64-bit integers and \<^verbatim>\<open>time.Time\<close>.
\<close>

named_theorems go_strings \<open>unfolding rules of the string functions\<close>
named_theorems go_maps \<open>laws of the association-list maps\<close>
named_theorems go_time \<open>unfolding rules of the time functions\<close>

section \<open>Strings\<close>

definition char_lower :: "char \<Rightarrow> char" where
  "char_lower c = (if CHR ''A'' \<le> c \<and> c \<le> CHR ''Z'' then char_of (of_char c + 32 :: nat) else c)"

definition char_upper :: "char \<Rightarrow> char" where
  "char_upper c = (if CHR ''a'' \<le> c \<and> c \<le> CHR ''z'' then char_of (of_char c - 32 :: nat) else c)"

definition to_lower :: "string \<Rightarrow> string" where
  "to_lower = map char_lower"

definition to_upper :: "string \<Rightarrow> string" where
  "to_upper = map char_upper"

definition equal_fold :: "string \<Rightarrow> string \<Rightarrow> bool" where
  "equal_fold a b \<longleftrightarrow> to_lower a = to_lower b"

definition is_space :: "char \<Rightarrow> bool" where
  "is_space c \<longleftrightarrow> c = CHR '' '' \<or> (of_char c :: nat) \<in> {9, 10, 11, 12, 13}"

definition trim_space :: "string \<Rightarrow> string" where
  "trim_space s = rev (dropWhile is_space (rev (dropWhile is_space s)))"

definition has_prefix :: "string \<Rightarrow> string \<Rightarrow> bool" where
  "has_prefix s p \<longleftrightarrow> take (length p) s = p"

declare to_lower_def [go_strings] to_upper_def [go_strings] char_lower_def [go_strings]
  char_upper_def [go_strings] equal_fold_def [go_strings] trim_space_def [go_strings]
  is_space_def [go_strings] has_prefix_def [go_strings]

text \<open>Decimal text: \<^verbatim>\<open>%d\<close>, \<^verbatim>\<open>%0kd\<close> and \<^verbatim>\<open>%.kf\<close>.\<close>

definition digit_char :: "int \<Rightarrow> char" where
  "digit_char d = char_of (48 + nat d)"

function dec_digits :: "int \<Rightarrow> string" where
  "dec_digits n = (if n < 10 then [digit_char n] else dec_digits (n div 10) @ [digit_char (n mod 10)])"
  by pat_completeness auto
termination
  by (relation "measure nat") auto

declare dec_digits.simps [simp del]

definition fmt_int :: "int \<Rightarrow> string" where
  "fmt_int n = (if n < 0 then ''-'' @ dec_digits (- n) else dec_digits n)"

definition pad_zero :: "nat \<Rightarrow> string \<Rightarrow> string" where
  "pad_zero k s = replicate (k - length s) (CHR ''0'') @ s"

fun fmt_fixed :: "nat \<Rightarrow> f64 \<Rightarrow> string" where
  "fmt_fixed k NaN = ''NaN''"
| "fmt_fixed k PInf = ''+Inf''"
| "fmt_fixed k NInf = ''-Inf''"
| "fmt_fixed k (Fin r) =
     (let n = rhe (\<bar>r\<bar> * 10 ^ k)
      in (if r < 0 then ''-'' else '''') @ dec_digits (n div 10 ^ k) @ ''.'' @ pad_zero k (dec_digits (n mod 10 ^ k)))"

text \<open>\<^verbatim>\<open>%q\<close> on ASCII text.\<close>

definition quote_char :: "char \<Rightarrow> string" where
  "quote_char c = (let n = of_char c :: nat in
     if n = 34 then [char_of (92::nat), c] else if n = 92 then [c, c]
     else if n = 10 then [char_of (92::nat), CHR ''n''] else if n = 9 then [char_of (92::nat), CHR ''t'']
     else if n = 13 then [char_of (92::nat), CHR ''r''] else [c])"

definition fmt_quote :: "string \<Rightarrow> string" where
  "fmt_quote s = [char_of (34::nat)] @ concat (map quote_char s) @ [char_of (34::nat)]"

section \<open>Stable sorting by a comparison function\<close>

text \<open>
  Go's stable sort inserts each element of the input from the right end of the sorted part,
  moving left while the comparison says less. The sorted part is kept reversed here.
\<close>

fun ins_back :: "('a \<Rightarrow> 'a \<Rightarrow> bool) \<Rightarrow> 'a \<Rightarrow> 'a list \<Rightarrow> 'a list" where
  "ins_back lt x [] = [x]"
| "ins_back lt x (y # ys) = (if lt x y then y # ins_back lt x ys else x # y # ys)"

definition slice_stable :: "('a \<Rightarrow> 'a \<Rightarrow> bool) \<Rightarrow> 'a list \<Rightarrow> 'a list" where
  "slice_stable lt xs = rev (fold (ins_back lt) xs [])"

lemma mset_ins_back [simp]: "mset (ins_back lt x ys) = add_mset x (mset ys)"
  by (induction ys) auto

lemma set_ins_back [simp]: "set (ins_back lt x ys) = insert x (set ys)"
  by (induction ys) auto

lemma mset_fold_ins: "mset (fold (ins_back lt) xs acc) = mset xs + mset acc"
  by (induction xs arbitrary: acc) auto

lemma mset_slice_stable [simp]: "mset (slice_stable lt xs) = mset xs"
  by (simp add: slice_stable_def mset_fold_ins)

lemma set_slice_stable [simp]: "set (slice_stable lt xs) = set xs"
  by (metis mset_slice_stable set_mset_mset)

lemma length_slice_stable [simp]: "length (slice_stable lt xs) = length xs"
  by (metis mset_slice_stable size_mset)

lemma slice_stable_Nil [simp]: "slice_stable lt xs = [] \<longleftrightarrow> xs = []"
  by (metis length_0_conv length_slice_stable)

text \<open>The contract of a comparison function on the values it is used on.\<close>

locale strict_weak_order =
  fixes lt :: "'a \<Rightarrow> 'a \<Rightarrow> bool" and A :: "'a set"
  assumes asym: "x \<in> A \<Longrightarrow> y \<in> A \<Longrightarrow> lt x y \<Longrightarrow> \<not> lt y x"
    and ntrans: "x \<in> A \<Longrightarrow> y \<in> A \<Longrightarrow> z \<in> A \<Longrightarrow> \<not> lt x y \<Longrightarrow> \<not> lt y z \<Longrightarrow> \<not> lt x z"
begin

lemma irrefl: "x \<in> A \<Longrightarrow> \<not> lt x x"
  using asym by blast

lemma trans: "x \<in> A \<Longrightarrow> y \<in> A \<Longrightarrow> z \<in> A \<Longrightarrow> lt x y \<Longrightarrow> lt y z \<Longrightarrow> lt x z"
  using asym ntrans by blast

lemma sorted_ins_back:
  "x \<in> A \<Longrightarrow> set ys \<subseteq> A \<Longrightarrow> sorted_wrt (\<lambda>a b. \<not> lt a b) ys \<Longrightarrow>
   sorted_wrt (\<lambda>a b. \<not> lt a b) (ins_back lt x ys)"
proof (induction ys)
  case (Cons y ys)
  show ?case
  proof (cases "lt x y")
    case True
    then show ?thesis using Cons asym by auto
  next
    case False
    have "\<not> lt x z" if "z \<in> set ys" for z
      using that Cons.prems False ntrans [of x y z] by auto
    then show ?thesis using Cons.prems False by auto
  qed
qed simp

lemma sorted_fold_ins:
  "set xs \<subseteq> A \<Longrightarrow> set acc \<subseteq> A \<Longrightarrow> sorted_wrt (\<lambda>a b. \<not> lt a b) acc \<Longrightarrow>
   sorted_wrt (\<lambda>a b. \<not> lt a b) (fold (ins_back lt) xs acc)"
  by (induction xs arbitrary: acc) (auto simp: sorted_ins_back)

lemma sorted_slice_stable: "set xs \<subseteq> A \<Longrightarrow> sorted_wrt (\<lambda>a b. \<not> lt b a) (slice_stable lt xs)"
  using sorted_fold_ins [of xs "[]"] by (simp add: slice_stable_def sorted_wrt_rev)

lemma hd_slice_stable_least:
  assumes "set xs \<subseteq> A" "y \<in> set xs"
  shows "\<not> lt y (hd (slice_stable lt xs))"
proof -
  obtain z zs where s: "slice_stable lt xs = z # zs"
    using assms(2) by (metis empty_iff list.exhaust list.set(1) set_slice_stable)
  have "y \<in> set (z # zs)" "z \<in> A" using assms s set_slice_stable [of lt xs] by auto
  then show ?thesis using sorted_slice_stable [OF assms(1)] s irrefl by auto
qed

lemma filter_ins_back:
  "x \<in> A \<Longrightarrow> e \<in> A \<Longrightarrow> set ys \<subseteq> A \<Longrightarrow>
   filter (\<lambda>z. \<not> lt z e \<and> \<not> lt e z) (ins_back lt x ys) =
   (if \<not> lt x e \<and> \<not> lt e x then x # filter (\<lambda>z. \<not> lt z e \<and> \<not> lt e z) ys
    else filter (\<lambda>z. \<not> lt z e \<and> \<not> lt e z) ys)"
proof (induction ys)
  case (Cons y ys)
  have "lt y e \<or> lt e y" if "lt x y" "\<not> lt x e" "\<not> lt e x"
    using that ntrans [of x e y] Cons.prems by auto
  then show ?case using Cons by auto
qed simp

lemma filter_fold_ins:
  "e \<in> A \<Longrightarrow> set xs \<subseteq> A \<Longrightarrow> set acc \<subseteq> A \<Longrightarrow>
   filter (\<lambda>z. \<not> lt z e \<and> \<not> lt e z) (fold (ins_back lt) xs acc) =
   rev (filter (\<lambda>z. \<not> lt z e \<and> \<not> lt e z) xs) @ filter (\<lambda>z. \<not> lt z e \<and> \<not> lt e z) acc"
  by (induction xs arbitrary: acc) (auto simp: filter_ins_back)

text \<open>Elements that compare equal keep their order.\<close>

lemma slice_stable_stable:
  "e \<in> A \<Longrightarrow> set xs \<subseteq> A \<Longrightarrow>
   filter (\<lambda>z. \<not> lt z e \<and> \<not> lt e z) (slice_stable lt xs) =
   filter (\<lambda>z. \<not> lt z e \<and> \<not> lt e z) xs"
  using filter_fold_ins [of e xs "[]"] by (simp add: slice_stable_def rev_filter [symmetric])

end

text \<open>A comparison that compares a key of a linear order meets the contract.\<close>

locale key_order =
  fixes lt :: "'a \<Rightarrow> 'a \<Rightarrow> bool" and key :: "'a \<Rightarrow> 'k :: linorder" and A :: "'a set"
  assumes lt_key: "x \<in> A \<Longrightarrow> y \<in> A \<Longrightarrow> lt x y \<longleftrightarrow> key x < key y"

sublocale key_order \<subseteq> strict_weak_order lt A
  by unfold_locales (auto simp: lt_key)

context key_order
begin

lemma not_lt: "x \<in> A \<Longrightarrow> y \<in> A \<Longrightarrow> \<not> lt x y \<longleftrightarrow> key y \<le> key x"
  by (simp add: lt_key not_less)

text \<open>With different keys, the sorted list does not depend on the order of the input.\<close>

lemma sorted_keys: "set xs \<subseteq> A \<Longrightarrow> sorted (map key (slice_stable lt xs))"
proof -
  assume xs: "set xs \<subseteq> A"
  have "sorted_wrt (\<lambda>a b. key a \<le> key b) (slice_stable lt xs)"
    by (rule sorted_wrt_mono_rel [OF _ sorted_slice_stable [OF xs]])
      (use xs set_slice_stable [of lt xs] not_lt in auto)
  then show ?thesis by (simp add: sorted_wrt_map)
qed

lemma slice_stable_perm:
  assumes "set xs \<subseteq> A" "mset xs = mset ys" "inj_on key (set xs)"
  shows "slice_stable lt xs = slice_stable lt ys"
proof -
  have set: "set ys = set xs" using assms(2) by (metis set_mset_mset)
  have "mset (map key (slice_stable lt xs)) = mset (map key (slice_stable lt ys))" using assms(2) by simp
  then have "map key (slice_stable lt xs) = map key (slice_stable lt ys)"
    using sorted_keys [OF assms(1)] sorted_keys [of ys] assms(1) set
    by (metis properties_for_sort)
  moreover have "inj_on key (set (slice_stable lt xs) \<union> set (slice_stable lt ys))" using assms(3) set by simp
  ultimately show ?thesis by (metis map_inj_on)
qed

end

text \<open>The rank of a binary64 value in the order of the numbers.\<close>

fun f64_rank :: "f64 \<Rightarrow> int \<times> rat" where
  "f64_rank NInf = (0, 0)"
| "f64_rank (Fin r) = (1, r)"
| "f64_rank PInf = (2, 0)"
| "f64_rank NaN = (3, 0)"

lemma f64_rank_less: "\<not> is_nan x \<Longrightarrow> \<not> is_nan y \<Longrightarrow> x < y \<longleftrightarrow> f64_rank x < f64_rank y"
  by (cases x; cases y) auto

lemma f64_rank_eq: "f64_rank x = f64_rank y \<longleftrightarrow> x = y"
  by (cases x; cases y) auto

lemma feq_rank: "\<not> is_nan x \<Longrightarrow> feq x y \<longleftrightarrow> f64_rank x = f64_rank y"
  by (auto simp: feq_def f64_rank_eq)

interpretation str_order: key_order "(<) :: string \<Rightarrow> string \<Rightarrow> bool" "\<lambda>s. s" UNIV
  by unfold_locales auto

section \<open>Maps with an iteration order\<close>

text \<open>
  A Go map is an association list with distinct keys; the list order is the order in which
  a \<^verbatim>\<open>range\<close> loop visits it. Go leaves that order open, so a loop whose result does not depend
  on it is one whose result is the same for every permutation of the list.
\<close>

type_synonym 'v gomap = "(string \<times> 'v) list"

fun map_put :: "'k \<Rightarrow> 'v \<Rightarrow> ('k \<times> 'v) list \<Rightarrow> ('k \<times> 'v) list" where
  "map_put k v [] = [(k, v)]"
| "map_put k v ((k', v') # m) = (if k = k' then (k, v) # m else (k', v') # map_put k v m)"

definition map_delete :: "'k \<Rightarrow> ('k \<times> 'v) list \<Rightarrow> ('k \<times> 'v) list" where
  "map_delete k m = filter (\<lambda>p. fst p \<noteq> k) m"

definition map_keys :: "('k \<times> 'v) list \<Rightarrow> 'k list" where
  "map_keys m = map fst m"

definition map_ok :: "('k \<times> 'v) list \<Rightarrow> bool" where
  "map_ok m \<longleftrightarrow> distinct (map fst m)"

definition map_get :: "'v \<Rightarrow> ('k \<times> 'v) list \<Rightarrow> 'k \<Rightarrow> 'v" where
  "map_get d m k = (case map_of m k of None \<Rightarrow> d | Some v \<Rightarrow> v)"

text \<open>A set is a map to the unit type.\<close>

definition set_add :: "'k \<Rightarrow> ('k \<times> unit) list \<Rightarrow> ('k \<times> unit) list" where
  "set_add k m = map_put k () m"

lemma map_of_map_put [simp, go_maps]: "map_of (map_put k v m) = (map_of m)(k \<mapsto> v)"
  by (induction m) auto

lemma set_map_put: "set (map_put k v m) \<subseteq> insert (k, v) (set m)"
  by (induction m) (auto split: if_splits)

lemma keys_map_put [simp]: "fst ` set (map_put k v m) = insert k (fst ` set m)"
proof (induction m)
  case (Cons p m)
  then show ?case by (cases p) (simp add: insert_commute)
qed simp

lemma map_ok_put [simp, go_maps]: "map_ok m \<Longrightarrow> map_ok (map_put k v m)"
proof (induction m)
  case (Cons p m)
  have "fst p \<notin> fst ` set (map_put k v m)" if "k \<noteq> fst p"
    using that Cons.prems by (simp add: map_ok_def)
  then show ?case using Cons by (cases p) (simp add: map_ok_def)
qed (simp add: map_ok_def)

lemma map_of_delete [simp, go_maps]: "map_of (map_delete k m) = (map_of m)(k := None)"
  by (induction m) (auto simp: map_delete_def)

lemma map_ok_delete [simp, go_maps]: "map_ok m \<Longrightarrow> map_ok (map_delete k m)"
  by (induction m) (auto simp: map_ok_def map_delete_def)

lemma map_ok_Nil [simp]: "map_ok []"
  by (simp add: map_ok_def)

lemma map_ok_lookup: "map_ok m \<Longrightarrow> (k, v) \<in> set m \<longleftrightarrow> map_of m k = Some v"
  by (auto simp: map_ok_def map_of_eq_Some_iff)

locale finite_map =
  fixes lookup :: "'m \<Rightarrow> 'k \<Rightarrow> 'v option" and put :: "'k \<Rightarrow> 'v \<Rightarrow> 'm \<Rightarrow> 'm"
    and delete :: "'k \<Rightarrow> 'm \<Rightarrow> 'm" and ok :: "'m \<Rightarrow> bool"
  assumes lookup_put: "ok m \<Longrightarrow> lookup (put k v m) k' = (if k' = k then Some v else lookup m k')"
    and lookup_delete: "ok m \<Longrightarrow> lookup (delete k m) k' = (if k' = k then None else lookup m k')"
    and ok_put: "ok m \<Longrightarrow> ok (put k v m)"
    and ok_delete: "ok m \<Longrightarrow> ok (delete k m)"
begin

lemma delete_put: "ok m \<Longrightarrow> lookup (delete k (put k v m)) = (lookup m)(k := None)"
  by (auto simp: fun_eq_iff lookup_put lookup_delete ok_put)

lemma dom_put: "ok m \<Longrightarrow> dom (lookup (put k v m)) = insert k (dom (lookup m))"
  by (auto simp: dom_def lookup_put)

lemma dom_delete: "ok m \<Longrightarrow> dom (lookup (delete k m)) = dom (lookup m) - {k}"
  by (auto simp: dom_def lookup_delete)

end

interpretation go_map: finite_map map_of map_put map_delete map_ok
  by unfold_locales simp_all

section \<open>64-bit integers and time\<close>

definition wrap64 :: "int \<Rightarrow> int" where
  "wrap64 n = (n + 2 ^ 63) mod 2 ^ 64 - 2 ^ 63"

definition sat64 :: "int \<Rightarrow> int" where
  "sat64 n = max (- (2 ^ 63)) (min (2 ^ 63 - 1) n)"

lemma wrap64_range: "- (2 ^ 63) \<le> wrap64 n \<and> wrap64 n < 2 ^ 63"
  using pos_mod_bound [of "2 ^ 64" "n + 2 ^ 63"] pos_mod_sign [of "2 ^ 64" "n + 2 ^ 63"]
  by (simp add: wrap64_def)

lemma wrap64_id: "- (2 ^ 63) \<le> n \<Longrightarrow> n < 2 ^ 63 \<Longrightarrow> wrap64 n = n"
  by (simp add: wrap64_def)

text \<open>Go's integer division truncates towards zero.\<close>

definition quot_trunc :: "int \<Rightarrow> int \<Rightarrow> int" where
  "quot_trunc a b = sgn a * sgn b * (\<bar>a\<bar> div \<bar>b\<bar>)"

text \<open>
  \<^verbatim>\<open>time.Time\<close> in UTC: nanoseconds since the zero time, 1 January of year 1. A
  \<^verbatim>\<open>time.Duration\<close> is a 64-bit count of nanoseconds; \<^verbatim>\<open>Sub\<close> saturates.
\<close>

type_synonym time = int
type_synonym duration = int

definition second_ns :: int where
  "second_ns = 1000000000"

definition hour_ns :: int where
  "hour_ns = 3600 * 1000000000"

definition day_ns :: int where
  "day_ns = 24 * 3600 * 1000000000"

definition is_zero :: "time \<Rightarrow> bool" where
  "is_zero t \<longleftrightarrow> t = 0"

definition time_sub :: "time \<Rightarrow> time \<Rightarrow> duration" where
  "time_sub t u = sat64 (t - u)"

definition time_add :: "time \<Rightarrow> duration \<Rightarrow> time" where
  "time_add t d = t + d"

definition add_days :: "time \<Rightarrow> int \<Rightarrow> time" where
  "add_days t n = t + n * day_ns"

definition midnight :: "time \<Rightarrow> time" where
  "midnight t = t div day_ns * day_ns"

declare second_ns_def [go_time] hour_ns_def [go_time] day_ns_def [go_time] is_zero_def [go_time]
  time_sub_def [go_time] time_add_def [go_time] add_days_def [go_time] midnight_def [go_time] sat64_def [go_time]

lemma midnight_le: "midnight t \<le> t" and less_midnight: "t < midnight t + day_ns"
  using pos_mod_sign [of day_ns t] pos_mod_bound [of day_ns t] div_mult_mod_eq [of t day_ns]
  by (simp_all add: midnight_def day_ns_def)

lemma midnight_mono: "t \<le> u \<Longrightarrow> midnight t \<le> midnight u"
  by (simp add: midnight_def day_ns_def zdiv_mono1)

lemma midnight_add_days [simp]: "midnight (add_days t n) = add_days (midnight t) n"
  by (simp add: midnight_def add_days_def day_ns_def algebra_simps)

lemma midnight_idem [simp]: "midnight (midnight t) = midnight t"
  by (simp add: midnight_def day_ns_def)

lemma midnight_days: "\<exists>k. midnight t = k * day_ns"
  by (auto simp: midnight_def)

end
