(* ===== verification/Go_Json.thy ===== *)
theory Go_Json
  imports Wbot_Prelude
begin

text \<open>
  JSON values as \<^verbatim>\<open>encoding/json\<close> reads and writes them. A number is the binary64 value its text
  denotes (the encoder writes the shortest text that reads back as the same value); an object
  lists its members in the order of the text. A \<^verbatim>\<open>json.RawMessage\<close> is the value it spells out.
\<close>

datatype json =
    JNull | JBool bool | JNum f64 | JStr string | JArr "json list" | JObj "(string \<times> json) list"

text \<open>The encoder writes the members of a Go map in the order of their keys.\<close>

fun key_sorted :: "json \<Rightarrow> bool" where
  "key_sorted (JArr js) \<longleftrightarrow> list_all key_sorted js"
| "key_sorted (JObj kvs) \<longleftrightarrow> sorted (map fst kvs) \<and> list_all (\<lambda>kv. key_sorted (snd kv)) kvs"
| "key_sorted _ \<longleftrightarrow> True"

end
