(* ===== verification/Wheel_Config.thy ===== *)
theory Wheel_Config
  imports Go_Json
begin

text \<open>
  The configuration of the wheel strategy (\<^verbatim>\<open>internal/wheel/wheel.go\<close>): its record, the
  validator, the quote-age rule and the price-to-inventory curve, with the bounds and the
  monotonicity of the target inventory in binary64 arithmetic.
\<close>

section \<open>Constants and data\<close>

definition StateNormal :: string where
  "StateNormal = ''NORMAL''"

definition StateCaution :: string where
  "StateCaution = ''CAUTION''"

definition StatePauseBuy :: string where
  "StatePauseBuy = ''PAUSE_BUY''"

definition StateExit :: string where
  "StateExit = ''EXIT''"

definition defaultMaxQuoteAgeSeconds :: int where
  "defaultMaxQuoteAgeSeconds = 24 * 60 * 60"

definition DefaultLotSize :: int where
  "DefaultLotSize = 100"

definition MinWheelDTE :: int where
  "MinWheelDTE = 5"

definition MaxWheelDTE :: int where
  "MaxWheelDTE = 45"

text \<open>
  The interface \<^verbatim>\<open>TradingCalendar\<close>: whether a symbol trades on a date. A configuration carries
  one or none (nil).
\<close>

type_synonym TradingCalendar = "string \<Rightarrow> time \<Rightarrow> bool"

record PricePoint =
  pp_Price :: f64
  pp_TargetInventory :: f64

record Config =
  cfg_Strategy :: string
  cfg_PricePositionCurve :: "PricePoint list"
  cfg_FullPositionPrice :: f64
  cfg_ZeroPositionPrice :: f64
  cfg_MaxInventory :: f64
  cfg_MoveIntervalPct :: f64
  cfg_MinPremiumPerShare :: f64
  cfg_MinOptionProfit :: f64
  cfg_StockSwitchPct :: f64
  cfg_CoveredCallPct :: f64
  cfg_ProfitTakePct :: f64
  cfg_PutDeltaMax :: f64
  cfg_CallDeltaMax :: f64
  cfg_MinIVRank :: f64
  cfg_TradeGap :: f64
  cfg_MinOptionQuality :: f64
  cfg_MinDTE :: int
  cfg_MaxDTE :: int
  cfg_StrategicState :: string
  cfg_MigrationLossy :: bool
  cfg_MigrationWarningCount :: int
  cfg_MigrationWarnings :: "string list"
  cfg_MigrationOriginalCurve :: "json option"
  cfg_MaxQuoteAgeSeconds :: int
  cfg_Calendar :: "TradingCalendar option"

section \<open>Quote age\<close>

definition QuoteMaxAge :: "Config \<Rightarrow> duration" where
  "QuoteMaxAge c =
     (let seconds = cfg_MaxQuoteAgeSeconds c;
          seconds = (if seconds \<le> 0 then defaultMaxQuoteAgeSeconds else seconds)
      in wrap64 (seconds * second_ns))"

definition calendarDate :: "time \<Rightarrow> time" where
  "calendarDate ts = midnight ts"

fun nextTradingDayFrom :: "TradingCalendar \<Rightarrow> string \<Rightarrow> time \<Rightarrow> int list \<Rightarrow> time" where
  "nextTradingDayFrom cal symbol after [] = 0"
| "nextTradingDayFrom cal symbol after (d # ds) =
     (let candidate = add_days after d in
      if cal symbol candidate then calendarDate candidate
      else nextTradingDayFrom cal symbol after ds)"

definition nextTradingDay :: "TradingCalendar option \<Rightarrow> string \<Rightarrow> time \<Rightarrow> time" where
  "nextTradingDay cal symbol after =
     (case cal of None \<Rightarrow> 0 | Some cal \<Rightarrow> nextTradingDayFrom cal symbol after [1..14])"

definition QuoteFresh :: "Config \<Rightarrow> string \<Rightarrow> time \<Rightarrow> time \<Rightarrow> bool" where
  "QuoteFresh c symbol qt asOf =
     (if is_zero qt \<or> is_zero asOf then False
      else if time_sub asOf qt \<le> QuoteMaxAge c then True
      else case cfg_Calendar c of
        None \<Rightarrow> False
      | Some cal \<Rightarrow>
          (let next = nextTradingDay (Some cal) symbol qt
           in \<not> is_zero next \<and> next = calendarDate asOf))"

section \<open>The price-to-inventory curve\<close>

fun validateCurvePoints :: "nat \<Rightarrow> PricePoint option \<Rightarrow> PricePoint list \<Rightarrow> f64 \<Rightarrow> string option" where
  "validateCurvePoints i prev [] maxInventory = None"
| "validateCurvePoints i prev (p # ps) maxInventory =
     (if \<not> finite64 (pp_Price p) \<or> pp_Price p \<le> 0 \<or> \<not> finite64 (pp_TargetInventory p)
         \<or> pp_TargetInventory p < 0 \<or> maxInventory < pp_TargetInventory p
      then Some (''wheel: price_position_curve point '' @ fmt_int (int i) @ '' is outside price/inventory bounds'')
      else case prev of
        Some q \<Rightarrow>
          (if pp_Price p \<le> pp_Price q \<or> pp_TargetInventory q < pp_TargetInventory p
           then Some ''wheel: price_position_curve prices must increase and target inventory must not increase''
           else validateCurvePoints (Suc i) (Some p) ps maxInventory)
      | None \<Rightarrow> validateCurvePoints (Suc i) (Some p) ps maxInventory)"

definition validatePricePositionCurve :: "PricePoint list \<Rightarrow> f64 \<Rightarrow> string option" where
  "validatePricePositionCurve curve maxInventory =
     (if length curve < 2 then Some ''wheel: price_position_curve must contain at least two points''
      else validateCurvePoints 0 None curve maxInventory)"

fun curveOk :: "PricePoint option \<Rightarrow> PricePoint list \<Rightarrow> bool" where
  "curveOk prev [] = True"
| "curveOk prev (p # ps) =
     (if \<not> finite64 (pp_Price p) \<or> pp_Price p \<le> 0 \<or> \<not> finite64 (pp_TargetInventory p) \<or> pp_TargetInventory p < 0
      then False
      else case prev of
        None \<Rightarrow> curveOk (Some p) ps
      | Some q \<Rightarrow>
          (if pp_Price p \<le> pp_Price q \<or> pp_TargetInventory q < pp_TargetInventory p then False
           else curveOk (Some p) ps))"

fun interpolateFrom :: "PricePoint \<Rightarrow> PricePoint list \<Rightarrow> f64 \<Rightarrow> f64" where
  "interpolateFrom a [] price = pp_TargetInventory a"
| "interpolateFrom a (b # bs) price =
     (if price \<le> pp_Price b then
        (let ratio = (price - pp_Price a) / (pp_Price b - pp_Price a)
         in pp_TargetInventory a + ratio * (pp_TargetInventory b - pp_TargetInventory a))
      else interpolateFrom b bs price)"

definition InterpolateTargetInventory :: "PricePoint list \<Rightarrow> f64 \<Rightarrow> string + f64" where
  "InterpolateTargetInventory curve price =
     (if length curve < 2 \<or> \<not> finite64 price then Inl ''wheel: invalid price curve or current price''
      else if \<not> curveOk None curve then Inl ''wheel: invalid price curve''
      else if price \<le> pp_Price (hd curve) then Inr (pp_TargetInventory (hd curve))
      else if pp_Price (last curve) \<le> price then Inr (pp_TargetInventory (last curve))
      else Inr (interpolateFrom (hd curve) (tl curve) price))"

definition TargetInventory :: "Config \<Rightarrow> f64 \<Rightarrow> string + f64" where
  "TargetInventory c price =
     (if 0 < length (cfg_PricePositionCurve c) then
        (if \<not> finite64 price \<or> price \<le> 0 \<or> \<not> finite64 (cfg_MaxInventory c) \<or> cfg_MaxInventory c \<le> 0
         then Inl ''wheel: invalid price curve or current price''
         else case validatePricePositionCurve (cfg_PricePositionCurve c) (cfg_MaxInventory c) of
           Some err \<Rightarrow> Inl err
         | None \<Rightarrow> InterpolateTargetInventory (cfg_PricePositionCurve c) price)
      else if \<not> finite64 price \<or> price \<le> 0 \<or> \<not> finite64 (cfg_FullPositionPrice c)
        \<or> \<not> finite64 (cfg_ZeroPositionPrice c) \<or> cfg_FullPositionPrice c \<le> 0
        \<or> cfg_ZeroPositionPrice c \<le> cfg_FullPositionPrice c
        \<or> \<not> finite64 (cfg_MaxInventory c) \<or> cfg_MaxInventory c \<le> 0
      then Inl ''wheel: invalid price anchors or current price''
      else if price \<le> cfg_FullPositionPrice c then Inr (cfg_MaxInventory c)
      else if cfg_ZeroPositionPrice c \<le> price then Inr 0
      else
        (let ratio = (price - cfg_FullPositionPrice c) / (cfg_ZeroPositionPrice c - cfg_FullPositionPrice c)
         in Inr (cfg_MaxInventory c * (1 - ratio))))"

definition Interpolate :: "Config \<Rightarrow> f64 \<Rightarrow> string + f64" where
  "Interpolate c price = TargetInventory c price"

section \<open>Validation of a configuration\<close>

definition out_of :: "f64 \<Rightarrow> f64 \<Rightarrow> f64 \<Rightarrow> bool" where
  "out_of lo hi v \<longleftrightarrow> \<not> finite64 v \<or> v < lo \<or> hi < v"

definition below_zero :: "f64 \<Rightarrow> bool" where
  "below_zero v \<longleftrightarrow> \<not> finite64 v \<or> v < 0"

definition validateAnchors :: "Config \<Rightarrow> string option" where
  "validateAnchors c =
     (if 0 < length (cfg_PricePositionCurve c)
      then validatePricePositionCurve (cfg_PricePositionCurve c) (cfg_MaxInventory c)
      else if \<not> finite64 (cfg_FullPositionPrice c) \<or> cfg_FullPositionPrice c \<le> 0
      then Some ''wheel: full_position_price must be positive''
      else if \<not> finite64 (cfg_ZeroPositionPrice c) \<or> cfg_ZeroPositionPrice c \<le> cfg_FullPositionPrice c
      then Some ''wheel: zero_position_price must be greater than full_position_price''
      else None)"

definition validateTactics :: "Config \<Rightarrow> string option" where
  "validateTactics c =
     (if cfg_MinDTE c < MinWheelDTE \<or> MaxWheelDTE < cfg_MaxDTE c \<or> cfg_MaxDTE c < cfg_MinDTE c
      then Some (''wheel: DTE must be a valid range within '' @ fmt_int MinWheelDTE @ ''..'' @ fmt_int MaxWheelDTE)
      else if out_of 0 1 (cfg_MinOptionQuality c) then Some ''wheel: min_option_quality must be in [0,1]''
      else if below_zero (cfg_MoveIntervalPct c) then Some ''wheel: move_interval_pct must be non-negative''
      else if below_zero (cfg_MinPremiumPerShare c) then Some ''wheel: min_premium_per_share must be non-negative''
      else if below_zero (cfg_MinOptionProfit c) then Some ''wheel: min_option_profit must be non-negative''
      else if below_zero (cfg_StockSwitchPct c) then Some ''wheel: stock_switch_pct must be non-negative''
      else if out_of 0 1 (cfg_CoveredCallPct c) then Some ''wheel: covered_call_pct must be in [0,1]''
      else if out_of 0 (lit (4/5)) (cfg_ProfitTakePct c) then Some ''wheel: profit_take_pct must be in [0,0.8]''
      else if out_of 0 1 (cfg_PutDeltaMax c) then Some ''wheel: put_delta_max must be in [0,1]''
      else if out_of 0 1 (cfg_CallDeltaMax c) then Some ''wheel: call_delta_max must be in [0,1]''
      else if out_of 0 1 (cfg_MinIVRank c) then Some ''wheel: min_iv_rank must be in [0,1]''
      else if below_zero (cfg_TradeGap c) then Some ''wheel: trade_gap must be non-negative''
      else if cfg_StrategicState c \<in> {StateNormal, StateCaution, StatePauseBuy, StateExit} then None
      else Some (''wheel: unknown strategic state '' @ fmt_quote (cfg_StrategicState c)))"

definition Validate :: "Config \<Rightarrow> string option" where
  "Validate c =
     (if cfg_Strategy c \<noteq> ''wheel'' then Some ''wheel: strategy must be wheel''
      else if \<not> finite64 (cfg_MaxInventory c) \<or> cfg_MaxInventory c \<le> 0
        \<or> \<not> feq (ftrunc (cfg_MaxInventory c)) (cfg_MaxInventory c)
      then Some ''wheel: max_inventory must be a positive integer''
      else case validateAnchors c of
        Some err \<Rightarrow> Some err
      | None \<Rightarrow> validateTactics c)"


section \<open>Lemmas\<close>

text \<open>A configuration whose price and inventory fields are binary64 values.\<close>

definition config_f64 :: "Config \<Rightarrow> bool" where
  "config_f64 c \<longleftrightarrow> is_f64 (cfg_FullPositionPrice c) \<and> is_f64 (cfg_ZeroPositionPrice c) \<and> is_f64 (cfg_MaxInventory c)
     \<and> list_all (\<lambda>p. is_f64 (pp_Price p) \<and> is_f64 (pp_TargetInventory p)) (cfg_PricePositionCurve c)"

text \<open>The share of the way from the full price to the zero price, in [0, 1] and monotone.\<close>

lemma ratio_unit:
  assumes "is_f64 (Fin f)" "is_f64 (Fin z)" "0 < f" "f < z" "f \<le> p" "p \<le> z"
  obtains "(Fin p - Fin f) / (Fin z - Fin f) = Fin (rnd (rnd (p - f) / rnd (z - f)))"
    "0 \<le> rnd (rnd (p - f) / rnd (z - f))" "rnd (rnd (p - f) / rnd (z - f)) \<le> 1"
proof -
  have pos: "0 < rnd (z - f)" using assms by (intro rnd_diff_pos) (simp_all add: is_f64_Fin)
  have nn: "0 \<le> rnd (p - f)" using assms by (intro rnd_nonneg) simp
  have le: "rnd (p - f) \<le> rnd (z - f)" using assms by (intro rnd_mono) simp
  have z: "Fin z - Fin f = Fin (rnd (z - f))"
    by (rule diff_between [of z f]) (use assms in auto)
  have "is_f64 (Fin 0)" "is_f64 (Fin z)" "0 \<le> p - f" "p - f \<le> z" using assms by auto
  then have p: "Fin p - Fin f = Fin (rnd (p - f))"
    by (rule round64_between) (simp add: minus_Fin)
  show ?thesis
    by (rule div_unit [OF nn le pos]) (use that z p in auto)
qed

lemma linear_target:
  assumes "is_f64 (Fin f)" "is_f64 (Fin z)" "is_f64 (Fin m)" "0 < f" "f < z" "f \<le> p" "p \<le> z" "0 < m"
  obtains "Fin m * (1 - (Fin p - Fin f) / (Fin z - Fin f)) =
      Fin (rnd (m * rnd (1 - rnd (rnd (p - f) / rnd (z - f)))))"
    "0 \<le> rnd (m * rnd (1 - rnd (rnd (p - f) / rnd (z - f))))"
    "rnd (m * rnd (1 - rnd (rnd (p - f) / rnd (z - f)))) \<le> m"
proof (rule ratio_unit [OF assms(1,2,4-7)])
  let ?r = "rnd (rnd (p - f) / rnd (z - f))"
  assume r: "(Fin p - Fin f) / (Fin z - Fin f) = Fin ?r" "0 \<le> ?r" "?r \<le> 1"
  show ?thesis
  proof (rule one_minus_unit [OF r(2,3)])
    assume o: "1 - Fin ?r = Fin (rnd (1 - ?r))" "0 \<le> rnd (1 - ?r)" "rnd (1 - ?r) \<le> 1"
    show ?thesis by (rule mult_unit [OF assms(3) _ o(2,3)]) (use that r o assms in auto)
  qed
qed

lemma linear_target_antitone:
  assumes "is_f64 (Fin f)" "is_f64 (Fin z)" "0 < f" "f < z" "p \<le> p'" "0 < m"
  shows "rnd (m * rnd (1 - rnd (rnd (p' - f) / rnd (z - f)))) \<le> rnd (m * rnd (1 - rnd (rnd (p - f) / rnd (z - f))))"
proof -
  have pos: "0 < rnd (z - f)" using assms by (intro rnd_diff_pos) (simp_all add: is_f64_Fin)
  have "rnd (p - f) \<le> rnd (p' - f)" using assms by (intro rnd_mono) simp
  then have "rnd (rnd (p - f) / rnd (z - f)) \<le> rnd (rnd (p' - f) / rnd (z - f))"
    using pos by (intro rnd_mono) (simp add: divide_right_mono)
  then have "rnd (1 - rnd (rnd (p' - f) / rnd (z - f))) \<le> rnd (1 - rnd (rnd (p - f) / rnd (z - f)))"
    by (intro rnd_mono) simp
  then show ?thesis using assms by (intro rnd_mono) (simp add: mult_left_mono)
qed

text \<open>One segment of the curve stays between zero and its left inventory.\<close>

lemma segment_bounds:
  assumes "is_f64 (Fin pa)" "is_f64 (Fin pb)" "is_f64 (Fin ta)"
    "0 < pa" "pa < pb" "pa \<le> p" "p \<le> pb" "0 \<le> tb" "tb \<le> ta"
  shows "\<exists>t. Fin ta + (Fin p - Fin pa) / (Fin pb - Fin pa) * (Fin tb - Fin ta) = Fin t \<and> 0 \<le> t \<and> t \<le> ta"
proof (rule ratio_unit [OF assms(1,2,4-7)])
  let ?r = "rnd (rnd (p - pa) / rnd (pb - pa))"
  assume r: "(Fin p - Fin pa) / (Fin pb - Fin pa) = Fin ?r" "0 \<le> ?r" "?r \<le> 1"
  have d: "Fin tb - Fin ta = Fin (rnd (tb - ta))" "- ta \<le> rnd (tb - ta)" "rnd (tb - ta) \<le> 0"
    by (rule round64_between [of "- ta" 0 "tb - ta"], use assms in \<open>auto simp: minus_Fin\<close>)+
  have lo: "- ta \<le> ?r * rnd (tb - ta)"
    using d(2,3) r(2,3) mult_right_mono_neg [of ?r 1 "rnd (tb - ta)"] by simp
  have hi: "?r * rnd (tb - ta) \<le> 0" using d(3) r(2) by (simp add: mult_nonneg_nonpos)
  have m: "Fin ?r * Fin (rnd (tb - ta)) = Fin (rnd (?r * rnd (tb - ta)))"
    "- ta \<le> rnd (?r * rnd (tb - ta))" "rnd (?r * rnd (tb - ta)) \<le> 0"
    by (rule round64_between [of "- ta" 0 "?r * rnd (tb - ta)"], use assms lo hi in auto)+
  have "is_f64 (Fin 0)" "is_f64 (Fin ta)" "0 \<le> ta + rnd (?r * rnd (tb - ta))" "ta + rnd (?r * rnd (tb - ta)) \<le> ta"
    using assms m by auto
  then show ?thesis by (rule round64_between) (use r d m in auto)
qed

lemma f64_pos_cases: "finite64 x \<Longrightarrow> \<not> x \<le> 0 \<Longrightarrow> \<exists>r. x = Fin r \<and> 0 < r"
  by (cases x) (auto simp: zero_f64_def)

lemma f64_nonneg_cases: "finite64 x \<Longrightarrow> \<not> x < 0 \<Longrightarrow> \<exists>r. x = Fin r \<and> 0 \<le> r"
  by (cases x) (auto simp: zero_f64_def)

lemma validateCurve_ok:
  "validateCurvePoints i prev ps m = None \<Longrightarrow>
   curveOk prev ps \<and> list_all (\<lambda>p. \<not> m < pp_TargetInventory p) ps"
  by (induction i prev ps m rule: validateCurvePoints.induct) (auto split: if_splits option.splits)

lemma curveOk_points:
  "curveOk prev ps \<Longrightarrow> list_all (\<lambda>p. \<exists>a t. p = \<lparr>pp_Price = Fin a, pp_TargetInventory = Fin t\<rparr> \<and> 0 < a \<and> 0 \<le> t) ps"
proof (induction prev ps rule: curveOk.induct)
  case (2 prev p ps)
  from "2.prems" obtain a t where "pp_Price p = Fin a" "0 < a" "pp_TargetInventory p = Fin t" "0 \<le> t"
    by (metis curveOk.simps(2) f64_nonneg_cases f64_pos_cases)
  then have "p = \<lparr>pp_Price = Fin a, pp_TargetInventory = Fin t\<rparr>" by simp
  with 2 \<open>0 < a\<close> \<open>0 \<le> t\<close> show ?case by (auto split: if_splits option.splits)
qed simp

lemma interpolateFrom_bounds:
  assumes "curveOk (Some a) bs" "pp_Price a = Fin pa" "0 < pa" "pp_TargetInventory a = Fin ta" "0 \<le> ta"
    "list_all (\<lambda>p. is_f64 (pp_Price p) \<and> is_f64 (pp_TargetInventory p)) (a # bs)" "pa \<le> p"
  shows "\<exists>t. interpolateFrom a bs (Fin p) = Fin t \<and> 0 \<le> t \<and> t \<le> ta"
  using assms
proof (induction bs arbitrary: a pa ta)
  case (Cons b bs)
  from curveOk_points [OF Cons.prems(1)] obtain pb tb
    where b: "pp_Price b = Fin pb" "pp_TargetInventory b = Fin tb" "0 < pb" "0 \<le> tb" by auto
  have ord: "pa < pb" "tb \<le> ta" "curveOk (Some b) bs"
    using Cons.prems b by (auto split: if_splits)
  show ?case
  proof (cases "p \<le> pb")
    case True
    then show ?thesis
      using segment_bounds [of pa pb ta p tb] Cons.prems b ord by (simp add: Let_def)
  next
    case False
    then obtain t where "interpolateFrom b bs (Fin p) = Fin t" "0 \<le> t" "t \<le> tb"
      using Cons.IH [OF ord(3) b(1,3,2,4)] Cons.prems(6) by auto
    then show ?thesis using False b ord(2) by auto
  qed
qed simp

lemma InterpolateTargetInventory_total:
  assumes "2 \<le> length curve" "curveOk None curve" "finite64 price"
    "list_all (\<lambda>p. is_f64 (pp_Price p) \<and> is_f64 (pp_TargetInventory p)) curve"
  shows "\<exists>t p. InterpolateTargetInventory curve price = Inr (Fin t) \<and> 0 \<le> t \<and> p \<in> set curve \<and> Fin t \<le> pp_TargetInventory p"
proof -
  obtain a bs where curve: "curve = a # bs" "bs \<noteq> []" using assms(1) by (cases curve; cases "tl curve") auto
  from curveOk_points [OF assms(2)] have pts: "\<exists>x t. p = \<lparr>pp_Price = Fin x, pp_TargetInventory = Fin t\<rparr> \<and> 0 < x \<and> 0 \<le> t"
    if "p \<in> set curve" for p using that by (auto simp: list_all_iff)
  obtain pa ta where a: "a = \<lparr>pp_Price = Fin pa, pp_TargetInventory = Fin ta\<rparr>" "0 < pa" "0 \<le> ta"
    using pts [of a] curve by auto
  obtain pl tl' where l: "last curve = \<lparr>pp_Price = Fin pl, pp_TargetInventory = Fin tl'\<rparr>" "0 \<le> tl'"
    using pts [of "last curve"] curve by (metis last_in_set list.distinct(1))
  obtain p where p: "price = Fin p" using assms(3) by (auto simp: finite64_iff)
  have inter: "InterpolateTargetInventory curve price =
    (if p \<le> pa then Inr (Fin ta) else if pl \<le> p then Inr (Fin tl') else Inr (interpolateFrom a bs (Fin p)))"
    using assms(1,2) curve a l p by (simp add: InterpolateTargetInventory_def)
  have ok: "curveOk (Some a) bs" using assms(2) curve a by (simp add: zero_f64_def)
  consider "p \<le> pa" | "pa < p" "pl \<le> p" | "pa < p" "p < pl" by linarith
  then show ?thesis
  proof cases
    case 1
    then show ?thesis using inter a curve by auto
  next
    case 2
    then show ?thesis using inter l curve last_in_set [of curve] by (intro exI [of _ tl'] exI [of _ "last curve"]) auto
  next
    case 3
    then obtain t where "interpolateFrom a bs (Fin p) = Fin t" "0 \<le> t" "t \<le> ta"
      using interpolateFrom_bounds [OF ok, of pa ta p] a curve assms(4) by auto
    then show ?thesis using inter 3 a curve by auto
  qed
qed


lemma Validate_anchors:
  assumes "Validate c = None"
  shows "\<exists>m. cfg_MaxInventory c = Fin m \<and> 0 < m"
    and "cfg_PricePositionCurve c \<noteq> [] \<Longrightarrow>
      2 \<le> length (cfg_PricePositionCurve c) \<and> validateCurvePoints 0 None (cfg_PricePositionCurve c) (cfg_MaxInventory c) = None"
    and "cfg_PricePositionCurve c = [] \<Longrightarrow>
      \<exists>f z. cfg_FullPositionPrice c = Fin f \<and> cfg_ZeroPositionPrice c = Fin z \<and> 0 < f \<and> f < z"
proof -
  have v: "finite64 (cfg_MaxInventory c)" "\<not> cfg_MaxInventory c \<le> 0" "validateAnchors c = None"
    using assms by (auto simp: Validate_def split: if_splits option.splits)
  then show "\<exists>m. cfg_MaxInventory c = Fin m \<and> 0 < m" by (simp add: f64_pos_cases)
  show "2 \<le> length (cfg_PricePositionCurve c) \<and> validateCurvePoints 0 None (cfg_PricePositionCurve c) (cfg_MaxInventory c) = None"
    if "cfg_PricePositionCurve c \<noteq> []"
    using that v(3) by (auto simp: validateAnchors_def validatePricePositionCurve_def split: if_splits)
  show "\<exists>f z. cfg_FullPositionPrice c = Fin f \<and> cfg_ZeroPositionPrice c = Fin z \<and> 0 < f \<and> f < z"
    if "cfg_PricePositionCurve c = []"
    using that v(3) f64_pos_cases [of "cfg_FullPositionPrice c"]
    by (cases "cfg_ZeroPositionPrice c") (auto simp: validateAnchors_def split: if_splits)
qed

lemma Validate_tactics: "Validate c = None \<Longrightarrow> validateTactics c = None"
  by (auto simp: Validate_def split: if_splits option.splits)

lemma TargetInventory_anchors:
  assumes "cfg_PricePositionCurve c = []" "cfg_FullPositionPrice c = Fin f" "cfg_ZeroPositionPrice c = Fin z"
    "0 < f" "f < z" "cfg_MaxInventory c = Fin m" "0 < m" "0 < p"
  shows "TargetInventory c (Fin p) = Inr (if p \<le> f then Fin m else if z \<le> p then Fin 0
    else Fin m * (1 - (Fin p - Fin f) / (Fin z - Fin f)))"
  using assms by (simp add: TargetInventory_def zero_f64_def Let_def)

lemma TargetInventory_range:
  assumes "Validate c = None" "config_f64 c" "finite64 price" "0 < price"
  shows "\<exists>t m. TargetInventory c price = Inr (Fin t) \<and> cfg_MaxInventory c = Fin m \<and> 0 \<le> t \<and> t \<le> m"
proof -
  obtain m where m: "cfg_MaxInventory c = Fin m" "0 < m" using Validate_anchors(1) [OF assms(1)] by auto
  obtain p where p: "price = Fin p" "0 < p" using assms(3,4) by (cases price) (auto simp: zero_f64_def)
  show ?thesis
  proof (cases "cfg_PricePositionCurve c = []")
    case True
    obtain f z where fz: "cfg_FullPositionPrice c = Fin f" "cfg_ZeroPositionPrice c = Fin z" "0 < f" "f < z"
      using Validate_anchors(3) [OF assms(1) True] by auto
    have reps: "is_f64 (Fin f)" "is_f64 (Fin z)" "is_f64 (Fin m)"
      using assms(2) fz m by (simp_all add: config_f64_def)
    note eq = TargetInventory_anchors [OF True fz m p(2)]
    show ?thesis
    proof (cases "p \<le> f \<or> z \<le> p")
      case True
      then show ?thesis using eq m p fz by auto
    next
      case False
      then have fp: "f \<le> p" "p \<le> z" by auto
      show ?thesis by (rule linear_target [OF reps fz(3,4) fp m(2)]) (use eq m p False in auto)
    qed
  next
    case False
    have v: "2 \<le> length (cfg_PricePositionCurve c)"
      "validateCurvePoints 0 None (cfg_PricePositionCurve c) (cfg_MaxInventory c) = None"
      using Validate_anchors(2) [OF assms(1) False] by auto
    note ok = validateCurve_ok [OF v(2)]
    obtain t q where t: "InterpolateTargetInventory (cfg_PricePositionCurve c) price = Inr (Fin t)" "0 \<le> t"
      "q \<in> set (cfg_PricePositionCurve c)" "Fin t \<le> pp_TargetInventory q"
      using InterpolateTargetInventory_total [OF v(1) conjunct1 [OF ok] assms(3)] assms(2)
      by (auto simp: config_f64_def)
    obtain tq where q: "pp_TargetInventory q = Fin tq"
      using curveOk_points [OF conjunct1 [OF ok]] t(3) by (auto simp: list_all_iff)
    have "tq \<le> m" using conjunct2 [OF ok] t(3) q m by (auto simp: list_all_iff)
    then have "t \<le> m" using t(4) q by simp
    moreover have "TargetInventory c price = Inr (Fin t)"
      using False p m v t(1) by (auto simp: TargetInventory_def validatePricePositionCurve_def zero_f64_def)
    ultimately show ?thesis using t m by auto
  qed
qed

section \<open>Properties of the target inventory\<close>

text \<open>
  For a valid configuration and every finite positive price, the target inventory is
  computed without error and lies between zero and the configured maximum, on the two-anchor
  form and on a curve of any length, with every rounding of the binary64 arithmetic.
\<close>

theorem target_inventory_total:
  assumes "Validate c = None" and "config_f64 c" and "finite64 price" and "0 < price"
  shows "\<exists>t. TargetInventory c price = Inr t \<and> 0 \<le> t \<and> t \<le> cfg_MaxInventory c"
  using TargetInventory_range [OF assms] by (auto simp: zero_f64_def)

definition sample_config :: Config where
  "sample_config = \<lparr>cfg_Strategy = ''wheel'', cfg_PricePositionCurve = [], cfg_FullPositionPrice = Fin 50,
     cfg_ZeroPositionPrice = Fin 150, cfg_MaxInventory = Fin 1000, cfg_MoveIntervalPct = Fin 0,
     cfg_MinPremiumPerShare = Fin 0, cfg_MinOptionProfit = Fin 0, cfg_StockSwitchPct = Fin 0,
     cfg_CoveredCallPct = Fin 0, cfg_ProfitTakePct = Fin (1/2), cfg_PutDeltaMax = Fin 0, cfg_CallDeltaMax = Fin 0,
     cfg_MinIVRank = Fin 0, cfg_TradeGap = Fin 50, cfg_MinOptionQuality = Fin 0, cfg_MinDTE = 5, cfg_MaxDTE = 45,
     cfg_StrategicState = ''NORMAL'', cfg_MigrationLossy = False, cfg_MigrationWarningCount = 0,
     cfg_MigrationWarnings = [], cfg_MigrationOriginalCurve = None, cfg_MaxQuoteAgeSeconds = 0, cfg_Calendar = None\<rparr>"

lemma sample_config_valid: "Validate sample_config = None" "config_f64 sample_config"
  by code_simp+

theorem target_inventory_total_witness:
  "\<exists>t. TargetInventory sample_config (Fin 75) = Inr t \<and> 0 \<le> t \<and> t \<le> Fin 1000"
  using target_inventory_total [OF sample_config_valid, of "Fin 75"]
  by (simp add: zero_f64_def sample_config_def)

text \<open>
  Between two anchors the target inventory never increases with the price: a higher
  price asks for the same or less stock, also after rounding.
\<close>

theorem target_inventory_antitone:
  assumes "Validate c = None" and "config_f64 c" and "cfg_PricePositionCurve c = []"
    and "finite64 p'" and "0 < p" and "p \<le> p'"
    and "TargetInventory c p = Inr t" and "TargetInventory c p' = Inr t'"
  shows "t' \<le> t"
proof -
  obtain m where m: "cfg_MaxInventory c = Fin m" "0 < m" using Validate_anchors(1) [OF assms(1)] by auto
  obtain f z where fz: "cfg_FullPositionPrice c = Fin f" "cfg_ZeroPositionPrice c = Fin z" "0 < f" "f < z"
    using Validate_anchors(3) [OF assms(1,3)] by auto
  obtain x y where xy: "p = Fin x" "p' = Fin y" "0 < x" "x \<le> y"
    using assms(4-6) by (cases p; cases p') (auto simp: zero_f64_def)
  have reps: "is_f64 (Fin f)" "is_f64 (Fin z)" "is_f64 (Fin m)"
    using assms(2) fz m by (simp_all add: config_f64_def)
  have tx: "t = (if x \<le> f then Fin m else if z \<le> x then Fin 0 else Fin m * (1 - (Fin x - Fin f) / (Fin z - Fin f)))"
    and ty: "t' = (if y \<le> f then Fin m else if z \<le> y then Fin 0 else Fin m * (1 - (Fin y - Fin f) / (Fin z - Fin f)))"
    using TargetInventory_anchors [OF assms(3) fz m] assms(7,8) xy by simp_all
  have tr: "Fin 0 \<le> t" "t' \<le> Fin m"
    using TargetInventory_range [OF assms(1,2), of p] TargetInventory_range [OF assms(1,2), of p'] assms xy m
    by (auto simp: zero_f64_def)
  show ?thesis
  proof (cases "f < x \<and> y < z")
    case True
    then have b: "f \<le> x" "x \<le> z" "f \<le> y" "y \<le> z" using xy by auto
    have lx: "t = Fin (rnd (m * rnd (1 - rnd (rnd (x - f) / rnd (z - f)))))"
      by (rule linear_target [OF reps fz(3,4) b(1,2) m(2)]) (use tx True xy in auto)
    have ly: "t' = Fin (rnd (m * rnd (1 - rnd (rnd (y - f) / rnd (z - f)))))"
      by (rule linear_target [OF reps fz(3,4) b(3,4) m(2)]) (use ty True xy in auto)
    show ?thesis using lx ly linear_target_antitone [OF reps(1,2) fz(3,4) xy(4) m(2)] by simp
  next
    case False
    then show ?thesis using tx ty tr xy m fz by auto
  qed
qed

theorem target_inventory_antitone_witness:
  "Fin 250 \<le> Fin (750 :: rat) \<and> TargetInventory sample_config (Fin 75) = Inr (Fin 750) \<and> TargetInventory sample_config (Fin 125) = Inr (Fin 250)"
proof -
  have e: "TargetInventory sample_config (Fin 75) = Inr (Fin 750)" "TargetInventory sample_config (Fin 125) = Inr (Fin 250)"
    by code_simp+
  have "Fin 250 \<le> Fin (750 :: rat)"
    using target_inventory_antitone [OF sample_config_valid _ _ _ _ e] by (simp add: sample_config_def zero_f64_def)
  with e show ?thesis by blast
qed

end
