(* ===== verification/Wheel_Quote.thy ===== *)
theory Wheel_Quote
  imports Wheel_Config
begin

text \<open>
  Option quotes and positions of \<^verbatim>\<open>internal/wheel/wheel.go\<close>: the quote record with its fallback
  accessors, the quote validator with its error values, the quality score, the inventory
  arithmetic over positions and the shares and cash that open short legs already commit.
\<close>

section \<open>Quotes\<close>

definition PutType :: string where
  "PutType = ''put''"

definition CallType :: string where
  "CallType = ''call''"

record OptionQuote =
  q_Symbol :: string
  q_Code :: string
  q_Underlying :: string
  q_Source :: string
  q_OptionType :: string
  q_Type :: string
  q_Expiry :: time
  q_Strike :: f64
  q_Delta :: f64
  q_MarketDelta :: f64
  q_Bid :: f64
  q_Ask :: f64
  q_Last :: f64
  q_ImpliedVol :: f64
  q_Theta :: "f64 option"
  q_Volume :: int
  q_OpenInterest :: int
  q_LotSize :: int
  q_QuoteTime :: time
  q_CapturedAt :: time
  q_Timestamp :: time
  q_Ts :: time
  q_IV :: f64
  q_OI :: int

definition quote_name :: "OptionQuote \<Rightarrow> string" where
  "quote_name q = (if q_Symbol q \<noteq> [] then q_Symbol q else q_Code q)"

definition quote_optionType :: "OptionQuote \<Rightarrow> string" where
  "quote_optionType q = (if q_OptionType q \<noteq> [] then to_lower (q_OptionType q) else to_lower (q_Type q))"

definition quote_delta :: "OptionQuote \<Rightarrow> f64" where
  "quote_delta q = (if \<not> feq (q_Delta q) 0 then q_Delta q else q_MarketDelta q)"

definition quote_quoteTime :: "OptionQuote \<Rightarrow> time" where
  "quote_quoteTime q =
     (if \<not> is_zero (q_QuoteTime q) then q_QuoteTime q
      else if \<not> is_zero (q_CapturedAt q) then q_CapturedAt q
      else if \<not> is_zero (q_Timestamp q) then q_Timestamp q
      else q_Ts q)"

definition quote_impliedVol :: "OptionQuote \<Rightarrow> f64" where
  "quote_impliedVol q = (if \<not> feq (q_ImpliedVol q) 0 then q_ImpliedVol q else q_IV q)"

definition quote_openInterest :: "OptionQuote \<Rightarrow> int" where
  "quote_openInterest q = (if q_OpenInterest q \<noteq> 0 then q_OpenInterest q else q_OI q)"

definition Mid :: "OptionQuote \<Rightarrow> f64" where
  "Mid q = (q_Bid q + q_Ask q) / Fin 2"

definition Spread :: "OptionQuote \<Rightarrow> f64" where
  "Spread q = q_Ask q - q_Bid q"

text \<open>The contract multiplier of the first quote that carries one.\<close>

fun candidateLotSize :: "OptionQuote list \<Rightarrow> int" where
  "candidateLotSize [] = DefaultLotSize"
| "candidateLotSize (q # qs) = (if 0 < q_LotSize q then q_LotSize q else candidateLotSize qs)"

section \<open>Validation\<close>

datatype QuoteError =
    QuoteMissing | QuoteInvalidType | PutDeltaSign | CallDeltaSign | QuoteBidAsk | QuoteLiquidity
  | QuoteNoTime | QuoteFuture | QuoteStale | QuoteExpired | ErrDTEBelowMinimum | ErrDTEAboveMaximum

fun quoteErrorText :: "QuoteError \<Rightarrow> string" where
  "quoteErrorText QuoteMissing = ''wheel: quote missing symbol, source, expiry, strike or delta''"
| "quoteErrorText QuoteInvalidType = ''wheel: quote has invalid option type''"
| "quoteErrorText PutDeltaSign = ''wheel: put delta must be negative''"
| "quoteErrorText CallDeltaSign = ''wheel: call delta must be positive''"
| "quoteErrorText QuoteBidAsk = ''wheel: quote has missing or inverted bid/ask''"
| "quoteErrorText QuoteLiquidity = ''wheel: quote missing IV, Theta, liquidity or lot size''"
| "quoteErrorText QuoteNoTime = ''wheel: quote timestamp is missing''"
| "quoteErrorText QuoteFuture = ''wheel: quote is from the future''"
| "quoteErrorText QuoteStale = ''wheel: quote is stale''"
| "quoteErrorText QuoteExpired = ''wheel: option has expired''"
| "quoteErrorText ErrDTEBelowMinimum = ''wheel: option DTE is below configured minimum''"
| "quoteErrorText ErrDTEAboveMaximum = ''wheel: option DTE is above configured maximum''"

definition validationDates :: "time \<Rightarrow> Config \<Rightarrow> time \<times> time \<times> time" where
  "validationDates asOf cfg =
     (if is_zero asOf then (0, 0, 0)
      else (let asOfDate = calendarDate asOf
            in (asOfDate, add_days asOfDate (cfg_MinDTE cfg), add_days asOfDate (cfg_MaxDTE cfg))))"

definition quote_validate :: "OptionQuote \<Rightarrow> time \<Rightarrow> Config \<Rightarrow> time \<Rightarrow> time \<Rightarrow> time \<Rightarrow> QuoteError option" where
  "quote_validate q asOf cfg asOfDate minExpiryDate maxExpiryDate =
     (if quote_name q = [] \<or> trim_space (q_Source q) = [] \<or> is_zero (q_Expiry q) \<or> \<not> finite64 (q_Strike q)
         \<or> q_Strike q \<le> 0 \<or> \<not> finite64 (quote_delta q) \<or> quote_delta q < - 1 \<or> 1 < quote_delta q
      then Some QuoteMissing
      else let typ = quote_optionType q in
      if typ \<noteq> PutType \<and> typ \<noteq> CallType then Some QuoteInvalidType
      else if typ = PutType \<and> 0 \<le> quote_delta q then Some PutDeltaSign
      else if typ = CallType \<and> quote_delta q \<le> 0 then Some CallDeltaSign
      else if \<not> finite64 (q_Bid q) \<or> \<not> finite64 (q_Ask q) \<or> q_Bid q \<le> 0 \<or> q_Ask q \<le> 0 \<or> q_Ask q < q_Bid q
      then Some QuoteBidAsk
      else if \<not> finite64 (quote_impliedVol q) \<or> quote_impliedVol q \<le> 0
         \<or> (case q_Theta q of None \<Rightarrow> True | Some th \<Rightarrow> \<not> finite64 th)
         \<or> q_Volume q \<le> 0 \<or> quote_openInterest q \<le> 0 \<or> q_LotSize q \<le> 0
      then Some QuoteLiquidity
      else let qt = quote_quoteTime q in
      if \<not> is_zero asOf \<and> is_zero qt then Some QuoteNoTime
      else if \<not> is_zero asOf \<and> asOf < qt then Some QuoteFuture
      else if \<not> is_zero asOf \<and> \<not> QuoteFresh cfg (quote_name q) qt asOf then Some QuoteStale
      else if \<not> is_zero asOf \<and> \<not> asOf < q_Expiry q then Some QuoteExpired
      else if \<not> is_zero asOf then
        (let expiryDate = calendarDate (q_Expiry q)
         in if expiryDate < minExpiryDate then Some ErrDTEBelowMinimum
            else if maxExpiryDate < expiryDate then Some ErrDTEAboveMaximum else None)
      else None)"

definition quote_Validate :: "OptionQuote \<Rightarrow> time \<Rightarrow> Config \<Rightarrow> QuoteError option" where
  "quote_Validate q asOf cfg =
     (case validationDates asOf cfg of (asOfDate, minExpiryDate, maxExpiryDate) \<Rightarrow>
        quote_validate q asOf cfg asOfDate minExpiryDate maxExpiryDate)"

definition dteRejectionReason :: "OptionQuote \<Rightarrow> time \<Rightarrow> Config \<Rightarrow> string" where
  "dteRejectionReason q asOfDate cfg =
     (let dte = quot_trunc (time_sub (calendarDate (q_Expiry q)) asOfDate) (24 * hour_ns)
      in ''wheel: DTE '' @ fmt_int dte @ '' outside ['' @ fmt_int (cfg_MinDTE cfg) @ '','' @ fmt_int (cfg_MaxDTE cfg) @ '']'')"

section \<open>Quality\<close>

definition clamp01 :: "f64 \<Rightarrow> f64" where
  "clamp01 v = (if v < 0 then 0 else if 1 < v then 1 else v)"

definition VolumeFScore :: "OptionQuote \<Rightarrow> f64" where
  "VolumeFScore q = of_int64 (q_Volume q) / (of_int64 (q_Volume q) + Fin 100)"

definition OIFScore :: "OptionQuote \<Rightarrow> f64" where
  "OIFScore q = (let oi = quote_openInterest q in of_int64 oi / (of_int64 oi + Fin 1000))"

definition QualityScore :: "OptionQuote \<Rightarrow> f64" where
  "QualityScore q =
     (if q_Bid q \<le> 0 \<or> q_Ask q < q_Bid q \<or> q_Strike q \<le> 0 \<or> \<not> finite64 (quote_delta q)
         \<or> \<not> finite64 (quote_impliedVol q) \<or> quote_impliedVol q \<le> 0
         \<or> (case q_Theta q of None \<Rightarrow> True | Some th \<Rightarrow> \<not> finite64 th)
         \<or> q_Volume q \<le> 0 \<or> quote_openInterest q \<le> 0
      then 0
      else
        (let th = the (q_Theta q);
             mid = Mid q;
             spread = clamp01 (1 - Spread q / mid);
             volume = VolumeFScore q;
             oi = OIFScore q;
             premium = clamp01 (mid / q_Strike q * Fin 10);
             iv = quote_impliedVol q / (quote_impliedVol q + lit (3/10));
             theta = \<bar>th\<bar> / (\<bar>th\<bar> + lit (1/20))
         in clamp01 ((spread + volume + oi + premium + iv + theta) / Fin 6)))"

definition expectedGain :: "OptionQuote \<Rightarrow> int \<Rightarrow> f64" where
  "expectedGain q quantity =
     (if quantity \<le> 0 \<or> q_LotSize q \<le> 0 \<or> \<not> finite64 (q_Bid q) \<or> q_Bid q \<le> 0 then 0
      else q_Bid q * of_int64 (q_LotSize q) * of_int64 quantity)"

fun positionQuote :: "OptionQuote list \<Rightarrow> string \<Rightarrow> OptionQuote option" where
  "positionQuote [] symbol = None"
| "positionQuote (q # qs) symbol = (if quote_name q = symbol then Some q else positionQuote qs symbol)"

section \<open>Positions and inventory\<close>

record OptionPosition =
  p_Symbol :: string
  p_SignedContracts :: f64
  p_Contracts :: f64
  p_Strike :: f64
  p_MarketDelta :: f64
  p_Delta :: f64
  p_LotSize :: int
  p_OptionType :: string
  p_AvgPremium :: f64

definition ActualInventory :: "f64 \<Rightarrow> f64 \<Rightarrow> f64" where
  "ActualInventory stockShares futuresEquivalentShares = stockShares + futuresEquivalentShares"

definition position_contracts :: "OptionPosition \<Rightarrow> f64" where
  "position_contracts p = (if feq (p_SignedContracts p) 0 then p_Contracts p else p_SignedContracts p)"

definition position_lot :: "OptionPosition \<Rightarrow> int \<Rightarrow> int" where
  "position_lot p d = (if p_LotSize p \<le> 0 then d else p_LotSize p)"

definition position_delta :: "OptionPosition \<Rightarrow> f64" where
  "position_delta p = (if feq (p_MarketDelta p) 0 \<and> \<not> feq (p_Delta p) 0 then p_Delta p else p_MarketDelta p)"

definition position_optionType :: "OptionPosition \<Rightarrow> string" where
  "position_optionType p = to_lower (p_OptionType p)"

definition OptionDeltaStock :: "OptionPosition list \<Rightarrow> int \<Rightarrow> f64" where
  "OptionDeltaStock positions defaultLotSize =
     foldl (\<lambda>result p. result + position_contracts p * position_delta p * of_int64 (position_lot p defaultLotSize))
       0 positions"

definition EffectiveInventory :: "f64 \<Rightarrow> f64 \<Rightarrow> f64" where
  "EffectiveInventory actual optionDelta = actual + optionDelta"

record InventorySnapshot =
  inv_StockShares :: f64
  inv_FuturesEquivalentShares :: f64
  inv_OptionDeltaStock :: f64
  inv_ActualInventory :: f64
  inv_EffectiveInventory :: f64

definition CalculateInventory :: "f64 \<Rightarrow> f64 \<Rightarrow> OptionPosition list \<Rightarrow> int \<Rightarrow> InventorySnapshot" where
  "CalculateInventory stockShares futuresEquivalentShares positions lotSize =
     (let actual = ActualInventory stockShares futuresEquivalentShares;
          delta = OptionDeltaStock positions lotSize
      in \<lparr>inv_StockShares = stockShares, inv_FuturesEquivalentShares = futuresEquivalentShares,
          inv_OptionDeltaStock = delta, inv_ActualInventory = actual,
          inv_EffectiveInventory = EffectiveInventory actual delta\<rparr>)"

definition CoveredShares :: "OptionPosition list \<Rightarrow> int \<Rightarrow> f64" where
  "CoveredShares positions lotSize =
     foldl (\<lambda>committed p.
       if position_optionType p \<noteq> CallType then committed
       else if position_contracts p < 0
       then committed + - position_contracts p * of_int64 (position_lot p lotSize)
       else committed) 0 positions"

definition PutAssignmentShares :: "OptionPosition list \<Rightarrow> int \<Rightarrow> f64" where
  "PutAssignmentShares positions lotSize =
     foldl (\<lambda>committed p.
       if position_optionType p \<noteq> PutType then committed
       else if position_contracts p < 0
       then committed + - position_contracts p * of_int64 (position_lot p lotSize)
       else committed) 0 positions"

definition PutAssignmentCash :: "OptionPosition list \<Rightarrow> int \<Rightarrow> f64" where
  "PutAssignmentCash positions lotSize =
     foldl (\<lambda>committed p.
       if position_optionType p \<noteq> PutType \<or> p_Strike p \<le> 0 then committed
       else if position_contracts p < 0
       then committed + - position_contracts p * p_Strike p * of_int64 (position_lot p lotSize)
       else committed) 0 positions"


section \<open>Lemmas\<close>

text \<open>A quote whose prices are binary64 values and whose counts fit 64 bits.\<close>

definition quote_f64 :: "OptionQuote \<Rightarrow> bool" where
  "quote_f64 q \<longleftrightarrow> is_f64 (q_Bid q) \<and> is_f64 (q_Ask q) \<and> is_f64 (q_Strike q) \<and> is_f64 (quote_impliedVol q)
     \<and> (case q_Theta q of None \<Rightarrow> True | Some th \<Rightarrow> is_f64 th)
     \<and> q_Volume q < 2 ^ 63 \<and> quote_openInterest q < 2 ^ 63"

definition unit64 :: "f64 \<Rightarrow> bool" where
  "unit64 x \<longleftrightarrow> 0 \<le> x \<and> x \<le> 1"

lemma unit64_iff: "unit64 x \<longleftrightarrow> (\<exists>u. x = Fin u \<and> 0 \<le> u \<and> u \<le> 1)"
  by (cases x) (auto simp: unit64_def zero_f64_def one_f64_def)

lemma unit64_clamp01: "\<not> is_nan v \<Longrightarrow> unit64 (clamp01 v)"
  by (cases v) (auto simp: clamp01_def unit64_def zero_f64_def one_f64_def)

lemma unit64_share: "is_f64 (Fin x) \<Longrightarrow> 0 \<le> x \<Longrightarrow> is_f64 (Fin c) \<Longrightarrow> 0 < c \<Longrightarrow> unit64 (Fin x / (Fin x + Fin c))"
  by (rule share_unit [of x c]) (auto simp: unit64_iff)

lemma lit_pos: "lit (3/10) = Fin (5404319552844595 / 2 ^ 54)" "lit (1/20) = Fin (3602879701896397 / 2 ^ 56)"
  by code_simp+

lemma unit64_count:
  assumes "0 < n" "n < 2 ^ 63" "is_f64 (Fin c)" "0 < c"
  shows "unit64 (of_int64 n / (of_int64 n + Fin c))"
proof -
  have "(of_int n :: rat) \<le> of_int (2 ^ 63)" using assms(2) by (simp only: of_int_le_iff)
  then have le: "(of_int n :: rat) \<le> 1 * pow2 63" by (simp add: pow2_def)
  have "rnd (1 * pow2 63) = 1 * pow2 63" using rnd_exact [of 1 63] by simp
  then have rep: "is_f64 (Fin (1 * pow2 63))" by (simp add: is_f64_Fin overflows_iff pow2_le_iff)
  have nn: "(0::rat) \<le> of_int n" using assms(1) by simp
  show ?thesis
    by (rule round64_between [OF is_f64_0 rep nn le])
      (use assms unit64_share rnd_is_f64 [OF is_f64_0 rep nn le] in \<open>auto simp: of_int64_def\<close>)
qed

lemma unit64_relative_spread:
  assumes "is_f64 (Fin b)" "is_f64 (Fin a)" "0 < b" "b \<le> a"
  shows "unit64 (clamp01 (1 - (Fin a - Fin b) / ((Fin b + Fin a) / Fin 2)))"
proof -
  have s: "Fin a - Fin b = Fin (rnd (a - b))"
    by (rule diff_between [of a b]) (use assms in auto)
  have tiny: "pow2 (- 1074) \<le> b" using assms by (intro rnd_pos_ge) (simp_all add: is_f64_Fin)
  have two: "rnd (2 * pow2 (- 1074)) = 2 * pow2 (- 1074)" using rnd_exact [of 2 "- 1074"] by simp
  have "2 * pow2 (- 1074) \<le> rnd (b + a)" using two tiny assms by (intro le_rnd) auto
  then have half: "pow2 (- 1074) \<le> rnd (rnd (b + a) / 2)" by (intro rnd_ge_tiny) simp
  then have pos: "0 < rnd (rnd (b + a) / 2)" using pow2_pos [of "- 1074"] by linarith
  have "\<not> is_nan (1 - (Fin a - Fin b) / ((Fin b + Fin a) / Fin 2))"
  proof (cases "b + a" rule: round64_cases)
    case fin
    then have "\<not> is_nan (Fin (rnd (a - b)) / (Fin (rnd (b + a)) / Fin 2))"
    proof (cases "rnd (b + a) / 2" rule: round64_cases)
      case fin
      then show ?thesis using pos by simp
    next
      case pinf
      then show ?thesis by simp
    next
      case ninf
      then show ?thesis using pos by simp
    qed
    then show ?thesis using s fin
      by (cases "Fin (rnd (a - b)) / (Fin (rnd (b + a)) / Fin 2)") (auto simp: one_f64_def minus_f64_def)
  next
    case pinf
    then show ?thesis using s by (simp add: one_f64_def minus_f64_def)
  next
    case ninf
    have "0 \<le> rnd (b + a)" using assms by (intro rnd_nonneg) simp
    then show ?thesis using ninf by simp
  qed
  then show ?thesis by (rule unit64_clamp01)
qed

lemma not_nan_premium:
  assumes "0 < b" "b \<le> a" "0 < k"
  shows "\<not> is_nan ((Fin b + Fin a) / Fin 2 / Fin k * Fin 10)"
proof -
  have nn: "0 \<le> rnd (b + a)" using assms by (intro rnd_nonneg) simp
  have x: "\<not> is_nan (x / Fin k * Fin 10) \<and> \<not> is_nan (x / Fin 2)" if "\<not> is_nan x" "x \<noteq> NInf" for x
  proof (cases x)
    case (Fin r)
    show ?thesis using Fin assms by (cases "r / k" rule: round64_cases) auto
  qed (use that assms in auto)
  have "x / Fin 2 \<noteq> NInf" if "x = PInf \<or> (\<exists>r. x = Fin r \<and> 0 \<le> r)" for x
  proof (cases x)
    case (Fin r)
    then have "0 \<le> rnd (r / 2)" using that by (intro rnd_nonneg) simp
    then show ?thesis using Fin by (cases "r / 2" rule: round64_cases) auto
  qed (use that in auto)
  moreover have "Fin b + Fin a = PInf \<or> (\<exists>r. Fin b + Fin a = Fin r \<and> 0 \<le> r)"
    using nn by (cases "b + a" rule: round64_cases) auto
  ultimately have "(Fin b + Fin a) / Fin 2 \<noteq> NInf" "\<not> is_nan ((Fin b + Fin a) / Fin 2)"
    using x [of "Fin b + Fin a"] by auto
  then show ?thesis using x by blast
qed

lemma sum_of_six_units:
  assumes "unit64 a" "unit64 b" "unit64 c" "unit64 d" "unit64 e" "unit64 f"
  shows "finite64 (a + b + c + d + e + f)"
proof -
  obtain ra rb rc rd re rf where r: "a = Fin ra" "b = Fin rb" "c = Fin rc" "d = Fin rd" "e = Fin re" "f = Fin rf"
    and b: "0 \<le> ra" "ra \<le> of_int 1" "0 \<le> rb" "rb \<le> of_int 1" "0 \<le> rc" "rc \<le> of_int 1"
      "0 \<le> rd" "rd \<le> of_int 1" "0 \<le> re" "re \<le> of_int 1" "0 \<le> rf" "rf \<le> of_int 1"
    using assms unfolding unit64_iff by fastforce
  obtain s2 where s2: "a + b = Fin s2" "0 \<le> s2" "s2 \<le> of_int (1 + 1)"
    using plus_bounded [OF b(1-4)] r by auto
  obtain s3 where s3: "a + b + c = Fin s3" "0 \<le> s3" "s3 \<le> of_int (1 + 1 + 1)"
    using plus_bounded [OF s2(2,3) b(5,6)] r s2 by auto
  obtain s4 where s4: "a + b + c + d = Fin s4" "0 \<le> s4" "s4 \<le> of_int (1 + 1 + 1 + 1)"
    using plus_bounded [OF s3(2,3) b(7,8)] r s3 by auto
  obtain s5 where s5: "a + b + c + d + e = Fin s5" "0 \<le> s5" "s5 \<le> of_int (1 + 1 + 1 + 1 + 1)"
    using plus_bounded [OF s4(2,3) b(9,10)] r s4 by auto
  obtain s6 where "a + b + c + d + e + f = Fin s6"
    using plus_bounded [OF s5(2,3) b(11,12)] r s5 by auto
  then show ?thesis by simp
qed

lemma quote_validate_NoneD:
  assumes "quote_validate q asOf cfg d lo hi = None"
  shows "quote_name q \<noteq> []" "finite64 (q_Strike q)" "\<not> q_Strike q \<le> 0" "finite64 (quote_delta q)"
    "quote_optionType q = PutType \<or> quote_optionType q = CallType"
    "finite64 (q_Bid q)" "finite64 (q_Ask q)" "\<not> q_Bid q \<le> 0" "\<not> q_Ask q < q_Bid q"
    "finite64 (quote_impliedVol q)" "\<not> quote_impliedVol q \<le> 0" "\<exists>th. q_Theta q = Some th \<and> finite64 th"
    "0 < q_Volume q" "0 < quote_openInterest q" "0 < q_LotSize q"
    "asOf \<noteq> 0 \<Longrightarrow> quote_quoteTime q \<le> asOf \<and> QuoteFresh cfg (quote_name q) (quote_quoteTime q) asOf \<and> asOf < q_Expiry q
      \<and> lo \<le> calendarDate (q_Expiry q) \<and> calendarDate (q_Expiry q) \<le> hi"
  using assms by (auto simp: quote_validate_def Let_def is_zero_def not_le not_less split: if_splits option.splits)

lemma QualityScore_unit:
  assumes v: "quote_validate q asOf cfg d lo hi = None" and f: "quote_f64 q"
  shows "unit64 (QualityScore q)"
proof -
  note V = quote_validate_NoneD [OF v]
  obtain b a k iv th where r: "q_Bid q = Fin b" "q_Ask q = Fin a" "q_Strike q = Fin k" "quote_impliedVol q = Fin iv"
    "q_Theta q = Some (Fin th)" and pos: "0 < b" "b \<le> a" "0 < k" "0 < iv"
    using V f64_pos_cases [of "q_Bid q"] f64_pos_cases [of "q_Strike q"] f64_pos_cases [of "quote_impliedVol q"]
    by (cases "q_Ask q") (auto simp: finite64_iff)
  have rep: "is_f64 (Fin b)" "is_f64 (Fin a)" "is_f64 (Fin iv)" "is_f64 (Fin \<bar>th\<bar>)"
    using f r by (auto simp: quote_f64_def abs_if)
  have c: "is_f64 (lit (3/10))" "is_f64 (lit (1/20))" by simp_all
  have u1: "unit64 (clamp01 (1 - Spread q / Mid q))"
    using unit64_relative_spread [OF rep(1,2) pos(1,2)] r by (simp add: Spread_def Mid_def)
  have u2: "unit64 (VolumeFScore q)"
    using unit64_count [of "q_Volume q" 100] V f is_f64_int [of 100] by (simp add: VolumeFScore_def quote_f64_def)
  have u3: "unit64 (OIFScore q)"
    using unit64_count [of "quote_openInterest q" 1000] V f is_f64_int [of 1000] by (simp add: OIFScore_def quote_f64_def Let_def)
  have u4: "unit64 (clamp01 (Mid q / q_Strike q * Fin 10))"
    using unit64_clamp01 [OF not_nan_premium [OF pos(1-3)]] r by (simp add: Mid_def)
  have u5: "unit64 (quote_impliedVol q / (quote_impliedVol q + lit (3/10)))"
    using unit64_share [OF rep(3)] c pos r by (simp add: lit_pos)
  have u6: "unit64 (\<bar>the (q_Theta q)\<bar> / (\<bar>the (q_Theta q)\<bar> + lit (1/20)))"
    using unit64_share [OF rep(4)] c r by (simp add: lit_pos)
  obtain s where "clamp01 (1 - Spread q / Mid q) + VolumeFScore q + OIFScore q + clamp01 (Mid q / q_Strike q * Fin 10)
      + quote_impliedVol q / (quote_impliedVol q + lit (3/10))
      + \<bar>the (q_Theta q)\<bar> / (\<bar>the (q_Theta q)\<bar> + lit (1/20)) = Fin s"
    using sum_of_six_units [OF u1 u2 u3 u4 u5 u6] by (auto simp: finite64_iff)
  moreover have "unit64 (clamp01 (Fin s / Fin 6))" by (intro unit64_clamp01) simp
  ultimately show ?thesis using V r pos by (auto simp: QualityScore_def Let_def zero_f64_def)
qed

end
