(* ===== verification/Wheel_Evaluate.thy ===== *)
theory Wheel_Evaluate
  imports Wheel_Quote
begin

text \<open>
  The decision of \<^verbatim>\<open>internal/wheel/wheel.go\<close>: the input and signal records, the profit-taking
  exit, the entry gates, the candidate loop and the selection, composed as \<open>Evaluate\<close> composes
  them.
\<close>

section \<open>Data\<close>

definition DirectionPut :: string where
  "DirectionPut = ''PUT''"

definition DirectionCall :: string where
  "DirectionCall = ''CALL''"

definition DirectionHold :: string where
  "DirectionHold = ''HOLD''"

definition ActionAlert :: string where
  "ActionAlert = ''ALERT''"

definition ActionHold :: string where
  "ActionHold = ''HOLD''"

definition CapabilityReady :: string where
  "CapabilityReady = ''READY''"

definition CapabilityDataBlocked :: string where
  "CapabilityDataBlocked = ''DATA_BLOCKED''"

record PendingOrder =
  po_Contract :: string
  po_Direction :: string
  po_OrderID :: string

record ReplaceOrder =
  ro_OrderID :: string
  ro_Contract :: string

record DecisionInput =
  in_CurrentPrice :: f64
  in_AsOf :: time
  in_StockShares :: f64
  in_StockAverageCost :: f64
  in_FuturesEquivalentShares :: f64
  in_Positions :: "OptionPosition list"
  in_Quotes :: "OptionQuote list"
  in_LastEffectiveFillPrice :: f64
  in_CashAvailable :: f64
  in_HasCashAvailable :: bool
  in_IVRank :: f64
  in_ClosePositions :: "OptionPosition list"
  in_Pending :: "PendingOrder list"

record CandidateEvaluation =
  c_Quote :: OptionQuote
  c_Direction :: string
  c_Quantity :: int
  c_SignedContracts :: int
  c_Quality :: f64
  c_ExpectedGain :: f64
  c_PostTradeEffective :: f64
  c_AssignmentInventory :: f64
  c_Accepted :: bool
  c_Reasons :: "string list"

record StockSuggestion =
  ss_Side :: string
  ss_Shares :: f64

record Signal =
  s_Action :: string
  s_Direction :: string
  s_Quantity :: int
  s_SignedContracts :: int
  s_ExpectedGain :: f64
  s_Quote :: "OptionQuote option"
  s_Quality :: f64
  s_TargetInventory :: f64
  s_InventoryGap :: f64
  s_ActualInventory :: f64
  s_OptionDeltaStock :: f64
  s_EffectiveInventory :: f64
  s_PostTradeEffective :: f64
  s_AssignmentInventory :: f64
  s_Reason :: string
  s_Reasons :: "string list"
  s_RejectReasons :: "string list"
  s_Candidates :: "CandidateEvaluation list"
  s_StockSuggestion :: "StockSuggestion option"
  s_Replace :: "ReplaceOrder option"
  s_ClosePosition :: bool
  s_CapabilityStatus :: string
  s_BlockedBy :: "string list"

text \<open>The zero value of a signal, and a candidate as the loop first builds it.\<close>

definition zero_signal :: Signal where
  "zero_signal = \<lparr>s_Action = [], s_Direction = [], s_Quantity = 0, s_SignedContracts = 0, s_ExpectedGain = 0,
     s_Quote = None, s_Quality = 0, s_TargetInventory = 0, s_InventoryGap = 0, s_ActualInventory = 0,
     s_OptionDeltaStock = 0, s_EffectiveInventory = 0, s_PostTradeEffective = 0, s_AssignmentInventory = 0,
     s_Reason = [], s_Reasons = [], s_RejectReasons = [], s_Candidates = [], s_StockSuggestion = None,
     s_Replace = None, s_ClosePosition = False, s_CapabilityStatus = [], s_BlockedBy = []\<rparr>"

definition new_candidate :: "OptionQuote \<Rightarrow> string \<Rightarrow> CandidateEvaluation" where
  "new_candidate q direction = \<lparr>c_Quote = q, c_Direction = direction, c_Quantity = 1, c_SignedContracts = - 1,
     c_Quality = 0, c_ExpectedGain = 0, c_PostTradeEffective = 0, c_AssignmentInventory = 0,
     c_Accepted = False, c_Reasons = []\<rparr>"

definition hold :: "string \<Rightarrow> Signal \<Rightarrow> Signal" where
  "hold reason base =
     (let base = (if s_CapabilityStatus base = [] then base\<lparr>s_CapabilityStatus := CapabilityReady\<rparr> else base)
      in base\<lparr>s_Action := ActionHold, s_Direction := DirectionHold, s_Quantity := 0, s_Reason := reason,
              s_Reasons := s_Reasons base @ [reason]\<rparr>)"

section \<open>Taking profit on a held short leg\<close>

record TakeProfit =
  tp_quote :: OptionQuote
  tp_pos :: OptionPosition
  tp_contracts :: f64
  tp_ratio :: f64

text \<open>\<^verbatim>\<open>int(f)\<close>: truncation; a value outside the 64-bit range becomes its minimum (amd64).\<close>

fun int_of_f64 :: "f64 \<Rightarrow> int" where
  "int_of_f64 (Fin r) =
     (let n = (if 0 \<le> r then \<lfloor>r\<rfloor> else \<lceil>r\<rceil>) in if - (2 ^ 63) \<le> n \<and> n < 2 ^ 63 then n else - (2 ^ 63))"
| "int_of_f64 _ = - (2 ^ 63)"

definition closeSetAdd :: "OptionPosition gomap \<Rightarrow> OptionPosition \<Rightarrow> OptionPosition gomap" where
  "closeSetAdd m p = (if p_Symbol p \<noteq> [] then map_put (p_Symbol p) p m else m)"

definition closeSet :: "DecisionInput \<Rightarrow> OptionPosition gomap" where
  "closeSet inp = foldl closeSetAdd (foldl closeSetAdd [] (in_Positions inp)) (in_ClosePositions inp)"

definition takeProfitLeg :: "Config \<Rightarrow> DecisionInput \<Rightarrow> OptionPosition \<Rightarrow> TakeProfit option" where
  "takeProfitLeg cfg inp p =
     (let contracts = position_contracts p in
      if 0 \<le> contracts \<or> p_AvgPremium p \<le> 0 then None
      else if trim_space (p_Symbol p) = [] then None
      else case positionQuote (in_Quotes inp) (p_Symbol p) of
        None \<Rightarrow> None
      | Some quote \<Rightarrow>
          if \<not> finite64 (q_Ask quote) \<or> q_Ask quote \<le> 0 \<or> p_AvgPremium p \<le> q_Ask quote then None
          else if \<not> is_zero (in_AsOf inp) \<and> \<not> in_AsOf inp < q_Expiry quote then None
          else let ratio = (p_AvgPremium p - q_Ask quote) / p_AvgPremium p in
            if ratio + lit (1 / 10 ^ 12) < cfg_ProfitTakePct cfg then None
            else Some \<lparr>tp_quote = quote, tp_pos = p, tp_contracts = contracts, tp_ratio = ratio\<rparr>)"

definition takeProfitBetter :: "TakeProfit \<Rightarrow> TakeProfit option \<Rightarrow> bool" where
  "takeProfitBetter c best =
     (case best of None \<Rightarrow> True
      | Some b \<Rightarrow> tp_ratio b < tp_ratio c
          \<or> (feq (tp_ratio c) (tp_ratio b) \<and> p_Symbol (tp_pos c) < p_Symbol (tp_pos b)))"

definition takeProfitStep :: "Config \<Rightarrow> DecisionInput \<Rightarrow> TakeProfit option \<Rightarrow> OptionPosition \<Rightarrow> TakeProfit option" where
  "takeProfitStep cfg inp best p =
     (case takeProfitLeg cfg inp p of None \<Rightarrow> best
      | Some c \<Rightarrow> if takeProfitBetter c best then Some c else best)"

definition takeProfitBest :: "Config \<Rightarrow> DecisionInput \<Rightarrow> OptionPosition gomap \<Rightarrow> TakeProfit option" where
  "takeProfitBest cfg inp legs = foldl (takeProfitStep cfg inp) None (map snd legs)"

definition takeProfitSignal :: "Config \<Rightarrow> DecisionInput \<Rightarrow> Signal \<Rightarrow> Signal option" where
  "takeProfitSignal cfg inp base =
     (if cfg_ProfitTakePct cfg \<le> 0 then None
      else case takeProfitBest cfg inp (closeSet inp) of
        None \<Rightarrow> None
      | Some best \<Rightarrow>
          (let qty = int_of_f64 (- tp_contracts best) in
           if qty \<le> 0 then None
           else let reason = ''profit_take_pct '' @ fmt_fixed 2 (cfg_ProfitTakePct cfg) @ '' reached: received ''
                  @ fmt_fixed 4 (p_AvgPremium (tp_pos best)) @ '', buyback ask '' @ fmt_fixed 4 (q_Ask (tp_quote best))
                  @ '', captured '' @ fmt_fixed 1 (tp_ratio best * Fin 100) @ ''% of max profit''
           in Some (base\<lparr>s_Action := ActionAlert, s_Direction := to_upper (position_optionType (tp_pos best)),
                s_Quantity := qty, s_SignedContracts := qty, s_Quote := Some (tp_quote best), s_ClosePosition := True,
                s_Reason := reason, s_Reasons := [reason]\<rparr>)))"

section \<open>Pending orders and the ranking of candidates\<close>

definition hasPendingContract :: "PendingOrder list \<Rightarrow> string \<Rightarrow> string \<Rightarrow> bool" where
  "hasPendingContract pending contract direction =
     list_ex (\<lambda>p. po_Contract p = contract \<and> equal_fold (po_Direction p) direction) pending"

definition pendingReplaceTarget :: "PendingOrder list \<Rightarrow> string \<Rightarrow> string \<Rightarrow> ReplaceOrder option" where
  "pendingReplaceTarget pending direction chosenContract =
     (let same = filter (\<lambda>p. equal_fold (po_Direction p) direction) pending in
      case same of
        [p] \<Rightarrow> if po_Contract p = chosenContract \<or> po_OrderID p = [] then None
               else Some \<lparr>ro_OrderID = po_OrderID p, ro_Contract = po_Contract p\<rparr>
      | _ \<Rightarrow> None)"

definition betterCandidate :: "CandidateEvaluation \<Rightarrow> CandidateEvaluation \<Rightarrow> Config \<Rightarrow> f64 \<Rightarrow> string \<Rightarrow> bool" where
  "betterCandidate a b cfg target direction =
     (let aDist = \<bar>target - c_PostTradeEffective a\<bar>; bDist = \<bar>target - c_PostTradeEffective b\<bar>;
          aq = c_Quote a; bq = c_Quote b in
      if \<not> feq aDist bDist then aDist < bDist
      else if cfg_StrategicState cfg = StateCaution \<and> direction = DirectionPut \<and> \<not> feq (q_Strike aq) (q_Strike bq)
      then q_Strike aq < q_Strike bq
      else if \<not> feq (c_Quality a) (c_Quality b) then c_Quality b < c_Quality a
      else let aSpread = Spread aq / Mid aq; bSpread = Spread bq / Mid bq in
      if \<not> feq aSpread bSpread then aSpread < bSpread
      else if q_Expiry aq \<noteq> q_Expiry bq then q_Expiry aq < q_Expiry bq
      else if \<not> feq (q_Strike aq) (q_Strike bq) then q_Strike aq < q_Strike bq
      else quote_name aq < quote_name bq)"

section \<open>One candidate\<close>

definition reject :: "CandidateEvaluation \<Rightarrow> bool \<Rightarrow> string \<Rightarrow> CandidateEvaluation" where
  "reject c cond msg = (if c_Reasons c = [] \<and> cond then c\<lparr>c_Reasons := c_Reasons c @ [msg]\<rparr> else c)"

definition add_reason :: "CandidateEvaluation \<Rightarrow> bool \<Rightarrow> string \<Rightarrow> CandidateEvaluation" where
  "add_reason c cond msg = (if cond then c\<lparr>c_Reasons := c_Reasons c @ [msg]\<rparr> else c)"

definition scoreCandidate :: "CandidateEvaluation \<Rightarrow> CandidateEvaluation" where
  "scoreCandidate c =
     (if c_Reasons c = []
      then c\<lparr>c_Quality := QualityScore (c_Quote c), c_ExpectedGain := expectedGain (c_Quote c) (c_Quantity c)\<rparr> else c)"

definition directionMismatch :: "string \<Rightarrow> OptionQuote \<Rightarrow> bool" where
  "directionMismatch direction q \<longleftrightarrow>
     (direction = DirectionPut \<and> quote_optionType q \<noteq> PutType)
     \<or> (direction = DirectionCall \<and> quote_optionType q \<noteq> CallType)"

definition minimumStrike :: "Config \<Rightarrow> DecisionInput \<Rightarrow> f64" where
  "minimumStrike cfg inp =
     (let m = in_CurrentPrice inp * (1 + cfg_CoveredCallPct cfg)
      in if m < in_StockAverageCost inp then in_StockAverageCost inp else m)"

text \<open>The texts of the rejections that carry numbers.\<close>

definition msgOTM :: "string \<Rightarrow> string \<Rightarrow> f64 \<Rightarrow> f64 \<Rightarrow> string" where
  "msgOTM side rel strike price =
     ''wheel: sell '' @ side @ '' must be OTM (strike '' @ fmt_fixed 4 strike @ '' '' @ rel @ '' underlying ''
       @ fmt_fixed 4 price @ '')''"

definition msgBound :: "string \<Rightarrow> nat \<Rightarrow> f64 \<Rightarrow> string \<Rightarrow> f64 \<Rightarrow> string" where
  "msgBound what digits v rel bound = ''wheel: '' @ what @ '' '' @ fmt_fixed digits v @ '' '' @ rel @ '' '' @ fmt_fixed digits bound"

text \<open>
  Moneyness, cost basis and delta (the hard masks): the first one that applies is the reason
  of rejection. The flag says that a call was rejected because the cost basis of the stock is
  unknown.
\<close>

definition moneynessMasks :: "Config \<Rightarrow> DecisionInput \<Rightarrow> string \<Rightarrow> CandidateEvaluation \<Rightarrow> CandidateEvaluation \<times> bool" where
  "moneynessMasks cfg inp direction c =
     (let q = c_Quote c; price = in_CurrentPrice inp;
          c = add_reason c (directionMismatch direction q) ''wheel: quote direction does not match inventory gap'';
          c = reject c (direction = DirectionPut \<and> price \<le> q_Strike q) (msgOTM ''put'' ''<'' (q_Strike q) price);
          c = reject c (direction = DirectionCall \<and> q_Strike q \<le> price) (msgOTM ''call'' ''>'' (q_Strike q) price);
          noBasis = (direction = DirectionCall \<and> 0 < in_StockShares inp \<and> in_StockAverageCost inp \<le> 0);
          stockCostBlocked = (c_Reasons c = [] \<and> noBasis);
          c = reject c noBasis ''wheel: stock average cost is unavailable; covered call cannot guarantee loss protection'';
          minStrike = minimumStrike cfg inp;
          c = reject c (direction = DirectionCall \<and> q_Strike q + lit (1 / 10 ^ 9) < minStrike)
                (msgBound ''covered call strike'' 4 (q_Strike q) ''below protected minimum'' minStrike);
          c = reject c (direction = DirectionPut \<and> 0 < cfg_PutDeltaMax cfg \<and> cfg_PutDeltaMax cfg < \<bar>quote_delta q\<bar>)
                (msgBound ''sell put delta'' 4 \<bar>quote_delta q\<bar> ''exceeds put_delta_max'' (cfg_PutDeltaMax cfg));
          c = reject c (direction = DirectionCall \<and> 0 < cfg_CallDeltaMax cfg \<and> cfg_CallDeltaMax cfg < quote_delta q)
                (msgBound ''sell call delta'' 4 (quote_delta q) ''exceeds call_delta_max'' (cfg_CallDeltaMax cfg))
      in (c, stockCostBlocked))"

text \<open>Quality and premium, of a candidate that has been scored.\<close>

definition qualityMasks :: "Config \<Rightarrow> CandidateEvaluation \<Rightarrow> CandidateEvaluation" where
  "qualityMasks cfg c =
     (let q = c_Quote c;
          c = reject c (c_Quality c < cfg_MinOptionQuality cfg)
                (msgBound ''option quality'' 4 (c_Quality c) ''below minimum'' (cfg_MinOptionQuality cfg));
          c = reject c (q_Bid q < cfg_MinPremiumPerShare cfg)
                (msgBound ''premium per share'' 4 (q_Bid q) ''below minimum'' (cfg_MinPremiumPerShare cfg))
      in reject c (c_ExpectedGain c < cfg_MinOptionProfit cfg)
           (msgBound ''expected option profit'' 2 (c_ExpectedGain c) ''below minimum'' (cfg_MinOptionProfit cfg)))"

definition maskCandidate :: "Config \<Rightarrow> DecisionInput \<Rightarrow> string \<Rightarrow> CandidateEvaluation \<Rightarrow> CandidateEvaluation \<times> bool" where
  "maskCandidate cfg inp direction c =
     (case moneynessMasks cfg inp direction c of (c, stockCostBlocked) \<Rightarrow>
        (qualityMasks cfg (scoreCandidate c), stockCostBlocked))"

definition postTrade :: "InventorySnapshot \<Rightarrow> OptionQuote \<Rightarrow> f64" where
  "postTrade invt q =
     (let postDelta = inv_OptionDeltaStock invt + - Fin 1 * quote_delta q * of_int64 (q_LotSize q)
      in EffectiveInventory (inv_ActualInventory invt) postDelta)"

definition assignmentInventory :: "DecisionInput \<Rightarrow> InventorySnapshot \<Rightarrow> string \<Rightarrow> OptionQuote \<Rightarrow> f64" where
  "assignmentInventory inp invt direction q =
     (if direction = DirectionPut
      then inv_ActualInventory invt + (PutAssignmentShares (in_Positions inp) DefaultLotSize + of_int64 (1 * q_LotSize q))
      else inv_ActualInventory invt - (CoveredShares (in_Positions inp) DefaultLotSize + of_int64 (1 * q_LotSize q)))"

definition cashShort :: "DecisionInput \<Rightarrow> OptionQuote \<Rightarrow> bool" where
  "cashShort inp q \<longleftrightarrow>
     in_CashAvailable inp + lit (1 / 10 ^ 9)
       < PutAssignmentCash (in_Positions inp) DefaultLotSize + q_Strike q * of_int64 (1 * q_LotSize q)"

text \<open>The risk checks of a candidate that passed the masks; the flag says that cash is unknown.\<close>

definition riskCandidate ::
  "Config \<Rightarrow> DecisionInput \<Rightarrow> InventorySnapshot \<Rightarrow> f64 \<Rightarrow> f64 \<Rightarrow> string \<Rightarrow> CandidateEvaluation \<Rightarrow> CandidateEvaluation \<times> bool" where
  "riskCandidate cfg inp invt target gap direction c =
     (if c_Reasons c \<noteq> [] then (c, False)
      else
        (let q = c_Quote c;
             c = c\<lparr>c_PostTradeEffective := postTrade invt q, c_AssignmentInventory := assignmentInventory inp invt direction q\<rparr>;
             c = add_reason c (direction = DirectionPut \<and> cfg_MaxInventory cfg + lit (1 / 10 ^ 9) < c_AssignmentInventory c)
                   ''wheel: put assignment exceeds max inventory'';
             c = add_reason c (direction = DirectionCall \<and> c_AssignmentInventory c < - lit (1 / 10 ^ 9))
                   ''wheel: call assignment would create a naked short'';
             noCash = (direction = DirectionPut \<and> \<not> in_HasCashAvailable inp);
             c = (if noCash then add_reason c True ''wheel: cash/margin availability is missing''
                  else add_reason c (direction = DirectionPut \<and> cashShort inp q)
                         ''wheel: cash/margin is insufficient for put assignment'');
             c = add_reason c (\<bar>gap\<bar> + lit (1 / 10 ^ 9) < \<bar>target - c_PostTradeEffective c\<bar>)
                   ''wheel: trade would increase inventory deviation''
         in (c, noCash)))"

section \<open>The candidate loop\<close>

record EvalLoop =
  el_base :: Signal
  el_validDirectionQuoteCount :: int
  el_dependencyBlocked :: bool
  el_stockCostBlocked :: bool
  el_pendingExcluded :: int
  el_pendingContract :: string
  el_pendingCandidate :: "CandidateEvaluation option"
  el_pendingValid :: bool

definition quoteError :: "Config \<Rightarrow> DecisionInput \<Rightarrow> OptionQuote \<Rightarrow> QuoteError option" where
  "quoteError cfg inp q =
     (case validationDates (in_AsOf inp) cfg of (asOfDate, minExpiryDate, maxExpiryDate) \<Rightarrow>
        quote_validate q (in_AsOf inp) cfg asOfDate minExpiryDate maxExpiryDate)"

definition quoteErrorReason :: "Config \<Rightarrow> DecisionInput \<Rightarrow> OptionQuote \<Rightarrow> QuoteError \<Rightarrow> string" where
  "quoteErrorReason cfg inp q err =
     (if err = ErrDTEBelowMinimum \<or> err = ErrDTEAboveMaximum
      then dteRejectionReason q (fst (validationDates (in_AsOf inp) cfg)) cfg
      else quoteErrorText err)"

text \<open>A quote whose contract already has a resting order in the direction of the decision.\<close>

definition pendingStep ::
  "Config \<Rightarrow> DecisionInput \<Rightarrow> InventorySnapshot \<Rightarrow> string \<Rightarrow> EvalLoop \<Rightarrow> OptionQuote \<Rightarrow> EvalLoop" where
  "pendingStep cfg inp invt direction el q =
     (let el = el\<lparr>el_pendingExcluded := el_pendingExcluded el + 1,
                  el_validDirectionQuoteCount := el_validDirectionQuoteCount el + 1\<rparr>
      in if el_pendingContract el = []
         then el\<lparr>el_pendingCandidate := Some ((new_candidate q direction)
                    \<lparr>c_Quality := QualityScore q, c_PostTradeEffective := postTrade invt q\<rparr>),
                 el_pendingValid := quoteError cfg inp q = None,
                 el_pendingContract := q_Symbol q\<rparr>
         else el)"

definition recordCandidate :: "EvalLoop \<Rightarrow> CandidateEvaluation \<Rightarrow> EvalLoop" where
  "recordCandidate el c =
     (let c = c\<lparr>c_Accepted := c_Reasons c = []\<rparr>;
          base = el_base el;
          base = base\<lparr>s_Candidates := s_Candidates base @ [c]\<rparr>;
          base = (if \<not> c_Accepted c then base\<lparr>s_RejectReasons := s_RejectReasons base @ c_Reasons c\<rparr> else base)
      in el\<lparr>el_base := base\<rparr>)"

definition evalQuote ::
  "Config \<Rightarrow> DecisionInput \<Rightarrow> InventorySnapshot \<Rightarrow> f64 \<Rightarrow> f64 \<Rightarrow> string \<Rightarrow> EvalLoop \<Rightarrow> OptionQuote \<Rightarrow> EvalLoop" where
  "evalQuote cfg inp invt target gap direction el q =
     (let c = new_candidate q direction in
      if hasPendingContract (in_Pending inp) (q_Symbol q) direction then
        recordCandidate (pendingStep cfg inp invt direction el q)
          (add_reason c True ''wheel: contract already has an unfilled pending order'')
      else case quoteError cfg inp q of
        Some err \<Rightarrow> recordCandidate el (add_reason c True (quoteErrorReason cfg inp q err))
      | None \<Rightarrow>
          (let el = (if directionMismatch direction q then el
                     else el\<lparr>el_validDirectionQuoteCount := el_validDirectionQuoteCount el + 1\<rparr>);
               (c, stockCost) = maskCandidate cfg inp direction c;
               (c, noCash) = riskCandidate cfg inp invt target gap direction c;
               el = el\<lparr>el_stockCostBlocked := el_stockCostBlocked el \<or> stockCost,
                       el_dependencyBlocked := el_dependencyBlocked el \<or> noCash\<rparr>
           in recordCandidate el c))"

definition evalLoop ::
  "Config \<Rightarrow> DecisionInput \<Rightarrow> InventorySnapshot \<Rightarrow> f64 \<Rightarrow> f64 \<Rightarrow> string \<Rightarrow> Signal \<Rightarrow> EvalLoop" where
  "evalLoop cfg inp invt target gap direction base =
     foldl (evalQuote cfg inp invt target gap direction)
       \<lparr>el_base = base, el_validDirectionQuoteCount = 0, el_dependencyBlocked = False, el_stockCostBlocked = False,
        el_pendingExcluded = 0, el_pendingContract = [], el_pendingCandidate = None, el_pendingValid = False\<rparr>
       (in_Quotes inp)"

section \<open>Selection\<close>

definition block :: "bool \<Rightarrow> string \<Rightarrow> Signal \<Rightarrow> Signal" where
  "block cond dep base =
     (if cond then base\<lparr>s_CapabilityStatus := CapabilityDataBlocked, s_BlockedBy := s_BlockedBy base @ [dep]\<rparr> else base)"

definition noCandidate :: "EvalLoop \<Rightarrow> Signal" where
  "noCandidate el =
     (let base = block (el_validDirectionQuoteCount el = 0) ''option_quote_snapshot'' (el_base el);
          base = block (el_dependencyBlocked el) ''cash_available'' base;
          base = block (el_stockCostBlocked el) ''stock_average_cost'' base
      in if 0 < el_pendingExcluded el \<and> el_validDirectionQuoteCount el = el_pendingExcluded el
         then hold ''all qualified candidates already have unfilled pending orders'' base
         else hold ''no quote passed validation and risk checks'' base)"

definition alertReason :: "Config \<Rightarrow> string \<Rightarrow> f64 \<Rightarrow> string" where
  "alertReason cfg direction gap =
     direction @ '' inventory gap '' @ fmt_fixed 2 gap @ '' exceeds trade gap '' @ fmt_fixed 2 (cfg_TradeGap cfg)"

definition replaceAllowed :: "Config \<Rightarrow> f64 \<Rightarrow> string \<Rightarrow> EvalLoop \<Rightarrow> CandidateEvaluation \<Rightarrow> bool" where
  "replaceAllowed cfg target direction el chosen \<longleftrightarrow>
     el_pendingContract el = [] \<or> \<not> el_pendingValid el
     \<or> (case el_pendingCandidate el of None \<Rightarrow> False | Some pc \<Rightarrow> betterCandidate chosen pc cfg target direction)"

definition alertCandidate ::
  "Config \<Rightarrow> DecisionInput \<Rightarrow> f64 \<Rightarrow> f64 \<Rightarrow> string \<Rightarrow> EvalLoop \<Rightarrow> CandidateEvaluation \<Rightarrow> Signal" where
  "alertCandidate cfg inp target gap direction el chosen =
     (let reason = alertReason cfg direction gap;
          base = (el_base el)\<lparr>s_Action := ActionAlert, s_Quantity := c_Quantity chosen,
            s_SignedContracts := c_SignedContracts chosen, s_Quality := c_Quality chosen,
            s_ExpectedGain := expectedGain (c_Quote chosen) (c_Quantity chosen), s_Quote := Some (c_Quote chosen),
            s_PostTradeEffective := c_PostTradeEffective chosen, s_AssignmentInventory := c_AssignmentInventory chosen,
            s_Reason := reason, s_Reasons := [reason]\<rparr>
      in case pendingReplaceTarget (in_Pending inp) direction (q_Symbol (c_Quote chosen)) of
           None \<Rightarrow> base
         | Some replace \<Rightarrow>
             if replaceAllowed cfg target direction el chosen
             then base\<lparr>s_Replace := Some replace,
                       s_Reason := reason @ ''; replace pending '' @ ro_Contract replace @ '' with '' @ q_Symbol (c_Quote chosen)\<rparr>
             else base)"

definition selectCandidate :: "Config \<Rightarrow> DecisionInput \<Rightarrow> f64 \<Rightarrow> f64 \<Rightarrow> string \<Rightarrow> EvalLoop \<Rightarrow> Signal" where
  "selectCandidate cfg inp target gap direction el =
     (let accepted = filter c_Accepted (s_Candidates (el_base el)) in
      case slice_stable (\<lambda>a b. betterCandidate a b cfg target direction) accepted of
        [] \<Rightarrow> noCandidate el
      | chosen # _ \<Rightarrow> alertCandidate cfg inp target gap direction el chosen)"

section \<open>The entry gates and the decision\<close>

definition fillMove :: "DecisionInput \<Rightarrow> f64" where
  "fillMove inp = \<bar>in_CurrentPrice inp - in_LastEffectiveFillPrice inp\<bar> / in_LastEffectiveFillPrice inp"

text \<open>The stock switch: a large move since the last fill turns into a stock suggestion.\<close>

definition stockSwitch :: "DecisionInput \<Rightarrow> f64 \<Rightarrow> Signal \<Rightarrow> Signal" where
  "stockSwitch inp gap base =
     (let side = (if gap < 0 then ''SELL'' else ''BUY'') in
      if side = ''SELL'' \<and> 0 < in_StockShares inp \<and> in_StockAverageCost inp \<le> 0
      then hold ''stock_switch_pct reached but stock average cost is unavailable; cannot sell safely''
             (base\<lparr>s_CapabilityStatus := CapabilityDataBlocked, s_BlockedBy := s_BlockedBy base @ [''stock_average_cost'']\<rparr>)
      else if side = ''SELL'' \<and> 0 < in_StockAverageCost inp
          \<and> in_CurrentPrice inp + lit (1 / 10 ^ 9) < in_StockAverageCost inp
      then hold ''stock_switch_pct reached but stock price is below average cost; keep stock until recovery'' base
      else hold ''stock_switch_pct reached; stock suggestion only''
             (base\<lparr>s_StockSuggestion := Some \<lparr>ss_Side = side, ss_Shares = \<bar>gap\<bar>\<rparr>\<rparr>))"

definition entryGate :: "Config \<Rightarrow> DecisionInput \<Rightarrow> f64 \<Rightarrow> Signal \<Rightarrow> Signal option" where
  "entryGate cfg inp gap base =
     (if \<bar>gap\<bar> \<le> cfg_TradeGap cfg then Some (hold ''inventory gap is within no-trade band'' base)
      else if 0 < in_LastEffectiveFillPrice inp \<and> 0 < cfg_MoveIntervalPct cfg \<and> fillMove inp < cfg_MoveIntervalPct cfg
      then Some (hold ''price move is below move_interval_pct'' base)
      else if 0 < in_LastEffectiveFillPrice inp \<and> 0 < cfg_StockSwitchPct cfg \<and> cfg_StockSwitchPct cfg \<le> fillMove inp
      then Some (stockSwitch inp gap base)
      else None)"

definition gapDirection :: "f64 \<Rightarrow> string" where
  "gapDirection gap = (if gap < 0 then DirectionCall else DirectionPut)"

definition policyGate :: "Config \<Rightarrow> DecisionInput \<Rightarrow> string \<Rightarrow> Signal \<Rightarrow> Signal option" where
  "policyGate cfg inp direction base =
     (if cfg_StrategicState cfg \<in> {StatePauseBuy, StateExit} \<and> direction = DirectionPut
      then Some (hold ''strategic state does not permit new puts'' base)
      else if 0 < cfg_MinIVRank cfg then
        (if in_IVRank inp \<le> 0
         then Some (hold ''wheel: IV rank is unavailable (needs one-year underlying IV history); cannot confirm min_iv_rank'' base)
         else if in_IVRank inp < cfg_MinIVRank cfg
         then Some (hold (''wheel: IV rank '' @ fmt_fixed 4 (in_IVRank inp) @ '' below min_iv_rank '' @ fmt_fixed 4 (cfg_MinIVRank cfg)) base)
         else None)
      else None)"

definition base_signal :: "f64 \<Rightarrow> f64 \<Rightarrow> InventorySnapshot \<Rightarrow> Signal" where
  "base_signal target gap invt = zero_signal\<lparr>s_Action := ActionHold, s_Direction := DirectionHold, s_TargetInventory := target,
     s_InventoryGap := gap, s_ActualInventory := inv_ActualInventory invt, s_OptionDeltaStock := inv_OptionDeltaStock invt,
     s_EffectiveInventory := inv_EffectiveInventory invt, s_CapabilityStatus := CapabilityReady\<rparr>"

definition decide :: "Config \<Rightarrow> DecisionInput \<Rightarrow> f64 \<Rightarrow> Signal" where
  "decide cfg inp target =
     (let invt = CalculateInventory (in_StockShares inp) (in_FuturesEquivalentShares inp) (in_Positions inp)
                  (candidateLotSize (in_Quotes inp));
          gap = target - inv_EffectiveInventory invt;
          base = base_signal target gap invt in
      case takeProfitSignal cfg inp base of
        Some sig \<Rightarrow> sig
      | None \<Rightarrow>
          (case entryGate cfg inp gap base of
             Some sig \<Rightarrow> sig
           | None \<Rightarrow>
               (let direction = gapDirection gap; base = base\<lparr>s_Direction := direction\<rparr> in
                case policyGate cfg inp direction base of
                  Some sig \<Rightarrow> sig
                | None \<Rightarrow> selectCandidate cfg inp target gap direction
                            (evalLoop cfg inp invt target gap direction base))))"

definition Evaluate :: "Config \<Rightarrow> DecisionInput \<Rightarrow> Signal \<times> string option" where
  "Evaluate cfg inp =
     (case Validate cfg of
        Some err \<Rightarrow>
          (zero_signal\<lparr>s_Action := ActionHold, s_Direction := DirectionHold, s_Reason := err, s_Reasons := [err],
             s_CapabilityStatus := CapabilityDataBlocked, s_BlockedBy := [''config'']\<rparr>, Some err)
      | None \<Rightarrow>
          if \<not> finite64 (in_CurrentPrice inp) \<or> in_CurrentPrice inp \<le> 0 then
            (zero_signal\<lparr>s_Action := ActionHold, s_Direction := DirectionHold, s_Reason := ''wheel: current price is invalid'',
               s_Reasons := [''wheel: current price is invalid''], s_CapabilityStatus := CapabilityDataBlocked,
               s_BlockedBy := [''current_price'']\<rparr>, None)
          else case TargetInventory cfg (in_CurrentPrice inp) of
            Inl err \<Rightarrow> (zero_signal\<lparr>s_Action := ActionHold, s_Direction := DirectionHold, s_Reason := err, s_Reasons := [err]\<rparr>, Some err)
          | Inr target \<Rightarrow> (decide cfg inp target, None))"

definition Decide :: "Config \<Rightarrow> DecisionInput \<Rightarrow> Signal" where
  "Decide cfg inp = fst (Evaluate cfg inp)"

record Engine =
  eng_Config :: Config

definition NewEngine :: "Config \<Rightarrow> string + Engine" where
  "NewEngine cfg = (case Validate cfg of Some err \<Rightarrow> Inl err | None \<Rightarrow> Inr \<lparr>eng_Config = cfg\<rparr>)"

definition Engine_Evaluate :: "Engine \<Rightarrow> DecisionInput \<Rightarrow> Signal \<times> string option" where
  "Engine_Evaluate e inp = Evaluate (eng_Config e) inp"

end
