(* ===== verification/Wheel_Safety.thy ===== *)
theory Wheel_Safety
  imports Wheel_Decision
begin

text \<open>
  The guarantees of the wheel decision, over \<open>Evaluate\<close> and \<open>Decide\<close>: its two outcomes, what an
  entry alert has passed, when it comes, that a put is cash-secured and a call covered, that
  the chosen contract is the best one, when an order is replaced, and the profit-taking exit.
\<close>

section \<open>Properties\<close>

text \<open>
  An evaluation either holds - with no quantity, no contract, no order to replace and no
  leg to close - or alerts without an error, with a positive quantity of a contract that was
  among the quotes of the input. There is no other outcome, for any configuration and input.
\<close>

theorem evaluate_alert_or_hold:
  "holding (fst (Evaluate cfg inp))
   \<or> (snd (Evaluate cfg inp) = None \<and> s_Action (fst (Evaluate cfg inp)) = ActionAlert
      \<and> 0 < s_Quantity (fst (Evaluate cfg inp))
      \<and> (\<exists>q. q \<in> set (in_Quotes inp) \<and> s_Quote (fst (Evaluate cfg inp)) = Some q))"
proof -
  { fix target
    assume e: "Evaluate cfg inp = (decide cfg inp target, None)" "\<not> holding (decide cfg inp target)"
    let ?base = "base_signal target (gapOf inp target) (inventoryOf inp)"
    from decide_signal [of cfg inp target] e(2) have ?thesis
    proof (elim disjE conjE bexE)
      assume tp: "takeProfitSignal cfg inp ?base = Some (decide cfg inp target)"
      show ?thesis
        using takeProfitSignal_SomeD [OF tp] takeProfitSignal_alert [OF tp] takeProfitBest_SomeD takeProfitLeg_SomeD(3) e
        by (metis fst_conv snd_conv)
    next
      fix q assume "q \<in> set (in_Quotes inp)"
        "decide cfg inp target = alertCandidate cfg inp target (gapOf inp target) (gapDirection (gapOf inp target))
           (entryLoop cfg inp target) (candidateOf cfg inp (inventoryOf inp) target (gapOf inp target) (gapDirection (gapOf inp target)) q)"
      then show ?thesis using e by (simp add: alertCandidate_fields)
    qed simp }
  then show ?thesis using Evaluate_cases [of cfg inp] by fastforce
qed

lemma Decide_entry:
  assumes "s_Action (Decide cfg inp) = ActionAlert" "\<not> s_ClosePosition (Decide cfg inp)"
  obtains q target where "Validate cfg = None" "finite64 (in_CurrentPrice inp)" "\<not> in_CurrentPrice inp \<le> 0"
    "TargetInventory cfg (in_CurrentPrice inp) = Inr target"
    "gatesOpen cfg inp (gapOf inp target)" "q \<in> set (in_Quotes inp)"
    "admissible cfg inp (inventoryOf inp) target (gapOf inp target) (gapDirection (gapOf inp target)) q"
    "chosenCandidate cfg inp (inventoryOf inp) target (gapOf inp target) (gapDirection (gapOf inp target)) =
       Some (candidateOf cfg inp (inventoryOf inp) target (gapOf inp target) (gapDirection (gapOf inp target)) q)"
    "Decide cfg inp = alertCandidate cfg inp target (gapOf inp target) (gapDirection (gapOf inp target))
       (entryLoop cfg inp target) (candidateOf cfg inp (inventoryOf inp) target (gapOf inp target) (gapDirection (gapOf inp target)) q)"
proof -
  have nh: "\<not> holding (Decide cfg inp)" using assms by (simp add: holding_def)
  then obtain target where t: "Validate cfg = None" "finite64 (in_CurrentPrice inp)" "\<not> in_CurrentPrice inp \<le> 0"
    "TargetInventory cfg (in_CurrentPrice inp) = Inr target" "Decide cfg inp = decide cfg inp target"
    using Evaluate_cases [of cfg inp] by (auto simp: Decide_def)
  then show ?thesis
    using decide_signal [of cfg inp target] nh assms(2) takeProfitSignal_alert that by fastforce
qed

text \<open>
  C1: with a valid configuration, a usable price and no leg to take profit on, the decision
  alerts exactly when every entry gate is open (trade gap, move interval, stock switch,
  strategic state, IV rank) and some quote of the input passes the whole admission policy:
  no pending order on it, valid and fresh, out of the money, above the protected strike,
  within the delta caps, good enough, and within the risk limits. The candidate loop, its
  rejection reasons and the sorting implement that policy.
\<close>

theorem entry_alert_iff_admissible:
  assumes "Validate cfg = None" and "finite64 (in_CurrentPrice inp)" and "0 < in_CurrentPrice inp"
    and "TargetInventory cfg (in_CurrentPrice inp) = Inr target"
    and "takeProfitSignal cfg inp (base_signal target (gapOf inp target) (inventoryOf inp)) = None"
  shows "s_Action (Decide cfg inp) = ActionAlert \<longleftrightarrow>
    gatesOpen cfg inp (gapOf inp target)
    \<and> (\<exists>q. q \<in> set (in_Quotes inp)
         \<and> admissible cfg inp (inventoryOf inp) target (gapOf inp target) (gapDirection (gapOf inp target)) q)"
    (is "?alert \<longleftrightarrow> ?policy")
proof
  assume ?alert
  then show ?policy
    using decide_signal [of cfg inp target] assms(5)
    by (auto simp: Decide_eq [OF assms(1-4)] holding_def)
next
  assume ?policy
  then show ?alert using decide_alerts [OF assms(5)] by (auto simp: Decide_eq [OF assms(1-4)])
qed

theorem entry_alert_iff_admissible_witness:
  "s_Action (Decide sample_config sample_input) = ActionAlert
   \<and> (\<exists>q. q \<in> set (in_Quotes sample_input)
        \<and> admissible sample_config sample_input (inventoryOf sample_input) (Fin 750) (gapOf sample_input (Fin 750))
            (gapDirection (gapOf sample_input (Fin 750))) q)"
  using entry_alert_iff_admissible [OF sample_config_valid(1) sample_prices(1,2) sample_gates(7,1)] sample_alerts(1) by simp

lemma entry_alert_facts:
  assumes "s_Action (Decide cfg inp) = ActionAlert" and "\<not> s_ClosePosition (Decide cfg inp)"
  shows "\<exists>q target. q \<in> set (in_Quotes inp) \<and> TargetInventory cfg (in_CurrentPrice inp) = Inr target
    \<and> s_Quote (Decide cfg inp) = Some q \<and> s_Quantity (Decide cfg inp) = 1 \<and> s_SignedContracts (Decide cfg inp) = - 1
    \<and> s_Direction (Decide cfg inp) = gapDirection (gapOf inp target)
    \<and> gatesOpen cfg inp (gapOf inp target)
    \<and> admissible cfg inp (inventoryOf inp) target (gapOf inp target) (s_Direction (Decide cfg inp)) q
    \<and> s_Quality (Decide cfg inp) = QualityScore q
    \<and> s_AssignmentInventory (Decide cfg inp) = assignmentInventory inp (inventoryOf inp) (s_Direction (Decide cfg inp)) q
    \<and> \<not> \<bar>gapOf inp target\<bar> + lit (1 / 10 ^ 9) < \<bar>target - s_PostTradeEffective (Decide cfg inp)\<bar>"
proof -
  from Decide_entry [OF assms] obtain q target where
    d: "TargetInventory cfg (in_CurrentPrice inp) = Inr target" "gatesOpen cfg inp (gapOf inp target)" "q \<in> set (in_Quotes inp)"
       "admissible cfg inp (inventoryOf inp) target (gapOf inp target) (gapDirection (gapOf inp target)) q"
       "Decide cfg inp = alertCandidate cfg inp target (gapOf inp target) (gapDirection (gapOf inp target))
         (entryLoop cfg inp target) (candidateOf cfg inp (inventoryOf inp) target (gapOf inp target) (gapDirection (gapOf inp target)) q)"
    by blast
  note eff = candidateOf_effects [OF d(4)]
  have "\<not> \<bar>gapOf inp target\<bar> + lit (1 / 10 ^ 9) < \<bar>target - postTrade (inventoryOf inp) q\<bar>"
    using d(4) by (simp add: admissible_def passesRisk_def)
  then show ?thesis
    using d(1-4) by (intro exI [of _ q] exI [of _ target]) (simp add: d(5) alertCandidate_fields eff)
qed



lemma finite_tolerance: "finite64 (lit (1 / 10 ^ 9))"
  by code_simp

lemma not_nan_plus_finite:
  "\<not> is_nan x \<Longrightarrow> finite64 y \<Longrightarrow> \<not> is_nan (x + y)" "\<not> is_nan x \<Longrightarrow> finite64 y \<Longrightarrow> \<not> is_nan (y + x)"
  by (cases x; cases y; simp)+

lemma not_nan_finite_times: "finite64 x \<Longrightarrow> finite64 y \<Longrightarrow> \<not> is_nan (x * y)"
  by (cases x; cases y; simp)

lemma not_nan_of_int64 [simp]: "\<not> is_nan (of_int64 n)"
  by (simp add: of_int64_def)

lemma quoteError_None: "quoteError cfg inp q = None \<longleftrightarrow> quote_Validate q (in_AsOf inp) cfg = None"
  by (simp add: quoteError_def quote_Validate_def split_beta)

lemma quoteError_NoneD:
  assumes "quoteError cfg inp q = None"
  shows "finite64 (q_Strike q)" "0 < q_Strike q" "finite64 (quote_delta q)" "0 < q_LotSize q"
    "quote_optionType q = PutType \<or> quote_optionType q = CallType"
proof -
  obtain d lo hi where "quote_validate q (in_AsOf inp) cfg d lo hi = None"
    using assms by (auto simp: quoteError_def split_beta)
  note v = quote_validate_NoneD [OF this]
  show "finite64 (q_Strike q)" "finite64 (quote_delta q)" "0 < q_LotSize q"
    "quote_optionType q = PutType \<or> quote_optionType q = CallType" by (rule v)+
  show "0 < q_Strike q" using v(2,3) by (cases "q_Strike q") (auto simp: zero_f64_def)
qed

text \<open>What an alert for a new contract rests on, with the inventory limit made explicit.\<close>

lemma entry_alert_policy:
  assumes "s_Action (Decide cfg inp) = ActionAlert" and "\<not> s_ClosePosition (Decide cfg inp)"
    and "s_Quote (Decide cfg inp) = Some q"
  obtains target where "Validate cfg = None" "finite64 (in_CurrentPrice inp)" "gatesOpen cfg inp (gapOf inp target)"
    "s_Direction (Decide cfg inp) = gapDirection (gapOf inp target)"
    "quoteError cfg inp q = None" "passesMoneyness cfg inp (s_Direction (Decide cfg inp)) q"
    "passesRisk cfg inp (inventoryOf inp) target (gapOf inp target) (s_Direction (Decide cfg inp)) q"
    "s_AssignmentInventory (Decide cfg inp) = assignmentInventory inp (inventoryOf inp) (s_Direction (Decide cfg inp)) q"
proof -
  from Decide_entry [OF assms(1,2)] have v: "Validate cfg = None" "finite64 (in_CurrentPrice inp)" by blast+
  from entry_alert_facts [OF assms(1,2)] assms(3) obtain target where
    t: "gatesOpen cfg inp (gapOf inp target)" "s_Direction (Decide cfg inp) = gapDirection (gapOf inp target)"
       "admissible cfg inp (inventoryOf inp) target (gapOf inp target) (s_Direction (Decide cfg inp)) q"
       "s_AssignmentInventory (Decide cfg inp) = assignmentInventory inp (inventoryOf inp) (s_Direction (Decide cfg inp)) q"
    by auto
  show thesis by (rule that [OF v t(1,2) _ _ _ t(4)]) (use t(3) in \<open>simp_all add: admissible_def passesMasks_def\<close>)
qed

lemma put_alert_facts:
  assumes "s_Action (Decide cfg inp) = ActionAlert" and "\<not> s_ClosePosition (Decide cfg inp)"
    and "s_Direction (Decide cfg inp) = DirectionPut"
    and "\<not> is_nan (in_CashAvailable inp)" and "finite64 (PutAssignmentCash (in_Positions inp) DefaultLotSize)"
    and "s_Quote (Decide cfg inp) = Some q" and "finite64 (of_int64 (q_LotSize q))"
  shows "in_HasCashAvailable inp \<and> quote_optionType q = PutType \<and> q_Strike q < in_CurrentPrice inp
    \<and> PutAssignmentCash (in_Positions inp) DefaultLotSize + q_Strike q * of_int64 (q_LotSize q)
        \<le> in_CashAvailable inp + lit (1 / 10 ^ 9)
    \<and> cfg_StrategicState cfg \<notin> {StatePauseBuy, StateExit}"
  using assms(1,2,6)
proof (cases rule: entry_alert_policy)
  case d: (1 target)
  note v = quoteError_NoneD [OF d(5)]
  have cost: "\<not> is_nan (PutAssignmentCash (in_Positions inp) DefaultLotSize + q_Strike q * of_int64 (q_LotSize q))"
    by (intro not_nan_plus_finite(2) not_nan_finite_times v(1) assms(5,7))
  have "PutAssignmentCash (in_Positions inp) DefaultLotSize + q_Strike q * of_int64 (q_LotSize q)
        \<le> in_CashAvailable inp + lit (1 / 10 ^ 9)"
    using d(7) assms(3) f64_not_less [OF not_nan_plus_finite(1) [OF assms(4) finite_tolerance] cost]
    by (simp add: passesRisk_def cashShort_def)
  moreover have "q_Strike q < in_CurrentPrice inp"
    using d(6) assms(3) f64_not_le [OF finite64_not_nan [OF d(2)] finite64_not_nan [OF v(1)]] by (simp add: passesMoneyness_def)
  moreover have "in_HasCashAvailable inp" "quote_optionType q = PutType"
    using d(6,7) assms(3) by (simp_all add: passesRisk_def passesMoneyness_def directionMismatch_def)
  moreover have "cfg_StrategicState cfg \<notin> {StatePauseBuy, StateExit}" using d(3,4) assms(3) by (simp add: gatesOpen_def)
  ultimately show ?thesis by blast
qed


lemma sample_put_signal:
  "s_Quote (Decide sample_config sample_input) = Some (sample_quote ''P64'' ''put'' 64 (-1/4))"
  "s_AssignmentInventory (Decide sample_config sample_input) = Fin 100"
proof -
  obtain q target where d: "q \<in> set (in_Quotes sample_input)" "s_Quote (Decide sample_config sample_input) = Some q"
    "s_AssignmentInventory (Decide sample_config sample_input) =
       assignmentInventory sample_input (inventoryOf sample_input) (s_Direction (Decide sample_config sample_input)) q"
    using entry_alert_facts [OF sample_alerts(1,2)] by blast
  then have q: "q = sample_quote ''P64'' ''put'' 64 (-1/4)" by (simp add: sample_input_def)
  show "s_Quote (Decide sample_config sample_input) = Some (sample_quote ''P64'' ''put'' 64 (-1/4))" using d q by simp
  have "assignmentInventory sample_input (inventoryOf sample_input) DirectionPut (sample_quote ''P64'' ''put'' 64 (-1/4)) = Fin 100"
    by code_simp
  then show "s_AssignmentInventory (Decide sample_config sample_input) = Fin 100" using d(3) q sample_alerts(3) by simp
qed


lemma call_alert_facts:
  assumes "s_Action (Decide cfg inp) = ActionAlert" and "\<not> s_ClosePosition (Decide cfg inp)"
    and "s_Direction (Decide cfg inp) = DirectionCall"
    and "finite64 (in_StockAverageCost inp)" and "\<not> is_nan (in_StockShares inp)"
    and "s_Quote (Decide cfg inp) = Some q"
    and "finite64 (s_AssignmentInventory (Decide cfg inp))"
    and "finite64 (in_CurrentPrice inp * (1 + cfg_CoveredCallPct cfg))"
  shows "quote_optionType q = CallType \<and> in_CurrentPrice inp < q_Strike q
    \<and> (in_StockShares inp \<le> 0 \<or> 0 < in_StockAverageCost inp)
    \<and> in_StockAverageCost inp \<le> q_Strike q + lit (1 / 10 ^ 9)
    \<and> in_CurrentPrice inp * (1 + cfg_CoveredCallPct cfg) \<le> q_Strike q + lit (1 / 10 ^ 9)
    \<and> - lit (1 / 10 ^ 9) \<le> s_AssignmentInventory (Decide cfg inp)"
proof -
  from Decide_entry [OF assms(1,2)] obtain q' target where
    d: "finite64 (in_CurrentPrice inp)"
       "admissible cfg inp (inventoryOf inp) target (gapOf inp target) (gapDirection (gapOf inp target)) q'"
       "Decide cfg inp = alertCandidate cfg inp target (gapOf inp target) (gapDirection (gapOf inp target))
         (entryLoop cfg inp target) (candidateOf cfg inp (inventoryOf inp) target (gapOf inp target) (gapDirection (gapOf inp target)) q')"
    by blast
  have q': "q' = q" and dir: "gapDirection (gapOf inp target) = DirectionCall"
    using assms(3,6) by (simp_all add: d(3) alertCandidate_fields)
  have adm: "admissible cfg inp (inventoryOf inp) target (gapOf inp target) DirectionCall q" using d(2) q' dir by simp
  have ai: "s_AssignmentInventory (Decide cfg inp) = assignmentInventory inp (inventoryOf inp) DirectionCall q"
    using candidateOf_effects(3) [OF adm] q' dir by (simp add: d(3) alertCandidate_fields)
  have qv: "quoteError cfg inp q = None" and mk: "passesMoneyness cfg inp DirectionCall q"
    and rk: "passesRisk cfg inp (inventoryOf inp) target (gapOf inp target) DirectionCall q"
    using adm by (simp_all add: admissible_def passesMasks_def)
  note v = quoteError_NoneD [OF qv] and nn = finite64_not_nan
  have strike: "\<not> is_nan (q_Strike q + lit (1 / 10 ^ 9))" by (intro not_nan_plus_finite(1) nn v(1) finite_tolerance)
  have low: "\<not> q_Strike q + lit (1 / 10 ^ 9) < minimumStrike cfg inp" using mk by (simp add: passesMoneyness_def)
  have "minimumStrike cfg inp \<le> q_Strike q + lit (1 / 10 ^ 9)"
    using low f64_not_less [OF strike] nn [OF assms(4)] nn [OF assms(8)] by (auto simp: minimumStrike_def Let_def split: if_splits)
  moreover have "in_StockAverageCost inp \<le> minimumStrike cfg inp"
    "in_CurrentPrice inp * (1 + cfg_CoveredCallPct cfg) \<le> minimumStrike cfg inp"
    using f64_not_less [OF nn [OF assms(8)] nn [OF assms(4)]] nn [OF assms(4)] nn [OF assms(8)]
    by (auto simp: minimumStrike_def Let_def less_eq_f64_def)
  ultimately have "in_StockAverageCost inp \<le> q_Strike q + lit (1 / 10 ^ 9)"
    "in_CurrentPrice inp * (1 + cfg_CoveredCallPct cfg) \<le> q_Strike q + lit (1 / 10 ^ 9)"
    using f64_le_trans by blast+
  moreover have "in_CurrentPrice inp < q_Strike q"
    using mk f64_not_le [OF nn [OF v(1)] nn [OF d(1)]] by (simp add: passesMoneyness_def)
  moreover have "in_StockShares inp \<le> 0 \<or> 0 < in_StockAverageCost inp"
    using mk f64_not_less [of 0 "in_StockShares inp"] f64_not_le [OF nn [OF assms(4)], of 0] assms(5)
    by (auto simp: passesMoneyness_def zero_f64_def)
  moreover have "quote_optionType q = CallType" using mk by (simp add: passesMoneyness_def directionMismatch_def)
  moreover have "\<not> is_nan (- lit (1 / 10 ^ 9))" by code_simp
  then have "- lit (1 / 10 ^ 9) \<le> s_AssignmentInventory (Decide cfg inp)"
    using rk ai f64_not_less [OF nn [OF assms(7)]] by (simp add: passesRisk_def)
  ultimately show ?thesis by blast
qed



section \<open>The ranking\<close>

text \<open>
  \<open>betterCandidate\<close> compares by a lexicographic key: distance to the target, the lower strike for
  puts in the caution state, quality (higher first), relative spread, expiry, strike and name.
  The key describes it wherever no compared number is NaN, which makes it a strict weak order
  that the stable sort can rely on.
\<close>

definition strikeKey :: "Config \<Rightarrow> string \<Rightarrow> OptionQuote \<Rightarrow> int \<times> rat" where
  "strikeKey cfg d q = (if cfg_StrategicState cfg = StateCaution \<and> d = DirectionPut then f64_rank (q_Strike q) else (0, 0))"

definition candidateKey ::
  "Config \<Rightarrow> f64 \<Rightarrow> string \<Rightarrow> CandidateEvaluation \<Rightarrow>
   (int \<times> rat) \<times> (int \<times> rat) \<times> (int \<times> rat) \<times> (int \<times> rat) \<times> int \<times> (int \<times> rat) \<times> string" where
  "candidateKey cfg target d c =
     (f64_rank \<bar>target - c_PostTradeEffective c\<bar>, strikeKey cfg d (c_Quote c), f64_rank (- c_Quality c),
      f64_rank (Spread (c_Quote c) / Mid (c_Quote c)), q_Expiry (c_Quote c), f64_rank (q_Strike (c_Quote c)), quote_name (c_Quote c))"

definition rankable :: "f64 \<Rightarrow> CandidateEvaluation \<Rightarrow> bool" where
  "rankable target c \<longleftrightarrow> \<not> is_nan (target - c_PostTradeEffective c) \<and> \<not> is_nan (c_Quality c)
     \<and> \<not> is_nan (Spread (c_Quote c) / Mid (c_Quote c)) \<and> \<not> is_nan (q_Strike (c_Quote c))"

lemma uminus_rank_less: "\<not> is_nan x \<Longrightarrow> \<not> is_nan y \<Longrightarrow> x < y \<longleftrightarrow> f64_rank (- y) < f64_rank (- x)"
  by (cases x; cases y) auto

lemma uminus_rank_eq: "f64_rank (- x) = f64_rank (- y) \<longleftrightarrow> x = y"
  by (cases x; cases y) auto

lemma lex_if: "(a, x) < (b, y) \<longleftrightarrow> (if a \<noteq> b then a < b else x < y)" for a b :: "'a :: linorder" and x y :: "'b :: linorder"
  by auto

lemma betterCandidate_key:
  assumes "rankable target a" "rankable target b"
  shows "betterCandidate a b cfg target d \<longleftrightarrow> candidateKey cfg target d a < candidateKey cfg target d b"
proof -
  let ?q = "c_Quote :: CandidateEvaluation \<Rightarrow> OptionQuote"
  have n: "\<not> is_nan \<bar>target - c_PostTradeEffective a\<bar>" "\<not> is_nan \<bar>target - c_PostTradeEffective b\<bar>"
    "\<not> is_nan (c_Quality a)" "\<not> is_nan (c_Quality b)"
    "\<not> is_nan (Spread (?q a) / Mid (?q a))" "\<not> is_nan (Spread (?q b) / Mid (?q b))"
    "\<not> is_nan (q_Strike (?q a))" "\<not> is_nan (q_Strike (?q b))"
    using assms by (simp_all add: rankable_def)
  note r = feq_rank [OF n(1)] feq_rank [OF n(5)] feq_rank [OF n(7)] f64_rank_less [OF n(1,2)] f64_rank_less [OF n(5,6)]
    f64_rank_less [OF n(7,8)] uminus_rank_less [OF n(4,3)]
  have fq: "feq (c_Quality a) (c_Quality b) \<longleftrightarrow> f64_rank (- c_Quality a) = f64_rank (- c_Quality b)"
    using n(3) by (simp add: feq_def uminus_rank_eq)
  show ?thesis
    unfolding betterCandidate_def candidateKey_def strikeKey_def Let_def lex_if r fq
    by (cases "cfg_StrategicState cfg = StateCaution \<and> d = DirectionPut") (simp_all only: if_True if_False simp_thms conj_assoc [symmetric])
qed

interpretation ranking: key_order "\<lambda>a b. betterCandidate a b cfg target d" "candidateKey cfg target d" "{c. rankable target c}"
  for cfg target d
  by unfold_locales (simp add: betterCandidate_key)

lemma finite_round_unit:
  assumes "\<bar>r\<bar> \<le> 1"
  shows "finite64 (round64 r)"
proof -
  have "is_f64 (Fin (- 1))" "is_f64 (Fin 1)" using is_f64_int [of 1] is_f64_int [of "- 1"] by simp_all
  moreover have "- 1 \<le> r" "r \<le> 1" using assms by auto
  ultimately show ?thesis by (rule round64_between) simp
qed

lemma postTrade_not_nan:
  assumes "finite64 (inv_ActualInventory invt)" "finite64 (inv_OptionDeltaStock invt)" "quoteError cfg inp q = None"
    "finite64 (of_int64 (q_LotSize q))"
  shows "\<not> is_nan (postTrade invt q)"
proof -
  obtain d lo hi where v: "quote_validate q (in_AsOf inp) cfg d lo hi = None"
    using assms(3) by (auto simp: quoteError_def split_beta)
  then obtain dl where dl: "quote_delta q = Fin dl" "\<bar>dl\<bar> \<le> 1"
    by (cases "quote_delta q") (auto simp: quote_validate_def one_f64_def split: if_splits)
  then have "finite64 (- Fin 1 * quote_delta q)" using finite_round_unit [of "- dl"] by simp
  then have "\<not> is_nan (- Fin 1 * quote_delta q * of_int64 (q_LotSize q))" using assms(4) not_nan_finite_times by blast
  then show ?thesis
    using assms(1,2) by (simp add: postTrade_def EffectiveInventory_def Let_def not_nan_plus_finite)
qed

lemma admissible_rankable:
  assumes adm: "admissible cfg inp invt target gap d q" and f: "quote_f64 q" and lot: "finite64 (of_int64 (q_LotSize q))"
    and fin: "finite64 target" "finite64 (inv_ActualInventory invt)" "finite64 (inv_OptionDeltaStock invt)"
  shows "rankable target (candidateOf cfg inp invt target gap d q)"
proof -
  have qe: "quoteError cfg inp q = None" using adm by (simp add: admissible_def)
  then obtain dd lo hi where v: "quote_validate q (in_AsOf inp) cfg dd lo hi = None"
    by (auto simp: quoteError_def split_beta)
  note V = quote_validate_NoneD [OF v]
  obtain b a where ba: "q_Bid q = Fin b" "q_Ask q = Fin a" "0 < b" "b \<le> a"
    using V(6-9) f64_pos_cases [of "q_Bid q"] by (cases "q_Ask q") auto
  have "unit64 (clamp01 (1 - Spread q / Mid q))"
    using unit64_relative_spread [of b a] f ba by (simp add: Spread_def Mid_def quote_f64_def)
  then have s: "\<not> is_nan (Spread q / Mid q)"
    by (cases "Spread q / Mid q") (auto simp: unit64_iff clamp01_def minus_f64_def zero_f64_def one_f64_def)
  have "\<not> is_nan (QualityScore q)" using QualityScore_unit [OF v f] by (auto simp: unit64_iff)
  moreover have "\<not> is_nan (target - postTrade invt q)"
    using postTrade_not_nan [OF fin(2,3) qe lot] fin(1)
    by (cases "postTrade invt q"; cases target) (auto simp: minus_f64_def)
  ultimately show ?thesis
    using s V(2) finite64_not_nan by (simp add: rankable_def candidateOf_effects [OF adm])
qed

lemma chosenCandidate_least:
  assumes "chosenCandidate cfg inp invt target gap d = Some c"
    and r: "\<forall>q \<in> set (in_Quotes inp). admissible cfg inp invt target gap d q \<longrightarrow> rankable target (candidateOf cfg inp invt target gap d q)"
    and q: "q \<in> set (in_Quotes inp)" "admissible cfg inp invt target gap d q"
  shows "\<not> betterCandidate (candidateOf cfg inp invt target gap d q) c cfg target d"
proof -
  let ?acc = "filter c_Accepted (map (candidateOf cfg inp invt target gap d) (in_Quotes inp))"
  have "hd (slice_stable (\<lambda>a b. betterCandidate a b cfg target d) ?acc) = c"
    using assms(1) by (simp add: chosenCandidate_def split: list.splits)
  moreover have "set ?acc \<subseteq> {c. rankable target c}" using r by (auto simp: candidateOf_accepted)
  moreover have "candidateOf cfg inp invt target gap d q \<in> set ?acc" using q by (simp add: candidateOf_accepted)
  ultimately show ?thesis using ranking.hd_slice_stable_least by blast
qed

lemma not_better_distance:
  assumes "\<not> betterCandidate b a cfg target d" "rankable target a" "rankable target b"
  shows "\<bar>target - c_PostTradeEffective a\<bar> \<le> \<bar>target - c_PostTradeEffective b\<bar>"
proof (rule ccontr)
  assume "\<not> ?thesis"
  then have "\<bar>target - c_PostTradeEffective b\<bar> < \<bar>target - c_PostTradeEffective a\<bar>"
    using assms(2,3) f64_not_le [of "\<bar>target - c_PostTradeEffective a\<bar>" "\<bar>target - c_PostTradeEffective b\<bar>"]
    by (simp add: rankable_def)
  moreover from this have "\<not> feq \<bar>target - c_PostTradeEffective b\<bar> \<bar>target - c_PostTradeEffective a\<bar>"
    by (auto simp: feq_def f64_less_irrefl)
  ultimately show False using assms(1) by (simp add: betterCandidate_def Let_def)
qed

text \<open>
  C15: the contract of an entry alert is the best admissible one: no admissible quote of the input
  would rank before it, and in particular none would bring the effective inventory closer to
  the target. (Every number in the quotes is a binary64 value and the inventory is finite, so
  that no comparison involves NaN.)
\<close>

theorem entry_alert_best:
  assumes "s_Action (Decide cfg inp) = ActionAlert" and "\<not> s_ClosePosition (Decide cfg inp)"
    and "config_f64 cfg" and "TargetInventory cfg (in_CurrentPrice inp) = Inr target"
    and "\<forall>q \<in> set (in_Quotes inp). quote_f64 q \<and> finite64 (of_int64 (q_LotSize q))"
    and "finite64 (inv_ActualInventory (inventoryOf inp))" and "finite64 (inv_OptionDeltaStock (inventoryOf inp))"
    and "s_Quote (Decide cfg inp) = Some q" and "q' \<in> set (in_Quotes inp)"
    and "admissible cfg inp (inventoryOf inp) target (gapOf inp target) (s_Direction (Decide cfg inp)) q'"
  shows "\<bar>target - postTrade (inventoryOf inp) q\<bar> \<le> \<bar>target - postTrade (inventoryOf inp) q'\<bar>
    \<and> \<not> betterCandidate
          (candidateOf cfg inp (inventoryOf inp) target (gapOf inp target) (s_Direction (Decide cfg inp)) q')
          (candidateOf cfg inp (inventoryOf inp) target (gapOf inp target) (s_Direction (Decide cfg inp)) q)
          cfg target (s_Direction (Decide cfg inp))"
proof -
  let ?invt = "inventoryOf inp" and ?gap = "gapOf inp target"
  let ?d = "gapDirection ?gap"
  from Decide_entry [OF assms(1,2)] assms(4) obtain q0 where
    d: "Validate cfg = None" "finite64 (in_CurrentPrice inp)" "\<not> in_CurrentPrice inp \<le> 0" "q0 \<in> set (in_Quotes inp)"
       "admissible cfg inp ?invt target ?gap ?d q0"
       "chosenCandidate cfg inp ?invt target ?gap ?d = Some (candidateOf cfg inp ?invt target ?gap ?d q0)"
       "Decide cfg inp = alertCandidate cfg inp target ?gap ?d (entryLoop cfg inp target) (candidateOf cfg inp ?invt target ?gap ?d q0)"
    by (metis sum.inject(2))
  have q0: "q0 = q" and dir: "s_Direction (Decide cfg inp) = ?d"
    using assms(8) by (simp_all add: d(7) alertCandidate_fields)
  have pos: "0 < in_CurrentPrice inp" using d(2,3) by (cases "in_CurrentPrice inp") (auto simp: zero_f64_def)
  have tf: "finite64 target"
    using TargetInventory_range [OF d(1) assms(3) d(2) pos] assms(4) by (auto simp: finite64_iff)
  have rk: "rankable target (candidateOf cfg inp ?invt target ?gap ?d x)"
    if "x \<in> set (in_Quotes inp)" "admissible cfg inp ?invt target ?gap ?d x" for x
    using admissible_rankable [OF that(2) _ _ tf assms(6,7)] assms(5) that(1) by blast
  have adm': "admissible cfg inp ?invt target ?gap ?d q'" using assms(10) dir by simp
  have nb: "\<not> betterCandidate (candidateOf cfg inp ?invt target ?gap ?d q') (candidateOf cfg inp ?invt target ?gap ?d q) cfg target ?d"
    using chosenCandidate_least [OF d(6) _ assms(9) adm'] rk q0 by blast
  then show ?thesis
    using not_better_distance [OF nb] rk d(4,5) assms(9) adm' candidateOf_effects(2) q0 dir by fastforce
qed

lemma sample_target: "TargetInventory sample_config (in_CurrentPrice sample_input) = Inr (Fin 750)"
  by (rule sample_gates)

lemma sample_adm:
  "admissible sample_config sample_input (inventoryOf sample_input) (Fin 750) (gapOf sample_input (Fin 750)) DirectionPut
     (sample_quote ''P64'' ''put'' 64 (-1/4))"
  using sample_put_admissible by (simp add: admissible_def sample_gates hasPendingContract_def) (simp add: sample_input_def)

theorem entry_alert_best_witness:
  "\<bar>Fin 750 - postTrade (inventoryOf sample_input) (sample_quote ''P64'' ''put'' 64 (-1/4))\<bar>
     \<le> \<bar>Fin 750 - postTrade (inventoryOf sample_input) (sample_quote ''P64'' ''put'' 64 (-1/4))\<bar>"
proof -
  have e: "\<forall>q \<in> set (in_Quotes sample_input). quote_f64 q \<and> finite64 (of_int64 (q_LotSize q))"
    "finite64 (inv_ActualInventory (inventoryOf sample_input))" "finite64 (inv_OptionDeltaStock (inventoryOf sample_input))"
    "sample_quote ''P64'' ''put'' 64 (-1/4) \<in> set (in_Quotes sample_input)"
    by code_simp+
  show ?thesis
    using entry_alert_best [OF sample_alerts(1,2) sample_config_valid(2) sample_target e(1-3) sample_put_signal(1) e(4)]
      sample_adm sample_alerts(3) by simp
qed

section \<open>Replacing a pending order\<close>

lemma pendingReplaceTarget_SomeD:
  assumes "pendingReplaceTarget pending d chosen = Some r"
  obtains p where "filter (\<lambda>p. equal_fold (po_Direction p) d) pending = [p]" "po_Contract p \<noteq> chosen" "po_OrderID p \<noteq> []"
    "r = \<lparr>ro_OrderID = po_OrderID p, ro_Contract = po_Contract p\<rparr>"
  using assms by (auto simp: pendingReplaceTarget_def Let_def split: list.splits if_splits)

text \<open>
  C32: an alert asks to replace an order only when exactly one pending order has its direction, that
  order has an identifier, and it is on a contract other than the proposed one; the request
  names that order. A contract with a pending order in this direction is never proposed again.
\<close>

theorem replace_unique_pending:
  assumes "s_Replace (Decide cfg inp) = Some r"
  shows "\<exists>p q. filter (\<lambda>p. equal_fold (po_Direction p) (s_Direction (Decide cfg inp))) (in_Pending inp) = [p]
    \<and> s_Action (Decide cfg inp) = ActionAlert \<and> s_Quote (Decide cfg inp) = Some q
    \<and> r = \<lparr>ro_OrderID = po_OrderID p, ro_Contract = po_Contract p\<rparr> \<and> po_OrderID p \<noteq> []
    \<and> po_Contract p \<noteq> q_Symbol q \<and> \<not> hasPendingContract (in_Pending inp) (q_Symbol q) (s_Direction (Decide cfg inp))"
proof -
  have alert: "s_Action (Decide cfg inp) = ActionAlert" "\<not> s_ClosePosition (Decide cfg inp)"
  proof -
    have nh: "\<not> holding (Decide cfg inp)" using assms by (simp add: holding_def)
    then obtain target where t: "Decide cfg inp = decide cfg inp target"
      using Evaluate_cases [of cfg inp] by (auto simp: Decide_def)
    have "s_Replace sig = s_Replace b" if "takeProfitSignal cfg inp b = Some sig" for b sig
      using that by (auto simp: takeProfitSignal_def Let_def split: if_splits option.splits)
    then have "\<not> takeProfitSignal cfg inp (base_signal target (gapOf inp target) (inventoryOf inp)) = Some (Decide cfg inp)"
      using assms by (auto simp: base_signal_def zero_signal_def)
    with decide_signal [of cfg inp target] nh t
    show "s_Action (Decide cfg inp) = ActionAlert" "\<not> s_ClosePosition (Decide cfg inp)"
      using entryLoop_blank [of cfg inp target] by (auto simp: alertCandidate_fields blank_def)
  qed
  from Decide_entry [OF alert] obtain q target where
    d: "admissible cfg inp (inventoryOf inp) target (gapOf inp target) (gapDirection (gapOf inp target)) q"
       "Decide cfg inp = alertCandidate cfg inp target (gapOf inp target) (gapDirection (gapOf inp target))
         (entryLoop cfg inp target) (candidateOf cfg inp (inventoryOf inp) target (gapOf inp target) (gapDirection (gapOf inp target)) q)"
    by blast
  have "pendingReplaceTarget (in_Pending inp) (gapDirection (gapOf inp target)) (q_Symbol q) = Some r"
    using assms entryLoop_blank [of cfg inp target] by (auto simp: d(2) alertCandidate_fields blank_def split: option.splits if_splits)
  then show ?thesis
    using d(1) alert(1) by (elim pendingReplaceTarget_SomeD) (simp add: d(2) alertCandidate_fields admissible_def)
qed

lemma pending_irrelevant [simp]:
  "quoteError cfg (inp\<lparr>in_Pending := ps\<rparr>) = quoteError cfg inp"
  "passesMasks cfg (inp\<lparr>in_Pending := ps\<rparr>) = passesMasks cfg inp"
  "passesRisk cfg (inp\<lparr>in_Pending := ps\<rparr>) = passesRisk cfg inp"
  "gatesOpen cfg (inp\<lparr>in_Pending := ps\<rparr>) = gatesOpen cfg inp"
  "inventoryOf (inp\<lparr>in_Pending := ps\<rparr>) = inventoryOf inp"
  "gapOf (inp\<lparr>in_Pending := ps\<rparr>) = gapOf inp"
  by (simp_all add: fun_eq_iff quoteError_def passesMasks_def passesMoneyness_def passesRisk_def gatesOpen_def inventoryOf_def
      gapOf_def minimumStrike_def assignmentInventory_def cashShort_def fillMove_def Let_def)

lemma takeProfitSignal_pending [simp]: "takeProfitSignal cfg (inp\<lparr>in_Pending := ps\<rparr>) = takeProfitSignal cfg inp"
proof -
  have leg: "takeProfitLeg cfg (inp\<lparr>in_Pending := ps\<rparr>) = takeProfitLeg cfg inp"
    by (simp add: fun_eq_iff takeProfitLeg_def Let_def split: option.split)
  have "takeProfitStep cfg (inp\<lparr>in_Pending := ps\<rparr>) = takeProfitStep cfg inp"
    by (simp only: fun_eq_iff takeProfitStep_def leg simp_thms)
  then show ?thesis by (intro ext) (simp add: takeProfitSignal_def takeProfitBest_def closeSet_def)
qed

lemma evalQuote_pendingContract:
  assumes "\<not> hasPendingContract (in_Pending inp) (q_Symbol q) d"
  shows "el_pendingContract (evalQuote cfg inp invt target gap d el q) = el_pendingContract el"
  using assms by (simp add: evalQuote_def recordCandidate_def Let_def split_beta split: option.split)

definition sample_replace_input :: DecisionInput where
  "sample_replace_input = sample_input\<lparr>in_Pending := [\<lparr>po_Contract = ''P60'', po_Direction = ''put'', po_OrderID = ''206158430256''\<rparr>]\<rparr>"

theorem replace_unique_pending_witness:
  "s_Replace (Decide sample_config sample_replace_input) = Some \<lparr>ro_OrderID = ''206158430256'', ro_Contract = ''P60''\<rparr>
   \<and> s_Action (Decide sample_config sample_replace_input) = ActionAlert"
proof -
  let ?inp = sample_replace_input and ?q = "sample_quote ''P64'' ''put'' 64 (-1/4)"
  have np: "\<not> hasPendingContract (in_Pending ?inp) (q_Symbol ?q) DirectionPut"
    by code_simp
  have adm: "admissible sample_config ?inp (inventoryOf ?inp) (Fin 750) (gapOf ?inp (Fin 750)) (gapDirection (gapOf ?inp (Fin 750))) ?q"
    using np sample_put_admissible by (simp add: admissible_def sample_replace_input_def sample_gates)
  have dec: "Decide sample_config ?inp = decide sample_config ?inp (Fin 750)"
    by (rule Decide_eq [OF sample_config_valid(1)])
      (use sample_prices sample_gates in \<open>simp_all add: sample_replace_input_def\<close>)
  have go: "takeProfitSignal sample_config ?inp b = None" "gatesOpen sample_config ?inp (gapOf ?inp (Fin 750))" for b
    using sample_gates by (simp_all add: sample_replace_input_def)
  have dir: "gapDirection (gapOf ?inp (Fin 750)) = DirectionPut"
    by (simp add: sample_replace_input_def sample_gates)
  have qs: "in_Quotes ?inp = [?q]" by (simp add: sample_replace_input_def sample_input_def)
  then have alert: "s_Action (Decide sample_config ?inp) = ActionAlert" "\<not> s_ClosePosition (Decide sample_config ?inp)"
    using decide_alerts [OF go _ adm] dec by simp_all
  have pc: "el_pendingContract (entryLoop sample_config ?inp (Fin 750)) = []"
    using evalQuote_pendingContract [OF np] dir by (simp add: entryLoop_def evalLoop_def qs)
  from Decide_entry [OF alert] obtain q target where
    "q \<in> set (in_Quotes ?inp)" "TargetInventory sample_config (in_CurrentPrice ?inp) = Inr target"
    "Decide sample_config ?inp = alertCandidate sample_config ?inp target (gapOf ?inp target) (gapDirection (gapOf ?inp target))
      (entryLoop sample_config ?inp target) (candidateOf sample_config ?inp (inventoryOf ?inp) target (gapOf ?inp target) (gapDirection (gapOf ?inp target)) q)"
    by blast
  moreover have "target = Fin 750" using calculation(2) sample_gates by (simp add: sample_replace_input_def)
  moreover have "pendingReplaceTarget (in_Pending ?inp) DirectionPut (q_Symbol ?q) = Some \<lparr>ro_OrderID = ''206158430256'', ro_Contract = ''P60''\<rparr>"
    by code_simp
  ultimately have r: "s_Replace (Decide sample_config ?inp) = Some \<lparr>ro_OrderID = ''206158430256'', ro_Contract = ''P60''\<rparr>"
    using pc qs sample_gates by (simp add: alertCandidate_fields replaceAllowed_def sample_replace_input_def)
  show ?thesis using replace_unique_pending [OF r] r by blast
qed

section \<open>Taking profit\<close>

text \<open>A running best over a list: what a scan for the best element computes.\<close>

definition pick :: "('a \<Rightarrow> 'a \<Rightarrow> bool) \<Rightarrow> 'a option \<Rightarrow> 'a \<Rightarrow> 'a option" where
  "pick lt best x = (case best of None \<Rightarrow> Some x | Some b \<Rightarrow> if lt x b then Some x else best)"

context key_order
begin

lemma foldl_pick:
  "b \<in> A \<Longrightarrow> set xs \<subseteq> A \<Longrightarrow>
   \<exists>m. foldl (pick lt) (Some b) xs = Some m \<and> m \<in> insert b (set xs) \<and> (\<forall>y \<in> insert b (set xs). key m \<le> key y)"
proof (induction xs arbitrary: b)
  case (Cons x xs)
  then have step: "pick lt (Some b) x = Some (if lt x b then x else b)" by (simp add: pick_def)
  have "(if lt x b then x else b) \<in> A" using Cons.prems by simp
  from Cons.IH [OF this] Cons.prems obtain m where
    m: "foldl (pick lt) (Some b) (x # xs) = Some m" "m \<in> insert (if lt x b then x else b) (set xs)"
       "\<forall>y \<in> insert (if lt x b then x else b) (set xs). key m \<le> key y"
    by (auto simp: step)
  moreover have "key (if lt x b then x else b) \<le> key x" "key (if lt x b then x else b) \<le> key b"
    using Cons.prems lt_key [of x b] by (auto simp: not_less)
  ultimately show ?case by (intro exI [of _ m]) (auto intro: order_trans split: if_splits)
qed simp

lemma pick_perm:
  assumes "set xs \<subseteq> A" "set xs = set ys" "inj_on key (set xs)"
  shows "foldl (pick lt) None xs = foldl (pick lt) None ys"
proof (cases xs)
  case Nil
  then show ?thesis using assms by simp
next
  case (Cons x xs')
  then obtain y ys' where ys: "ys = y # ys'" using assms(2) by (cases ys) auto
  obtain m where m: "foldl (pick lt) (Some x) xs' = Some m" "m \<in> set xs" "\<forall>z \<in> set xs. key m \<le> key z"
    using foldl_pick [of x xs'] assms(1) Cons by auto
  obtain n where n: "foldl (pick lt) (Some y) ys' = Some n" "n \<in> set ys" "\<forall>z \<in> set ys. key n \<le> key z"
    using foldl_pick [of y ys'] assms(1,2) ys by auto
  have "key m = key n" using m n assms(2) by (auto intro: antisym)
  then have "m = n" using m(2) n(2) assms(2,3) by (auto dest: inj_onD)
  then show ?thesis using m(1) n(1) Cons ys by (simp add: pick_def)
qed

end

definition takeProfitKey :: "TakeProfit \<Rightarrow> (int \<times> rat) \<times> string" where
  "takeProfitKey t = (f64_rank (- tp_ratio t), p_Symbol (tp_pos t))"

interpretation profit: key_order "\<lambda>a b. takeProfitBetter a (Some b)" takeProfitKey "{t. \<not> is_nan (tp_ratio t)}"
  by unfold_locales (auto simp: takeProfitBetter_def takeProfitKey_def uminus_rank_less uminus_rank_eq feq_def)

lemma takeProfitBest_pick:
  "takeProfitBest cfg inp legs = foldl (pick (\<lambda>a b. takeProfitBetter a (Some b))) None
     (List.map_filter (takeProfitLeg cfg inp) (map snd legs))"
proof -
  have "foldl (takeProfitStep cfg inp) best ps = foldl (pick (\<lambda>a b. takeProfitBetter a (Some b))) best
      (List.map_filter (takeProfitLeg cfg inp) ps)" for best ps
    by (induction ps arbitrary: best)
      (auto simp: takeProfitStep_def pick_def takeProfitBetter_def List.map_filter_simps split: option.split)
  then show ?thesis by (simp add: takeProfitBest_def)
qed

lemma takeProfitLeg_ratio:
  assumes "takeProfitLeg cfg inp p = Some t" "finite64 (p_AvgPremium p)"
  shows "\<not> is_nan (tp_ratio t)"
proof -
  note l = takeProfitLeg_SomeD [OF assms(1)]
  obtain a v where r: "q_Ask (tp_quote t) = Fin a" "p_AvgPremium p = Fin v" "0 < v"
    using l(6,7) assms(2) by (cases "p_AvgPremium p"; cases "q_Ask (tp_quote t)") (auto simp: zero_f64_def)
  have "Fin v - Fin a = round64 (v - a)" by (simp add: minus_f64_def)
  moreover have "\<not> is_nan (round64 z / Fin v)" for z using r(3) not_nan_round64 [of z] by (cases "round64 z") auto
  ultimately show ?thesis using l(11) r by simp
qed

lemma map_filter_set: "set (List.map_filter f xs) = {y. \<exists>x \<in> set xs. f x = Some y}"
  by (induction xs) (auto simp: List.map_filter_simps split: option.splits)

text \<open>
  The leg chosen for taking profit does not depend on the order in which Go iterates over the
  map of held legs: two iterations over the same legs, keyed by their symbols, choose the same
  leg, contract and ratio, whenever the premiums are finite.
\<close>

theorem take_profit_map_order:
  assumes "set legs = set legs'" and "\<forall>(k, p) \<in> set legs. p_Symbol p = k \<and> finite64 (p_AvgPremium p)"
    and "map_ok legs"
  shows "takeProfitBest cfg inp legs = takeProfitBest cfg inp legs'"
  unfolding takeProfitBest_pick
proof (rule profit.pick_perm)
  let ?f = "List.map_filter (takeProfitLeg cfg inp)"
  show "set (?f (map snd legs)) \<subseteq> {t. \<not> is_nan (tp_ratio t)}"
  proof
    fix t assume "t \<in> set (?f (map snd legs))"
    then obtain k p where kp: "(k, p) \<in> set legs" "takeProfitLeg cfg inp p = Some t" by (auto simp: map_filter_set)
    show "t \<in> {t. \<not> is_nan (tp_ratio t)}" using takeProfitLeg_ratio [OF kp(2)] bspec [OF assms(2) kp(1)] by simp
  qed
  show "set (?f (map snd legs)) = set (?f (map snd legs'))"
    using assms(1) by (simp add: map_filter_set)
  have "t = t'" if "t \<in> set (?f (map snd legs))" "t' \<in> set (?f (map snd legs))" "p_Symbol (tp_pos t) = p_Symbol (tp_pos t')" for t t'
  proof -
    note tt = that
    obtain k p k' p' where kp: "(k, p) \<in> set legs" "takeProfitLeg cfg inp p = Some t"
      "(k', p') \<in> set legs" "takeProfitLeg cfg inp p' = Some t'"
      using tt(1,2) by (auto simp: map_filter_set)
    have "p_Symbol p = p_Symbol p'" using tt(3) takeProfitLeg_SomeD(1) [OF kp(2)] takeProfitLeg_SomeD(1) [OF kp(4)] by simp
    moreover have "p_Symbol p = k" "p_Symbol p' = k'" using bspec [OF assms(2) kp(1)] bspec [OF assms(2) kp(3)] by simp_all
    ultimately have "map_of legs k = Some p" "map_of legs k = Some p'"
      using kp(1,3) by (simp_all flip: map_ok_lookup [OF assms(3)])
    then have "p = p'" by simp
    then show ?thesis using kp by simp
  qed
  then show "inj_on takeProfitKey (set (?f (map snd legs)))" by (auto simp: inj_on_def takeProfitKey_def)
qed

definition sample_leg :: "string \<Rightarrow> rat \<Rightarrow> OptionPosition" where
  "sample_leg code premium = \<lparr>p_Symbol = code, p_SignedContracts = Fin (- 2), p_Contracts = 0, p_Strike = Fin 64, p_MarketDelta = 0,
     p_Delta = 0, p_LotSize = 100, p_OptionType = ''put'', p_AvgPremium = Fin premium\<rparr>"

theorem take_profit_map_order_witness:
  "takeProfitBest sample_config sample_input [(''P64'', sample_leg ''P64'' 4), (''P60'', sample_leg ''P60'' 8)]
   = takeProfitBest sample_config sample_input [(''P60'', sample_leg ''P60'' 8), (''P64'', sample_leg ''P64'' 4)]"
  by (rule take_profit_map_order) (auto simp: sample_leg_def map_ok_def)

lemma int_of_f64_pos:
  assumes "0 < int_of_f64 x"
  obtains r where "x = Fin r" "1 \<le> r" "int_of_f64 x = \<lfloor>r\<rfloor>"
proof (cases x)
  case (Fin r)
  then have "1 \<le> r" using assms by (auto simp: Let_def ceiling_less_iff split: if_splits)
  moreover from this have "int_of_f64 x = \<lfloor>r\<rfloor>" using Fin assms by (auto simp: Let_def split: if_splits)
  ultimately show ?thesis using that Fin by blast
qed (use assms in simp_all)

text \<open>
  C31: a buy-to-close alert is about a held short leg with a quote of the same name in the input: at
  least one contract is short, the alert asks to buy back the whole number of short contracts,
  the ask is positive and below the premium received, the captured share of the premium has
  reached the configured threshold, and the leg has not expired.
\<close>

theorem take_profit_sound:
  assumes "s_ClosePosition (Decide cfg inp)"
    and "\<forall>p \<in> set (in_Positions inp) \<union> set (in_ClosePositions inp). finite64 (p_AvgPremium p)"
  shows "\<exists>p q k. p \<in> set (in_Positions inp) \<union> set (in_ClosePositions inp) \<and> q \<in> set (in_Quotes inp)
    \<and> quote_name q = p_Symbol p \<and> s_Action (Decide cfg inp) = ActionAlert \<and> s_Quote (Decide cfg inp) = Some q
    \<and> position_contracts p = Fin k \<and> k \<le> - 1 \<and> s_Quantity (Decide cfg inp) = \<lfloor>- k\<rfloor>
    \<and> 0 < q_Ask q \<and> q_Ask q < p_AvgPremium p
    \<and> \<not> (p_AvgPremium p - q_Ask q) / p_AvgPremium p + lit (1 / 10 ^ 12) < cfg_ProfitTakePct cfg
    \<and> (in_AsOf inp = 0 \<or> in_AsOf inp < q_Expiry q)"
proof -
  obtain target where t: "Decide cfg inp = decide cfg inp target"
    using Evaluate_cases [of cfg inp] assms(1) by (auto simp: Decide_def holding_def)
  let ?base = "base_signal target (gapOf inp target) (inventoryOf inp)"
  have tp: "takeProfitSignal cfg inp ?base = Some (Decide cfg inp)"
    using decide_signal [of cfg inp target] assms(1) t entryLoop_blank [of cfg inp target]
    by (auto simp: holding_def alertCandidate_fields blank_def)
  from takeProfitSignal_SomeD [OF tp] obtain x where
    x: "takeProfitBest cfg inp (closeSet inp) = Some x" "s_Quote (Decide cfg inp) = Some (tp_quote x)"
       "s_Quantity (Decide cfg inp) = int_of_f64 (- tp_contracts x)" "0 < s_Quantity (Decide cfg inp)"
    by blast
  note b = takeProfitBest_SomeD [OF x(1)]
  note l = takeProfitLeg_SomeD [OF b(1)]
  obtain r where r: "- tp_contracts x = Fin r" "1 \<le> r" "s_Quantity (Decide cfg inp) = \<lfloor>r\<rfloor>"
    using int_of_f64_pos x(3,4) by metis
  then have k: "position_contracts (tp_pos x) = Fin (- r)" using l(2) by (cases "position_contracts (tp_pos x)") auto
  obtain v where "p_AvgPremium (tp_pos x) = Fin v" using assms(2) b(2) by (auto simp: finite64_iff)
  then have "0 < q_Ask (tp_quote x)" "q_Ask (tp_quote x) < p_AvgPremium (tp_pos x)"
    using l(7-9) by (cases "q_Ask (tp_quote x)"; auto simp: zero_f64_def)+
  then show ?thesis
    using b(2) l k r x(2) takeProfitSignal_alert [OF tp]
    by (intro exI [of _ "tp_pos x"] exI [of _ "tp_quote x"] exI [of _ "- r"]) auto
qed

definition sample_close_input :: DecisionInput where
  "sample_close_input = sample_input\<lparr>in_Positions := [sample_leg ''P64'' 4]\<rparr>"

theorem take_profit_sound_witness:
  "\<exists>q. s_Quote (Decide sample_config sample_close_input) = Some q \<and> q_Ask q < Fin 4
     \<and> s_Quantity (Decide sample_config sample_close_input) = 2"
proof -
  have s: "takeProfitSignal sample_config sample_close_input b \<noteq> None" for b
  proof -
    have "(case takeProfitBest sample_config sample_close_input (closeSet sample_close_input) of
           None \<Rightarrow> False | Some t \<Rightarrow> 0 < int_of_f64 (- tp_contracts t))
      \<and> \<not> cfg_ProfitTakePct sample_config \<le> 0"
      by code_simp
    then show ?thesis by (auto simp: takeProfitSignal_def Let_def split: option.splits)
  qed
  have d: "Decide sample_config sample_close_input = decide sample_config sample_close_input (Fin 750)"
    by (rule Decide_eq [OF sample_config_valid(1)])
      (use sample_prices sample_gates in \<open>simp_all add: sample_close_input_def\<close>)
  have c: "s_ClosePosition (Decide sample_config sample_close_input)"
    using s [of "base_signal (Fin 750) (gapOf sample_close_input (Fin 750)) (inventoryOf sample_close_input)"]
    by (auto simp: d decide_paths Let_def takeProfitSignal_alert)
  have "\<forall>p \<in> set (in_Positions sample_close_input) \<union> set (in_ClosePositions sample_close_input). finite64 (p_AvgPremium p)"
    by (simp add: sample_close_input_def sample_input_def sample_leg_def)
  from take_profit_sound [OF c this] show ?thesis
    by (auto simp: sample_close_input_def sample_input_def sample_leg_def position_contracts_def feq_def zero_f64_def)
qed

section \<open>Quality, and cash that is not a number\<close>

text \<open>
  The quality score of every quote that passes validation lies between zero and one, so that the
  configured minimum in that range is meaningful; with all roundings, for any bid, ask, strike,
  volatility and theta the validation admits.
\<close>

theorem quality_score_unit:
  assumes "quote_Validate q asOf cfg = None" and "quote_f64 q"
  shows "0 \<le> QualityScore q \<and> QualityScore q \<le> 1"
proof -
  obtain d lo hi where "quote_validate q asOf cfg d lo hi = None"
    using assms(1) by (auto simp: quote_Validate_def split_beta)
  from QualityScore_unit [OF this assms(2)] show ?thesis by (simp add: unit64_def)
qed

theorem quality_score_unit_witness:
  "QualityScore (sample_quote ''P64'' ''put'' 64 (-1/4)) \<le> 1"
proof -
  have "quote_Validate (sample_quote ''P64'' ''put'' 64 (-1/4)) sample_time sample_config = None"
    "quote_f64 (sample_quote ''P64'' ''put'' 64 (-1/4))"
    by code_simp+
  from quality_score_unit [OF this] show ?thesis by simp
qed

lemma cash_irrelevant [simp]:
  "quoteError cfg (inp\<lparr>in_CashAvailable := x\<rparr>) = quoteError cfg inp"
  "passesMasks cfg (inp\<lparr>in_CashAvailable := x\<rparr>) = passesMasks cfg inp"
  "gatesOpen cfg (inp\<lparr>in_CashAvailable := x\<rparr>) = gatesOpen cfg inp"
  "inventoryOf (inp\<lparr>in_CashAvailable := x\<rparr>) = inventoryOf inp"
  "gapOf (inp\<lparr>in_CashAvailable := x\<rparr>) = gapOf inp"
  "assignmentInventory (inp\<lparr>in_CashAvailable := x\<rparr>) = assignmentInventory inp"
  by (simp_all add: fun_eq_iff quoteError_def passesMasks_def passesMoneyness_def gatesOpen_def inventoryOf_def
      gapOf_def minimumStrike_def assignmentInventory_def fillMove_def Let_def)

text \<open>
  C38: the cash check does not stop a cash figure that is not a number: a quote that is admissible
  with some cash figure stays admissible when the figure is NaN, although NaN secures nothing
  (only the separate flag says whether cash is known).
\<close>

theorem nan_cash_passes_risk:
  assumes "admissible cfg inp invt target gap d q"
  shows "admissible cfg (inp\<lparr>in_CashAvailable := NaN\<rparr>) invt target gap d q"
  using assms by (simp add: admissible_def passesRisk_def cashShort_def)

theorem nan_cash_passes_risk_witness:
  "admissible sample_config (sample_input\<lparr>in_CashAvailable := NaN\<rparr>) (inventoryOf sample_input) (Fin 750)
     (gapOf sample_input (Fin 750)) DirectionPut (sample_quote ''P64'' ''put'' 64 (-1/4))"
  by (rule nan_cash_passes_risk [OF sample_adm])

end
