(* ===== verification/Backtest_Fees.thy ===== *)
theory Backtest_Fees
  imports Wbot_Prelude
begin

text \<open>
  Bars and fees: \<^verbatim>\<open>internal/ingest/bar.go\<close> (the bar, its validation, range filtering),
  \<^verbatim>\<open>internal/backtest/strategy.go\<close> (the actions), \<^verbatim>\<open>internal/backtest/fees.go\<close> (the fee
  schedules) and \<^verbatim>\<open>internal/backtest/constraint.go\<close>. Error values carry the data that the Go
  messages print, not the text.
\<close>

section \<open>Bars\<close>

record Bar =
  b_Ts :: time
  b_Open :: f64
  b_High :: f64
  b_Low :: f64
  b_Close :: f64
  b_Volume :: int
  b_Source :: string
  b_Adjusted :: string

definition filterRange :: "Bar list \<Rightarrow> time \<Rightarrow> time \<Rightarrow> Bar list" where
  "filterRange bars from to =
     filter (\<lambda>b. \<not> (\<not> is_zero from \<and> b_Ts b < from) \<and> \<not> (\<not> is_zero to \<and> to < b_Ts b)) bars"

datatype BarError =
    ZeroTimestamp | HighBelowLow f64 f64 | HighBelowOpen f64 f64 | HighBelowClose f64 f64
  | LowAboveOpen f64 f64 | LowAboveClose f64 f64

definition ValidateBar :: "Bar \<Rightarrow> BarError option" where
  "ValidateBar b =
     (if is_zero (b_Ts b) then Some ZeroTimestamp
      else if b_High b < b_Low b then Some (HighBelowLow (b_High b) (b_Low b))
      else if b_High b < b_Open b then Some (HighBelowOpen (b_High b) (b_Open b))
      else if b_High b < b_Close b then Some (HighBelowClose (b_High b) (b_Close b))
      else if b_Open b < b_Low b then Some (LowAboveOpen (b_Low b) (b_Open b))
      else if b_Close b < b_Low b then Some (LowAboveClose (b_Low b) (b_Close b))
      else None)"

datatype BarsError = EmptyBarSlice | BadBar nat BarError | TsNotAfter nat time time

fun validateBarsFrom :: "nat \<Rightarrow> Bar option \<Rightarrow> Bar list \<Rightarrow> BarsError option" where
  "validateBarsFrom i prev [] = None"
| "validateBarsFrom i prev (b # bs) =
     (case ValidateBar b of
        Some err \<Rightarrow> Some (BadBar i err)
      | None \<Rightarrow>
          (case prev of
             Some p \<Rightarrow> if \<not> b_Ts p < b_Ts b then Some (TsNotAfter i (b_Ts b) (b_Ts p)) else validateBarsFrom (i + 1) (Some b) bs
           | None \<Rightarrow> validateBarsFrom (i + 1) (Some b) bs))"

definition ValidateBars :: "Bar list \<Rightarrow> BarsError option" where
  "ValidateBars bars = (if bars = [] then Some EmptyBarSlice else validateBarsFrom 0 None bars)"

section \<open>Actions\<close>

datatype BtAction = ActHold | ActBuy | ActSell | ActSellCall | ActBuyCall | ActSellPut | ActBuyPut | ActOther int

fun action_String :: "BtAction \<Rightarrow> string" where
  "action_String ActHold = ''hold''"
| "action_String ActBuy = ''buy''"
| "action_String ActSell = ''sell''"
| "action_String ActSellCall = ''sell-call''"
| "action_String ActBuyCall = ''buy-call''"
| "action_String ActSellPut = ''sell-put''"
| "action_String ActBuyPut = ''buy-put''"
| "action_String (ActOther _) = ''unknown''"

section \<open>Fees\<close>

record FeeModel =
  fm_OptionPerContract :: f64
  fm_StockPerLot :: f64
  fm_LotSize :: int
  fm_LegacyPerTrade :: f64
  fm_Legacy :: bool

definition FeeLotSize :: int where
  "FeeLotSize = 100"

definition DefaultOptionFeePerContract :: f64 where
  "DefaultOptionFeePerContract = Fin 21"

definition DefaultStockFeePerLot :: f64 where
  "DefaultStockFeePerLot = Fin 70"

definition DefaultFeeModel :: FeeModel where
  "DefaultFeeModel = \<lparr>fm_OptionPerContract = DefaultOptionFeePerContract, fm_StockPerLot = DefaultStockFeePerLot,
     fm_LotSize = FeeLotSize, fm_LegacyPerTrade = 0, fm_Legacy = False\<rparr>"

definition LegacyFeeModel :: "f64 \<Rightarrow> FeeModel" where
  "LegacyFeeModel feePerTrade = \<lparr>fm_OptionPerContract = 0, fm_StockPerLot = 0, fm_LotSize = FeeLotSize,
     fm_LegacyPerTrade = feePerTrade, fm_Legacy = True\<rparr>"

definition HKFeeModel :: "f64 \<Rightarrow> f64 \<Rightarrow> int \<Rightarrow> FeeModel" where
  "HKFeeModel optionPerContract stockPerLot lotSize = \<lparr>fm_OptionPerContract = optionPerContract, fm_StockPerLot = stockPerLot,
     fm_LotSize = (if lotSize = 0 then FeeLotSize else lotSize), fm_LegacyPerTrade = 0, fm_Legacy = False\<rparr>"

definition fee_normalized :: "FeeModel \<Rightarrow> FeeModel" where
  "fee_normalized m = (if fm_LotSize m = 0 then m\<lparr>fm_LotSize := FeeLotSize\<rparr> else m)"

datatype FeeError = NegativeFee | LotSizeNotPositive

definition fee_validate :: "FeeModel \<Rightarrow> FeeError option" where
  "fee_validate m =
     (let m = fee_normalized m in
      if fm_Legacy m then
        (if \<not> finite64 (fm_LegacyPerTrade m) \<or> fm_LegacyPerTrade m < 0 then Some NegativeFee else None)
      else if \<not> finite64 (fm_OptionPerContract m) \<or> fm_OptionPerContract m < 0
        \<or> \<not> finite64 (fm_StockPerLot m) \<or> fm_StockPerLot m < 0 then Some NegativeFee
      else if fm_LotSize m \<le> 0 then Some LotSizeNotPositive
      else None)"

definition isStockTrade :: "string \<Rightarrow> bool" where
  "isStockTrade action \<longleftrightarrow> action = ''buy'' \<or> action = ''sell''"

definition isOptionTrade :: "string \<Rightarrow> bool" where
  "isOptionTrade action \<longleftrightarrow> has_prefix action ''buy-'' \<or> has_prefix action ''sell-''"

definition isExerciseTrade :: "string \<Rightarrow> bool" where
  "isExerciseTrade action \<longleftrightarrow> action = ''exercise-call'' \<or> action = ''exercise-put'' \<or> action = ''exercise-buyin''"

definition isActiveTrade :: "string \<Rightarrow> bool" where
  "isActiveTrade action \<longleftrightarrow> isStockTrade action \<or> isOptionTrade action"

definition stockLots :: "f64 \<Rightarrow> int \<Rightarrow> f64" where
  "stockLots shares lotSize =
     (if feq shares 0 \<or> lotSize \<le> 0 then 0 else fceil (\<bar>shares\<bar> / of_int64 lotSize))"

definition fee_fee :: "FeeModel \<Rightarrow> string \<Rightarrow> f64 \<Rightarrow> f64" where
  "fee_fee m action sz =
     (if feq sz 0 then 0
      else if fm_Legacy m then (if isActiveTrade action then fm_LegacyPerTrade m else 0)
      else let m = fee_normalized m in
        if isStockTrade action \<or> isExerciseTrade action then stockLots sz (fm_LotSize m) * fm_StockPerLot m
        else if isOptionTrade action then \<bar>sz\<bar> * fm_OptionPerContract m
        else 0)"

section \<open>The drawdown constraint\<close>

datatype DrawdownError = InvalidLimit f64 | NilResult | ExceedsLimit f64 f64

definition CheckMaxDrawdown :: "f64 option \<Rightarrow> f64 \<Rightarrow> DrawdownError option" where
  "CheckMaxDrawdown maxDrawdown limit =
     (if limit \<le> 0 \<or> 1 < limit then Some (InvalidLimit limit)
      else case maxDrawdown of
        None \<Rightarrow> Some NilResult
      | Some dd \<Rightarrow> if limit < dd then Some (ExceedsLimit dd limit) else None)"

section \<open>Lemmas\<close>

lemma validateBarsFrom_None:
  "validateBarsFrom i prev bs = None \<longleftrightarrow>
     (\<forall>b \<in> set bs. ValidateBar b = None) \<and> sorted_wrt (<) (map b_Ts bs)
     \<and> (case prev of None \<Rightarrow> True | Some p \<Rightarrow> (\<forall>b \<in> set bs. b_Ts p < b_Ts b))"
  by (induction bs arbitrary: i prev) (auto split: option.splits dest: less_trans)

lemma ValidateBars_None:
  "ValidateBars bars = None \<longleftrightarrow>
     bars \<noteq> [] \<and> (\<forall>b \<in> set bars. ValidateBar b = None) \<and> sorted_wrt (<) (map b_Ts bars)"
  by (simp add: ValidateBars_def validateBarsFrom_None)

lemma filterRange_valid:
  assumes "ValidateBars bars = None" "filterRange bars from to \<noteq> []"
  shows "ValidateBars (filterRange bars from to) = None"
  using assms by (auto simp: ValidateBars_None filterRange_def sorted_wrt_map sorted_wrt_filter)

text \<open>Fees of a validated schedule are never negative.\<close>

lemma fceil_nonneg: "0 \<le> x \<Longrightarrow> 0 \<le> fceil x"
  by (cases x) (auto simp: zero_f64_def)

lemma round64_nonneg: "0 \<le> x \<Longrightarrow> 0 \<le> round64 x"
  using rnd_nonneg [of x] by (auto simp: round64_def Let_def zero_f64_def overflows_def)

lemma times_nonneg: "0 \<le> x \<Longrightarrow> finite64 x \<Longrightarrow> 0 \<le> y \<Longrightarrow> finite64 y \<Longrightarrow> 0 \<le> x * y"
  by (cases x; cases y) (auto simp: zero_f64_def round64_nonneg [unfolded zero_f64_def])

lemma stockLots_range:
  assumes "is_f64 s" "finite64 s"
  shows "\<exists>n. stockLots s lot = Fin (of_int n) \<and> 0 \<le> n"
proof (cases "feq s 0 \<or> lot \<le> 0")
  case True
  then show ?thesis by (auto simp: stockLots_def zero_f64_def intro: exI [of _ 0])
next
  case False
  obtain r where r: "s = Fin r" using assms(2) by (auto simp: finite64_iff)
  have "1 \<le> of_int64 lot" using False by (intro of_int64_pos) simp
  then consider l where "of_int64 lot = Fin l" "1 \<le> l" | "of_int64 lot = PInf"
    by (cases "of_int64 lot") (auto simp: one_f64_def)
  then have "\<exists>q. 0 \<le> q \<and> \<bar>s\<bar> / of_int64 lot = Fin q"
  proof cases
    case 1
    have rep: "is_f64 (Fin 0)" "is_f64 (Fin \<bar>r\<bar>)" using assms(1) r is_f64_int [of 0] by (auto simp: abs_if)
    have b: "0 \<le> \<bar>r\<bar> / l" "\<bar>r\<bar> / l \<le> \<bar>r\<bar>" using 1(2) mult_left_mono [of 1 l "\<bar>r\<bar>"] by (auto simp: divide_le_eq)
    show ?thesis by (rule round64_between [OF rep b]) (use r 1 in auto)
  next
    case 2
    then show ?thesis using r by auto
  qed
  then obtain q where q: "0 \<le> q" "\<bar>s\<bar> / of_int64 lot = Fin q" by blast
  then have "stockLots s lot = Fin (of_int \<lceil>q\<rceil>)" using False by (simp add: stockLots_def)
  moreover have "0 \<le> \<lceil>q\<rceil>" using ceiling_mono [OF q(1)] by simp
  ultimately show ?thesis by blast
qed

text \<open>
  A validated fee schedule never charges a negative fee, for any action and any finite size, and
  charges nothing for an empty trade.
\<close>

theorem fees_nonnegative:
  assumes "fee_validate m = None" and "is_f64 sz" and "finite64 sz"
  shows "0 \<le> fee_fee m action sz \<and> fee_fee m action 0 = 0"
proof -
  have z: "fee_fee m action 0 = 0" by (simp add: fee_fee_def feq_def zero_f64_def)
  have nn: "\<not> x < 0 \<Longrightarrow> finite64 x \<Longrightarrow> 0 \<le> x" for x :: f64 by (cases x) (auto simp: zero_f64_def)
  have zero: "(0 :: f64) \<le> 0" by (simp add: zero_f64_def)
  show ?thesis
  proof (cases "fm_Legacy m")
    case True
    then have "0 \<le> fm_LegacyPerTrade m"
      using assms(1) nn by (auto simp: fee_validate_def fee_normalized_def Let_def split: if_splits)
    then show ?thesis using True z zero by (simp add: fee_fee_def)
  next
    case False
    let ?n = "fee_normalized m"
    have v: "0 \<le> fm_OptionPerContract ?n" "finite64 (fm_OptionPerContract ?n)" "0 \<le> fm_StockPerLot ?n" "finite64 (fm_StockPerLot ?n)"
      using assms(1) False nn by (auto simp: fee_validate_def fee_normalized_def Let_def split: if_splits)
    obtain n where n: "stockLots sz (fm_LotSize ?n) = Fin (of_int n)" "0 \<le> n" using stockLots_range [OF assms(2,3)] by blast
    have "0 \<le> stockLots sz (fm_LotSize ?n) * fm_StockPerLot ?n" "0 \<le> \<bar>sz\<bar> * fm_OptionPerContract ?n"
      using n v assms(3) by (auto simp: finite64_iff zero_f64_def intro!: round64_nonneg [unfolded zero_f64_def])
    then show ?thesis using False z zero by (simp add: fee_fee_def Let_def)
  qed
qed

theorem fees_nonnegative_witness:
  "0 \<le> fee_fee DefaultFeeModel ''exercise-put'' (Fin 250)"
proof -
  have "fee_validate DefaultFeeModel = None" "is_f64 (Fin 250)" "finite64 (Fin 250)" by code_simp+
  from fees_nonnegative [OF this] show ?thesis by blast
qed

text \<open>
  Cutting a valid series of bars to a closed time range keeps it valid: every remaining bar is
  sane, timestamps stay strictly increasing and lie in the range. Validity itself is exactly that
  property of the whole series.
\<close>

theorem filter_range_valid:
  assumes "ValidateBars bars = None" and "filterRange bars from to \<noteq> []" and "from \<noteq> 0" and "to \<noteq> 0"
  shows "ValidateBars (filterRange bars from to) = None
    \<and> (\<forall>b \<in> set (filterRange bars from to). from \<le> b_Ts b \<and> b_Ts b \<le> to)
    \<and> (\<forall>b \<in> set bars. b \<in> set (filterRange bars from to) \<or> b_Ts b < from \<or> to < b_Ts b)"
  using filterRange_valid [OF assms(1,2)] assms(3,4) by (auto simp: filterRange_def is_zero_def)

definition sample_bar :: "time \<Rightarrow> rat \<Rightarrow> Bar" where
  "sample_bar ts c = \<lparr>b_Ts = ts, b_Open = Fin c, b_High = Fin c, b_Low = Fin c, b_Close = Fin c, b_Volume = 0,
     b_Source = [], b_Adjusted = []\<rparr>"

theorem filter_range_valid_witness:
  "ValidateBars (filterRange [sample_bar 1 10, sample_bar 2 11, sample_bar 3 12] 2 3) = None"
proof -
  have "ValidateBars [sample_bar 1 10, sample_bar 2 11, sample_bar 3 12] = None"
    "filterRange [sample_bar 1 10, sample_bar 2 11, sample_bar 3 12] 2 3 \<noteq> []"
    by code_simp+
  from filter_range_valid [OF this] show ?thesis by simp
qed

end
