(* ===== verification/Backtest_State.thy ===== *)
theory Backtest_State
  imports Backtest_Fees Wheel_Quote
begin

text \<open>
  The portfolio state of \<^verbatim>\<open>internal/backtest/state.go\<close> and the position bookkeeping of
  \<^verbatim>\<open>internal/backtest/summary.go\<close> (\<open>applyStockPosition\<close>, \<open>mergeOptionPosition\<close>). A Go map is an
  association list whose order is the iteration order; a map that may be nil is an option.
  Counters are unbounded: a replay has far fewer than 2 ^ 63 bars.
\<close>

section \<open>Data\<close>

definition OptionCall :: string where
  "OptionCall = ''call''"

definition OptionPut :: string where
  "OptionPut = ''put''"

record OptionContract =
  oc_Code :: string
  oc_Kind :: string
  oc_Strike :: f64
  oc_Expiry :: time

record BtPosition =
  bp_Code :: string
  bp_Kind :: string
  bp_Strike :: f64
  bp_Expiry :: time
  bp_Lot :: int
  bp_Contracts :: f64
  bp_AvgPremium :: f64
  bp_MarketDelta :: f64
  bp_Delta :: f64
  bp_LotSize :: int

type_synonym OptionChain = "OptionContract gomap"
type_synonym OptionBars = "Bar list gomap"

record QuoteSnapshotBatch =
  qb_ObservedAt :: time
  qb_SnapshotKey :: string
  qb_Underlying :: string
  qb_UnderlyingPrice :: f64
  qb_Quotes :: "OptionQuote list"
  qb_IVRank :: f64
  qb_ExpiryOrder :: "int list"

record OptionsData =
  od_Bars :: "OptionBars option"
  od_Chain :: OptionChain
  od_RunSeed :: int
  od_QuoteBatches :: "QuoteSnapshotBatch list"
  od_Snapshots :: "QuoteSnapshotBatch list"
  od_QuoteSnapshots :: "QuoteSnapshotBatch list"

record State =
  st_Cash :: f64
  st_Position :: f64
  st_StockAverageCost :: f64
  st_Price :: f64
  st_Options :: "BtPosition gomap"
  st_Chain :: OptionChain
  st_OptBars :: "OptionBars option"
  st_OptPrice :: "f64 gomap"
  st_Pending :: "BtPosition option"
  st_QuoteBatch :: "QuoteSnapshotBatch option"
  st_Quotes :: "OptionQuote list"
  st_ObservedAt :: time
  st_SnapshotKey :: string
  st_DailyOrders :: int
  st_ExtremeDay :: bool
  st_AttemptCount :: int
  st_FillCount :: int
  st_UnfilledCount :: int
  st_AttemptsByContract :: "int gomap"
  st_ExpiryCount :: int
  st_ShortExpiryCount :: int
  st_AssignmentCount :: int
  st_PremiumIncome :: f64
  st_OptionCloseCost :: f64
  st_StockRealizedPnL :: f64
  st_UnfilledAttemptPremium :: f64

definition new_state :: "f64 \<Rightarrow> State" where
  "new_state cash = \<lparr>st_Cash = cash, st_Position = 0, st_StockAverageCost = 0, st_Price = 0, st_Options = [],
     st_Chain = [], st_OptBars = None, st_OptPrice = [], st_Pending = None, st_QuoteBatch = None, st_Quotes = [],
     st_ObservedAt = 0, st_SnapshotKey = [], st_DailyOrders = 0, st_ExtremeDay = False, st_AttemptCount = 0,
     st_FillCount = 0, st_UnfilledCount = 0, st_AttemptsByContract = [], st_ExpiryCount = 0, st_ShortExpiryCount = 0,
     st_AssignmentCount = 0, st_PremiumIncome = 0, st_OptionCloseCost = 0, st_StockRealizedPnL = 0,
     st_UnfilledAttemptPremium = 0\<rparr>"

section \<open>Reading the state\<close>

definition state_Equity :: "State \<Rightarrow> f64 \<Rightarrow> f64" where
  "state_Equity s price =
     foldl (\<lambda>eq p. eq + bp_Contracts p * of_int64 (bp_Lot p) * map_get 0 (st_OptPrice s) (bp_Code p))
       (st_Cash s + st_Position s * price) (map snd (st_Options s))"

text \<open>The scan stops at the first bar after the time.\<close>

definition latestBar :: "Bar list \<Rightarrow> time \<Rightarrow> Bar option" where
  "latestBar bars ts =
     (case takeWhile (\<lambda>b. \<not> ts < b_Ts b) bars of [] \<Rightarrow> None | b # bs \<Rightarrow> Some (last (b # bs)))"

definition state_PriceAt :: "State \<Rightarrow> string \<Rightarrow> time \<Rightarrow> f64 option" where
  "state_PriceAt s code ts =
     (let bars = (case st_OptBars s of None \<Rightarrow> [] | Some m \<Rightarrow> map_get [] m code)
      in map_option b_Close (latestBar bars ts))"

definition markOption :: "time \<Rightarrow> State \<Rightarrow> string \<Rightarrow> State" where
  "markOption ts st code =
     (case state_PriceAt st code ts of
        None \<Rightarrow> st | Some price \<Rightarrow> st\<lparr>st_OptPrice := map_put code price (st_OptPrice st)\<rparr>)"

definition markOptions :: "State \<Rightarrow> time \<Rightarrow> State" where
  "markOptions st ts = foldl (markOption ts) st (map fst (st_Options st))"

section \<open>Positions\<close>

definition sameSign :: "f64 \<Rightarrow> f64 \<Rightarrow> bool" where
  "sameSign a b \<longleftrightarrow> (0 < a \<and> 0 < b) \<or> (a < 0 \<and> b < 0)"

definition applyStockPosition :: "State \<Rightarrow> f64 \<Rightarrow> f64 \<Rightarrow> State" where
  "applyStockPosition st delta price =
     (let old = st_Position st; next = old + delta in
      if feq delta 0 then st
      else
        (let cost =
           (if feq old 0 \<or> sameSign old delta
            then (\<bar>old\<bar> * st_StockAverageCost st + \<bar>delta\<bar> * price) / \<bar>next\<bar>
            else if \<bar>delta\<bar> < \<bar>old\<bar> then st_StockAverageCost st
            else if feq \<bar>delta\<bar> \<bar>old\<bar> then 0
            else price)
         in st\<lparr>st_StockAverageCost := cost, st_Position := next\<rparr>))"

definition mergeOptionPosition :: "BtPosition \<Rightarrow> BtPosition \<Rightarrow> BtPosition" where
  "mergeOptionPosition old delta =
     (let n = bp_Contracts old + bp_Contracts delta;
          prem =
            (if feq n 0 then 0
             else if sameSign (bp_Contracts old) (bp_Contracts delta)
             then (\<bar>bp_Contracts old\<bar> * bp_AvgPremium old + \<bar>bp_Contracts delta\<bar> * bp_AvgPremium delta) / \<bar>n\<bar>
             else if \<bar>bp_Contracts delta\<bar> < \<bar>bp_Contracts old\<bar> then bp_AvgPremium old
             else bp_AvgPremium delta)
      in delta\<lparr>bp_Contracts := n, bp_AvgPremium := prem\<rparr>)"

text \<open>The contract multiplier of a leg: \<open>Lot\<close>, or \<open>LotSize\<close> where that is not set.\<close>

definition leg_lot :: "BtPosition \<Rightarrow> int" where
  "leg_lot p = (if bp_Lot p \<le> 0 then bp_LotSize p else bp_Lot p)"

section \<open>Lemmas\<close>

lemma latestBar_SomeD:
  assumes "latestBar bars ts = Some b"
  shows "b \<in> set bars" "b_Ts b \<le> ts"
proof -
  have "b \<in> set (takeWhile (\<lambda>b. \<not> ts < b_Ts b) bars)"
    using assms by (auto simp: latestBar_def split: list.splits if_splits)
  then show "b \<in> set bars" "b_Ts b \<le> ts" by (auto dest: set_takeWhileD)
qed

lemma latestBar_latest:
  assumes "sorted (map b_Ts bars)" "latestBar bars ts = Some b" "c \<in> set bars" "b_Ts c \<le> ts"
  shows "b_Ts c \<le> b_Ts b"
proof -
  let ?tw = "takeWhile (\<lambda>b. \<not> ts < b_Ts b) bars"
  have b: "?tw \<noteq> []" "b = last ?tw" using assms(2) by (auto simp: latestBar_def split: list.splits)
  have "?tw = filter (\<lambda>b. \<not> ts < b_Ts b) bars"
    using assms(1) by (induction bars) (auto intro!: filter_False [symmetric])
  then have "c \<in> set ?tw" using assms(3,4) by auto
  moreover have "sorted (map b_Ts ?tw)" using assms(1) by (simp add: sorted_wrt_takeWhile sorted_wrt_map)
  moreover obtain ys where "?tw = ys @ [b]" using b by (metis append_butlast_last_id)
  ultimately show ?thesis by (auto simp: sorted_append)
qed

text \<open>Fields that bookkeeping leaves alone.\<close>

lemma applyStockPosition_fields [simp]:
  "st_Cash (applyStockPosition st d p) = st_Cash st" "st_Options (applyStockPosition st d p) = st_Options st"
  "st_Price (applyStockPosition st d p) = st_Price st" "st_OptPrice (applyStockPosition st d p) = st_OptPrice st"
  "st_AttemptCount (applyStockPosition st d p) = st_AttemptCount st"
  "st_FillCount (applyStockPosition st d p) = st_FillCount st"
  "st_UnfilledCount (applyStockPosition st d p) = st_UnfilledCount st"
  "st_OptBars (applyStockPosition st d p) = st_OptBars st" "st_Chain (applyStockPosition st d p) = st_Chain st"
  "st_ExpiryCount (applyStockPosition st d p) = st_ExpiryCount st"
  "st_ShortExpiryCount (applyStockPosition st d p) = st_ShortExpiryCount st"
  "st_AssignmentCount (applyStockPosition st d p) = st_AssignmentCount st"
  "st_AttemptsByContract (applyStockPosition st d p) = st_AttemptsByContract st"
  by (simp_all add: applyStockPosition_def Let_def)

lemma applyStockPosition_Position:
  "st_Position (applyStockPosition st d p) = (if feq d 0 then st_Position st else st_Position st + d)"
  by (simp add: applyStockPosition_def Let_def)

lemma markOption_fields [simp]:
  "st_Options (markOption ts st c) = st_Options st" "st_OptBars (markOption ts st c) = st_OptBars st"
  "st_Cash (markOption ts st c) = st_Cash st" "st_Position (markOption ts st c) = st_Position st"
  by (simp_all add: markOption_def split: option.split)

end
