(* ===== verification/Backtest_Unfilled.thy ===== *)
theory Backtest_Unfilled
  imports Wheel_Quote "HOL-Library.Word"
begin

unbundle bit_operations_syntax

text \<open>
  The unfilled-attempt model of \<^verbatim>\<open>internal/backtest/unfilled.go\<close>: the liquidity heuristic, the hash
  and the finalizer that turn (seed, symbol, contract, bar time, attempt number) into a uniform
  draw. The hash is FNV-1a on 64-bit words over the bytes the code writes, the timestamp in the
  RFC 3339 form with nanoseconds.
\<close>

section \<open>The liquidity heuristic\<close>

definition modelKind :: string where
  "modelKind = ''heuristic''"

definition modelVersion :: string where
  "modelVersion = ''heuristic-1.0''"

definition defaultRunSeed :: int where
  "defaultRunSeed = 42"

definition UnfilledSpreadWeight :: f64 where
  "UnfilledSpreadWeight = lit (55/100)"

definition UnfilledVolumeWeight :: f64 where
  "UnfilledVolumeWeight = lit (30/100)"

definition UnfilledOIWeight :: f64 where
  "UnfilledOIWeight = lit (15/100)"

definition failFloor :: f64 where
  "failFloor = lit (5/100)"

definition failCap :: f64 where
  "failCap = lit (95/100)"

definition clamp :: "f64 \<Rightarrow> f64 \<Rightarrow> f64 \<Rightarrow> f64" where
  "clamp v lo hi = (if v < lo then lo else if hi < v then hi else v)"

definition bt_clamp01 :: "f64 \<Rightarrow> f64" where
  "bt_clamp01 v = clamp v 0 1"

definition failProb :: "f64 \<Rightarrow> f64 \<Rightarrow> int \<Rightarrow> int \<Rightarrow> f64" where
  "failProb bid ask vol oi =
     (let mid = (bid + ask) / Fin 2;
          liquidity = (if 0 < mid then bt_clamp01 (1 - (ask - bid) / mid) else 0);
          p = UnfilledSpreadWeight * (1 - liquidity) + UnfilledVolumeWeight * (Fin 100 / (of_int64 vol + Fin 100))
            + UnfilledOIWeight * (Fin 1000 / (of_int64 oi + Fin 1000))
      in clamp p failFloor failCap)"

definition unfilledModelLabel :: string where
  "unfilledModelLabel = modelKind @ ''/'' @ modelVersion"

section \<open>Timestamps as text\<close>

text \<open>The civil date of a day number (days since 1 January of year 1, proleptic Gregorian).\<close>

definition leap_year :: "int \<Rightarrow> bool" where
  "leap_year y \<longleftrightarrow> y mod 4 = 0 \<and> (y mod 100 \<noteq> 0 \<or> y mod 400 = 0)"

fun month_day :: "int list \<Rightarrow> int \<Rightarrow> int \<Rightarrow> int \<times> int" where
  "month_day [] m d = (m, d + 1)"
| "month_day (n # ns) m d = (if d < n then (m, d + 1) else month_day ns (m + 1) (d - n))"

definition month_lengths :: "int \<Rightarrow> int list" where
  "month_lengths y = [31, if leap_year y then 29 else 28, 31, 30, 31, 30, 31, 31, 30, 31, 30, 31]"

definition civil :: "int \<Rightarrow> int \<times> int \<times> int" where
  "civil d =
     (let n400 = d div 146097; r = d mod 146097;
          n100 = min 3 (r div 36524); r = r - 36524 * n100;
          n4 = r div 1461; r = r mod 1461;
          n1 = min 3 (r div 365); doy = r - 365 * n1;
          y = 400 * n400 + 100 * n100 + 4 * n4 + n1 + 1
      in (y, month_day (month_lengths y) 1 doy))"

fun strip_zeros :: "string \<Rightarrow> string" where
  "strip_zeros s = rev (dropWhile (\<lambda>c. c = CHR ''0'') (rev s))"

definition rfc3339_nano :: "time \<Rightarrow> string" where
  "rfc3339_nano t =
     (let (y, m, d) = civil (t div day_ns); ns = t mod day_ns;
          secs = ns div second_ns; frac = ns mod second_ns
      in pad_zero 4 (fmt_int y) @ ''-'' @ pad_zero 2 (fmt_int m) @ ''-'' @ pad_zero 2 (fmt_int d) @ ''T''
         @ pad_zero 2 (fmt_int (secs div 3600)) @ '':'' @ pad_zero 2 (fmt_int (secs div 60 mod 60)) @ '':''
         @ pad_zero 2 (fmt_int (secs mod 60))
         @ (if frac = 0 then [] else ''.'' @ strip_zeros (pad_zero 9 (fmt_int frac))) @ ''Z'')"

section \<open>The draw\<close>

type_synonym u64 = "64 word"

definition fnv_offset :: u64 where
  "fnv_offset = 14695981039346656037"

definition fnv_prime :: u64 where
  "fnv_prime = 1099511628211"

definition fnv1a_step :: "u64 \<Rightarrow> u64 \<Rightarrow> u64" where
  "fnv1a_step h b = (h XOR b) * fnv_prime"

definition fnv1a :: "u64 list \<Rightarrow> u64" where
  "fnv1a bs = foldl fnv1a_step fnv_offset bs"

definition bytes_of :: "string \<Rightarrow> u64 list" where
  "bytes_of s = map (\<lambda>c. of_nat (of_char c)) s"

definition be_bytes :: "u64 \<Rightarrow> u64 list" where
  "be_bytes w = map (\<lambda>k. drop_bit k w AND 255) [56, 48, 40, 32, 24, 16, 8, 0]"

definition mix64 :: "u64 \<Rightarrow> u64" where
  "mix64 x =
     (let x = x + 0x9e3779b97f4a7c15;
          x = (x XOR drop_bit 30 x) * 0xbf58476d1ce4e5b9;
          x = (x XOR drop_bit 27 x) * 0x94d049bb133111eb
      in x XOR drop_bit 31 x)"

definition attemptBytes :: "string \<Rightarrow> string \<Rightarrow> time \<Rightarrow> int \<Rightarrow> u64 list" where
  "attemptBytes symbol contract barTs attemptIndex =
     bytes_of symbol @ [0] @ bytes_of contract @ [0] @ bytes_of (rfc3339_nano barTs) @ [0] @ be_bytes (of_int attemptIndex)"

definition attemptDraw :: "int \<Rightarrow> string \<Rightarrow> string \<Rightarrow> time \<Rightarrow> int \<Rightarrow> f64" where
  "attemptDraw runSeed symbol contract barTs attemptIndex =
     (let mixed = mix64 (fnv1a (attemptBytes symbol contract barTs attemptIndex) XOR of_int runSeed)
      in round64 (of_int (uint (drop_bit 11 mixed))) * Fin (1 / 2 ^ 53))"

section \<open>Lemmas\<close>

lemma xorshift_inverse:
  fixes x :: u64
  assumes "64 \<le> 3 * k"
  shows "(x XOR drop_bit k x) XOR drop_bit k (x XOR drop_bit k x) XOR drop_bit (2 * k) (x XOR drop_bit k x) = x"
proof -
  have "drop_bit (k + (k + k)) x = 0" using assms by (intro drop_bit_word_beyond) simp
  then show ?thesis by (simp add: mult_2 add.assoc xor.assoc xor.left_commute xor.commute)
qed

lemma inj_xorshift: "64 \<le> 3 * k \<Longrightarrow> inj (\<lambda>x :: u64. x XOR drop_bit k x)"
  by (rule inj_on_inverseI [where g = "\<lambda>y. y XOR drop_bit k y XOR drop_bit (2 * k) y"]) (simp only: xorshift_inverse)

lemma inj_times_unit: "c * d = 1 \<Longrightarrow> inj (\<lambda>x :: u64. x * c)"
  by (rule inj_on_inverseI [where g = "\<lambda>y. y * d"]) (simp add: mult.assoc)

lemma mix64_steps:
  "mix64 = (\<lambda>x. x XOR drop_bit 31 x) \<circ> (\<lambda>x. x * 0x94d049bb133111eb) \<circ> (\<lambda>x. x XOR drop_bit 27 x)
     \<circ> (\<lambda>x. x * 0xbf58476d1ce4e5b9) \<circ> (\<lambda>x. x XOR drop_bit 30 x) \<circ> (\<lambda>x. x + 0x9e3779b97f4a7c15)"
  by (simp add: fun_eq_iff mix64_def Let_def)

text \<open>
  The finalizer is a bijection on 64-bit words, as its comment claims: different hash states never
  collapse.
\<close>

theorem mix64_bijective: "bij mix64"
proof -
  have "inj (\<lambda>x :: u64. x + 0x9e3779b97f4a7c15)" by (simp add: inj_def)
  moreover have "inj (\<lambda>x :: u64. x * 0xbf58476d1ce4e5b9)"
    by (rule inj_times_unit [where d = 10871156337175269513]) simp
  moreover have "inj (\<lambda>x :: u64. x * 0x94d049bb133111eb)"
    by (rule inj_times_unit [where d = 3573116690164977347]) simp
  moreover have "inj (\<lambda>x :: u64. x XOR drop_bit 30 x)" "inj (\<lambda>x :: u64. x XOR drop_bit 27 x)" "inj (\<lambda>x :: u64. x XOR drop_bit 31 x)"
    by (rule inj_xorshift; simp)+
  ultimately have "inj mix64" unfolding mix64_steps by (intro inj_compose)
  then show ?thesis by (simp add: bij_def finite_UNIV_inj_surj)
qed


lemma draw_value:
  "\<exists>k. attemptDraw runSeed symbol contract barTs attemptIndex = Fin (of_int k / 2 ^ 53) \<and> 0 \<le> k \<and> k < 2 ^ 53"
proof -
  define w where "w = drop_bit 11 (mix64 (fnv1a (attemptBytes symbol contract barTs attemptIndex) XOR of_int runSeed))"
  have "uint w = uint (mix64 (fnv1a (attemptBytes symbol contract barTs attemptIndex) XOR of_int runSeed)) div 2 ^ 11"
    by (simp add: w_def drop_bit_eq_div uint_div_distrib)
  moreover have "uint (mix64 (fnv1a (attemptBytes symbol contract barTs attemptIndex) XOR of_int runSeed)) < 2 ^ 64"
    using uint_bounded [of "mix64 (fnv1a (attemptBytes symbol contract barTs attemptIndex) XOR of_int runSeed)"] by simp
  ultimately have "uint w < 2 ^ 53" by simp
  then have k: "0 \<le> uint w" "uint w < 2 ^ 53" using unsigned_greater_eq by blast+
  then obtain n where n: "uint w = n" "0 \<le> n" "n < 2 ^ 53" by blast
  then have "of_int64 n = Fin (of_int n)" by (intro of_int64_exact) simp
  moreover have "round64 (of_int n * (1 / 2 ^ 53)) = Fin (of_int n * (1 / 2 ^ 53))"
  proof -
    have "(of_int n :: rat) \<le> of_int (2 ^ 53)" using n(3) by (simp only: of_int_le_iff)
    then have b: "0 \<le> of_int n * (1 / 2 ^ 53 :: rat)" "of_int n * (1 / 2 ^ 53 :: rat) \<le> 1" using n(2) by simp_all
    have r: "rnd (of_int n * (1 / 2 ^ 53)) = of_int n * (1 / 2 ^ 53)"
      using rnd_exact [of n "- 53"] n by (simp add: pow2_def)
    have rep: "is_f64 (Fin 0)" "is_f64 (Fin 1)" using is_f64_int [of 0] is_f64_int [of 1] by simp_all
    show ?thesis by (rule round64_between [OF rep b]) (simp only: r)
  qed
  ultimately show ?thesis
    using n(2,3) unfolding attemptDraw_def Let_def w_def [symmetric] n(1) of_int64_def by (intro exI [of _ n]) simp
qed

lemma weights:
  "\<exists>w. UnfilledSpreadWeight = Fin w \<and> is_f64 (Fin w) \<and> 0 \<le> w \<and> w \<le> 1"
  "\<exists>w. UnfilledVolumeWeight = Fin w \<and> is_f64 (Fin w) \<and> 0 \<le> w \<and> w \<le> 1"
  "\<exists>w. UnfilledOIWeight = Fin w \<and> is_f64 (Fin w) \<and> 0 \<le> w \<and> w \<le> 1"
  "\<exists>lo hi. failFloor = Fin lo \<and> failCap = Fin hi \<and> 0 < lo \<and> lo < hi \<and> hi < 1"
proof -
  have e: "UnfilledSpreadWeight = Fin (2476979795053773 / 4503599627370496)"
    "UnfilledVolumeWeight = Fin (5404319552844595 / 18014398509481984)"
    "UnfilledOIWeight = Fin (5404319552844595 / 36028797018963968)"
    "failFloor = Fin (3602879701896397 / 72057594037927936)" "failCap = Fin (4278419646001971 / 4503599627370496)"
    by code_simp+
  have r: "is_f64 UnfilledSpreadWeight" "is_f64 UnfilledVolumeWeight" "is_f64 UnfilledOIWeight"
    by (simp_all add: UnfilledSpreadWeight_def UnfilledVolumeWeight_def UnfilledOIWeight_def)
  show "\<exists>w. UnfilledSpreadWeight = Fin w \<and> is_f64 (Fin w) \<and> 0 \<le> w \<and> w \<le> 1"
    "\<exists>w. UnfilledVolumeWeight = Fin w \<and> is_f64 (Fin w) \<and> 0 \<le> w \<and> w \<le> 1"
    "\<exists>w. UnfilledOIWeight = Fin w \<and> is_f64 (Fin w) \<and> 0 \<le> w \<and> w \<le> 1"
    using e r by auto
  show "\<exists>lo hi. failFloor = Fin lo \<and> failCap = Fin hi \<and> 0 < lo \<and> lo < hi \<and> hi < 1"
    unfolding e by (intro exI conjI, rule refl, rule refl) simp_all
qed

lemma unit64_weighted:
  assumes "\<exists>w. x = Fin w \<and> is_f64 (Fin w) \<and> 0 \<le> w \<and> w \<le> 1" "unit64 u"
  shows "unit64 (x * u)"
proof -
  obtain w v where wv: "x = Fin w" "is_f64 (Fin w)" "0 \<le> w" "w \<le> 1" "u = Fin v" "0 \<le> v" "v \<le> 1"
    using assms by (auto simp: unit64_iff)
  show ?thesis by (rule mult_unit [OF wv(2,3,6,7)]) (use wv in \<open>auto simp: unit64_iff\<close>)
qed

lemma unit64_complement:
  assumes "unit64 u"
  shows "unit64 (1 - u)"
proof -
  obtain v where v: "u = Fin v" "0 \<le> v" "v \<le> 1" using assms by (auto simp: unit64_iff)
  show ?thesis by (rule one_minus_unit [OF v(2,3)]) (use v in \<open>auto simp: unit64_iff\<close>)
qed

lemma unit64_inverse_share:
  assumes "0 \<le> n" "0 < c" "is_f64 (Fin c)"
  shows "unit64 (Fin c / (of_int64 n + Fin c))"
proof -
  have "0 \<le> of_int64 n" using assms(1) by (rule of_int64_nonneg)
  then consider m where "of_int64 n = Fin m" "0 \<le> m" | "of_int64 n = PInf" by (cases "of_int64 n") (auto simp: zero_f64_def)
  then show ?thesis
  proof cases
    case 1
    have rep: "is_f64 (Fin m)" using 1 by (metis of_int64_def is_f64_round64)
    show ?thesis
    proof (cases "m + c" rule: round64_cases)
      case fin
      have "rnd c \<le> rnd (m + c)" using 1 by (intro rnd_mono) simp
      then have "c \<le> rnd (m + c)" using assms(3) by (simp add: is_f64_Fin)
      then have "0 \<le> c" "c \<le> rnd (m + c)" "0 < rnd (m + c)" using assms(2) by auto
      then show ?thesis by (rule div_unit) (use fin 1 in \<open>simp add: unit64_iff\<close>)
    next
      case pinf
      then show ?thesis using 1 by (simp add: unit64_iff)
    next
      case ninf
      have "0 \<le> rnd (m + c)" using 1 assms by (intro rnd_nonneg) simp
      then show ?thesis using ninf by simp
    qed
  next
    case 2
    then show ?thesis by (simp add: unit64_iff)
  qed
qed

lemma unit64_liquidity:
  assumes "is_f64 (Fin b)" "is_f64 (Fin a)" "0 \<le> b" "0 \<le> a"
  shows "unit64 (if 0 < (Fin b + Fin a) / Fin 2 then bt_clamp01 (1 - (Fin a - Fin b) / ((Fin b + Fin a) / Fin 2)) else 0)"
proof (cases "0 < (Fin b + Fin a) / Fin 2")
  case True
  let ?m = "(Fin b + Fin a) / Fin 2"
  have "\<exists>s. Fin a - Fin b = Fin s"
  proof -
    have "is_f64 (Fin (- b))" using assms(1) by simp
    then show ?thesis by (rule round64_between [of "- b" a "a - b"]) (use assms in \<open>auto simp: minus_Fin\<close>)
  qed
  moreover have "(\<exists>m. ?m = Fin m \<and> 0 < m) \<or> ?m = PInf" using True by (cases ?m) (auto simp: zero_f64_def)
  ultimately have "\<not> is_nan ((Fin a - Fin b) / ?m)" by (auto simp: not_nan_round64)
  then have "\<not> is_nan (1 - (Fin a - Fin b) / ?m)"
    by (cases "(Fin a - Fin b) / ?m") (auto simp: minus_f64_def one_f64_def)
  then have "unit64 (clamp01 (1 - (Fin a - Fin b) / ?m))" by (rule unit64_clamp01)
  then show ?thesis using True by (simp add: bt_clamp01_def clamp_def clamp01_def)
qed (simp add: unit64_iff zero_f64_def)

text \<open>
  The two numbers an attempt compares are what the model says: the draw is one of the 2^53
  equidistant values in [0, 1), and the unfilled probability lies between the floor and the
  cap, for every pair of non-negative prices and every volume and open interest - so no sell
  attempt is certain to fill or certain to fail by the heuristic alone.
\<close>

theorem unfilled_draw_and_probability:
  assumes "is_f64 bid" and "is_f64 ask" and "finite64 bid" and "finite64 ask" and "0 \<le> bid" and "0 \<le> ask"
    and "0 \<le> vol" and "0 \<le> oi"
  shows "(\<exists>k. attemptDraw runSeed symbol contract barTs attemptIndex = Fin (of_int k / 2 ^ 53) \<and> 0 \<le> k \<and> k < 2 ^ 53)
    \<and> failFloor \<le> failProb bid ask vol oi \<and> failProb bid ask vol oi \<le> failCap"
proof -
  obtain b a where e: "bid = Fin b" "ask = Fin a" using assms(3,4) unfolding finite64_iff by blast
  have ba: "bid = Fin b" "ask = Fin a" "0 \<le> b" "0 \<le> a"
    using e assms(5,6) unfolding zero_f64_def by simp_all
  define liq where "liq = (if 0 < (bid + ask) / Fin 2 then bt_clamp01 (1 - (ask - bid) / ((bid + ask) / Fin 2)) else 0)"
  have l: "unit64 liq" unfolding liq_def ba(1,2)
    by (rule unit64_liquidity [OF assms(1,2) [unfolded e] ba(3,4)])
  have u1: "unit64 (UnfilledSpreadWeight * (1 - liq))"
    by (rule unit64_weighted [OF weights(1) unit64_complement [OF l]])
  have rep: "is_f64 (Fin 100)" "is_f64 (Fin 1000)" using is_f64_int [of 100] is_f64_int [of 1000] by simp_all
  have u2: "unit64 (UnfilledVolumeWeight * (Fin 100 / (of_int64 vol + Fin 100)))"
    by (rule unit64_weighted [OF weights(2) unit64_inverse_share [OF assms(7) _ rep(1)]]) simp
  have u3: "unit64 (UnfilledOIWeight * (Fin 1000 / (of_int64 oi + Fin 1000)))"
    by (rule unit64_weighted [OF weights(3) unit64_inverse_share [OF assms(8) _ rep(2)]]) simp
  obtain x where x: "UnfilledSpreadWeight * (1 - liq) = Fin x" "0 \<le> x" "x \<le> of_int 1"
    using u1 by (simp only: unit64_iff of_int_1) blast
  obtain y where y: "UnfilledVolumeWeight * (Fin 100 / (of_int64 vol + Fin 100)) = Fin y" "0 \<le> y" "y \<le> of_int 1"
    using u2 by (simp only: unit64_iff of_int_1) blast
  obtain v where v: "UnfilledOIWeight * (Fin 1000 / (of_int64 oi + Fin 1000)) = Fin v" "0 \<le> v" "v \<le> of_int 1"
    using u3 by (simp only: unit64_iff of_int_1) blast
  obtain s where s: "Fin x + Fin y = Fin s" "0 \<le> s" "s \<le> of_int (1 + 1)"
    by (rule plus_bounded [OF x(2,3) y(2,3)]) (simp, assumption)
  obtain p where p: "Fin s + Fin v = Fin p" by (rule plus_bounded [OF s(2,3) v(2,3)]) (simp, assumption)
  have fp: "failProb bid ask vol oi = clamp (Fin p) failFloor failCap"
    unfolding failProb_def Let_def liq_def [symmetric] x(1) y(1) v(1) s(1) p ..
  obtain lo hi where c: "failFloor = Fin lo" "failCap = Fin hi" "lo < hi" using weights(4) by auto
  have "failFloor \<le> failProb bid ask vol oi \<and> failProb bid ask vol oi \<le> failCap"
    unfolding fp clamp_def c(1,2) using c(3) by (cases "p < lo"; cases "hi < p") simp_all
  with draw_value [of runSeed symbol contract barTs attemptIndex] show ?thesis by (rule conjI)
qed

theorem unfilled_draw_and_probability_witness:
  "failFloor \<le> failProb (Fin 1) (Fin (5/4)) 100 0 \<and> failProb (Fin 1) (Fin (5/4)) 100 0 \<le> failCap"
proof -
  have "is_f64 (Fin 1)" "is_f64 (Fin (5/4))" by code_simp+
  from unfilled_draw_and_probability [OF this] show ?thesis by (simp add: zero_f64_def)
qed

text \<open>The text of a timestamp, as Go prints it.\<close>

lemma rfc3339_examples:
  "rfc3339_nano 0 = ''0001-01-01T00:00:00Z''"
  "rfc3339_nano (730178 * day_ns + 86399 * second_ns + 500) = ''2000-02-29T23:59:59.0000005Z''"
  "rfc3339_nano (739113 * day_ns + 6 * hour_ns) = ''2024-08-16T06:00:00Z''"
  by code_simp+

end
