(* ===== verification/Backtest_Settle.thy ===== *)
theory Backtest_Settle
  imports Backtest_State Backtest_Unfilled
begin

text \<open>
  Settlement, from \<^verbatim>\<open>internal/backtest/backtest.go\<close>: the trades of a bar (\<open>settleAction\<close>,
  \<open>settleOptionTrade\<close> with the sampled sell attempts and the cash reserve of short puts) and the
  expiry of option legs (\<open>settleExpired\<close>). Errors are values that carry what the messages print;
  every error is returned before the state changes.
\<close>

section \<open>Data\<close>

record Trade =
  t_Ts :: time
  t_Action :: string
  t_Symbol :: string
  t_Size :: f64
  t_Price :: f64
  t_CashAfter :: f64
  t_Fee :: f64
  t_Filled :: bool
  t_UnfilledModel :: string

definition new_trade :: "time \<Rightarrow> string \<Rightarrow> f64 \<Rightarrow> Trade" where
  "new_trade ts action cashAfter = \<lparr>t_Ts = ts, t_Action = action, t_Symbol = [], t_Size = 0, t_Price = 0,
     t_CashAfter = cashAfter, t_Fee = 0, t_Filled = False, t_UnfilledModel = []\<rparr>"

datatype SettleError =
    BuyExceedsCash f64 f64 f64 | SellExceedsPosition f64 f64 | UnknownAction string
  | SizeNotPositive string f64 | NoPending string | PendingKind string string string
  | PendingIncomplete string string f64 time int | NoOptionPrice string string time
  | CostExceedsCash string f64 f64 f64 f64 | ReserveExceedsCash f64 f64 f64

definition buyTol :: f64 where
  "buyTol = lit (1 / 10 ^ 9)"

section \<open>Option trades\<close>

definition shortPutLeg :: "BtPosition \<Rightarrow> f64 option" where
  "shortPutLeg p =
     (if bp_Kind p \<noteq> OptionPut \<or> 0 \<le> bp_Contracts p \<or> bp_Strike p \<le> 0 then None
      else if 0 < leg_lot p then Some (- bp_Contracts p * bp_Strike p * of_int64 (leg_lot p)) else None)"

definition shortPutCashReserve :: "BtPosition gomap \<Rightarrow> f64" where
  "shortPutCashReserve positions =
     foldl (\<lambda>reserve p. case shortPutLeg p of None \<Rightarrow> reserve | Some x \<Rightarrow> reserve + x) 0 (map snd positions)"

fun findQuote :: "OptionQuote list \<Rightarrow> string \<Rightarrow> (f64 \<times> f64 \<times> int \<times> int) option" where
  "findQuote [] code = None"
| "findQuote (q # qs) code =
     (if (if q_Symbol q = [] then q_Code q else q_Symbol q) = code
      then Some (q_Bid q, q_Ask q, q_Volume q, q_OpenInterest q) else findQuote qs code)"

definition fillQuote :: "State \<Rightarrow> string \<Rightarrow> f64 \<times> f64 \<times> int \<times> int \<times> bool" where
  "fillQuote st code =
     (let quotes = (case st_QuoteBatch st of None \<Rightarrow> st_Quotes st | Some b \<Rightarrow> qb_Quotes b) in
      case findQuote quotes code of
        Some (bid, ask, vol, oi) \<Rightarrow> (bid, ask, vol, oi, True)
      | None \<Rightarrow> (0, 0, 0, 0, False))"

definition isSell :: "BtAction \<Rightarrow> bool" where
  "isSell act \<longleftrightarrow> act = ActSellCall \<or> act = ActSellPut"

definition wantKind :: "BtAction \<Rightarrow> string" where
  "wantKind act = (if act = ActSellPut \<or> act = ActBuyPut then OptionPut else OptionCall)"

text \<open>The cash flow of the trade before the fee, and the signed number of contracts.\<close>

definition signedContracts :: "BtAction \<Rightarrow> f64 \<Rightarrow> f64" where
  "signedContracts act sz = (if isSell act then - 1 else 1) * sz"

definition optionFlow :: "BtAction \<Rightarrow> f64 \<Rightarrow> BtPosition \<Rightarrow> f64" where
  "optionFlow act sz p = - signedContracts act sz * bp_AvgPremium p * of_int64 (leg_lot p)"

definition checkOptionTrade ::
  "State \<Rightarrow> BtAction \<Rightarrow> f64 \<Rightarrow> Bar \<Rightarrow> FeeModel \<Rightarrow> SettleError + (BtPosition \<times> f64)" where
  "checkOptionTrade st act sz b feeModel =
     (let name = action_String act in
      if sz \<le> 0 then Inl (SizeNotPositive name sz)
      else case st_Pending st of
        None \<Rightarrow> Inl (NoPending name)
      | Some p \<Rightarrow>
          if bp_Kind p \<noteq> wantKind act then Inl (PendingKind name (bp_Kind p) (wantKind act))
          else if bp_Code p = [] \<or> bp_Strike p \<le> 0 \<or> is_zero (bp_Expiry p) \<or> leg_lot p \<le> 0
          then Inl (PendingIncomplete name (bp_Code p) (bp_Strike p) (bp_Expiry p) (bp_Lot p))
          else case state_PriceAt st (bp_Code p) (b_Ts b) of
            None \<Rightarrow> Inl (NoOptionPrice name (bp_Code p) (b_Ts b))
          | Some price \<Rightarrow>
              (let flow = optionFlow act sz p; fee = fee_fee feeModel name sz; netFlow = flow - fee;
                   reserve = shortPutCashReserve (st_Options st) + sz * of_int64 (leg_lot p) * bp_Strike p in
               if flow < 0 \<and> st_Cash st + netFlow < - buyTol
               then Inl (CostExceedsCash name sz (- flow) fee (st_Cash st))
               else if act = ActSellPut \<and> st_Cash st + netFlow < reserve
               then Inl (ReserveExceedsCash sz reserve (st_Cash st + netFlow))
               else Inr (p, price)))"

text \<open>A sell attempt is counted and sampled; the flag says that it stays unfilled.\<close>

definition countAttempt :: "State \<Rightarrow> BtPosition \<Rightarrow> State" where
  "countAttempt st p =
     st\<lparr>st_DailyOrders := st_DailyOrders st + 1, st_AttemptCount := st_AttemptCount st + 1,
        st_AttemptsByContract := map_put (bp_Code p) (map_get 0 (st_AttemptsByContract st) (bp_Code p) + 1) (st_AttemptsByContract st)\<rparr>"

definition attemptUnfilled :: "State \<Rightarrow> BtPosition \<Rightarrow> Bar \<Rightarrow> int \<Rightarrow> bool" where
  "attemptUnfilled st p b seed =
     (let under = (case st_QuoteBatch st of None \<Rightarrow> [] | Some qb \<Rightarrow> qb_Underlying qb);
          (bid, ask, vol, oi, ok) = fillQuote st (bp_Code p)
      in attemptDraw seed under (bp_Code p) (b_Ts b) (map_get 0 (st_AttemptsByContract st) (bp_Code p))
           < failProb bid ask vol oi)"

definition bookFill ::
  "State \<Rightarrow> BtAction \<Rightarrow> f64 \<Rightarrow> Bar \<Rightarrow> FeeModel \<Rightarrow> Trade list \<Rightarrow> BtPosition \<Rightarrow> f64 \<Rightarrow> State \<times> Trade list" where
  "bookFill st act sz b feeModel trades p price =
     (let name = action_String act; lot = leg_lot p; fee = fee_fee feeModel name sz;
          netFlow = optionFlow act sz p - fee;
          pos = \<lparr>bp_Code = bp_Code p, bp_Kind = bp_Kind p, bp_Strike = bp_Strike p, bp_Expiry = bp_Expiry p, bp_Lot = lot,
                 bp_Contracts = signedContracts act sz, bp_AvgPremium = bp_AvgPremium p, bp_MarketDelta = bp_MarketDelta p,
                 bp_Delta = bp_Delta p, bp_LotSize = lot\<rparr>;
          pos = (case map_of (st_Options st) (bp_Code p) of Some old \<Rightarrow> mergeOptionPosition old pos | None \<Rightarrow> pos);
          st = st\<lparr>st_Cash := st_Cash st + netFlow\<rparr>;
          trades = trades @ [(new_trade (b_Ts b) name (st_Cash st))\<lparr>t_Symbol := bp_Code p, t_Size := sz,
                     t_Price := bp_AvgPremium p, t_Fee := fee, t_Filled := True\<rparr>];
          st = (if feq (bp_Contracts pos) 0 then st\<lparr>st_Options := map_delete (bp_Code p) (st_Options st)\<rparr>
                else st\<lparr>st_Options := map_put (bp_Code p) pos (st_Options st)\<rparr>);
          st = st\<lparr>st_OptPrice := map_put (bp_Code p) price (st_OptPrice st), st_Pending := None\<rparr>
      in (st, trades))"

definition settleOptionTrade ::
  "State \<Rightarrow> BtAction \<Rightarrow> f64 \<Rightarrow> Bar \<Rightarrow> FeeModel \<Rightarrow> int \<Rightarrow> Trade list \<Rightarrow> SettleError + (State \<times> Trade list)" where
  "settleOptionTrade st act sz b feeModel seed trades =
     (case checkOptionTrade st act sz b feeModel of
        Inl err \<Rightarrow> Inl err
      | Inr (p, price) \<Rightarrow>
          (let prem = sz * bp_AvgPremium p * of_int64 (leg_lot p) in
           if isSell act then
             (let st = countAttempt st p in
              if attemptUnfilled st p b seed then
                Inr (st\<lparr>st_UnfilledCount := st_UnfilledCount st + 1,
                        st_UnfilledAttemptPremium := st_UnfilledAttemptPremium st + prem, st_Pending := None\<rparr>,
                     trades @ [(new_trade (b_Ts b) (action_String act) (st_Cash st))\<lparr>t_Symbol := bp_Code p, t_Size := sz,
                                  t_Price := bp_AvgPremium p, t_UnfilledModel := unfilledModelLabel\<rparr>])
              else Inr (bookFill (st\<lparr>st_FillCount := st_FillCount st + 1, st_PremiumIncome := st_PremiumIncome st + prem\<rparr>)
                          act sz b feeModel trades p price))
           else Inr (bookFill (st\<lparr>st_OptionCloseCost := st_OptionCloseCost st + prem\<rparr>) act sz b feeModel trades p price)))"

section \<open>One bar's action\<close>

definition settleAction ::
  "State \<Rightarrow> BtAction \<Rightarrow> f64 \<Rightarrow> Bar \<Rightarrow> FeeModel \<Rightarrow> int \<Rightarrow> Trade list \<Rightarrow> SettleError + (State \<times> Trade list)" where
  "settleAction st act sz b feeModel seed trades =
     (case act of
        ActHold \<Rightarrow> Inr (st, trades)
      | ActBuy \<Rightarrow>
          if sz < 0 \<or> st_Cash st + buyTol < sz * b_Close b then Inl (BuyExceedsCash sz (b_Close b) (st_Cash st))
          else (let fee = fee_fee feeModel ''buy'' sz;
                    st = st\<lparr>st_Cash := st_Cash st - (sz * b_Close b + fee)\<rparr>;
                    st = applyStockPosition st sz (b_Close b)
                in Inr (st, trades @ [(new_trade (b_Ts b) ''buy'' (st_Cash st))\<lparr>t_Size := sz, t_Price := b_Close b,
                                         t_Fee := fee, t_Filled := True\<rparr>]))
      | ActSell \<Rightarrow>
          if sz < 0 \<or> st_Position st + buyTol < sz then Inl (SellExceedsPosition sz (st_Position st))
          else (let fee = fee_fee feeModel ''sell'' sz;
                    st = st\<lparr>st_Cash := st_Cash st + (sz * b_Close b - fee),
                            st_StockRealizedPnL := st_StockRealizedPnL st + sz * (b_Close b - st_StockAverageCost st)\<rparr>;
                    st = applyStockPosition st (- sz) (b_Close b)
                in Inr (st, trades @ [(new_trade (b_Ts b) ''sell'' (st_Cash st))\<lparr>t_Size := sz, t_Price := b_Close b,
                                         t_Fee := fee, t_Filled := True\<rparr>]))
      | ActOther n \<Rightarrow> Inl (UnknownAction (action_String act))
      | _ \<Rightarrow> settleOptionTrade st act sz b feeModel seed trades)"

section \<open>Expiry\<close>

text \<open>Shares that a delivery lacks are bought in at the market before it.\<close>

definition buyIn :: "State \<Rightarrow> time \<Rightarrow> FeeModel \<Rightarrow> Trade list \<Rightarrow> string \<Rightarrow> f64 \<Rightarrow> State \<times> Trade list" where
  "buyIn st ts feeModel trades code deliver =
     (let gap = deliver - st_Position st in
      if 0 < gap then
        (let fee = fee_fee feeModel ''exercise-buyin'' gap;
             st = st\<lparr>st_Cash := st_Cash st - (gap * st_Price st + fee)\<rparr>;
             st = applyStockPosition st gap (st_Price st)
         in (st, trades @ [(new_trade ts ''exercise-buyin'' (st_Cash st))\<lparr>t_Symbol := code, t_Size := gap,
                              t_Price := st_Price st, t_Fee := fee\<rparr>]))
      else (st, trades))"

definition deliverOut :: "State \<Rightarrow> time \<Rightarrow> FeeModel \<Rightarrow> Trade list \<Rightarrow> string \<Rightarrow> f64 \<Rightarrow> f64 \<Rightarrow> State \<times> Trade list" where
  "deliverOut st ts feeModel trades code deliver strike =
     (case buyIn st ts feeModel trades code deliver of (st, trades) \<Rightarrow>
        (st\<lparr>st_StockRealizedPnL := st_StockRealizedPnL st + deliver * (strike - st_StockAverageCost st)\<rparr>, trades))"

definition countAssignment :: "State \<Rightarrow> BtPosition \<Rightarrow> State" where
  "countAssignment st p = (if bp_Contracts p < 0 then st\<lparr>st_AssignmentCount := st_AssignmentCount st + 1\<rparr> else st)"

definition exerciseCall :: "State \<Rightarrow> time \<Rightarrow> FeeModel \<Rightarrow> Trade list \<Rightarrow> string \<Rightarrow> BtPosition \<Rightarrow> f64 \<Rightarrow> State \<times> Trade list" where
  "exerciseCall st ts feeModel trades code p shares =
     (let st = countAssignment st p;
          (st, trades) = (if shares < 0 then deliverOut st ts feeModel trades code (- shares) (bp_Strike p) else (st, trades));
          st = applyStockPosition st shares (bp_Strike p);
          fee = fee_fee feeModel ''exercise-call'' shares;
          st = st\<lparr>st_Cash := st_Cash st - (shares * bp_Strike p + fee)\<rparr>
      in (st, trades @ [(new_trade ts ''exercise-call'' (st_Cash st))\<lparr>t_Symbol := code, t_Size := shares,
                           t_Price := bp_Strike p, t_Fee := fee\<rparr>]))"

definition exercisePut :: "State \<Rightarrow> time \<Rightarrow> FeeModel \<Rightarrow> Trade list \<Rightarrow> string \<Rightarrow> BtPosition \<Rightarrow> f64 \<Rightarrow> State \<times> Trade list" where
  "exercisePut st ts feeModel trades code p shares =
     (let st = countAssignment st p;
          (st, trades) = (if 0 < bp_Contracts p then deliverOut st ts feeModel trades code shares (bp_Strike p) else (st, trades));
          st = applyStockPosition st (- shares) (bp_Strike p);
          fee = fee_fee feeModel ''exercise-put'' shares;
          st = st\<lparr>st_Cash := st_Cash st + (shares * bp_Strike p - fee)\<rparr>
      in (st, trades @ [(new_trade ts ''exercise-put'' (st_Cash st))\<lparr>t_Symbol := code, t_Size := shares,
                           t_Price := bp_Strike p, t_Fee := fee\<rparr>]))"

definition expireOtm :: "State \<Rightarrow> time \<Rightarrow> Trade list \<Rightarrow> string \<Rightarrow> State \<times> Trade list" where
  "expireOtm st ts trades code = (st, trades @ [(new_trade ts ''expire-otm'' (st_Cash st))\<lparr>t_Symbol := code\<rparr>])"

definition settleLeg :: "time \<Rightarrow> FeeModel \<Rightarrow> State \<times> Trade list \<Rightarrow> string \<Rightarrow> State \<times> Trade list" where
  "settleLeg ts feeModel acc code =
     (case acc of (st, trades) \<Rightarrow>
      (case map_of (st_Options st) code of
         None \<Rightarrow> (st, trades)
       | Some p \<Rightarrow>
           (let shares = bp_Contracts p * of_int64 (leg_lot p);
                st = st\<lparr>st_ExpiryCount := st_ExpiryCount st + 1\<rparr>;
                st = (if bp_Contracts p < 0 then st\<lparr>st_ShortExpiryCount := st_ShortExpiryCount st + 1\<rparr> else st);
                (st, trades) =
                  (if bp_Kind p = OptionCall then
                     (if bp_Strike p < st_Price st then exerciseCall st ts feeModel trades code p shares
                      else expireOtm st ts trades code)
                   else if bp_Kind p = OptionPut then
                     (if st_Price st < bp_Strike p then exercisePut st ts feeModel trades code p shares
                      else expireOtm st ts trades code)
                   else (st, trades))
            in (st\<lparr>st_Options := map_delete code (st_Options st)\<rparr>, trades))))"

definition expiredCodes :: "State \<Rightarrow> time \<Rightarrow> string list" where
  "expiredCodes st ts = slice_stable (<) (map fst (filter (\<lambda>(code, p). \<not> ts < bp_Expiry p) (st_Options st)))"

definition settleExpired :: "State \<Rightarrow> time \<Rightarrow> FeeModel \<Rightarrow> Trade list \<Rightarrow> State \<times> Trade list" where
  "settleExpired st ts feeModel trades = foldl (settleLeg ts feeModel) (st, trades) (expiredCodes st ts)"

end
