(* ===== verification/Backtest_Report.thy ===== *)
theory Backtest_Report
  imports Backtest_Settle Wheel_Evaluate
begin

text \<open>
  What a replay reports: the fee summary and the choice of the quote batch of
  \<^verbatim>\<open>internal/backtest/backtest.go\<close>, and the terminal summary, the attribution of profit and the
  data-quality summary of \<^verbatim>\<open>internal/backtest/summary.go\<close>.
\<close>

section \<open>Fee summary\<close>

record FeeSummary =
  fs_Included :: bool
  fs_Legacy :: bool
  fs_PerTrade :: f64
  fs_OptionPerContract :: f64
  fs_StockPerLot :: f64
  fs_LotSize :: int
  fs_OptionContracts :: f64
  fs_StockLots :: f64
  fs_ExerciseDeliveryLots :: f64
  fs_TotalAmount :: f64
  fs_StockAmount :: f64
  fs_OptionAmount :: f64
  fs_ExerciseDeliveryAmount :: f64
  fs_ChargedTradeCount :: int
  fs_OptionTradeCount :: int
  fs_StockTradeCount :: int
  fs_ExerciseDeliveryTradeCount :: int

definition feeBearingTrade :: "Trade \<Rightarrow> bool" where
  "feeBearingTrade tr =
     (if t_UnfilledModel tr \<noteq> [] \<and> \<not> t_Filled tr then False
      else isActiveTrade (t_Action tr) \<or> isExerciseTrade (t_Action tr))"

definition absTradeSize :: "f64 \<Rightarrow> f64" where
  "absTradeSize sz = \<bar>sz\<bar>"

definition addFee :: "FeeSummary \<Rightarrow> Trade \<Rightarrow> FeeSummary" where
  "addFee fees tr =
     (if \<not> feeBearingTrade tr then fees
      else
        (let fees = fees\<lparr>fs_ChargedTradeCount := fs_ChargedTradeCount fees + 1, fs_TotalAmount := fs_TotalAmount fees + t_Fee tr\<rparr> in
         if isExerciseTrade (t_Action tr) then
           fees\<lparr>fs_StockAmount := fs_StockAmount fees + t_Fee tr,
                fs_ExerciseDeliveryAmount := fs_ExerciseDeliveryAmount fees + t_Fee tr,
                fs_ExerciseDeliveryLots := fs_ExerciseDeliveryLots fees + stockLots (t_Size tr) (fs_LotSize fees),
                fs_ExerciseDeliveryTradeCount := fs_ExerciseDeliveryTradeCount fees + 1\<rparr>
         else if isStockTrade (t_Action tr) then
           fees\<lparr>fs_StockAmount := fs_StockAmount fees + t_Fee tr,
                fs_StockLots := fs_StockLots fees + stockLots (t_Size tr) (fs_LotSize fees),
                fs_StockTradeCount := fs_StockTradeCount fees + 1\<rparr>
         else if isOptionTrade (t_Action tr) then
           fees\<lparr>fs_OptionAmount := fs_OptionAmount fees + t_Fee tr,
                fs_OptionContracts := fs_OptionContracts fees + absTradeSize (t_Size tr),
                fs_OptionTradeCount := fs_OptionTradeCount fees + 1\<rparr>
         else fees))"

definition summarizeFees :: "Trade list \<Rightarrow> FeeModel \<Rightarrow> FeeSummary" where
  "summarizeFees trades feeModel =
     (let m = fee_normalized feeModel in
      foldl addFee \<lparr>fs_Included = True, fs_Legacy = fm_Legacy m, fs_PerTrade = fm_LegacyPerTrade m,
        fs_OptionPerContract = fm_OptionPerContract m, fs_StockPerLot = fm_StockPerLot m, fs_LotSize = fm_LotSize m,
        fs_OptionContracts = 0, fs_StockLots = 0, fs_ExerciseDeliveryLots = 0, fs_TotalAmount = 0, fs_StockAmount = 0,
        fs_OptionAmount = 0, fs_ExerciseDeliveryAmount = 0, fs_ChargedTradeCount = 0, fs_OptionTradeCount = 0,
        fs_StockTradeCount = 0, fs_ExerciseDeliveryTradeCount = 0\<rparr> trades)"

section \<open>Choosing the quote batch of a bar\<close>

definition optionQuoteBatches :: "OptionsData option \<Rightarrow> QuoteSnapshotBatch list" where
  "optionQuoteBatches opts =
     (case opts of None \<Rightarrow> []
      | Some o' \<Rightarrow> if od_QuoteBatches o' \<noteq> [] then od_QuoteBatches o'
                  else if od_Snapshots o' \<noteq> [] then od_Snapshots o' else od_QuoteSnapshots o')"

definition quoteBatchSource :: "QuoteSnapshotBatch \<Rightarrow> string" where
  "quoteBatchSource batch =
     (case qb_Quotes batch of
        [] \<Rightarrow> []
      | q # qs \<Rightarrow>
          foldl (\<lambda>source quote.
            let candidate = to_lower (trim_space (q_Source quote))
            in if candidate \<noteq> [] \<and> (source = [] \<or> candidate < source) then candidate else source)
          (to_lower (trim_space (q_Source q))) qs)"

definition quoteBatchSourceRank :: "string \<Rightarrow> int" where
  "quoteBatchSourceRank source =
     (if source = ''futu'' then 3 else if source = ''hkex'' then 2 else if source = [] then 0 else 1)"

definition preferQuoteBatch :: "QuoteSnapshotBatch \<Rightarrow> QuoteSnapshotBatch \<Rightarrow> bool" where
  "preferQuoteBatch candidate current =
     (let cs = quoteBatchSource candidate; us = quoteBatchSource current;
          cr = quoteBatchSourceRank cs; ur = quoteBatchSourceRank us in
      if cr \<noteq> ur then ur < cr
      else if cs \<noteq> us then cs < us
      else qb_SnapshotKey current < qb_SnapshotKey candidate)"

definition laterBatch :: "QuoteSnapshotBatch \<Rightarrow> QuoteSnapshotBatch \<Rightarrow> bool" where
  "laterBatch b best \<longleftrightarrow>
     qb_ObservedAt best < qb_ObservedAt b \<or> (qb_ObservedAt b = qb_ObservedAt best \<and> preferQuoteBatch b best)"

definition latestQuoteBatch :: "OptionsData option \<Rightarrow> time \<Rightarrow> QuoteSnapshotBatch option" where
  "latestQuoteBatch opts ts =
     foldl (\<lambda>best b. if ts < qb_ObservedAt b then best
       else case best of None \<Rightarrow> Some b | Some x \<Rightarrow> if laterBatch b x then Some b else best)
     None (optionQuoteBatches opts)"

section \<open>Terminal summary and attribution\<close>

definition ValuationComplete :: string where
  "ValuationComplete = ''COMPLETE''"

definition ValuationIncomplete :: string where
  "ValuationIncomplete = ''INCOMPLETE''"

definition SettlementAllOptionLegsSettled :: string where
  "SettlementAllOptionLegsSettled = ''ALL_OPTION_LEGS_SETTLED''"

definition SettlementOpenOptionLegs :: string where
  "SettlementOpenOptionLegs = ''OPEN_OPTION_LEGS''"

record TerminalSummary =
  ts_ValuationStatus :: string
  ts_SettlementStatus :: string
  ts_CashAmount :: f64
  ts_UnderlyingPrice :: f64
  ts_StockShares :: f64
  ts_StockAverageCost :: "f64 option"
  ts_StockMarketValueAmount :: f64
  ts_OptionMarketValueAmount :: "f64 option"
  ts_HoldingsMarketValueAmount :: "f64 option"
  ts_FinalEquityAmount :: "f64 option"
  ts_OpenOptionLegCount :: int
  ts_GrossOpenOptionContractCount :: f64
  ts_PnLStatus :: string
  ts_RealizedPnLAmount :: "f64 option"
  ts_UnrealizedPnLAmount :: "f64 option"
  ts_ExpiryCount :: int
  ts_ShortExpiryCount :: int
  ts_AssignmentCount :: int
  ts_AssignmentRate :: "f64 option"
  ts_EventBasis :: string
  ts_BrokerExpiryCount :: "int option"
  ts_BrokerAssignmentCount :: "int option"

text \<open>The legs' share of the valuation: gross contracts, option value, unrealised profit, completeness.\<close>

definition valueLeg :: "State \<Rightarrow> f64 \<times> f64 \<times> f64 \<times> bool \<Rightarrow> BtPosition \<Rightarrow> f64 \<times> f64 \<times> f64 \<times> bool" where
  "valueLeg st acc p =
     (case acc of (gross, optionValue, unrealized, marked) \<Rightarrow>
        (let gross = gross + \<bar>bp_Contracts p\<bar> in
         case map_of (st_OptPrice st) (bp_Code p) of
           None \<Rightarrow> (gross, optionValue, unrealized, False)
         | Some mark \<Rightarrow>
             if leg_lot p \<le> 0 then (gross, optionValue, unrealized, False)
             else (gross, optionValue + bp_Contracts p * of_int64 (leg_lot p) * mark,
                   unrealized + bp_Contracts p * of_int64 (leg_lot p) * (mark - bp_AvgPremium p), marked)))"

definition terminalSummary :: "State \<Rightarrow> f64 \<Rightarrow> f64 \<Rightarrow> TerminalSummary" where
  "terminalSummary st initialCash finalPrice =
     (let stock = st_Position st * finalPrice;
          (gross, optionValue, unrealized, marked) =
            foldl (valueLeg st) (0, 0, st_Position st * (finalPrice - st_StockAverageCost st), True) (map snd (st_Options st));
          holdings = stock + optionValue; finalEquity = st_Cash st + holdings;
          realized = finalEquity - initialCash - unrealized
      in \<lparr>ts_ValuationStatus = (if marked then ValuationComplete else ValuationIncomplete),
          ts_SettlementStatus = (if st_Options st \<noteq> [] then SettlementOpenOptionLegs else SettlementAllOptionLegsSettled),
          ts_CashAmount = st_Cash st, ts_UnderlyingPrice = finalPrice, ts_StockShares = st_Position st,
          ts_StockAverageCost = (if \<not> feq (st_Position st) 0 then Some (st_StockAverageCost st) else None),
          ts_StockMarketValueAmount = stock,
          ts_OptionMarketValueAmount = (if marked then Some optionValue else None),
          ts_HoldingsMarketValueAmount = (if marked then Some holdings else None),
          ts_FinalEquityAmount = (if marked then Some finalEquity else None),
          ts_OpenOptionLegCount = int (length (st_Options st)), ts_GrossOpenOptionContractCount = gross,
          ts_PnLStatus = (if marked then ValuationComplete else ''NOT_APPLICABLE_MISSING_MARK''),
          ts_RealizedPnLAmount = (if marked then Some realized else None),
          ts_UnrealizedPnLAmount = (if marked then Some unrealized else None),
          ts_ExpiryCount = st_ExpiryCount st, ts_ShortExpiryCount = st_ShortExpiryCount st,
          ts_AssignmentCount = st_AssignmentCount st,
          ts_AssignmentRate = (if 0 < st_ShortExpiryCount st
            then Some (of_int64 (st_AssignmentCount st) / of_int64 (st_ShortExpiryCount st)) else None),
          ts_EventBasis = ''mechanical_backtest'', ts_BrokerExpiryCount = None, ts_BrokerAssignmentCount = None\<rparr>)"

record UnfilledStats =
  us_AttemptCount :: int
  us_FillCount :: int
  us_UnfilledCount :: int
  us_UnfilledRatio :: "f64 option"
  us_ModelKind :: string
  us_ModelVersion :: string

record PnLAttribution =
  pa_PremiumIncomeAmount :: f64
  pa_OptionCloseCostAmount :: f64
  pa_StockRealizedPnLAmount :: f64
  pa_FeesAmount :: f64
  pa_RealizedPnLAmount :: f64
  pa_PremiumNetAmount :: f64
  pa_UnfilledAttemptPremium :: f64
  pa_UnfilledAttemptCount :: int

definition attributionOf :: "State \<Rightarrow> FeeSummary \<Rightarrow> UnfilledStats \<Rightarrow> PnLAttribution" where
  "attributionOf st fees unfilled =
     \<lparr>pa_PremiumIncomeAmount = st_PremiumIncome st, pa_OptionCloseCostAmount = st_OptionCloseCost st,
      pa_StockRealizedPnLAmount = st_StockRealizedPnL st, pa_FeesAmount = fs_TotalAmount fees,
      pa_RealizedPnLAmount = st_PremiumIncome st - st_OptionCloseCost st + st_StockRealizedPnL st - fs_TotalAmount fees,
      pa_PremiumNetAmount = st_PremiumIncome st - st_OptionCloseCost st - (fs_OptionAmount fees + fs_ExerciseDeliveryAmount fees),
      pa_UnfilledAttemptPremium = st_UnfilledAttemptPremium st, pa_UnfilledAttemptCount = us_UnfilledCount unfilled\<rparr>"

section \<open>Data quality\<close>

record BarProvenance =
  pv_Source :: string
  pv_Adjusted :: string
  pv_BarCount :: int

record DataQualitySummary =
  dq_Status :: string
  dq_OptionDataRequired :: bool
  dq_UnderlyingBars :: "BarProvenance list"
  dq_OptionSnapshotSources :: "string list"
  dq_TotalBarCount :: int
  dq_ReadyBarCount :: int
  dq_BlockedBarCount :: int
  dq_ValidCoverageRatio :: "f64 option"
  dq_SnapshotBatchCount :: int
  dq_SnapshotContractRowCount :: int
  dq_MissingRequiredFieldCounts :: "int gomap"
  dq_HistoricalOptionCycleComplete :: "bool option"
  dq_BlockedBy :: "string list"

record SignalTrace =
  tr_Ts :: time
  tr_Action :: string
  tr_Direction :: string
  tr_Reason :: string
  tr_CapabilityStatus :: string
  tr_BlockedBy :: "string list"
  tr_SnapshotKey :: string
  tr_SnapshotObservedAt :: "time option"
  tr_ActualInventory :: f64
  tr_EffectiveInventory :: f64
  tr_OptionDeltaStock :: f64
  tr_Inventory :: f64
  tr_CandidateCode :: string
  tr_Candidate :: string
  tr_Candidates :: "string list"
  tr_Quantity :: f64
  tr_UnderlyingPrice :: f64
  tr_CashBefore :: f64
  tr_CashAfter :: f64
  tr_TargetInventory :: f64
  tr_InventoryGap :: f64
  tr_CandidateDetails :: "CandidateEvaluation list"

definition requiredSnapshotFields :: "string list" where
  "requiredSnapshotFields = [''ask'', ''bid'', ''delta'', ''expiry'', ''implied_vol'', ''lot_size'', ''observed_at'',
     ''open_interest'', ''option_type'', ''snapshot_key'', ''source'', ''strike'', ''symbol'', ''theta'', ''underlying'',
     ''underlying_price'', ''volume'']"

definition zeroCounts :: "int gomap" where
  "zeroCounts = foldl (\<lambda>m field. map_put field 0 m) [] requiredSnapshotFields"

definition firstQuoteName :: "OptionQuote \<Rightarrow> string" where
  "firstQuoteName q = (if q_Symbol q \<noteq> [] then q_Symbol q else q_Code q)"

definition inc_if :: "bool \<Rightarrow> string \<Rightarrow> int gomap \<Rightarrow> int gomap" where
  "inc_if cond field m = (if cond then map_put field (map_get 0 m field + 1) m else m)"

definition countMissingSnapshotFields :: "int gomap \<Rightarrow> QuoteSnapshotBatch \<Rightarrow> OptionQuote \<Rightarrow> int gomap" where
  "countMissingSnapshotFields counts batch q =
     (let optionType = (if q_OptionType q = [] then q_Type q else q_OptionType q) in
      foldl (\<lambda>m (cond, field). inc_if cond field m) counts
        [(is_zero (qb_ObservedAt batch), ''observed_at''),
         (trim_space (qb_SnapshotKey batch) = [], ''snapshot_key''),
         (qb_UnderlyingPrice batch \<le> 0, ''underlying_price''),
         (trim_space (qb_Underlying batch) = [], ''underlying''),
         (trim_space (firstQuoteName q) = [], ''symbol''),
         (optionType \<noteq> CallType \<and> optionType \<noteq> PutType, ''option_type''),
         (is_zero (q_Expiry q), ''expiry''),
         (q_Strike q \<le> 0, ''strike''),
         (feq (q_Delta q) 0 \<and> feq (q_MarketDelta q) 0, ''delta''),
         (q_Bid q \<le> 0, ''bid''),
         (q_Ask q \<le> 0, ''ask''),
         (q_ImpliedVol q \<le> 0 \<and> q_IV q \<le> 0, ''implied_vol''),
         (q_Theta q = None, ''theta''),
         (q_Volume q \<le> 0, ''volume''),
         (q_OpenInterest q \<le> 0 \<and> q_OI q \<le> 0, ''open_interest''),
         (q_LotSize q \<le> 0, ''lot_size''),
         (trim_space (q_Source q) = [], ''source'')])"

definition sortedKeys :: "unit gomap \<Rightarrow> string list" where
  "sortedKeys s = slice_stable (<) (map fst s)"

definition addTrimmed :: "unit gomap \<Rightarrow> string \<Rightarrow> unit gomap" where
  "addTrimmed s v = (let v = trim_space v in if v \<noteq> [] then set_add v s else s)"

definition sortedUnique :: "string list \<Rightarrow> string list" where
  "sortedUnique values = sortedKeys (foldl addTrimmed [] values)"

definition utcDate :: "time \<Rightarrow> time" where
  "utcDate t = (if is_zero t then 0 else midnight t)"

text \<open>Counting bars by source and adjustment.\<close>

definition countBar :: "((string \<times> string) \<times> int) list \<Rightarrow> Bar \<Rightarrow> ((string \<times> string) \<times> int) list" where
  "countBar counts b =
     (let source = trim_space (b_Source b); adjusted = trim_space (b_Adjusted b);
          key = (source, if adjusted = [] then ''unspecified'' else adjusted)
      in if source = [] then counts else map_put key (map_get 0 counts key + 1) counts)"

definition provenanceLess :: "BarProvenance \<Rightarrow> BarProvenance \<Rightarrow> bool" where
  "provenanceLess a b =
     (if pv_Source a \<noteq> pv_Source b then pv_Source a < pv_Source b else pv_Adjusted a < pv_Adjusted b)"

definition summarizeBarProvenanceFromMap :: "((string \<times> string) \<times> int) list \<Rightarrow> BarProvenance list" where
  "summarizeBarProvenanceFromMap counts =
     slice_stable provenanceLess
       (map (\<lambda>((source, adjusted), n). \<lparr>pv_Source = source, pv_Adjusted = adjusted, pv_BarCount = n\<rparr>) counts)"

definition summarizeBarProvenance :: "Bar list \<Rightarrow> BarProvenance list" where
  "summarizeBarProvenance bars = summarizeBarProvenanceFromMap (foldl countBar [] bars)"

text \<open>The observation span of a contract in complete HKEX batches: first day, last day, expiry.\<close>

definition coverQuote :: "time \<Rightarrow> (time \<times> time \<times> time) gomap \<Rightarrow> OptionQuote \<Rightarrow> (time \<times> time \<times> time) gomap" where
  "coverQuote observed cover quote =
     (if is_zero observed \<or> \<not> equal_fold (trim_space (q_Source quote)) ''hkex'' \<or> is_zero (q_Expiry quote) then cover
      else let name = firstQuoteName quote in
        if name = [] then cover
        else (case map_get (0, 0, 0) cover name of (first, last', expiry) \<Rightarrow>
               map_put name
                 (if is_zero first \<or> observed < first then observed else first,
                  if is_zero last' \<or> last' < observed then observed else last',
                  utcDate (q_Expiry quote)) cover))"

definition coverBatch :: "(time \<times> time \<times> time) gomap \<Rightarrow> QuoteSnapshotBatch \<Rightarrow> (time \<times> time \<times> time) gomap" where
  "coverBatch cover batch = foldl (coverQuote (utcDate (qb_ObservedAt batch))) cover (qb_Quotes batch)"

definition days_between :: "time \<Rightarrow> time \<Rightarrow> int" where
  "days_between later earlier = quot_trunc (time_sub later earlier) (24 * hour_ns)"

definition coverComplete :: "(time \<times> time \<times> time) gomap \<Rightarrow> bool" where
  "coverComplete cover =
     list_ex (\<lambda>(name, first, last', expiry).
        10 \<le> days_between expiry first \<and> 0 \<le> days_between expiry last' \<and> days_between expiry last' \<le> 1) cover"

definition hkexHistoricalOptionCycleComplete :: "QuoteSnapshotBatch list \<Rightarrow> bool" where
  "hkexHistoricalOptionCycleComplete batches = coverComplete (foldl coverBatch [] batches)"

definition signalBlocked :: "SignalTrace \<Rightarrow> bool" where
  "signalBlocked s \<longleftrightarrow> equal_fold (tr_CapabilityStatus s) CapabilityDataBlocked"

definition addReasons :: "unit gomap \<Rightarrow> SignalTrace \<Rightarrow> unit gomap" where
  "addReasons s t = foldl (\<lambda>s reason. if reason \<noteq> [] then set_add reason s else s) s (tr_BlockedBy t)"

definition batchRows :: "QuoteSnapshotBatch \<Rightarrow> (QuoteSnapshotBatch \<times> OptionQuote) list" where
  "batchRows batch = map (\<lambda>q. (batch, q)) (qb_Quotes batch)"

definition addMissing :: "int gomap \<Rightarrow> unit gomap \<Rightarrow> unit gomap" where
  "addMissing counts blocked =
     foldl (\<lambda>s (field, n). if 0 < n then set_add (''missing_'' @ field) s else s) blocked counts"

definition summarizeDataQuality :: "Bar list \<Rightarrow> OptionsData option \<Rightarrow> SignalTrace list \<Rightarrow> DataQualitySummary" where
  "summarizeDataQuality bars opts signals =
     (let ready = int (length (filter (\<lambda>s. \<not> signalBlocked s) signals));
          q = \<lparr>dq_Status = ''NOT_APPLICABLE'', dq_OptionDataRequired = (opts \<noteq> None),
               dq_UnderlyingBars = summarizeBarProvenance bars, dq_OptionSnapshotSources = [],
               dq_TotalBarCount = int (length signals), dq_ReadyBarCount = ready,
               dq_BlockedBarCount = int (length (filter signalBlocked signals)),
               dq_ValidCoverageRatio = (if signals \<noteq> [] then Some (of_int64 ready / of_int64 (int (length signals))) else None),
               dq_SnapshotBatchCount = 0, dq_SnapshotContractRowCount = 0, dq_MissingRequiredFieldCounts = zeroCounts,
               dq_HistoricalOptionCycleComplete = None, dq_BlockedBy = []\<rparr> in
      if opts = None then q
      else
        (let batches = optionQuoteBatches opts; rows = concat (map batchRows batches);
             cycleComplete = hkexHistoricalOptionCycleComplete batches;
             counts = foldl (\<lambda>m (batch, quote). countMissingSnapshotFields m batch quote) zeroCounts rows;
             blocked = (if \<not> cycleComplete then set_add ''historical_option_cycle'' [] else []);
             blocked = (if batches = [] then set_add ''option_quote_snapshots'' blocked else blocked);
             blocked = foldl addReasons blocked signals;
             blocked = addMissing counts blocked
         in q\<lparr>dq_HistoricalOptionCycleComplete := Some cycleComplete,
              dq_Status := (if cycleComplete \<and> 0 < ready then ''RESEARCH_ONLY'' else CapabilityDataBlocked),
              dq_SnapshotBatchCount := int (length batches), dq_SnapshotContractRowCount := int (length rows),
              dq_OptionSnapshotSources :=
                sortedUnique (filter (\<lambda>s. s \<noteq> []) (map (\<lambda>(b, quote). trim_space (q_Source quote)) rows)),
              dq_MissingRequiredFieldCounts := counts, dq_BlockedBy := sortedKeys blocked\<rparr>))"

end
