(* ===== verification/Backtest_Session.thy ===== *)
theory Backtest_Session
  imports Backtest_Report
begin

text \<open>
  The replay: the strategy interface and the two built-in strategies of
  \<^verbatim>\<open>internal/backtest/strategy.go\<close>, the signal trace and the entry points of
  \<^verbatim>\<open>internal/backtest/backtest.go\<close>, and the session of \<^verbatim>\<open>internal/backtest/session.go\<close>. A strategy is
  a record of operations on its own state \<open>'s\<close>; a session carries that state. Processing
  returns the session as the call leaves it, with the error where there is one: a failed call
  has already replayed the bars before the failure.
\<close>

section \<open>Strategies\<close>

record 's strategy =
  s_OnBar :: "'s \<Rightarrow> Bar \<Rightarrow> State \<Rightarrow> (string + (BtAction \<times> f64)) \<times> 's \<times> State"
  s_Signal :: "'s \<Rightarrow> Signal option"
  s_KeepCandidateDetails :: "'s \<Rightarrow> bool option"

definition HoldStrategy :: "unit strategy" where
  "HoldStrategy = \<lparr>s_OnBar = (\<lambda>s bar st. (Inr (ActHold, 0), s, st)), s_Signal = (\<lambda>_. None), s_KeepCandidateDetails = (\<lambda>_. None)\<rparr>"

record BuyHold =
  bh_bought :: bool

definition BuyHold_OnBar :: "BuyHold \<Rightarrow> Bar \<Rightarrow> State \<Rightarrow> (string + (BtAction \<times> f64)) \<times> BuyHold \<times> State" where
  "BuyHold_OnBar s bar st =
     (if bh_bought s then (Inr (ActHold, 0), s, st)
      else (Inr (ActBuy, st_Cash st / b_Close bar), s\<lparr>bh_bought := True\<rparr>, st))"

definition BuyHoldStrategy :: "BuyHold strategy" where
  "BuyHoldStrategy = \<lparr>s_OnBar = BuyHold_OnBar, s_Signal = (\<lambda>_. None), s_KeepCandidateDetails = (\<lambda>_. None)\<rparr>"

section \<open>The signal trace\<close>

definition makeSignalTrace :: "time \<Rightarrow> 's strategy \<Rightarrow> 's \<Rightarrow> State \<Rightarrow> BtAction \<Rightarrow> f64 \<Rightarrow> f64 \<Rightarrow> SignalTrace" where
  "makeSignalTrace ts ops s st act sz cashBefore =
     (let t = \<lparr>tr_Ts = ts, tr_Action = action_String act, tr_Direction = DirectionHold, tr_Reason = [],
               tr_CapabilityStatus = CapabilityReady, tr_BlockedBy = [], tr_SnapshotKey = st_SnapshotKey st,
               tr_SnapshotObservedAt = (if is_zero (st_ObservedAt st) then None else Some (st_ObservedAt st)),
               tr_ActualInventory = st_Position st, tr_EffectiveInventory = st_Position st, tr_OptionDeltaStock = 0,
               tr_Inventory = st_Position st, tr_CandidateCode = [], tr_Candidate = [], tr_Candidates = [],
               tr_Quantity = sz, tr_UnderlyingPrice = st_Price st, tr_CashBefore = cashBefore, tr_CashAfter = st_Cash st,
               tr_TargetInventory = 0, tr_InventoryGap = 0, tr_CandidateDetails = []\<rparr> in
      case s_Signal ops s of
        None \<Rightarrow> t
      | Some sig \<Rightarrow>
          (let code = (case s_Quote sig of None \<Rightarrow> [] | Some q \<Rightarrow> if q_Symbol q = [] then q_Code q else q_Symbol q)
           in t\<lparr>tr_Action := s_Action sig, tr_Direction := s_Direction sig, tr_Reason := s_Reason sig,
                tr_CapabilityStatus := (if s_CapabilityStatus sig \<noteq> [] then s_CapabilityStatus sig else tr_CapabilityStatus t),
                tr_BlockedBy := s_BlockedBy sig, tr_ActualInventory := s_ActualInventory sig,
                tr_EffectiveInventory := s_EffectiveInventory sig, tr_OptionDeltaStock := s_OptionDeltaStock sig,
                tr_TargetInventory := s_TargetInventory sig, tr_InventoryGap := s_InventoryGap sig,
                tr_CandidateDetails := (case s_KeepCandidateDetails ops s of Some False \<Rightarrow> [] | _ \<Rightarrow> s_Candidates sig),
                tr_Inventory := s_EffectiveInventory sig, tr_Quantity := of_int64 (s_Quantity sig),
                tr_Candidates := filter (\<lambda>n. n \<noteq> []) (map (\<lambda>c. if q_Symbol (c_Quote c) = [] then q_Code (c_Quote c) else q_Symbol (c_Quote c)) (s_Candidates sig)),
                tr_CandidateCode := code, tr_Candidate := code\<rparr>))"

section \<open>Accumulated data quality\<close>

record SnapshotAccum =
  sa_optsProvided :: bool
  sa_present :: bool
  sa_batchCount :: int
  sa_contractRowCount :: int
  sa_sources :: "unit gomap"
  sa_missing :: "int gomap"
  sa_hkex :: "(time \<times> time \<times> time) gomap"
  sa_seenBatches :: "((int \<times> string) \<times> unit) list"

record dataQualityAccum =
  da_barCounts :: "((string \<times> string) \<times> int) list"
  da_totalBars :: int
  da_readyBars :: int
  da_blockedBars :: int
  da_blockedReasons :: "unit gomap"
  da_snapshot :: SnapshotAccum

definition newDataQualityAccum :: dataQualityAccum where
  "newDataQualityAccum = \<lparr>da_barCounts = [], da_totalBars = 0, da_readyBars = 0, da_blockedBars = 0, da_blockedReasons = [],
     da_snapshot = \<lparr>sa_optsProvided = False, sa_present = False, sa_batchCount = 0, sa_contractRowCount = 0, sa_sources = [],
       sa_missing = zeroCounts, sa_hkex = [], sa_seenBatches = []\<rparr>\<rparr>"

definition addBar :: "dataQualityAccum \<Rightarrow> Bar \<Rightarrow> dataQualityAccum" where
  "addBar a b = a\<lparr>da_barCounts := countBar (da_barCounts a) b\<rparr>"

definition addSignal :: "dataQualityAccum \<Rightarrow> SignalTrace \<Rightarrow> dataQualityAccum" where
  "addSignal a s =
     (let a = a\<lparr>da_totalBars := da_totalBars a + 1\<rparr>;
          a = (if signalBlocked s then a\<lparr>da_blockedBars := da_blockedBars a + 1\<rparr> else a\<lparr>da_readyBars := da_readyBars a + 1\<rparr>)
      in a\<lparr>da_blockedReasons := addReasons (da_blockedReasons a) s\<rparr>)"

definition unixNano :: "time \<Rightarrow> int" where
  "unixNano t = wrap64 (t - 719162 * day_ns)"

definition addRow :: "time \<Rightarrow> QuoteSnapshotBatch \<Rightarrow> SnapshotAccum \<Rightarrow> OptionQuote \<Rightarrow> SnapshotAccum" where
  "addRow observed batch sa quote =
     sa\<lparr>sa_contractRowCount := sa_contractRowCount sa + 1,
        sa_sources := (let source = trim_space (q_Source quote) in if source \<noteq> [] then set_add source (sa_sources sa) else sa_sources sa),
        sa_missing := countMissingSnapshotFields (sa_missing sa) batch quote,
        sa_hkex := coverQuote observed (sa_hkex sa) quote\<rparr>"

definition addBatch :: "time \<Rightarrow> SnapshotAccum \<Rightarrow> QuoteSnapshotBatch \<Rightarrow> SnapshotAccum" where
  "addBatch ownedFrom sa batch =
     (let key = (unixNano (qb_ObservedAt batch), qb_SnapshotKey batch) in
      if \<not> is_zero ownedFrom \<and> qb_ObservedAt batch < ownedFrom then sa
      else if map_of (sa_seenBatches sa) key \<noteq> None then sa
      else
        (let sa = sa\<lparr>sa_seenBatches := set_add key (sa_seenBatches sa), sa_present := True, sa_batchCount := sa_batchCount sa + 1\<rparr>
         in foldl (addRow (utcDate (qb_ObservedAt batch)) batch) sa (qb_Quotes batch)))"

definition addBatches :: "dataQualityAccum \<Rightarrow> OptionsData option \<Rightarrow> time \<Rightarrow> dataQualityAccum" where
  "addBatches a opts ownedFrom =
     (if opts = None then a
      else a\<lparr>da_snapshot := foldl (addBatch ownedFrom) ((da_snapshot a)\<lparr>sa_optsProvided := True\<rparr>) (optionQuoteBatches opts)\<rparr>)"

definition accum_summary :: "dataQualityAccum \<Rightarrow> DataQualitySummary" where
  "accum_summary a =
     (let sn = da_snapshot a;
          q = \<lparr>dq_Status = ''NOT_APPLICABLE'', dq_OptionDataRequired = sa_optsProvided sn,
               dq_UnderlyingBars = summarizeBarProvenanceFromMap (da_barCounts a), dq_OptionSnapshotSources = [],
               dq_TotalBarCount = da_totalBars a, dq_ReadyBarCount = da_readyBars a, dq_BlockedBarCount = da_blockedBars a,
               dq_ValidCoverageRatio = (if 0 < da_totalBars a then Some (of_int64 (da_readyBars a) / of_int64 (da_totalBars a)) else None),
               dq_SnapshotBatchCount = 0, dq_SnapshotContractRowCount = 0, dq_MissingRequiredFieldCounts = sa_missing sn,
               dq_HistoricalOptionCycleComplete = None, dq_BlockedBy = []\<rparr> in
      if \<not> sa_optsProvided sn then q
      else
        (let cycleComplete = coverComplete (sa_hkex sn);
             blocked = (if \<not> cycleComplete then set_add ''historical_option_cycle'' [] else []);
             blocked = (if sa_batchCount sn = 0 then set_add ''option_quote_snapshots'' blocked else blocked);
             blocked = addMissing (sa_missing sn) blocked;
             blocked = foldl (\<lambda>s reason. if reason \<noteq> [] then set_add reason s else s) blocked (sortedKeys (da_blockedReasons a))
         in q\<lparr>dq_HistoricalOptionCycleComplete := Some cycleComplete,
              dq_Status := (if cycleComplete \<and> 0 < da_readyBars a then ''RESEARCH_ONLY'' else CapabilityDataBlocked),
              dq_SnapshotBatchCount := sa_batchCount sn, dq_SnapshotContractRowCount := sa_contractRowCount sn,
              dq_OptionSnapshotSources := sortedUnique (map fst (sa_sources sn)), dq_BlockedBy := sortedKeys blocked\<rparr>))"

section \<open>The session\<close>

record EquityPoint =
  ep_Ts :: time
  ep_Equity :: f64

record 's Session =
  ss_st :: State
  ss_feeModel :: FeeModel
  ss_seed :: int
  ss_s :: 's
  ss_bars :: int
  ss_peak :: f64
  ss_maxDD :: f64
  ss_maxStockMarketValue :: f64
  ss_curve :: "EquityPoint list"
  ss_trades :: "Trade list"
  ss_signals :: "SignalTrace list"
  ss_finalClose :: f64
  ss_firstBar :: time
  ss_lastBar :: time
  ss_dq :: dataQualityAccum

datatype RunError =
    EmptyBars | InitialCashNotPositive | BadFee FeeError | BadBars BarsError | ContextErr string
  | StrategyFailed int string | SettleFailed int SettleError | NoBarsProcessed

definition NewSession :: "f64 \<Rightarrow> FeeModel \<Rightarrow> int \<Rightarrow> 's \<Rightarrow> RunError + 's Session" where
  "NewSession initialCash feeModel seed s =
     (if initialCash \<le> 0 then Inl InitialCashNotPositive
      else case fee_validate feeModel of
        Some err \<Rightarrow> Inl (BadFee err)
      | None \<Rightarrow>
          Inr \<lparr>ss_st = new_state initialCash, ss_feeModel = feeModel, ss_seed = (if seed = 0 then defaultRunSeed else seed), ss_s = s,
               ss_bars = 0, ss_peak = 0, ss_maxDD = 0, ss_maxStockMarketValue = 0, ss_curve = [], ss_trades = [], ss_signals = [],
               ss_finalClose = 0, ss_firstBar = 0, ss_lastBar = 0, ss_dq = newDataQualityAccum\<rparr>)"

text \<open>Merging a chunk's option bars into the running history.\<close>

definition mergeBars :: "OptionBars \<Rightarrow> string \<times> Bar list \<Rightarrow> OptionBars" where
  "mergeBars m entry =
     (case entry of (code, newBars) \<Rightarrow>
      (case map_get [] m code of
         [] \<Rightarrow> map_put code newBars m
       | e # es \<Rightarrow>
           (let existing = e # es; rest = dropWhile (\<lambda>b. \<not> b_Ts (last existing) < b_Ts b) newBars
            in if rest = [] then m else map_put code (existing @ rest) m)))"

definition applyOptions :: "State \<Rightarrow> OptionsData option \<Rightarrow> State" where
  "applyOptions st opts =
     (case opts of
        None \<Rightarrow> st
      | Some o' \<Rightarrow>
          (let st = st\<lparr>st_Chain := od_Chain o'\<rparr> in
           case st_OptBars st of
             None \<Rightarrow> st\<lparr>st_OptBars := od_Bars o'\<rparr>
           | Some m \<Rightarrow> st\<lparr>st_OptBars := Some (foldl mergeBars m (case od_Bars o' of None \<Rightarrow> [] | Some bs \<Rightarrow> bs))\<rparr>))"

text \<open>The state as the strategy sees it on a bar.\<close>

definition openBar :: "OptionsData option \<Rightarrow> State \<Rightarrow> Bar \<Rightarrow> State" where
  "openBar opts st b =
     (let batch = latestQuoteBatch opts (b_Ts b);
          st = st\<lparr>st_Pending := None, st_Price := b_Close b, st_QuoteBatch := batch,
                  st_Quotes := (case batch of None \<Rightarrow> [] | Some q \<Rightarrow> qb_Quotes q),
                  st_ObservedAt := (case batch of None \<Rightarrow> 0 | Some q \<Rightarrow> qb_ObservedAt q),
                  st_SnapshotKey := (case batch of None \<Rightarrow> [] | Some q \<Rightarrow> qb_SnapshotKey q)\<rparr>
      in markOptions st (b_Ts b))"

text \<open>Equity, peak and drawdown after the bar.\<close>

definition closeBar :: "'s Session \<Rightarrow> Bar \<Rightarrow> SignalTrace \<Rightarrow> 's Session" where
  "closeBar sess b sig =
     (let st = ss_st sess; eq = state_Equity st (b_Close b);
          stockMarketValue = \<bar>st_Position st * b_Close b\<bar>;
          sess = (if ss_maxStockMarketValue sess < stockMarketValue then sess\<lparr>ss_maxStockMarketValue := stockMarketValue\<rparr> else sess);
          sess = sess\<lparr>ss_curve := ss_curve sess @ [\<lparr>ep_Ts = b_Ts b, ep_Equity = eq\<rparr>]\<rparr>;
          sess = (if ss_peak sess < eq then sess\<lparr>ss_peak := eq\<rparr> else sess);
          dd = (ss_peak sess - eq) / ss_peak sess;
          sess = (if 0 < ss_peak sess \<and> ss_maxDD sess < dd then sess\<lparr>ss_maxDD := dd\<rparr> else sess)
      in sess\<lparr>ss_finalClose := b_Close b, ss_lastBar := b_Ts b, ss_bars := ss_bars sess + 1,
              ss_dq := addSignal (addBar (ss_dq sess) b) sig\<rparr>)"

definition processBar :: "'s strategy \<Rightarrow> OptionsData option \<Rightarrow> int \<Rightarrow> 's Session \<Rightarrow> Bar \<Rightarrow> 's Session \<times> RunError option" where
  "processBar ops opts i sess b =
     (let st = openBar opts (ss_st sess) b; cashBefore = st_Cash st in
      case s_OnBar ops (ss_s sess) b st of
        (Inl err, s, st) \<Rightarrow> (sess\<lparr>ss_st := st, ss_s := s\<rparr>, Some (StrategyFailed (ss_bars sess + i) err))
      | (Inr (act, sz), s, st) \<Rightarrow>
          (case settleAction st act sz b (ss_feeModel sess) (ss_seed sess) (ss_trades sess) of
             Inl err \<Rightarrow> (sess\<lparr>ss_st := st, ss_s := s\<rparr>, Some (SettleFailed (ss_bars sess + i) err))
           | Inr (st, trades) \<Rightarrow>
               (let sig = makeSignalTrace (b_Ts b) ops s st act sz cashBefore;
                    (st, trades) = settleExpired st (b_Ts b) (ss_feeModel sess) trades
                in (closeBar (sess\<lparr>ss_st := st, ss_s := s, ss_trades := trades, ss_signals := ss_signals sess @ [sig]\<rparr>) b sig, None))))"

fun processBars :: "(nat \<Rightarrow> string option) \<Rightarrow> 's strategy \<Rightarrow> OptionsData option \<Rightarrow> nat \<Rightarrow> 's Session \<Rightarrow> Bar list \<Rightarrow> 's Session \<times> RunError option" where
  "processBars ctx ops opts i sess [] = (sess, None)"
| "processBars ctx ops opts i sess (b # bs) =
     (case ctx i of
        Some err \<Rightarrow> (sess, Some (ContextErr err))
      | None \<Rightarrow>
          (case processBar ops opts (int i) sess b of
             (sess, Some err) \<Rightarrow> (sess, Some err)
           | (sess, None) \<Rightarrow> processBars ctx ops opts (i + 1) sess bs))"

definition Process ::
  "(nat \<Rightarrow> string option) \<Rightarrow> 's strategy \<Rightarrow> 's Session \<Rightarrow> Bar list \<Rightarrow> OptionsData option \<Rightarrow> time \<Rightarrow> 's Session \<times> RunError option" where
  "Process ctx ops sess bars opts ownedFrom =
     (case bars of
        [] \<Rightarrow> (sess, None)
      | b # _ \<Rightarrow>
          (case ValidateBars bars of
             Some err \<Rightarrow> (sess, Some (BadBars err))
           | None \<Rightarrow>
               (let sess = sess\<lparr>ss_st := applyOptions (ss_st sess) opts\<rparr>;
                    sess = (if ss_bars sess = 0 then sess\<lparr>ss_firstBar := b_Ts b\<rparr> else sess)
                in case processBars ctx ops opts 0 sess bars of
                     (sess, Some err) \<Rightarrow> (sess, Some err)
                   | (sess, None) \<Rightarrow> (sess\<lparr>ss_dq := addBatches (ss_dq sess) opts ownedFrom\<rparr>, None))))"

section \<open>The result\<close>

record Result =
  r_Equity :: f64
  r_TotalReturn :: f64
  r_RealizedReturnAmount :: f64
  r_RealizedReturnPct :: f64
  r_MaxDrawdown :: f64
  r_MaxStockMarketValueAmount :: f64
  r_Bars :: int
  r_EquityCurve :: "EquityPoint list"
  r_Trades :: "Trade list"
  r_Signals :: "SignalTrace list"
  r_Unfilled :: UnfilledStats
  r_Fees :: FeeSummary
  r_Attribution :: PnLAttribution
  r_Terminal :: TerminalSummary
  r_DataQuality :: DataQualitySummary

definition session_Result :: "'s Session \<Rightarrow> f64 \<Rightarrow> Bar list option \<Rightarrow> OptionsData option \<Rightarrow> RunError + Result" where
  "session_Result sess initialCash bars opts =
     (if ss_bars sess = 0 then Inl NoBarsProcessed
      else
        (let st = ss_st sess; terminal = terminalSummary st initialCash (ss_finalClose sess);
             final = (case ts_FinalEquityAmount terminal of Some x \<Rightarrow> x | None \<Rightarrow> state_Equity st (ss_finalClose sess));
             fees = summarizeFees (ss_trades sess) (ss_feeModel sess);
             unfilled = \<lparr>us_AttemptCount = st_AttemptCount st, us_FillCount = st_FillCount st, us_UnfilledCount = st_UnfilledCount st,
               us_UnfilledRatio = (if 0 < st_AttemptCount st then Some (of_int64 (st_UnfilledCount st) / of_int64 (st_AttemptCount st)) else None),
               us_ModelKind = modelKind, us_ModelVersion = modelVersion\<rparr>;
             attr = attributionOf st fees unfilled;
             dq = (case bars of Some bs \<Rightarrow> summarizeDataQuality bs opts (ss_signals sess) | None \<Rightarrow> accum_summary (ss_dq sess))
         in Inr \<lparr>r_Equity = final, r_TotalReturn = (final - initialCash) / initialCash,
                 r_RealizedReturnAmount = pa_RealizedPnLAmount attr,
                 r_RealizedReturnPct = pa_RealizedPnLAmount attr / initialCash, r_MaxDrawdown = ss_maxDD sess,
                 r_MaxStockMarketValueAmount = ss_maxStockMarketValue sess, r_Bars = ss_bars sess, r_EquityCurve = ss_curve sess,
                 r_Trades = ss_trades sess, r_Signals = ss_signals sess, r_Unfilled = unfilled, r_Fees = fees,
                 r_Attribution = attr, r_Terminal = terminal, r_DataQuality = dq\<rparr>))"

section \<open>Entry points\<close>

definition RunOptionsWithFeeModel ::
  "(nat \<Rightarrow> string option) \<Rightarrow> 's strategy \<Rightarrow> 's \<Rightarrow> Bar list \<Rightarrow> f64 \<Rightarrow> FeeModel \<Rightarrow> OptionsData option \<Rightarrow> RunError + Result" where
  "RunOptionsWithFeeModel ctx ops s bars initialCash feeModel opts =
     (if bars = [] then Inl EmptyBars
      else if initialCash \<le> 0 then Inl InitialCashNotPositive
      else case fee_validate feeModel of
        Some err \<Rightarrow> Inl (BadFee err)
      | None \<Rightarrow>
          (case ValidateBars bars of
             Some err \<Rightarrow> Inl (BadBars err)
           | None \<Rightarrow>
               (let seed = (case opts of None \<Rightarrow> 0 | Some o' \<Rightarrow> od_RunSeed o') in
                case NewSession initialCash feeModel seed s of
                  Inl err \<Rightarrow> Inl err
                | Inr sess \<Rightarrow>
                    (case Process ctx ops sess bars opts 0 of
                       (sess, Some err) \<Rightarrow> Inl err
                     | (sess, None) \<Rightarrow> session_Result sess initialCash (Some bars) opts))))"

definition RunOptions ::
  "(nat \<Rightarrow> string option) \<Rightarrow> 's strategy \<Rightarrow> 's \<Rightarrow> Bar list \<Rightarrow> f64 \<Rightarrow> f64 \<Rightarrow> OptionsData option \<Rightarrow> RunError + Result" where
  "RunOptions ctx ops s bars initialCash feePerTrade opts =
     RunOptionsWithFeeModel ctx ops s bars initialCash (LegacyFeeModel feePerTrade) opts"

definition Run :: "(nat \<Rightarrow> string option) \<Rightarrow> 's strategy \<Rightarrow> 's \<Rightarrow> Bar list \<Rightarrow> f64 \<Rightarrow> f64 \<Rightarrow> RunError + Result" where
  "Run ctx ops s bars initialCash feePerTrade = RunOptions ctx ops s bars initialCash feePerTrade None"

definition RunWithFeeModel :: "(nat \<Rightarrow> string option) \<Rightarrow> 's strategy \<Rightarrow> 's \<Rightarrow> Bar list \<Rightarrow> f64 \<Rightarrow> FeeModel \<Rightarrow> RunError + Result" where
  "RunWithFeeModel ctx ops s bars initialCash feeModel = RunOptionsWithFeeModel ctx ops s bars initialCash feeModel None"

end
