(* ===== verification/Backtest_Ledger.thy ===== *)
theory Backtest_Ledger
  imports Backtest_Settle
begin

text \<open>
  What settlement guarantees: the accounting of sell attempts, the cash reserve behind short
  puts, that an unfilled attempt changes no holdings, that expiry removes exactly the expired
  legs in an order that does not depend on the iteration order of the Go map, and that
  deliveries never leave the portfolio short of stock.
\<close>

named_theorems settle \<open>commutation and field laws of the settlement steps\<close>

section \<open>Expiry does not read the other legs\<close>

abbreviation with_options :: "BtPosition gomap \<Rightarrow> State \<Rightarrow> State" where
  "with_options opts \<equiv> st_Options_update (\<lambda>_. opts)"

lemma applyStockPosition_options [settle]:
  "applyStockPosition (with_options opts st) d p = with_options opts (applyStockPosition st d p)"
  by (simp add: applyStockPosition_def Let_def)

lemma buyIn_options [settle]:
  "buyIn (with_options opts st) ts fm tr c d = apfst (with_options opts) (buyIn st ts fm tr c d)"
  by (simp add: buyIn_def Let_def applyStockPosition_def)

lemma deliverOut_options [settle]:
  "deliverOut (with_options opts st) ts fm tr c d k = apfst (with_options opts) (deliverOut st ts fm tr c d k)"
  by (simp add: deliverOut_def settle split_beta)

lemma countAssignment_options [settle]:
  "countAssignment (with_options opts st) p = with_options opts (countAssignment st p)"
  by (simp add: countAssignment_def)

lemma exerciseCall_options [settle]:
  "exerciseCall (with_options opts st) ts fm tr c p sh = apfst (with_options opts) (exerciseCall st ts fm tr c p sh)"
  by (simp add: exerciseCall_def settle split_beta Let_def)

lemma exercisePut_options [settle]:
  "exercisePut (with_options opts st) ts fm tr c p sh = apfst (with_options opts) (exercisePut st ts fm tr c p sh)"
  by (simp add: exercisePut_def settle split_beta Let_def)

lemma expireOtm_options [settle]:
  "expireOtm (with_options opts st) ts tr c = apfst (with_options opts) (expireOtm st ts tr c)"
  by (simp add: expireOtm_def)

lemma buyIn_Options [simp]: "st_Options (fst (buyIn st ts fm tr c d)) = st_Options st"
  by (simp add: buyIn_def Let_def)

lemma deliverOut_Options [simp]: "st_Options (fst (deliverOut st ts fm tr c d k)) = st_Options st"
  by (simp add: deliverOut_def split_beta)

lemma countAssignment_Options [simp]: "st_Options (countAssignment st p) = st_Options st"
  by (simp add: countAssignment_def)

lemma exercise_Options [simp]:
  "st_Options (fst (exerciseCall st ts fm tr c p sh)) = st_Options st"
  "st_Options (fst (exercisePut st ts fm tr c p sh)) = st_Options st"
  "st_Options (fst (expireOtm st ts tr c)) = st_Options st"
  by (simp_all add: exerciseCall_def exercisePut_def expireOtm_def split_beta Let_def)

lemma settleLeg_Options:
  assumes "map_of (st_Options st) code \<noteq> None"
  shows "st_Options (fst (settleLeg ts fm (st, tr) code)) = map_delete code (st_Options st)"
  using assms by (auto simp: settleLeg_def Let_def split_beta)

text \<open>A leg settles alike in two states that differ in the order of the map only.\<close>

lemma settleLeg_options:
  assumes "map_of opts code = Some p" "map_of (st_Options st) code = Some p"
  shows "settleLeg ts fm (with_options opts st, tr) code =
    apfst (with_options (map_delete code opts)) (settleLeg ts fm (st, tr) code)"
proof -
  have upd: "(with_options opts st)\<lparr>st_ExpiryCount := n\<rparr> = with_options opts (st\<lparr>st_ExpiryCount := n\<rparr>)"
    "(with_options opts st)\<lparr>st_ShortExpiryCount := n\<rparr> = with_options opts (st\<lparr>st_ShortExpiryCount := n\<rparr>)" for n st
    by simp_all
  show ?thesis
    using assms by (simp add: settleLeg_def Let_def split_beta upd settle del: State.unfold_congs)
qed


lemma set_expiredCodes: "set (expiredCodes st ts) = fst ` {x \<in> set (st_Options st). \<not> ts < bp_Expiry (snd x)}"
  by (auto simp: expiredCodes_def split_beta)

lemma distinct_expiredCodes: "map_ok (st_Options st) \<Longrightarrow> distinct (expiredCodes st ts)"
proof -
  assume ok: "map_ok (st_Options st)"
  let ?cs = "map fst (filter (\<lambda>(code, p). \<not> ts < bp_Expiry p) (st_Options st))"
  have "distinct ?cs" using ok by (auto simp: map_ok_def distinct_map inj_on_subset intro: inj_on_subset)
  moreover have "mset (expiredCodes st ts) = mset ?cs" by (simp add: expiredCodes_def)
  ultimately show ?thesis by (metis mset_eq_imp_distinct_iff)
qed

lemma expiredCodes_sorted: "sorted (expiredCodes st ts)"
  using str_order.sorted_keys [of "map fst (filter (\<lambda>(code, p). \<not> ts < bp_Expiry p) (st_Options st))"]
  by (simp add: expiredCodes_def)

lemma expiredCodes_options:
  assumes "map_ok opts" "map_ok (st_Options st)" "set opts = set (st_Options st)"
  shows "expiredCodes (with_options opts st) ts = expiredCodes st ts"
proof -
  have "set (expiredCodes (with_options opts st) ts) = set (expiredCodes st ts)"
    using assms(3) by (simp add: set_expiredCodes)
  moreover have "distinct (expiredCodes (with_options opts st) ts)" "distinct (expiredCodes st ts)"
    using assms distinct_expiredCodes [of st] distinct_expiredCodes [of "with_options opts st"] by simp_all
  ultimately show ?thesis using expiredCodes_sorted sorted_distinct_set_unique by metis
qed

lemma foldl_settleLeg_options:
  assumes "\<forall>c \<in> set cs. map_of opts c = map_of (st_Options st) c \<and> map_of opts c \<noteq> None" "distinct cs"
  shows "foldl (settleLeg ts fm) (with_options opts st, tr) cs =
    apfst (with_options (foldl (\<lambda>m c. map_delete c m) opts cs)) (foldl (settleLeg ts fm) (st, tr) cs)"
  using assms
proof (induction cs arbitrary: opts st tr)
  case Nil
  then show ?case by simp
next
  case (Cons c cs)
  obtain p where p: "map_of opts c = Some p" "map_of (st_Options st) c = Some p" using Cons.prems(1) by (metis list.set_intros(1) option.exhaust)
  obtain st1 tr1 where s1: "settleLeg ts fm (st, tr) c = (st1, tr1)" by fastforce
  have o1: "st_Options st1 = map_delete c (st_Options st)"
    using settleLeg_Options [of st c ts fm tr] p s1 by simp
  have "\<forall>x \<in> set cs. map_of (map_delete c opts) x = map_of (st_Options st1) x \<and> map_of (map_delete c opts) x \<noteq> None"
  proof
    fix x assume x: "x \<in> set cs"
    have "x \<noteq> c" using x Cons.prems(2) by auto
    moreover have "map_of opts x = map_of (st_Options st) x \<and> map_of opts x \<noteq> None"
      using Cons.prems(1) x by (metis list.set_intros(2))
    ultimately show "map_of (map_delete c opts) x = map_of (st_Options st1) x \<and> map_of (map_delete c opts) x \<noteq> None"
      unfolding o1 map_of_delete by (metis fun_upd_other)
  qed
  from Cons.IH [OF this] Cons.prems(2) show ?case by (simp add: settleLeg_options [OF p] s1)
qed

lemma map_delete_set: "set (foldl (\<lambda>m c. map_delete c m) opts cs) = {x \<in> set opts. fst x \<notin> set cs}"
  by (induction cs arbitrary: opts) (auto simp: map_delete_def)

lemma foldl_settleLeg_Options:
  "\<forall>c \<in> set cs. map_of (st_Options st) c \<noteq> None \<Longrightarrow> distinct cs \<Longrightarrow>
   st_Options (fst (foldl (settleLeg ts fm) (st, tr) cs)) = foldl (\<lambda>m c. map_delete c m) (st_Options st) cs"
proof (induction cs arbitrary: st tr)
  case (Cons c cs)
  obtain st1 tr1 where s1: "settleLeg ts fm (st, tr) c = (st1, tr1)" by fastforce
  have o1: "st_Options st1 = map_delete c (st_Options st)"
    using settleLeg_Options [of st c ts fm tr] Cons.prems s1 by simp
  have "\<forall>x \<in> set cs. map_of (st_Options st1) x \<noteq> None" using Cons.prems by (auto simp: o1)
  from Cons.IH [OF this] Cons.prems(2) show ?case by (simp add: s1 o1)
qed simp

lemma expired_present: "c \<in> set (expiredCodes st ts) \<Longrightarrow> map_of (st_Options st) c \<noteq> None"
  by (auto simp: set_expiredCodes map_of_eq_None_iff)

text \<open>
  Settlement at expiry is deterministic although Go iterates over maps in random order: for the
  same legs in any order, the trades, cash, stock, basis and counters are identical, and the
  remaining legs are the same set - exactly the legs that have not expired.
\<close>

theorem expiry_order_independent:
  assumes "map_ok (st_Options st)" and "map_ok opts" and "set opts = set (st_Options st)"
  shows "\<exists>rest. settleExpired (with_options opts st) ts fm trades =
      apfst (with_options rest) (settleExpired st ts fm trades)
    \<and> set rest = {x \<in> set (st_Options st). ts < bp_Expiry (snd x)}
    \<and> set (st_Options (fst (settleExpired st ts fm trades))) = set rest"
proof -
  let ?cs = "expiredCodes st ts"
  have lk: "map_of opts c = map_of (st_Options st) c" for c
    using assms map_ok_lookup by (metis not_Some_eq option.collapse option.sel)
  have pres: "\<forall>c \<in> set ?cs. map_of opts c = map_of (st_Options st) c \<and> map_of opts c \<noteq> None"
    using lk expired_present by simp
  have dist: "distinct ?cs" by (rule distinct_expiredCodes [OF assms(1)])
  define rest where "rest = foldl (\<lambda>m c. map_delete c m) opts ?cs"
  have "settleExpired (with_options opts st) ts fm trades = apfst (with_options rest) (settleExpired st ts fm trades)"
    unfolding settleExpired_def expiredCodes_options [OF assms(2,1,3)] rest_def
    by (rule foldl_settleLeg_options [OF pres dist])
  moreover have key: "fst x \<in> set ?cs \<longleftrightarrow> \<not> ts < bp_Expiry (snd x)" if "x \<in> set (st_Options st)" for x
  proof -
    have "snd y = snd x" if "y \<in> set (st_Options st)" "fst y = fst x" for y
      using that \<open>x \<in> set (st_Options st)\<close> assms(1) map_ok_lookup by (metis option.sel prod.collapse)
    then show ?thesis using that by (force simp: set_expiredCodes)
  qed
  have "set rest = {x \<in> set (st_Options st). ts < bp_Expiry (snd x)}"
    using key assms(3) by (auto simp: rest_def map_delete_set)
  moreover have "set (st_Options (fst (settleExpired st ts fm trades))) = {x \<in> set (st_Options st). fst x \<notin> set ?cs}"
    using foldl_settleLeg_Options [of ?cs st ts fm trades] expired_present dist
    by (simp add: settleExpired_def map_delete_set)
  ultimately show ?thesis using key by blast
qed

definition sample_position :: "string \<Rightarrow> string \<Rightarrow> rat \<Rightarrow> rat \<Rightarrow> time \<Rightarrow> BtPosition" where
  "sample_position code kind strike contracts expiry = \<lparr>bp_Code = code, bp_Kind = kind, bp_Strike = Fin strike, bp_Expiry = expiry,
     bp_Lot = 100, bp_Contracts = Fin contracts, bp_AvgPremium = Fin 2, bp_MarketDelta = 0, bp_Delta = 0, bp_LotSize = 100\<rparr>"

definition sample_options :: "BtPosition gomap" where
  "sample_options = [(''P60'', sample_position ''P60'' ''put'' 60 (- 1) 20), (''C80'', sample_position ''C80'' ''call'' 80 (- 2) 10)]"

definition sample_state :: State where
  "sample_state = (new_state (Fin 10000))\<lparr>st_Price := Fin 90, st_Options := sample_options\<rparr>"

theorem expiry_order_independent_witness:
  "\<exists>rest. settleExpired (with_options (rev sample_options) sample_state) 15 DefaultFeeModel [] =
      apfst (with_options rest) (settleExpired sample_state 15 DefaultFeeModel [])"
proof -
  have "map_ok (st_Options sample_state)" "map_ok (rev sample_options)" "set (rev sample_options) = set (st_Options sample_state)"
    by (simp_all add: sample_state_def sample_options_def map_ok_def insert_commute)
  from expiry_order_independent [OF this] show ?thesis by blast
qed

section \<open>The accounting of sell attempts\<close>

text \<open>Every attempt was filled or not, and the attempts per contract add up.\<close>

definition attempts_balanced :: "State \<Rightarrow> bool" where
  "attempts_balanced st \<longleftrightarrow>
     st_AttemptCount st = st_FillCount st + st_UnfilledCount st
     \<and> map_ok (st_AttemptsByContract st) \<and> sum_list (map snd (st_AttemptsByContract st)) = st_AttemptCount st"

lemma sum_map_put:
  "map_ok m \<Longrightarrow> sum_list (map snd (map_put k (map_get 0 m k + (1 :: int)) m)) = sum_list (map snd m) + 1"
  by (induction m) (auto simp: map_get_def map_ok_def)

lemma bookFill_counts [simp]:
  "st_AttemptCount (fst (bookFill st act sz b fm tr p price)) = st_AttemptCount st"
  "st_FillCount (fst (bookFill st act sz b fm tr p price)) = st_FillCount st"
  "st_UnfilledCount (fst (bookFill st act sz b fm tr p price)) = st_UnfilledCount st"
  "st_AttemptsByContract (fst (bookFill st act sz b fm tr p price)) = st_AttemptsByContract st"
  by (simp_all add: bookFill_def Let_def)

lemma balanced_bookFill [simp]: "attempts_balanced (fst (bookFill st act sz b fm tr p price)) = attempts_balanced st"
  by (simp add: attempts_balanced_def)

section \<open>What one option trade does\<close>

lemma bookFill_holdings:
  "st_Cash (fst (bookFill st act sz b fm tr p price)) = st_Cash st + (optionFlow act sz p - fee_fee fm (action_String act) sz)"
  "st_Position (fst (bookFill st act sz b fm tr p price)) = st_Position st"
  by (simp_all add: bookFill_def Let_def)

lemma countAttempt_fields [simp]:
  "st_Cash (countAttempt st p) = st_Cash st" "st_Position (countAttempt st p) = st_Position st"
  "st_Options (countAttempt st p) = st_Options st" "st_OptPrice (countAttempt st p) = st_OptPrice st"
  "st_FillCount (countAttempt st p) = st_FillCount st" "st_UnfilledCount (countAttempt st p) = st_UnfilledCount st"
  "st_PremiumIncome (countAttempt st p) = st_PremiumIncome st" "st_StockAverageCost (countAttempt st p) = st_StockAverageCost st"
  "st_OptionCloseCost (countAttempt st p) = st_OptionCloseCost st" "st_StockRealizedPnL (countAttempt st p) = st_StockRealizedPnL st"
  by (simp_all add: countAttempt_def)

lemma settleOptionTrade_Inr:
  assumes "settleOptionTrade st act sz b fm seed tr = Inr (st', tr')"
  obtains (unfilled) p price where "checkOptionTrade st act sz b fm = Inr (p, price)" "isSell act"
      "st' = (countAttempt st p)\<lparr>st_UnfilledCount := st_UnfilledCount st + 1,
         st_UnfilledAttemptPremium := st_UnfilledAttemptPremium (countAttempt st p) + sz * bp_AvgPremium p * of_int64 (leg_lot p),
         st_Pending := None\<rparr>"
      "tr' = tr @ [(new_trade (b_Ts b) (action_String act) (st_Cash st))\<lparr>t_Symbol := bp_Code p, t_Size := sz,
                 t_Price := bp_AvgPremium p, t_UnfilledModel := unfilledModelLabel\<rparr>]"
  | (sold) p price where "checkOptionTrade st act sz b fm = Inr (p, price)" "isSell act"
      "(st', tr') = bookFill ((countAttempt st p)\<lparr>st_FillCount := st_FillCount st + 1,
         st_PremiumIncome := st_PremiumIncome st + sz * bp_AvgPremium p * of_int64 (leg_lot p)\<rparr>) act sz b fm tr p price"
  | (bought) p price where "checkOptionTrade st act sz b fm = Inr (p, price)" "\<not> isSell act"
      "(st', tr') = bookFill (st\<lparr>st_OptionCloseCost := st_OptionCloseCost st + sz * bp_AvgPremium p * of_int64 (leg_lot p)\<rparr>)
         act sz b fm tr p price"
proof -
  obtain p price where c: "checkOptionTrade st act sz b fm = Inr (p, price)"
    using assms by (auto simp: settleOptionTrade_def split: sum.splits)
  show ?thesis
  proof (cases "isSell act")
    case False
    then show ?thesis using assms c bought [OF c] by (simp add: settleOptionTrade_def Let_def)
  next
    case True
    then show ?thesis
      using assms c unfilled [OF c] sold [OF c]
      by (cases "attemptUnfilled (countAttempt st p) p b seed") (simp_all add: settleOptionTrade_def Let_def)
  qed
qed

lemma bookFill_fst: "(st', tr') = bookFill st act sz b fm tr p price \<Longrightarrow> st' = fst (bookFill st act sz b fm tr p price)"
  by (metis fst_conv)

lemma balanced_countAttempt:
  assumes "attempts_balanced st"
  shows "st_AttemptCount (countAttempt st p) = st_FillCount st + st_UnfilledCount st + 1"
    "map_ok (st_AttemptsByContract (countAttempt st p))"
    "sum_list (map snd (st_AttemptsByContract (countAttempt st p))) = st_FillCount st + st_UnfilledCount st + 1"
  using assms sum_map_put [of "st_AttemptsByContract st" "bp_Code p"] by (simp_all add: attempts_balanced_def countAttempt_def)

lemma settleOptionTrade_balanced:
  assumes "attempts_balanced st" "settleOptionTrade st act sz b fm seed tr = Inr (st', tr')"
  shows "attempts_balanced st'"
  using assms(2)
proof (cases rule: settleOptionTrade_Inr)
  case (unfilled p price)
  then show ?thesis using balanced_countAttempt [OF assms(1)] by (simp add: attempts_balanced_def)
next
  case (sold p price)
  then show ?thesis
    using balanced_countAttempt [OF assms(1), of p] by (simp add: bookFill_fst [OF sold(3)]) (simp add: attempts_balanced_def)
next
  case (bought p price)
  then show ?thesis using assms(1) by (simp add: bookFill_fst [OF bought(3)]) (simp add: attempts_balanced_def)
qed

lemma settleAction_balanced:
  assumes "attempts_balanced st" "settleAction st act sz b fm seed tr = Inr (st', tr')"
  shows "attempts_balanced st'"
  using assms settleOptionTrade_balanced [OF assms(1), of act sz b fm seed tr]
  by (cases act) (auto simp: settleAction_def Let_def attempts_balanced_def split: if_splits)

text \<open>
  An unfilled sell attempt books nothing: cash, stock, basis, option legs, marks and the realised
  ledger stay as they were; the ledger gets one trade that is not filled, carries no fee and
  names the model; the attempt is counted, and the pending order is consumed.
\<close>

theorem unfilled_attempt_inert:
  assumes "settleOptionTrade st act sz b fm seed tr = Inr (st', tr')" and "st_UnfilledCount st' \<noteq> st_UnfilledCount st"
  shows "st_Cash st' = st_Cash st \<and> st_Position st' = st_Position st \<and> st_Options st' = st_Options st
    \<and> st_OptPrice st' = st_OptPrice st \<and> st_StockAverageCost st' = st_StockAverageCost st
    \<and> st_PremiumIncome st' = st_PremiumIncome st \<and> st_OptionCloseCost st' = st_OptionCloseCost st
    \<and> st_StockRealizedPnL st' = st_StockRealizedPnL st \<and> st_FillCount st' = st_FillCount st
    \<and> st_AttemptCount st' = st_AttemptCount st + 1 \<and> st_UnfilledCount st' = st_UnfilledCount st + 1
    \<and> st_Pending st' = None
    \<and> (\<exists>t. tr' = tr @ [t] \<and> \<not> t_Filled t \<and> t_Fee t = 0 \<and> t_CashAfter t = st_Cash st \<and> t_UnfilledModel t = unfilledModelLabel)"
  using assms(1)
proof (cases rule: settleOptionTrade_Inr)
  case (unfilled p price)
  then show ?thesis by (simp add: new_trade_def) (simp add: countAttempt_def)
next
  case (sold p price)
  then have "st_UnfilledCount st' = st_UnfilledCount st" by (simp add: bookFill_fst [OF sold(3)])
  then show ?thesis using assms(2) by simp
next
  case (bought p price)
  then have "st_UnfilledCount st' = st_UnfilledCount st" by (simp add: bookFill_fst [OF bought(3)])
  then show ?thesis using assms(2) by simp
qed

definition sample_sell_state :: State where
  "sample_sell_state = (new_state (Fin 10000))\<lparr>st_Price := Fin 90, st_Pending := Some (sample_position ''P60'' ''put'' 60 (- 1) 20),
     st_OptBars := Some [(''P60'', [sample_bar 5 2])]\<rparr>"

definition sample_sale :: "SettleError + (State \<times> Trade list)" where
  "sample_sale = settleOptionTrade sample_sell_state ActSellPut (Fin 1) (sample_bar 5 90) DefaultFeeModel 42 []"

lemma sample_sale_unfilled: "case sample_sale of Inl _ \<Rightarrow> False | Inr r \<Rightarrow> st_UnfilledCount (fst r) \<noteq> st_UnfilledCount sample_sell_state"
  by code_simp

theorem unfilled_attempt_inert_witness:
  "\<exists>st' tr'. sample_sale = Inr (st', tr') \<and> st_Cash st' = Fin 10000 \<and> st_AttemptCount st' = 1 \<and> st_Options st' = []"
proof -
  obtain st' tr' where s: "sample_sale = Inr (st', tr')" "st_UnfilledCount st' \<noteq> st_UnfilledCount sample_sell_state"
    using sample_sale_unfilled by (auto split: sum.splits)
  from unfilled_attempt_inert [OF s(1) [unfolded sample_sale_def] s(2)] s(1) show ?thesis
    by (intro exI [of _ st'] exI [of _ tr']) (simp add: sample_sell_state_def new_state_def)
qed

lemma checkOptionTrade_InrD:
  assumes "checkOptionTrade st act sz b fm = Inr (p, price)"
  shows "st_Pending st = Some p" "\<not> sz \<le> 0" "bp_Kind p = wantKind act" "0 < leg_lot p" "\<not> bp_Strike p \<le> 0"
    "state_PriceAt st (bp_Code p) (b_Ts b) = Some price"
    "\<not> (optionFlow act sz p < 0 \<and> st_Cash st + (optionFlow act sz p - fee_fee fm (action_String act) sz) < - buyTol)"
    "act = ActSellPut \<Longrightarrow> \<not> st_Cash st + (optionFlow act sz p - fee_fee fm (action_String act) sz)
       < shortPutCashReserve (st_Options st) + sz * of_int64 (leg_lot p) * bp_Strike p"
  using assms by (auto simp: checkOptionTrade_def Let_def split: if_splits option.splits)


definition sample_fill_state :: State where
  "sample_fill_state = sample_sell_state\<lparr>st_Quotes := [\<lparr>q_Symbol = ''P60'', q_Code = [], q_Underlying = [], q_Source = [], q_OptionType = [],
     q_Type = [], q_Expiry = 20, q_Strike = Fin 60, q_Delta = 0, q_MarketDelta = 0, q_Bid = Fin 2, q_Ask = Fin 2, q_Last = 0,
     q_ImpliedVol = 0, q_Theta = None, q_Volume = 1000000, q_OpenInterest = 1000000, q_LotSize = 100, q_QuoteTime = 5,
     q_CapturedAt = 0, q_Timestamp = 0, q_Ts = 0, q_IV = 0, q_OI = 0\<rparr>]\<rparr>"

definition sample_fill :: "SettleError + (State \<times> Trade list)" where
  "sample_fill = settleOptionTrade sample_fill_state ActSellPut (Fin 1) (sample_bar 5 90) DefaultFeeModel 42 []"

lemma sample_fill_filled:
  "case sample_fill of Inl _ \<Rightarrow> False | Inr r \<Rightarrow> st_FillCount (fst r) \<noteq> st_FillCount sample_fill_state \<and> \<not> is_nan (st_Cash (fst r))"
  by code_simp


section \<open>Deliveries never leave a short stock position\<close>

text \<open>Whole numbers of shares below 2 ^ 53 are exact.\<close>

abbreviation whole :: "int \<Rightarrow> f64" where
  "whole n \<equiv> Fin (of_int n)"

lemma whole_add: "\<bar>a + b\<bar> \<le> 2 ^ 53 \<Longrightarrow> whole a + whole b = whole (a + b)"
  using is_f64_int [of "a + b"] by (simp add: round64_exact)

lemma whole_diff: "\<bar>a - b\<bar> \<le> 2 ^ 53 \<Longrightarrow> whole a - whole b = whole (a - b)"
  using is_f64_int [of "a - b"] by (simp add: minus_Fin round64_exact)

lemma whole_mult: "\<bar>a * b\<bar> \<le> 2 ^ 53 \<Longrightarrow> whole a * whole b = whole (a * b)"
  using is_f64_int [of "a * b"] by (simp add: round64_exact)

lemma apply_whole:
  assumes "st_Position st = whole n" "\<bar>n + d\<bar> \<le> 2 ^ 53"
  shows "st_Position (applyStockPosition st (whole d) p) = whole (n + d)"
  using assms whole_add [of n d] by (auto simp: applyStockPosition_Position feq_def zero_f64_def)

lemma buyIn_whole:
  assumes "st_Position st = whole n" "0 \<le> n" "0 \<le> d" "n \<le> 2 ^ 53" "d \<le> 2 ^ 53"
  shows "st_Position (fst (buyIn st ts fm tr c (whole d))) = whole (max n d)"
proof -
  have g: "whole d - whole n = whole (d - n)" using assms by (intro whole_diff) simp
  show ?thesis
  proof (cases "n < d")
    case True
    then have "st_Position (fst (buyIn st ts fm tr c (whole d))) = whole (n + (d - n))"
      unfolding buyIn_def Let_def assms(1) g
      using apply_whole [of "st\<lparr>st_Cash := x\<rparr>" n "d - n" for x] assms by (simp add: zero_f64_def)
    then show ?thesis using True by simp
  next
    case False
    then show ?thesis using assms g by (simp add: buyIn_def Let_def zero_f64_def max_def)
  qed
qed

lemma deliverOut_Position [simp]: "st_Position (fst (deliverOut st ts fm tr c d k)) = st_Position (fst (buyIn st ts fm tr c d))"
  by (simp add: deliverOut_def split_beta)

lemma countAssignment_Position [simp]: "st_Position (countAssignment st p) = st_Position st"
  by (simp add: countAssignment_def)

lemma exerciseCall_whole:
  assumes "st_Position st = whole n" "0 \<le> n" "n + \<bar>s\<bar> \<le> 2 ^ 53"
  shows "st_Position (fst (exerciseCall st ts fm tr c p (whole s))) = whole (max 0 (n + s))"
proof (cases "s < 0")
  case True
  let ?st = "fst (deliverOut (countAssignment st p) ts fm tr c (whole (- s)) (bp_Strike p))"
  have "st_Position ?st = whole (max n (- s))"
    using buyIn_whole [of "countAssignment st p" n "- s" ts fm tr c] assms True by simp
  then have "st_Position (applyStockPosition ?st (whole s) (bp_Strike p)) = whole (max n (- s) + s)"
    using assms True by (intro apply_whole) auto
  then show ?thesis
    using True by (simp add: exerciseCall_def Let_def split_beta zero_f64_def max_def split: if_splits)
next
  case False
  then have "st_Position (applyStockPosition (countAssignment st p) (whole s) (bp_Strike p)) = whole (n + s)"
    using assms by (intro apply_whole) auto
  then show ?thesis using False assms by (simp add: exerciseCall_def Let_def split_beta zero_f64_def)
qed

lemma exercisePut_whole:
  assumes "st_Position st = whole n" "0 \<le> n" "n + \<bar>s\<bar> \<le> 2 ^ 53" "0 < bp_Contracts p \<longleftrightarrow> 0 < s"
  shows "st_Position (fst (exercisePut st ts fm tr c p (whole s))) = whole (max 0 (n - s))"
proof (cases "0 < s")
  case True
  let ?st = "fst (deliverOut (countAssignment st p) ts fm tr c (whole s) (bp_Strike p))"
  have "st_Position ?st = whole (max n s)"
    using buyIn_whole [of "countAssignment st p" n s ts fm tr c] assms True by simp
  then have "st_Position (applyStockPosition ?st (whole (- s)) (bp_Strike p)) = whole (max n s + - s)"
    using assms True by (intro apply_whole) auto
  then show ?thesis
    using True assms(4) by (simp add: exercisePut_def Let_def split_beta max_def split: if_splits)
next
  case False
  then have "st_Position (applyStockPosition (countAssignment st p) (whole (- s)) (bp_Strike p)) = whole (n + - s)"
    using assms by (intro apply_whole) auto
  then show ?thesis using False assms by (simp add: exercisePut_def Let_def split_beta)
qed

text \<open>A leg of whole contracts and the shares it stands for.\<close>

definition whole_leg :: "BtPosition \<Rightarrow> int \<Rightarrow> bool" where
  "whole_leg p s \<longleftrightarrow> (\<exists>k. bp_Contracts p = whole k \<and> s = k * leg_lot p \<and> 0 < leg_lot p \<and> leg_lot p \<le> 2 ^ 53 \<and> \<bar>s\<bar> \<le> 2 ^ 53)"

lemma whole_leg_shares:
  assumes "whole_leg p s"
  shows "bp_Contracts p * of_int64 (leg_lot p) = whole s" "0 < bp_Contracts p \<longleftrightarrow> 0 < s"
proof -
  obtain k where k: "bp_Contracts p = whole k" "s = k * leg_lot p" "0 < leg_lot p" "leg_lot p \<le> 2 ^ 53" "\<bar>s\<bar> \<le> 2 ^ 53"
    using assms by (auto simp: whole_leg_def)
  then show "bp_Contracts p * of_int64 (leg_lot p) = whole s"
    using whole_mult [of k "leg_lot p"] by (simp add: of_int64_exact)
  show "0 < bp_Contracts p \<longleftrightarrow> 0 < s" using k by (simp add: zero_f64_def zero_less_mult_iff)
qed

lemma expireOtm_Position [simp]: "st_Position (fst (expireOtm st ts tr c)) = st_Position st"
  by (simp add: expireOtm_def)

lemma settleLeg_whole:
  assumes "st_Position st = whole n" "0 \<le> n" "map_of (st_Options st) code = Some p" "whole_leg p s" "n + \<bar>s\<bar> \<le> 2 ^ 53"
  shows "\<exists>n'. st_Position (fst (settleLeg ts fm (st, tr) code)) = whole n' \<and> 0 \<le> n' \<and> n' \<le> n + \<bar>s\<bar>"
proof -
  note sh = whole_leg_shares [OF assms(4)]
  let ?st1 = "st\<lparr>st_ExpiryCount := st_ExpiryCount st + 1\<rparr>"
  define st2 where "st2 = (if bp_Contracts p < 0 then ?st1\<lparr>st_ShortExpiryCount := st_ShortExpiryCount ?st1 + 1\<rparr> else ?st1)"
  have n2: "st_Position st2 = whole n" using assms(1) by (simp add: st2_def)
  note c = exerciseCall_whole [OF n2 assms(2,5)] and q = exercisePut_whole [OF n2 assms(2,5) sh(2)]
  have "st_Position (fst (settleLeg ts fm (st, tr) code)) \<in> {whole n, whole (max 0 (n + s)), whole (max 0 (n - s))}"
    using assms(3) n2 by (simp add: settleLeg_def Let_def split_beta sh(1) st2_def [symmetric] c q)
  then show ?thesis using assms(2) by (elim insertE emptyE) (auto simp: max_def)
qed

lemma foldl_settleLeg_whole:
  assumes "st_Position st = whole n" "0 \<le> n" "distinct cs"
    "\<forall>c \<in> set cs. \<exists>p. map_of (st_Options st) c = Some p \<and> whole_leg p (f c)"
    "n + (\<Sum>c\<leftarrow>cs. \<bar>f c\<bar>) \<le> 2 ^ 53"
  shows "\<exists>n'. st_Position (fst (foldl (settleLeg ts fm) (st, tr) cs)) = whole n' \<and> 0 \<le> n' \<and> n' \<le> n + (\<Sum>c\<leftarrow>cs. \<bar>f c\<bar>)"
  using assms
proof (induction cs arbitrary: st tr n)
  case (Cons c cs)
  obtain p where p: "map_of (st_Options st) c = Some p" "whole_leg p (f c)" using Cons.prems(4) by auto
  have nn: "0 \<le> (\<Sum>c\<leftarrow>cs. \<bar>f c\<bar>)" by (rule sum_list_nonneg) auto
  obtain st1 tr1 where s1: "settleLeg ts fm (st, tr) c = (st1, tr1)" by fastforce
  obtain n1 where n1: "st_Position st1 = whole n1" "0 \<le> n1" "n1 \<le> n + \<bar>f c\<bar>"
    using settleLeg_whole [OF Cons.prems(1,2) p, of ts fm tr] Cons.prems(5) nn s1 by auto
  have o1: "st_Options st1 = map_delete c (st_Options st)" using settleLeg_Options [of st c ts fm tr] p s1 by simp
  have "\<forall>x \<in> set cs. \<exists>p. map_of (st_Options st1) x = Some p \<and> whole_leg p (f x)"
    using Cons.prems(3,4) by (auto simp: o1)
  moreover have "n1 + (\<Sum>c\<leftarrow>cs. \<bar>f c\<bar>) \<le> 2 ^ 53" using n1(3) Cons.prems(5) by simp
  ultimately obtain n2 where "st_Position (fst (foldl (settleLeg ts fm) (st1, tr1) cs)) = whole n2" "0 \<le> n2"
      "n2 \<le> n1 + (\<Sum>c\<leftarrow>cs. \<bar>f c\<bar>)"
    using Cons.IH [OF n1(1,2)] Cons.prems(3) by fastforce
  then show ?case using n1(3) s1 by (intro exI [of _ n2]) simp
qed auto

lemma sum_list_subset:
  fixes f :: "'a \<Rightarrow> int"
  assumes "distinct xs" "distinct ys" "set xs \<subseteq> set ys"
  shows "(\<Sum>x\<leftarrow>xs. \<bar>f x\<bar>) \<le> (\<Sum>y\<leftarrow>ys. \<bar>f y\<bar>)"
  using sum_mono2 [OF _ assms(3), of "\<lambda>x. \<bar>f x\<bar>"] assms by (simp add: sum_list_distinct_conv_sum_set)



section \<open>Counters through expiry\<close>

text \<open>Assignments are short legs, short legs are legs: what the assignment rate divides.\<close>

definition expiry_counts_ok :: "State \<Rightarrow> bool" where
  "expiry_counts_ok st \<longleftrightarrow> 0 \<le> st_AssignmentCount st \<and> st_AssignmentCount st \<le> st_ShortExpiryCount st
     \<and> st_ShortExpiryCount st \<le> st_ExpiryCount st"

lemma buyIn_counts [simp]:
  "st_AttemptCount (fst (buyIn st ts fm tr c d)) = st_AttemptCount st"
  "st_FillCount (fst (buyIn st ts fm tr c d)) = st_FillCount st"
  "st_UnfilledCount (fst (buyIn st ts fm tr c d)) = st_UnfilledCount st"
  "st_AttemptsByContract (fst (buyIn st ts fm tr c d)) = st_AttemptsByContract st"
  "st_ExpiryCount (fst (buyIn st ts fm tr c d)) = st_ExpiryCount st"
  "st_ShortExpiryCount (fst (buyIn st ts fm tr c d)) = st_ShortExpiryCount st"
  "st_AssignmentCount (fst (buyIn st ts fm tr c d)) = st_AssignmentCount st"
  by (simp_all add: buyIn_def Let_def)

lemma deliverOut_counts [simp]:
  "st_AttemptCount (fst (deliverOut st ts fm tr c d k)) = st_AttemptCount st"
  "st_FillCount (fst (deliverOut st ts fm tr c d k)) = st_FillCount st"
  "st_UnfilledCount (fst (deliverOut st ts fm tr c d k)) = st_UnfilledCount st"
  "st_AttemptsByContract (fst (deliverOut st ts fm tr c d k)) = st_AttemptsByContract st"
  "st_ExpiryCount (fst (deliverOut st ts fm tr c d k)) = st_ExpiryCount st"
  "st_ShortExpiryCount (fst (deliverOut st ts fm tr c d k)) = st_ShortExpiryCount st"
  "st_AssignmentCount (fst (deliverOut st ts fm tr c d k)) = st_AssignmentCount st"
  by (simp_all add: deliverOut_def split_beta)

lemma exercise_counts:
  "attempts_balanced (fst (exerciseCall st ts fm tr c p sh)) = attempts_balanced st"
  "attempts_balanced (fst (exercisePut st ts fm tr c p sh)) = attempts_balanced st"
  "attempts_balanced (fst (expireOtm st ts tr c)) = attempts_balanced st"
  "st_AssignmentCount (fst (exerciseCall st ts fm tr c p sh)) = st_AssignmentCount st + (if bp_Contracts p < 0 then 1 else 0)"
  "st_AssignmentCount (fst (exercisePut st ts fm tr c p sh)) = st_AssignmentCount st + (if bp_Contracts p < 0 then 1 else 0)"
  "st_AssignmentCount (fst (expireOtm st ts tr c)) = st_AssignmentCount st"
  "st_ShortExpiryCount (fst (exerciseCall st ts fm tr c p sh)) = st_ShortExpiryCount st"
  "st_ShortExpiryCount (fst (exercisePut st ts fm tr c p sh)) = st_ShortExpiryCount st"
  "st_ShortExpiryCount (fst (expireOtm st ts tr c)) = st_ShortExpiryCount st"
  "st_ExpiryCount (fst (exerciseCall st ts fm tr c p sh)) = st_ExpiryCount st"
  "st_ExpiryCount (fst (exercisePut st ts fm tr c p sh)) = st_ExpiryCount st"
  "st_ExpiryCount (fst (expireOtm st ts tr c)) = st_ExpiryCount st"
  by (simp_all add: exerciseCall_def exercisePut_def expireOtm_def Let_def split_beta countAssignment_def attempts_balanced_def)

lemma settleLeg_counts:
  shows "attempts_balanced (fst (settleLeg ts fm (st, tr) code)) = attempts_balanced st"
    and "expiry_counts_ok st \<Longrightarrow> expiry_counts_ok (fst (settleLeg ts fm (st, tr) code))"
proof -
  have opt: "attempts_balanced (st_Options_update g s) = attempts_balanced s"
    "attempts_balanced (st_ExpiryCount_update h s) = attempts_balanced s"
    "attempts_balanced (st_ShortExpiryCount_update h s) = attempts_balanced s" for g h s
    by (simp_all add: attempts_balanced_def)
  show "attempts_balanced (fst (settleLeg ts fm (st, tr) code)) = attempts_balanced st"
    by (cases "map_of (st_Options st) code") (simp_all add: settleLeg_def Let_def split_beta exercise_counts opt)
  show "expiry_counts_ok (fst (settleLeg ts fm (st, tr) code))" if "expiry_counts_ok st"
    using that by (cases "map_of (st_Options st) code")
      (auto simp: settleLeg_def Let_def split_beta exercise_counts expiry_counts_ok_def)
qed

lemma settleExpired_counts:
  shows "attempts_balanced (fst (settleExpired st ts fm tr)) = attempts_balanced st"
    and "expiry_counts_ok st \<Longrightarrow> expiry_counts_ok (fst (settleExpired st ts fm tr))"
proof -
  have "attempts_balanced (fst (foldl (settleLeg ts fm) acc cs)) = attempts_balanced (fst acc)" for acc cs
    by (induction cs arbitrary: acc) (simp_all, metis prod.collapse settleLeg_counts(1))
  then show "attempts_balanced (fst (settleExpired st ts fm tr)) = attempts_balanced st" by (simp add: settleExpired_def)
  have "expiry_counts_ok (fst acc) \<Longrightarrow> expiry_counts_ok (fst (foldl (settleLeg ts fm) acc cs))" for acc cs
    by (induction cs arbitrary: acc) (simp_all, metis prod.collapse settleLeg_counts(2))
  then show "expiry_counts_ok st \<Longrightarrow> expiry_counts_ok (fst (settleExpired st ts fm tr))" by (simp add: settleExpired_def)
qed

lemma settleOptionTrade_expiry_counts:
  assumes "settleOptionTrade st act sz b fm seed tr = Inr (st', tr')"
  shows "expiry_counts_ok st' = expiry_counts_ok st"
proof -
  have bf: "expiry_counts_ok (fst (bookFill s act sz b fm tr p price)) = expiry_counts_ok s" for s p price
    by (simp add: bookFill_def Let_def expiry_counts_ok_def)
  show ?thesis using assms
  proof (cases rule: settleOptionTrade_Inr)
    case (unfilled p price)
    then show ?thesis by (simp add: expiry_counts_ok_def countAttempt_def)
  next
    case (sold p price)
    then show ?thesis unfolding bookFill_fst [OF sold(3)] bf by (simp add: expiry_counts_ok_def countAttempt_def)
  next
    case (bought p price)
    then show ?thesis unfolding bookFill_fst [OF bought(3)] bf by (simp add: expiry_counts_ok_def)
  qed
qed

lemma settleAction_expiry_counts:
  assumes "settleAction st act sz b fm seed tr = Inr (st', tr')"
  shows "expiry_counts_ok st' = expiry_counts_ok st"
  using assms settleOptionTrade_expiry_counts [of st act sz b fm seed tr]
  by (cases act) (auto simp: settleAction_def Let_def expiry_counts_ok_def split: if_splits)

end
