(* ===== verification/Backtest_Replay.thy ===== *)
theory Backtest_Replay
  imports Backtest_Session Backtest_Ledger
begin

text \<open>
  What a replay guarantees: the contract of a strategy (it may only set the pending order) and
  the invariants of the session under that contract, replay in chunks, no look-ahead in the
  choice of quotes and marks, the drawdown bound, and the two built-in strategies.
\<close>

section \<open>The strategy contract\<close>

locale strategy_contract =
  fixes ops :: "'s strategy"
  assumes only_pending: "s_OnBar ops s b st = (r, s', st') \<Longrightarrow> st' = st\<lparr>st_Pending := st_Pending st'\<rparr>"

interpretation hold_strategy: strategy_contract HoldStrategy
  by unfold_locales (simp add: HoldStrategy_def)

interpretation buy_hold: strategy_contract BuyHoldStrategy
  by unfold_locales (auto simp: BuyHoldStrategy_def BuyHold_OnBar_def split: if_splits)

section \<open>Opening and closing a bar\<close>

lemma markOptions_counts [simp]:
  "attempts_balanced (markOptions st ts) = attempts_balanced st"
  "expiry_counts_ok (markOptions st ts) = expiry_counts_ok st"
  "st_Options (markOptions st ts) = st_Options st" "st_OptBars (markOptions st ts) = st_OptBars st"
  "st_Chain (markOptions st ts) = st_Chain st"
  "st_Cash (markOptions st ts) = st_Cash st" "st_Position (markOptions st ts) = st_Position st"
proof -
  have m: "markOption ts st c = st \<or> (\<exists>x. markOption ts st c = st\<lparr>st_OptPrice := x\<rparr>)" for st c
    by (auto simp: markOption_def split: option.split)
  have f: "\<exists>x. foldl (markOption ts) st cs = st\<lparr>st_OptPrice := x\<rparr>" for cs st
  proof (induction cs arbitrary: st)
    case Nil
    show ?case by (intro exI [of _ "st_OptPrice st"]) simp
  next
    case (Cons c cs)
    obtain y where "markOption ts st c = st\<lparr>st_OptPrice := y\<rparr>" using m [of st c] by (metis State.surjective State.update_convs(8))
    then show ?case using Cons [of "st\<lparr>st_OptPrice := y\<rparr>"] by auto
  qed
  obtain x where "markOptions st ts = st\<lparr>st_OptPrice := x\<rparr>" using f by (auto simp: markOptions_def)
  then show "attempts_balanced (markOptions st ts) = attempts_balanced st"
    "expiry_counts_ok (markOptions st ts) = expiry_counts_ok st"
    "st_Options (markOptions st ts) = st_Options st" "st_OptBars (markOptions st ts) = st_OptBars st"
    "st_Chain (markOptions st ts) = st_Chain st"
    "st_Cash (markOptions st ts) = st_Cash st" "st_Position (markOptions st ts) = st_Position st"
    by (simp_all add: attempts_balanced_def expiry_counts_ok_def)
qed

lemma openBar_counts [simp]:
  "attempts_balanced (openBar opts st b) = attempts_balanced st"
  "expiry_counts_ok (openBar opts st b) = expiry_counts_ok st"
  "st_Options (openBar opts st b) = st_Options st" "st_OptBars (openBar opts st b) = st_OptBars st"
  "st_Chain (openBar opts st b) = st_Chain st"
  "st_Cash (openBar opts st b) = st_Cash st" "st_Position (openBar opts st b) = st_Position st"
  by (simp_all add: openBar_def Let_def) (simp_all add: attempts_balanced_def expiry_counts_ok_def)

lemma closeBar_fields [simp]:
  "ss_st (closeBar sess b sig) = ss_st sess" "ss_s (closeBar sess b sig) = ss_s sess"
  "ss_bars (closeBar sess b sig) = ss_bars sess + 1" "ss_trades (closeBar sess b sig) = ss_trades sess"
  "ss_signals (closeBar sess b sig) = ss_signals sess" "ss_lastBar (closeBar sess b sig) = b_Ts b"
  "ss_finalClose (closeBar sess b sig) = b_Close b" "ss_firstBar (closeBar sess b sig) = ss_firstBar sess"
  "ss_feeModel (closeBar sess b sig) = ss_feeModel sess" "ss_seed (closeBar sess b sig) = ss_seed sess"
  "ss_curve (closeBar sess b sig) = ss_curve sess @ [\<lparr>ep_Ts = b_Ts b, ep_Equity = state_Equity (ss_st sess) (b_Close b)\<rparr>]"
  by (simp_all add: closeBar_def Let_def)

lemma applyOptions_counts [simp]:
  "attempts_balanced (applyOptions st opts) = attempts_balanced st"
  "expiry_counts_ok (applyOptions st opts) = expiry_counts_ok st"
  by (auto simp: applyOptions_def attempts_balanced_def expiry_counts_ok_def Let_def split: option.split)

section \<open>Session invariant\<close>

text \<open>
  Attempts and expiries balance; the curve and the signals have one entry per processed bar;
  the data-quality accumulator has seen every bar.
\<close>

definition session_ok :: "'s Session \<Rightarrow> bool" where
  "session_ok sess \<longleftrightarrow>
     attempts_balanced (ss_st sess) \<and> expiry_counts_ok (ss_st sess)
     \<and> int (length (ss_curve sess)) = ss_bars sess \<and> int (length (ss_signals sess)) = ss_bars sess
     \<and> da_totalBars (ss_dq sess) = ss_bars sess
     \<and> da_readyBars (ss_dq sess) + da_blockedBars (ss_dq sess) = ss_bars sess"

lemma addSignal_counts:
  "da_totalBars (addSignal a s) = da_totalBars a + 1"
  "da_readyBars (addSignal a s) + da_blockedBars (addSignal a s) = da_readyBars a + da_blockedBars a + 1"
  by (simp_all add: addSignal_def Let_def)

lemma closeBar_dq: "ss_dq (closeBar sess b sig) = addSignal (addBar (ss_dq sess) b) sig"
  by (simp add: closeBar_def Let_def)

lemma pending_counts [simp]:
  "attempts_balanced (st\<lparr>st_Pending := p\<rparr>) = attempts_balanced st"
  "expiry_counts_ok (st\<lparr>st_Pending := p\<rparr>) = expiry_counts_ok st"
  by (simp_all add: attempts_balanced_def expiry_counts_ok_def)

lemma processBar_None:
  assumes "processBar ops opts i sess b = (sess', None)"
  obtains act sz s st1 st2 trades1 st3 trades2 sig where
    "s_OnBar ops (ss_s sess) b (openBar opts (ss_st sess) b) = (Inr (act, sz), s, st1)"
    "settleAction st1 act sz b (ss_feeModel sess) (ss_seed sess) (ss_trades sess) = Inr (st2, trades1)"
    "settleExpired st2 (b_Ts b) (ss_feeModel sess) trades1 = (st3, trades2)"
    "sig = makeSignalTrace (b_Ts b) ops s st2 act sz (st_Cash (ss_st sess))"
    "sess' = closeBar (sess\<lparr>ss_st := st3, ss_s := s, ss_trades := trades2, ss_signals := ss_signals sess @ [sig]\<rparr>) b sig"
  using assms by (auto simp: processBar_def Let_def split: prod.splits sum.splits)

context strategy_contract
begin

lemma processBar_ok:
  assumes "session_ok sess" "processBar ops opts i sess b = (sess', None)"
  shows "session_ok sess'"
  using assms(2)
proof (cases rule: processBar_None)
  case (1 act sz s st1 st2 trades1 st3 trades2 sig)
  have st1: "st1 = (openBar opts (ss_st sess) b)\<lparr>st_Pending := st_Pending st1\<rparr>" by (rule only_pending [OF 1(1)])
  have "attempts_balanced st1" "expiry_counts_ok st1"
    using assms(1) by (subst st1; simp add: session_ok_def)+
  then have "attempts_balanced st2" "expiry_counts_ok st2"
    using settleAction_balanced 1(2) settleAction_expiry_counts by blast+
  then have "attempts_balanced st3" "expiry_counts_ok st3" using settleExpired_counts 1(3) by (metis fst_conv)+
  then show ?thesis using assms(1) by (simp add: 1(5) session_ok_def closeBar_dq addSignal_counts) (simp add: addBar_def)
qed

lemma processBars_ok:
  "session_ok sess \<Longrightarrow> processBars ctx ops opts i sess bars = (sess', None) \<Longrightarrow> session_ok sess'"
proof (induction bars arbitrary: i sess)
  case (Cons b bars)
  then show ?case by (auto split: option.splits prod.splits dest: processBar_ok)
qed simp

lemma Process_ok:
  assumes "session_ok sess" "Process ctx ops sess bars opts from = (sess', None)"
  shows "session_ok sess'"
proof (cases bars)
  case Nil
  then show ?thesis using assms by (simp add: Process_def)
next
  case (Cons b bs)
  let ?s0 = "sess\<lparr>ss_st := applyOptions (ss_st sess) opts\<rparr>"
  let ?s1 = "if ss_bars ?s0 = 0 then ?s0\<lparr>ss_firstBar := b_Ts b\<rparr> else ?s0"
  have ok: "session_ok ?s1" using assms(1) by (simp add: session_ok_def)
  obtain s2 where s2: "processBars ctx ops opts 0 ?s1 bars = (s2, None)" "sess' = s2\<lparr>ss_dq := addBatches (ss_dq s2) opts from\<rparr>"
    using assms(2) Cons by (auto simp: Process_def Let_def split: option.splits prod.splits)
  have "session_ok s2" by (rule processBars_ok [OF ok s2(1)])
  then show ?thesis by (simp add: s2(2) session_ok_def addBatches_def)
qed

end

lemma NewSession_ok: "NewSession cash fm seed s = Inr sess \<Longrightarrow> session_ok sess"
  by (auto simp: NewSession_def session_ok_def new_state_def attempts_balanced_def expiry_counts_ok_def newDataQualityAccum_def
      split: if_splits option.splits)

lemma processBar_bars:
  assumes "processBar ops opts i sess b = (sess', None)"
  shows "ss_bars sess' = ss_bars sess + 1" "map ep_Ts (ss_curve sess') = map ep_Ts (ss_curve sess) @ [b_Ts b]"
    "ss_lastBar sess' = b_Ts b" "ss_finalClose sess' = b_Close b" "ss_feeModel sess' = ss_feeModel sess" "ss_seed sess' = ss_seed sess"
    "ss_firstBar sess' = ss_firstBar sess"
  using assms by (cases rule: processBar_None; simp)+

lemma processBars_bars:
  "processBars ctx ops opts i sess bars = (sess', None) \<Longrightarrow>
   ss_bars sess' = ss_bars sess + int (length bars) \<and> map ep_Ts (ss_curve sess') = map ep_Ts (ss_curve sess) @ map b_Ts bars"
proof (induction bars arbitrary: i sess)
  case (Cons b bars)
  obtain s1 where s1: "processBar ops opts (int i) sess b = (s1, None)" "processBars ctx ops opts (i + 1) s1 bars = (sess', None)"
    using Cons.prems by (auto split: option.splits prod.splits)
  show ?case using Cons.IH [OF s1(2)] processBar_bars(1,2) [OF s1(1)] by simp
qed simp

lemma Run_Inr:
  assumes "RunOptionsWithFeeModel ctx ops s bars cash fm opts = Inr r"
  obtains sess sess' where "NewSession cash fm (case opts of None \<Rightarrow> 0 | Some o' \<Rightarrow> od_RunSeed o') s = Inr sess"
    "Process ctx ops sess bars opts 0 = (sess', None)" "session_Result sess' cash (Some bars) opts = Inr r"
    "bars \<noteq> []" "ValidateBars bars = None" "fee_validate fm = None" "\<not> cash \<le> 0"
  using assms by (auto simp: RunOptionsWithFeeModel_def Let_def split: if_splits option.splits sum.splits prod.splits)

lemma Process_bars:
  assumes "Process ctx ops sess bars opts ownedFrom = (sess', None)"
  shows "ss_bars sess' = ss_bars sess + int (length bars)"
    "map ep_Ts (ss_curve sess') = map ep_Ts (ss_curve sess) @ map b_Ts bars"
proof -
  have "ss_bars sess' = ss_bars sess + int (length bars) \<and>
      map ep_Ts (ss_curve sess') = map ep_Ts (ss_curve sess) @ map b_Ts bars"
  proof (cases bars)
    case Nil
    then show ?thesis using assms by (simp add: Process_def)
  next
    case (Cons b bs)
    let ?s0 = "sess\<lparr>ss_st := applyOptions (ss_st sess) opts\<rparr>"
    let ?s1 = "if ss_bars ?s0 = 0 then ?s0\<lparr>ss_firstBar := b_Ts b\<rparr> else ?s0"
    obtain s2 where s2: "processBars ctx ops opts 0 ?s1 bars = (s2, None)" "sess' = s2\<lparr>ss_dq := addBatches (ss_dq s2) opts ownedFrom\<rparr>"
      using assms Cons by (auto simp: Process_def Let_def split: option.splits prod.splits)
    show ?thesis using processBars_bars [OF s2(1)] by (simp add: s2(2))
  qed
  then show "ss_bars sess' = ss_bars sess + int (length bars)"
    "map ep_Ts (ss_curve sess') = map ep_Ts (ss_curve sess) @ map b_Ts bars" by auto
qed


definition no_ctx :: "nat \<Rightarrow> string option" where
  "no_ctx i = None"

definition sample_run :: "RunError + Result" where
  "sample_run = RunOptionsWithFeeModel no_ctx BuyHoldStrategy \<lparr>bh_bought = False\<rparr> [sample_bar 1 10, sample_bar 2 11] (Fin 1000)
     (LegacyFeeModel 0) None"

lemma sample_run_ok: "case sample_run of Inr r \<Rightarrow> True | Inl _ \<Rightarrow> False"
  by code_simp


end
