(* ===== verification/Backtest_Chunks.thy ===== *)
theory Backtest_Chunks
  imports Backtest_Replay
begin

text \<open>
  Replaying a window in chunks gives the session of one replay over the whole window: option
  histories merge without duplicates, quote batches are counted once, and nothing a bar does
  depends on where the chunk began.
\<close>

section \<open>Merging option histories\<close>

lemma dropWhile_all: "(\<forall>x \<in> set xs. P x) \<Longrightarrow> dropWhile P xs = []"
  by simp

lemma sorted_last_ge: "sorted (map f xs) \<Longrightarrow> x \<in> set xs \<Longrightarrow> f x \<le> f (last xs)" for f :: "'a \<Rightarrow> 'b :: linorder"
  by (induction xs) (auto simp: last_in_set split: if_splits)

lemma map_put_same: "map_of m k = Some v \<Longrightarrow> map_put k v m = m"
  by (induction m) (auto split: if_splits)

lemma map_get_put: "map_get d (map_put k v m) k' = (if k' = k then v else map_get d m k')"
  by (simp add: map_get_def)

text \<open>After merging an entry, merging it again changes nothing.\<close>

definition absorbed :: "OptionBars \<Rightarrow> string \<times> Bar list \<Rightarrow> bool" where
  "absorbed m entry \<longleftrightarrow>
     (case entry of (code, newBars) \<Rightarrow>
        map_of m code = Some newBars \<or> (map_get [] m code \<noteq> [] \<and> (\<forall>b \<in> set newBars. b_Ts b \<le> b_Ts (last (map_get [] m code)))))"

lemma mergeBars_absorbs:
  assumes "sorted (map b_Ts newBars)"
  shows "absorbed (mergeBars m (code, newBars)) (code, newBars)"
proof (cases "map_get [] m code")
  case Nil
  then show ?thesis by (simp add: mergeBars_def absorbed_def)
next
  case (Cons e es)
  define rest where "rest = dropWhile (\<lambda>b. \<not> b_Ts (last (e # es)) < b_Ts b) newBars"
  show ?thesis
  proof (cases "rest = []")
    case True
    then have "\<forall>b \<in> set newBars. b_Ts b \<le> b_Ts (last (e # es))" by (auto simp: rest_def dropWhile_eq_Nil_conv not_less)
    then show ?thesis using Cons True by (simp add: mergeBars_def absorbed_def rest_def Let_def)
  next
    case False
    have "last rest = last newBars" using False unfolding rest_def by (metis last_appendR takeWhile_dropWhile_id)
    then have "\<forall>b \<in> set newBars. b_Ts b \<le> b_Ts (last ((e # es) @ rest))"
      using sorted_last_ge [OF assms] False by simp
    moreover have "mergeBars m (code, newBars) = map_put code ((e # es) @ rest) m"
      using False unfolding mergeBars_def prod.case Cons list.case Let_def rest_def [symmetric] by simp
    ultimately show ?thesis by (simp add: absorbed_def map_get_put)
  qed
qed

lemma mergeBars_absorbed:
  assumes "absorbed m (code, newBars)" "sorted (map b_Ts newBars)"
  shows "mergeBars m (code, newBars) = m"
proof (cases "map_get [] m code")
  case Nil
  then show ?thesis using assms by (auto simp: mergeBars_def absorbed_def map_get_def intro!: map_put_same split: option.splits)
next
  case (Cons e es)
  have "\<forall>b \<in> set newBars. \<not> b_Ts (last (e # es)) < b_Ts b"
    using assms Cons sorted_last_ge [OF assms(2)] by (auto simp: absorbed_def map_get_def not_less split: option.splits)
  then have "dropWhile (\<lambda>b. \<not> b_Ts (last (e # es)) < b_Ts b) newBars = []" by (rule dropWhile_all)
  then show ?thesis using Cons by (simp add: mergeBars_def Let_def)
qed

lemma mergeBars_other: "c \<noteq> fst e \<Longrightarrow> map_of (mergeBars m e) c = map_of m c"
  by (cases e) (auto simp: mergeBars_def Let_def split: list.split)

lemma absorbed_other: "fst e \<noteq> fst e' \<Longrightarrow> absorbed (mergeBars m e) e' = absorbed m e'"
  using mergeBars_other [of "fst e'" e m] by (simp add: absorbed_def map_get_def split_beta)

lemma foldl_mergeBars_other: "e \<notin> set bs \<Longrightarrow> fst e \<notin> fst ` set bs \<Longrightarrow> absorbed (foldl mergeBars m bs) e = absorbed m e"
  by (induction bs arbitrary: m) (auto simp: absorbed_other)

lemma foldl_mergeBars_absorbs:
  assumes "map_ok bs" "\<forall>(c, nb) \<in> set bs. sorted (map b_Ts nb)" "e \<in> set bs"
  shows "absorbed (foldl mergeBars m bs) e"
  using assms
proof (induction bs arbitrary: m)
  case (Cons x bs)
  show ?case
  proof (cases "e = x")
    case True
    have "fst x \<notin> fst ` set bs" using Cons.prems(1) by (simp add: map_ok_def)
    then have "absorbed (foldl mergeBars (mergeBars m x) bs) x = absorbed (mergeBars m x) x"
      by (intro foldl_mergeBars_other) auto
    then show ?thesis using True mergeBars_absorbs Cons.prems(2) by (cases x) auto
  next
    case False
    then show ?thesis using Cons by (simp add: map_ok_def)
  qed
qed simp

lemma foldl_mergeBars_id:
  "\<forall>e \<in> set bs. absorbed m e \<and> sorted (map b_Ts (snd e)) \<Longrightarrow> foldl mergeBars m bs = m"
  by (induction bs) (auto simp: mergeBars_absorbed)

text \<open>The option bars of a universe: one entry per contract, each history in time order.\<close>

definition bars_ordered :: "OptionsData option \<Rightarrow> bool" where
  "bars_ordered opts \<longleftrightarrow>
     (case opts of None \<Rightarrow> True
      | Some o' \<Rightarrow> (case od_Bars o' of None \<Rightarrow> True
          | Some bs \<Rightarrow> map_ok bs \<and> (\<forall>(c, nb) \<in> set bs. sorted (map b_Ts nb))))"

lemma applyOptions_idem:
  assumes "bars_ordered opts" "st_OptBars st' = st_OptBars (applyOptions st opts)" "st_Chain st' = st_Chain (applyOptions st opts)"
  shows "applyOptions st' opts = st'"
proof (cases opts)
  case None
  then show ?thesis by (simp add: applyOptions_def)
next
  case (Some o')
  define bs where "bs = (case od_Bars o' of None \<Rightarrow> [] | Some bs \<Rightarrow> bs)"
  have ord: "map_ok bs" "\<forall>(c, nb) \<in> set bs. sorted (map b_Ts nb)"
    using assms(1) Some by (auto simp: bars_ordered_def bs_def split: option.splits)
  have chain: "st'\<lparr>st_Chain := od_Chain o'\<rparr> = st'"
    using assms(3) Some by (simp add: applyOptions_def Let_def split: option.splits)
  show ?thesis
  proof (cases "st_OptBars st'")
    case None
    then have "od_Bars o' = None" using assms(2) Some by (auto simp: applyOptions_def Let_def split: option.splits)
    then show ?thesis using Some None chain by (simp add: applyOptions_def Let_def)
  next
    case m: (Some m)
    have "\<forall>e \<in> set bs. absorbed m e \<and> sorted (map b_Ts (snd e))"
    proof
      fix e assume e: "e \<in> set bs"
      consider m0 where "st_OptBars st = Some m0" "m = foldl mergeBars m0 bs" | "m = bs"
        using assms(2) Some m by (cases "st_OptBars st"; cases "od_Bars o'") (simp_all add: applyOptions_def bs_def Let_def)
      then have "absorbed m e"
      proof cases
        case 1
        then show ?thesis using foldl_mergeBars_absorbs [OF ord e] by simp
      next
        case 2
        then have "map_of m (fst e) = Some (snd e)" using e ord(1) by (simp flip: map_ok_lookup)
        then show ?thesis by (simp add: absorbed_def split_beta)
      qed
      then show "absorbed m e \<and> sorted (map b_Ts (snd e))" using ord(2) e by auto
    qed
    then have "foldl mergeBars m bs = m" by (rule foldl_mergeBars_id)
    then show ?thesis using Some m chain by (simp add: applyOptions_def Let_def bs_def)
  qed
qed


section \<open>What a bar leaves of the option histories\<close>

lemma bookFill_bars [simp]:
  "st_OptBars (fst (bookFill st act sz b fm tr p price)) = st_OptBars st"
  "st_Chain (fst (bookFill st act sz b fm tr p price)) = st_Chain st"
  by (simp_all add: bookFill_def Let_def)

lemma settleOptionTrade_bars:
  assumes "settleOptionTrade st act sz b fm seed tr = Inr (st', tr')"
  shows "st_OptBars st' = st_OptBars st \<and> st_Chain st' = st_Chain st"
  using assms
proof (cases rule: settleOptionTrade_Inr)
  case (unfilled p price)
  then show ?thesis by (simp add: countAttempt_def)
next
  case (sold p price)
  then show ?thesis by (simp add: bookFill_fst [OF sold(3)]) (simp add: countAttempt_def)
next
  case (bought p price)
  then show ?thesis by (simp add: bookFill_fst [OF bought(3)])
qed

lemma settleAction_bars:
  assumes "settleAction st act sz b fm seed tr = Inr (st', tr')"
  shows "st_OptBars st' = st_OptBars st \<and> st_Chain st' = st_Chain st"
  using assms settleOptionTrade_bars [of st act sz b fm seed tr]
  by (cases act) (auto simp: settleAction_def Let_def split: if_splits)

lemma buyIn_bars [simp]:
  "st_OptBars (fst (buyIn st ts fm tr c d)) = st_OptBars st" "st_Chain (fst (buyIn st ts fm tr c d)) = st_Chain st"
  by (simp_all add: buyIn_def Let_def)

lemma settleLeg_bars:
  "st_OptBars (fst (settleLeg ts fm acc code)) = st_OptBars (fst acc) \<and> st_Chain (fst (settleLeg ts fm acc code)) = st_Chain (fst acc)"
  by (cases acc; cases "map_of (st_Options (fst acc)) code")
    (simp_all add: settleLeg_def Let_def split_beta exerciseCall_def exercisePut_def expireOtm_def deliverOut_def countAssignment_def)

lemma settleExpired_bars:
  "st_OptBars (fst (settleExpired st ts fm tr)) = st_OptBars st \<and> st_Chain (fst (settleExpired st ts fm tr)) = st_Chain st"
proof -
  have "st_OptBars (fst (foldl (settleLeg ts fm) acc cs)) = st_OptBars (fst acc)
      \<and> st_Chain (fst (foldl (settleLeg ts fm) acc cs)) = st_Chain (fst acc)" for acc cs
    by (induction cs arbitrary: acc) (simp_all add: settleLeg_bars)
  then show ?thesis by (simp add: settleExpired_def)
qed

context strategy_contract
begin

lemma processBar_option_bars:
  assumes "processBar ops opts i sess b = (sess', None)"
  shows "st_OptBars (ss_st sess') = st_OptBars (ss_st sess) \<and> st_Chain (ss_st sess') = st_Chain (ss_st sess)"
  using assms
proof (cases rule: processBar_None)
  case (1 act sz s st1 st2 trades1 st3 trades2 sig)
  have st1: "st1 = (openBar opts (ss_st sess) b)\<lparr>st_Pending := st_Pending st1\<rparr>" by (rule only_pending [OF 1(1)])
  have "st_OptBars st1 = st_OptBars (ss_st sess)" "st_Chain st1 = st_Chain (ss_st sess)" by (subst st1; simp)+
  then show ?thesis
    using settleAction_bars [OF 1(2)] settleExpired_bars [of st2 "b_Ts b" "ss_feeModel sess" trades1] by (simp add: 1(3,5))
qed

lemma processBars_option_bars:
  "processBars ctx ops opts i sess bars = (sess', None) \<Longrightarrow>
   st_OptBars (ss_st sess') = st_OptBars (ss_st sess) \<and> st_Chain (ss_st sess') = st_Chain (ss_st sess)"
proof (induction bars arbitrary: i sess)
  case (Cons b bars)
  obtain s1 where s1: "processBar ops opts (int i) sess b = (s1, None)" "processBars ctx ops opts (i + 1) s1 bars = (sess', None)"
    using Cons.prems by (auto split: option.splits prod.splits)
  show ?case using Cons.IH [OF s1(2)] processBar_option_bars [OF s1(1)] by simp
qed simp

end

section \<open>The accumulator does not influence the replay\<close>

definition with_snapshot :: "SnapshotAccum \<Rightarrow> 's Session \<Rightarrow> 's Session" where
  "with_snapshot x sess = sess\<lparr>ss_dq := (ss_dq sess)\<lparr>da_snapshot := x\<rparr>\<rparr>"

lemma with_snapshot_fields [simp]:
  "ss_st (with_snapshot x sess) = ss_st sess" "ss_s (with_snapshot x sess) = ss_s sess" "ss_bars (with_snapshot x sess) = ss_bars sess"
  "ss_feeModel (with_snapshot x sess) = ss_feeModel sess" "ss_seed (with_snapshot x sess) = ss_seed sess"
  "ss_trades (with_snapshot x sess) = ss_trades sess" "ss_signals (with_snapshot x sess) = ss_signals sess"
  "ss_maxStockMarketValue (with_snapshot x sess) = ss_maxStockMarketValue sess" "ss_peak (with_snapshot x sess) = ss_peak sess"
  "ss_maxDD (with_snapshot x sess) = ss_maxDD sess" "ss_curve (with_snapshot x sess) = ss_curve sess"
  "ss_finalClose (with_snapshot x sess) = ss_finalClose sess" "ss_firstBar (with_snapshot x sess) = ss_firstBar sess"
  "ss_lastBar (with_snapshot x sess) = ss_lastBar sess"
  "ss_dq (with_snapshot x sess) = (ss_dq sess)\<lparr>da_snapshot := x\<rparr>"
  by (simp_all add: with_snapshot_def)

lemma with_snapshot_upd:
  "(with_snapshot x sess)\<lparr>ss_st := st, ss_s := s\<rparr> = with_snapshot x (sess\<lparr>ss_st := st, ss_s := s\<rparr>)"
  "(with_snapshot x sess)\<lparr>ss_st := st, ss_s := s, ss_trades := tr, ss_signals := sg\<rparr> =
     with_snapshot x (sess\<lparr>ss_st := st, ss_s := s, ss_trades := tr, ss_signals := sg\<rparr>)"
  by (simp_all add: with_snapshot_def)

lemma addSignal_snapshot: "addSignal (addBar (a\<lparr>da_snapshot := x\<rparr>) b) sig = (addSignal (addBar a b) sig)\<lparr>da_snapshot := x\<rparr>"
  by (simp add: addSignal_def addBar_def Let_def)

lemma addSignal_keeps: "da_snapshot (addSignal (addBar a b) sig) = da_snapshot a"
  by (simp add: addSignal_def addBar_def Let_def)

lemma closeBar_snapshot: "closeBar (with_snapshot x sess) b sig = with_snapshot x (closeBar sess b sig)"
proof (rule Session.equality)
  show "ss_maxStockMarketValue (closeBar (with_snapshot x sess) b sig) = ss_maxStockMarketValue (with_snapshot x (closeBar sess b sig))"
    "ss_peak (closeBar (with_snapshot x sess) b sig) = ss_peak (with_snapshot x (closeBar sess b sig))"
    "ss_maxDD (closeBar (with_snapshot x sess) b sig) = ss_maxDD (with_snapshot x (closeBar sess b sig))"
    by (simp_all add: closeBar_def Let_def)
qed (simp_all add: closeBar_dq addSignal_snapshot)

lemma processBar_snapshot:
  "processBar ops opts i (with_snapshot x sess) b = apfst (with_snapshot x) (processBar ops opts i sess b)"
proof -
  obtain r s st where on: "s_OnBar ops (ss_s sess) b (openBar opts (ss_st sess) b) = (r, s, st)" by (metis prod_cases3)
  show ?thesis
  proof (cases r)
    case (Inl err)
    then show ?thesis by (simp add: processBar_def Let_def on with_snapshot_upd)
  next
    case (Inr a)
    obtain act sz where a: "a = (act, sz)" by (cases a)
    show ?thesis
    proof (cases "settleAction st act sz b (ss_feeModel sess) (ss_seed sess) (ss_trades sess)")
      case (Inl err)
      then show ?thesis by (simp add: processBar_def Let_def on \<open>r = Inr a\<close> a with_snapshot_upd)
    next
      case (Inr y)
      obtain st2 tr2 where y: "y = (st2, tr2)" by (cases y)
      obtain st3 tr3 where e: "settleExpired st2 (b_Ts b) (ss_feeModel sess) tr2 = (st3, tr3)" by (cases "settleExpired st2 (b_Ts b) (ss_feeModel sess) tr2")
      show ?thesis
        by (simp add: processBar_def Let_def on \<open>r = Inr a\<close> a Inr y e with_snapshot_upd(2) closeBar_snapshot)
    qed
  qed
qed

lemma processBars_snapshot:
  "processBars ctx ops opts i (with_snapshot x sess) bars = apfst (with_snapshot x) (processBars ctx ops opts i sess bars)"
  by (induction bars arbitrary: i sess) (auto simp: processBar_snapshot split: option.splits prod.splits)

lemma processBars_keeps_snapshot:
  "processBars ctx ops opts i sess bars = (sess', None) \<Longrightarrow> da_snapshot (ss_dq sess') = da_snapshot (ss_dq sess)"
proof (induction bars arbitrary: i sess)
  case (Cons b bars)
  obtain s1 where s1: "processBar ops opts (int i) sess b = (s1, None)" "processBars ctx ops opts (i + 1) s1 bars = (sess', None)"
    using Cons.prems by (auto split: option.splits prod.splits)
  have "da_snapshot (ss_dq s1) = da_snapshot (ss_dq sess)"
    using s1(1) by (cases rule: processBar_None) (simp add: closeBar_dq addSignal_keeps)
  then show ?case using Cons.IH [OF s1(2)] by simp
qed simp

section \<open>Appending chunks\<close>

lemma processBars_step:
  "processBars no_ctx ops opts i sess (b # bs) =
     (case processBar ops opts (int i) sess b of
        (sess, Some err) \<Rightarrow> (sess, Some err)
      | (sess, None) \<Rightarrow> processBars no_ctx ops opts (i + 1) sess bs)"
  by (subst processBars.simps(2)) (subst no_ctx_def, simp only: option.case)

lemmas processBars_no_ctx = processBars.simps(1) processBars_step

lemma processBars_append:
  "processBars no_ctx ops opts i sess (xs @ ys) =
     (case processBars no_ctx ops opts i sess xs of
        (sess1, Some err) \<Rightarrow> (sess1, Some err)
      | (sess1, None) \<Rightarrow> processBars no_ctx ops opts (i + length xs) sess1 ys)"
  by (induction xs arbitrary: i sess) (auto simp: processBars_no_ctx simp del: processBars.simps(2) split: option.splits prod.splits)

text \<open>The position of the bar is only used in the text of an error.\<close>

lemma processBar_index: "processBar ops opts i sess b = (sess', None) \<Longrightarrow> processBar ops opts j sess b = (sess', None)"
  by (auto simp: processBar_def Let_def split: prod.splits sum.splits)

lemma processBars_index:
  "processBars no_ctx ops opts i sess bars = (sess', None) \<Longrightarrow> processBars no_ctx ops opts j sess bars = (sess', None)"
proof (induction bars arbitrary: i j sess)
  case (Cons b bars)
  obtain s1 where s1: "processBar ops opts (int i) sess b = (s1, None)" "processBars no_ctx ops opts (i + 1) s1 bars = (sess', None)"
    using Cons.prems by (auto simp: processBars_no_ctx simp del: processBars.simps(2) split: option.splits prod.splits)
  show ?case using processBar_index [OF s1(1), of "int j"] Cons.IH [OF s1(2), of "j + 1"] by (simp add: processBars_no_ctx del: processBars.simps(2))
qed simp

text \<open>A batch is counted once: after one pass over the batches a second pass counts nothing.\<close>

definition batch_key :: "QuoteSnapshotBatch \<Rightarrow> int \<times> string" where
  "batch_key batch = (unixNano (qb_ObservedAt batch), qb_SnapshotKey batch)"

lemma foldl_addRow_keeps [simp]:
  "sa_seenBatches (foldl (addRow d batch) sa qs) = sa_seenBatches sa"
  "sa_optsProvided (foldl (addRow d batch) sa qs) = sa_optsProvided sa"
  by (induction qs arbitrary: sa) (simp_all add: addRow_def)

lemma addBatch_seen:
  "map_of (sa_seenBatches (addBatch 0 sa batch)) k = (if k = batch_key batch \<and> map_of (sa_seenBatches sa) k = None then Some () else map_of (sa_seenBatches sa) k)"
  by (simp add: addBatch_def Let_def batch_key_def set_add_def is_zero_def)

lemma addBatch_opts [simp]: "sa_optsProvided (addBatch from sa batch) = sa_optsProvided sa"
  by (simp add: addBatch_def Let_def)

lemma addBatch_again: "map_of (sa_seenBatches sa) (batch_key batch) \<noteq> None \<Longrightarrow> addBatch from sa batch = sa"
  by (auto simp: addBatch_def Let_def batch_key_def)

lemma foldl_addBatch_seen:
  "batch \<in> set bs \<or> map_of (sa_seenBatches sa) (batch_key batch) \<noteq> None \<Longrightarrow>
   map_of (sa_seenBatches (foldl (addBatch 0) sa bs)) (batch_key batch) \<noteq> None"
  by (induction bs arbitrary: sa) (auto simp: addBatch_seen)

lemma foldl_addBatch_again:
  "\<forall>batch \<in> set bs. map_of (sa_seenBatches sa) (batch_key batch) \<noteq> None \<Longrightarrow> foldl (addBatch from) sa bs = sa"
  by (induction bs) (auto simp: addBatch_again)

lemma addBatches_snapshot: "addBatches (a\<lparr>da_snapshot := da_snapshot (addBatches a' opts 0)\<rparr>) opts 0 = a\<lparr>da_snapshot := da_snapshot (addBatches a' opts 0)\<rparr>"
  if "opts \<noteq> None"
proof -
  let ?bs = "optionQuoteBatches opts"
  let ?sa = "foldl (addBatch 0) ((da_snapshot a')\<lparr>sa_optsProvided := True\<rparr>) ?bs"
  have "sa_optsProvided (foldl (addBatch 0) x bs) = sa_optsProvided x" for x bs
    by (induction bs arbitrary: x) simp_all
  then have "sa_optsProvided ?sa" by simp
  then have "?sa\<lparr>sa_optsProvided := True\<rparr> = ?sa" by simp
  moreover have "foldl (addBatch 0) ?sa ?bs = ?sa" using foldl_addBatch_seen by (intro foldl_addBatch_again) blast
  ultimately show ?thesis using that by (simp add: addBatches_def)
qed

lemma addBatches_with_snapshot:
  "sess\<lparr>ss_dq := addBatches (ss_dq sess) opts from\<rparr> = with_snapshot (da_snapshot (addBatches (ss_dq sess) opts from)) sess"
  by (cases opts) (simp_all add: addBatches_def with_snapshot_def)

lemma processBars_index_iff:
  "processBars no_ctx ops opts i sess bars = (sess', None) \<longleftrightarrow> processBars no_ctx ops opts j sess bars = (sess', None)"
  using processBars_index by blast

lemma addBatches_idem:
  assumes "da_snapshot a' = da_snapshot (addBatches a opts 0)"
  shows "addBatches a' opts 0 = a'"
proof (cases opts)
  case (Some o')
  have "a' = a'\<lparr>da_snapshot := da_snapshot (addBatches a opts 0)\<rparr>" using assms by (metis dataQualityAccum.surjective dataQualityAccum.update_convs(6))
  then show ?thesis using addBatches_snapshot [where opts = opts and a = a' and a' = a] Some by (metis option.distinct(1))
qed (simp add: addBatches_def)

text \<open>Once the option universe is applied and the bars are valid, a chunk is its bars followed by its batches.\<close>

lemma Process_nil: "Process ctx ops sess [] opts from = (sess, None)"
  by (simp add: Process_def)

definition prepared :: "'s Session \<Rightarrow> Bar list \<Rightarrow> OptionsData option \<Rightarrow> 's Session" where
  "prepared sess bars opts =
     (let sess = sess\<lparr>ss_st := applyOptions (ss_st sess) opts\<rparr>
      in if ss_bars sess = 0 then sess\<lparr>ss_firstBar := b_Ts (hd bars)\<rparr> else sess)"

lemma Process_nonempty:
  assumes "ValidateBars bars = None" "bars \<noteq> []"
  shows "Process no_ctx ops sess bars opts 0 = (sess', None) \<longleftrightarrow>
    (\<exists>s. processBars no_ctx ops opts 0 (prepared sess bars opts) bars = (s, None)
      \<and> sess' = with_snapshot (da_snapshot (addBatches (ss_dq s) opts 0)) s)"
proof -
  obtain b bs where bars: "bars = b # bs" using assms(2) by (cases bars) auto
  have "Process no_ctx ops sess bars opts 0 =
      (case processBars no_ctx ops opts 0 (prepared sess bars opts) bars of
         (sess, Some err) \<Rightarrow> (sess, Some err)
       | (sess, None) \<Rightarrow> (with_snapshot (da_snapshot (addBatches (ss_dq sess) opts 0)) sess, None))"
    using assms(1) unfolding Process_def prepared_def addBatches_with_snapshot bars list.case by (simp add: Let_def del: processBars.simps)
  then show ?thesis by (auto split: prod.splits option.splits)
qed

text \<open>
  C10: replaying a window in two chunks is replaying it at once: whenever the
  bars of the window are valid, the session after the second chunk is the session after the
  whole window - state, ledgers, curve, signals and accumulated data quality - and the chunks
  succeed exactly when the whole does. The option histories of both chunks are in time order;
  overlapping histories and batches are merged and counted once.
\<close>

theorem process_chunked:
  assumes "strategy_contract ops" "bars_ordered opts" "ValidateBars (xs @ ys) = None" "0 \<le> ss_bars sess"
  shows "Process no_ctx ops sess (xs @ ys) opts 0 = (sess', None) \<longleftrightarrow>
    (\<exists>s1. Process no_ctx ops sess xs opts 0 = (s1, None) \<and> Process no_ctx ops s1 ys opts 0 = (sess', None))"
proof (cases "xs = [] \<or> ys = []")
  case True
  then show ?thesis by (auto simp: Process_nil)
next
  case False
  have vx: "ValidateBars xs = None" "xs \<noteq> []" and vy: "ValidateBars ys = None" "ys \<noteq> []" and vxy: "xs @ ys \<noteq> []"
    using assms(3) False by (auto simp: ValidateBars_None sorted_wrt_append)
  let ?p = "prepared sess xs opts"
  let ?x = "\<lambda>s. da_snapshot (addBatches (ss_dq s) opts 0)"
  have p: "prepared sess (xs @ ys) opts = ?p" using vx(2) by (simp add: prepared_def Let_def)
  have second: "prepared (with_snapshot (?x a) a) ys opts = with_snapshot (?x a) a"
    if a: "processBars no_ctx ops opts 0 ?p xs = (a, None)" for a
  proof -
    have "ss_bars a \<noteq> 0" using processBars_bars [OF a] assms(4) vx(2) by (cases xs) (auto simp: prepared_def Let_def)
    moreover have "applyOptions (ss_st a) opts = ss_st a"
      using strategy_contract.processBars_option_bars [OF assms(1) a] applyOptions_idem [OF assms(2), of "ss_st a" "ss_st sess"]
      by (simp add: prepared_def Let_def split: if_splits)
    ultimately show ?thesis by (simp add: prepared_def with_snapshot_def)
  qed
  have last: "with_snapshot (?x (with_snapshot (?x a) s)) (with_snapshot (?x a) s) = with_snapshot (?x s) s"
    if s: "processBars no_ctx ops opts i a ys = (s, None)" for a s i
  proof -
    have "da_snapshot (ss_dq s) = da_snapshot (ss_dq a)" by (rule processBars_keeps_snapshot [OF s])
    then have "?x s = ?x a" by (cases opts) (simp_all add: addBatches_def)
    moreover have "?x (with_snapshot (?x a) s) = ?x a" by (subst addBatches_idem [of _ "ss_dq a"]) simp_all
    ultimately show ?thesis by (simp add: with_snapshot_def)
  qed
  obtain a r where a: "processBars no_ctx ops opts 0 ?p xs = (a, r)" by (cases "processBars no_ctx ops opts 0 ?p xs")
  show ?thesis
  proof (cases r)
    case None
    let ?a = "with_snapshot (?x a) a"
    have one: "Process no_ctx ops sess xs opts 0 = (s1, None) \<longleftrightarrow> s1 = ?a" for s1
      using a None by (auto simp: Process_nonempty [OF vx])
    have "Process no_ctx ops ?a ys opts 0 = (sess', None) \<longleftrightarrow>
        (\<exists>s. processBars no_ctx ops opts 0 a ys = (s, None) \<and> sess' = with_snapshot (?x s) s)"
      using last by (auto simp: Process_nonempty [OF vy] second [OF a [unfolded None]] processBars_snapshot apfst_def map_prod_def split: prod.splits)
    moreover have "Process no_ctx ops sess (xs @ ys) opts 0 = (sess', None) \<longleftrightarrow>
        (\<exists>s. processBars no_ctx ops opts (0 + length xs) a ys = (s, None) \<and> sess' = with_snapshot (?x s) s)"
      by (simp add: Process_nonempty [OF assms(3) vxy] p processBars_append a None)
    ultimately show ?thesis using processBars_index_iff [of ops opts "0 + length xs" a ys _ 0] by (simp add: one)
  next
    case (Some err)
    then show ?thesis using a by (simp add: Process_nonempty [OF assms(3) vxy] Process_nonempty [OF vx] p processBars_append)
  qed
qed

definition sample_universe :: "OptionsData option" where
  "sample_universe = Some \<lparr>od_Bars = Some [(''C'', [sample_bar 1 2, sample_bar 2 3])], od_Chain = [], od_RunSeed = 0,
     od_QuoteBatches = [\<lparr>qb_ObservedAt = 1, qb_SnapshotKey = ''k'', qb_Underlying = ''U'', qb_UnderlyingPrice = Fin 10, qb_Quotes = [], qb_IVRank = 0, qb_ExpiryOrder = []\<rparr>], od_Snapshots = [], od_QuoteSnapshots = []\<rparr>"

definition sample_session :: "BuyHold Session" where
  "sample_session = (case NewSession (Fin 1000) (LegacyFeeModel 0) 0 \<lparr>bh_bought = False\<rparr> of Inr s \<Rightarrow> s | Inl _ \<Rightarrow> undefined)"

lemma sample_session_runs:
  "snd (Process no_ctx BuyHoldStrategy sample_session ([sample_bar 1 10] @ [sample_bar 2 11]) sample_universe 0) = None"
  by code_simp

theorem process_chunked_witness:
  "\<exists>s1 s2. Process no_ctx BuyHoldStrategy sample_session [sample_bar 1 10] sample_universe 0 = (s1, None)
     \<and> Process no_ctx BuyHoldStrategy s1 [sample_bar 2 11] sample_universe 0 = (s2, None)
     \<and> Process no_ctx BuyHoldStrategy sample_session [sample_bar 1 10, sample_bar 2 11] sample_universe 0 = (s2, None)"
proof -
  obtain s2 where s2: "Process no_ctx BuyHoldStrategy sample_session ([sample_bar 1 10] @ [sample_bar 2 11]) sample_universe 0 = (s2, None)"
    using sample_session_runs by (metis prod.collapse)
  have v: "ValidateBars ([sample_bar 1 10] @ [sample_bar 2 11]) = None" by code_simp
  have o: "bars_ordered sample_universe" by (simp add: bars_ordered_def sample_universe_def map_ok_def sample_bar_def)
  have z: "0 \<le> ss_bars sample_session" by code_simp
  show ?thesis using process_chunked [OF buy_hold.strategy_contract_axioms o v z] s2 by auto
qed

end
