(* ===== verification/Backtest_Multi.thy ===== *)
theory Backtest_Multi
  imports Backtest_Replay
begin

text \<open>
  Replays over several symbols, \<^verbatim>\<open>internal/backtest/multi.go\<close>: the common timeline, one independent
  account per symbol, and the combined curve. The factory is called once per account; its \<open>i\<close>-th
  answer, and what the context says at bar \<open>j\<close> of account \<open>i\<close>, are parameters. Reading a
  curve beyond its end is the run-time panic \<open>IndexPanic\<close>.
\<close>

section \<open>Data\<close>

record SymbolBars =
  sb_Symbol :: string
  sb_Bars :: "Bar list"

record SymbolResult =
  sr_Symbol :: string
  sr_Result :: Result

record MultiResult =
  mr_PerSymbol :: "SymbolResult list"
  mr_Equity :: f64
  mr_TotalReturn :: f64
  mr_RealizedReturnAmount :: f64
  mr_RealizedReturnPct :: f64
  mr_MaxDrawdown :: f64
  mr_Bars :: int
  mr_EquityCurve :: "EquityPoint list"

datatype MultiError =
    EmptySeries | MultiCashNotPositive | MultiFee FeeError | NilFactory | EmptySymbol | DuplicateSymbol string
  | SymbolEmptyBars string | SymbolBadBars string BarsError | NoCommonBars | FactoryFailed string string
  | AccountFailed string RunError | IndexPanic

section \<open>The common timeline\<close>

fun checkSeries :: "string list \<Rightarrow> SymbolBars list \<Rightarrow> MultiError option" where
  "checkSeries seen [] = None"
| "checkSeries seen (sb # series) =
     (if sb_Symbol sb = [] then Some EmptySymbol
      else if sb_Symbol sb \<in> set seen then Some (DuplicateSymbol (sb_Symbol sb))
      else if sb_Bars sb = [] then Some (SymbolEmptyBars (sb_Symbol sb))
      else case ValidateBars (sb_Bars sb) of
        Some err \<Rightarrow> Some (SymbolBadBars (sb_Symbol sb) err)
      | None \<Rightarrow> checkSeries (sb_Symbol sb # seen) series)"

definition commonTimes :: "SymbolBars list \<Rightarrow> time list" where
  "commonTimes series =
     (case series of
        [] \<Rightarrow> []
      | first # rest \<Rightarrow>
          foldl (\<lambda>common sb. filter (\<lambda>t. t \<in> set common) (map b_Ts (sb_Bars sb))) (map b_Ts (sb_Bars first)) rest)"

definition alignBars :: "SymbolBars list \<Rightarrow> MultiError + SymbolBars list" where
  "alignBars series =
     (let common = commonTimes series in
      if common = [] then Inl NoCommonBars
      else Inr (map (\<lambda>sb. \<lparr>sb_Symbol = sb_Symbol sb, sb_Bars = filter (\<lambda>b. b_Ts b \<in> set common) (sb_Bars sb)\<rparr>) series))"

section \<open>The accounts\<close>

fun runAccounts ::
  "(nat \<Rightarrow> nat \<Rightarrow> string option) \<Rightarrow> 's strategy \<Rightarrow> (nat \<Rightarrow> string + 's) \<Rightarrow> f64 \<Rightarrow> FeeModel \<Rightarrow> nat \<Rightarrow> SymbolBars list
   \<Rightarrow> MultiError + SymbolResult list" where
  "runAccounts ctx ops factory cash feeModel i [] = Inr []"
| "runAccounts ctx ops factory cash feeModel i (sb # series) =
     (case factory i of
        Inl err \<Rightarrow> Inl (FactoryFailed (sb_Symbol sb) err)
      | Inr s \<Rightarrow>
          (case RunOptionsWithFeeModel (ctx i) ops s (sb_Bars sb) cash feeModel None of
             Inl err \<Rightarrow> Inl (AccountFailed (sb_Symbol sb) err)
           | Inr res \<Rightarrow>
               (case runAccounts ctx ops factory cash feeModel (i + 1) series of
                  Inl err \<Rightarrow> Inl err
                | Inr subs \<Rightarrow> Inr (\<lparr>sr_Symbol = sb_Symbol sb, sr_Result = res\<rparr> # subs))))"

section \<open>The combined curve\<close>

definition curveAt :: "SymbolResult \<Rightarrow> nat \<Rightarrow> f64 option" where
  "curveAt sub i = (let curve = r_EquityCurve (sr_Result sub) in if i < length curve then Some (ep_Equity (curve ! i)) else None)"

definition totalAt :: "SymbolResult list \<Rightarrow> nat \<Rightarrow> f64 option" where
  "totalAt subs i =
     foldl (\<lambda>total sub. case (total, curveAt sub i) of (Some t, Some e) \<Rightarrow> Some (t + e) | _ \<Rightarrow> None) (Some 0) subs"

definition combinedCurve :: "SymbolResult list \<Rightarrow> EquityPoint list \<Rightarrow> EquityPoint list option" where
  "combinedCurve subs first =
     those (map (\<lambda>i. map_option (\<lambda>t. \<lparr>ep_Ts = ep_Ts (first ! i), ep_Equity = t\<rparr>) (totalAt subs i)) [0..<length first])"

definition drawdownStep :: "f64 \<times> f64 \<Rightarrow> EquityPoint \<Rightarrow> f64 \<times> f64" where
  "drawdownStep acc eq =
     (case acc of (peak, maxDD) \<Rightarrow>
        let total = ep_Equity eq; peak = (if peak < total then total else peak)
        in (peak, if 0 < peak \<and> maxDD < (peak - total) / peak then (peak - total) / peak else maxDD))"

definition multiResult :: "SymbolResult list \<Rightarrow> f64 \<Rightarrow> EquityPoint list \<Rightarrow> MultiResult" where
  "multiResult subs initialCash curve =
     (let final = ep_Equity (last curve);
          realizedAmount = foldl (\<lambda>a sub. a + r_RealizedReturnAmount (sr_Result sub)) 0 subs
      in \<lparr>mr_PerSymbol = subs, mr_Equity = final, mr_TotalReturn = (final - initialCash) / initialCash,
          mr_RealizedReturnAmount = realizedAmount, mr_RealizedReturnPct = realizedAmount / initialCash,
          mr_MaxDrawdown = snd (foldl drawdownStep (0, 0) curve), mr_Bars = int (length curve), mr_EquityCurve = curve\<rparr>)"

definition RunMultiWithFeeModel ::
  "(nat \<Rightarrow> nat \<Rightarrow> string option) \<Rightarrow> 's strategy \<Rightarrow> SymbolBars list \<Rightarrow> f64 \<Rightarrow> FeeModel \<Rightarrow> (nat \<Rightarrow> string + 's) option \<Rightarrow> MultiError + MultiResult" where
  "RunMultiWithFeeModel ctx ops series initialCash feeModel factory =
     (if series = [] then Inl EmptySeries
      else if initialCash \<le> 0 then Inl MultiCashNotPositive
      else case fee_validate feeModel of
        Some err \<Rightarrow> Inl (MultiFee err)
      | None \<Rightarrow>
          (case factory of
             None \<Rightarrow> Inl NilFactory
           | Some factory \<Rightarrow>
               (case checkSeries [] series of
                  Some err \<Rightarrow> Inl err
                | None \<Rightarrow>
                    (case alignBars series of
                       Inl err \<Rightarrow> Inl err
                     | Inr aligned \<Rightarrow>
                         (case runAccounts ctx ops factory (initialCash / of_int64 (int (length series))) feeModel 0 aligned of
                            Inl err \<Rightarrow> Inl err
                          | Inr subs \<Rightarrow>
                              (case subs of
                                 [] \<Rightarrow> Inl IndexPanic
                               | first # _ \<Rightarrow>
                                   (case combinedCurve subs (r_EquityCurve (sr_Result first)) of
                                      None \<Rightarrow> Inl IndexPanic
                                    | Some [] \<Rightarrow> Inl IndexPanic
                                    | Some curve \<Rightarrow> Inr (multiResult subs initialCash curve)))))))) "

definition RunMulti ::
  "(nat \<Rightarrow> nat \<Rightarrow> string option) \<Rightarrow> 's strategy \<Rightarrow> SymbolBars list \<Rightarrow> f64 \<Rightarrow> f64 \<Rightarrow> (nat \<Rightarrow> string + 's) option \<Rightarrow> MultiError + MultiResult" where
  "RunMulti ctx ops series initialCash feePerTrade factory =
     RunMultiWithFeeModel ctx ops series initialCash (LegacyFeeModel feePerTrade) factory"

section \<open>The timeline\<close>

lemma checkSeries_None: "checkSeries seen series = None \<Longrightarrow> sb \<in> set series \<Longrightarrow> ValidateBars (sb_Bars sb) = None"
  by (induction seen series rule: checkSeries.induct) (auto split: if_splits option.splits)

lemma set_commonTimes: "series \<noteq> [] \<Longrightarrow> t \<in> set (commonTimes series) \<longleftrightarrow> (\<forall>sb \<in> set series. t \<in> b_Ts ` set (sb_Bars sb))"
proof (cases series)
  case (Cons first rest)
  have "t \<in> set (foldl (\<lambda>common sb. filter (\<lambda>t. t \<in> set common) (map b_Ts (sb_Bars sb))) c rest) \<longleftrightarrow>
      t \<in> set c \<and> (\<forall>sb \<in> set rest. t \<in> b_Ts ` set (sb_Bars sb))" for c
    by (induction rest arbitrary: c) auto
  then show ?thesis by (simp add: Cons commonTimes_def)
qed simp

text \<open>The times that every series has, in the order of the first.\<close>

definition timeline :: "SymbolBars list \<Rightarrow> time list" where
  "timeline series = filter (\<lambda>t. \<forall>sb \<in> set series. t \<in> b_Ts ` set (sb_Bars sb)) (map b_Ts (sb_Bars (hd series)))"

lemma aligned_times:
  assumes "checkSeries [] series = None" "alignBars series = Inr aligned" "sb \<in> set aligned" "series \<noteq> []"
  shows "map b_Ts (sb_Bars sb) = timeline series"
proof -
  let ?common = "{t. \<forall>sb \<in> set series. t \<in> b_Ts ` set (sb_Bars sb)}"
  have in_c: "t \<in> set (commonTimes series) \<longleftrightarrow> t \<in> ?common" for t using set_commonTimes [OF assms(4)] by simp
  obtain s where s: "s \<in> set series" "sb_Bars sb = filter (\<lambda>b. b_Ts b \<in> ?common) (sb_Bars s)"
    using assms(2,3) by (auto simp: alignBars_def Let_def in_c split: if_splits)
  have strict: "sorted_wrt (<) (map b_Ts (sb_Bars x))" if "x \<in> set series" for x
    using checkSeries_None [OF assms(1) that] by (simp add: ValidateBars_None)
  have f: "map b_Ts (filter (\<lambda>b. b_Ts b \<in> ?common) (sb_Bars x)) = filter (\<lambda>t. t \<in> ?common) (map b_Ts (sb_Bars x))" for x
    by (simp add: filter_map comp_def)
  have "filter (\<lambda>t. t \<in> ?common) (map b_Ts (sb_Bars s)) = filter (\<lambda>t. t \<in> ?common) (map b_Ts (sb_Bars (hd series)))"
  proof (rule strict_sorted_equal [symmetric])
    show "sorted_wrt (<) (filter (\<lambda>t. t \<in> ?common) (map b_Ts (sb_Bars s)))"
      "sorted_wrt (<) (filter (\<lambda>t. t \<in> ?common) (map b_Ts (sb_Bars (hd series))))"
      using strict s(1) assms(4) by (auto intro: sorted_wrt_filter)
    show "set (filter (\<lambda>t. t \<in> ?common) (map b_Ts (sb_Bars (hd series)))) = set (filter (\<lambda>t. t \<in> ?common) (map b_Ts (sb_Bars s)))"
      using s(1) hd_in_set [OF assms(4)] by auto
  qed
  then show ?thesis unfolding s(2) f timeline_def by simp
qed

lemma alignBars_length: "alignBars series = Inr aligned \<Longrightarrow> length aligned = length series \<and> map sb_Symbol aligned = map sb_Symbol series"
  by (auto simp: alignBars_def Let_def split: if_splits)

lemma timeline_nonempty:
  assumes "alignBars series = Inr aligned" "series \<noteq> []"
  shows "timeline series \<noteq> []"
proof -
  obtain t where "t \<in> set (commonTimes series)" using assms(1) by (cases "commonTimes series") (auto simp: alignBars_def Let_def)
  then have "\<forall>sb \<in> set series. t \<in> b_Ts ` set (sb_Bars sb)" using set_commonTimes [OF assms(2)] by simp
  then have "t \<in> set (timeline series)" using hd_in_set [OF assms(2)] by (auto simp: timeline_def)
  then show ?thesis by (metis empty_iff empty_set)
qed

section \<open>Runs\<close>

lemma run_curve:
  assumes "RunOptionsWithFeeModel ctx ops s bars cash fm opts = Inr r"
  shows "map ep_Ts (r_EquityCurve r) = map b_Ts bars"
  using assms
proof (cases rule: Run_Inr)
  case (1 sess sess')
  then have "ss_curve sess = []" by (auto simp: NewSession_def split: if_splits option.splits)
  then show ?thesis using 1(3) Process_bars(2) [OF 1(2)] by (auto simp: session_Result_def Let_def split: if_splits)
qed

lemma runAccounts_Inr:
  assumes "runAccounts ctx ops factory cash fm i series = Inr subs"
  shows "map sr_Symbol subs = map sb_Symbol series"
    "map (\<lambda>sub. map ep_Ts (r_EquityCurve (sr_Result sub))) subs = map (\<lambda>sb. map b_Ts (sb_Bars sb)) series"
  using assms
  by (induction ctx ops factory cash fm i series arbitrary: subs rule: runAccounts.induct) (auto split: sum.splits simp: run_curve)

lemma runAccounts_no_panic: "runAccounts ctx ops factory cash fm i series \<noteq> Inl IndexPanic"
  by (induction ctx ops factory cash fm i series rule: runAccounts.induct) (auto split: sum.splits)

lemma checkSeries_no_panic: "checkSeries seen xs \<noteq> Some IndexPanic"
  by (induction seen xs rule: checkSeries.induct) (auto split: option.splits)

lemma totalAt_foldl:
  assumes "\<forall>sub \<in> set subs. i < length (r_EquityCurve (sr_Result sub))"
  shows "totalAt subs i = Some (foldl (\<lambda>t sub. t + ep_Equity (r_EquityCurve (sr_Result sub) ! i)) 0 subs)"
proof -
  have "foldl (\<lambda>total sub. case (total, curveAt sub i) of (Some t, Some e) \<Rightarrow> Some (t + e) | _ \<Rightarrow> None) (Some a) subs =
      Some (foldl (\<lambda>t sub. t + ep_Equity (r_EquityCurve (sr_Result sub) ! i)) a subs)" for a
    using assms by (induction subs arbitrary: a) (simp_all add: curveAt_def)
  then show ?thesis by (simp add: totalAt_def)
qed

lemma combinedCurve_Some:
  assumes "\<forall>sub \<in> set subs. length (r_EquityCurve (sr_Result sub)) = length first"
  shows "combinedCurve subs first = Some (map (\<lambda>i. \<lparr>ep_Ts = ep_Ts (first ! i),
    ep_Equity = foldl (\<lambda>t sub. t + ep_Equity (r_EquityCurve (sr_Result sub) ! i)) 0 subs\<rparr>) [0..<length first])"
proof -
  have "map_option (\<lambda>t. \<lparr>ep_Ts = ep_Ts (first ! i), ep_Equity = t\<rparr>) (totalAt subs i) = Some \<lparr>ep_Ts = ep_Ts (first ! i),
      ep_Equity = foldl (\<lambda>t sub. t + ep_Equity (r_EquityCurve (sr_Result sub) ! i)) 0 subs\<rparr>" if "i < length first" for i
    using totalAt_foldl assms that by simp
  moreover have "those (map f xs) = Some (map g xs)" if "\<forall>x \<in> set xs. f x = Some (g x)" for f :: "nat \<Rightarrow> EquityPoint option" and g xs
    using that by (induction xs) auto
  ultimately show ?thesis by (simp add: combinedCurve_def)
qed

lemma accounts_combined:
  assumes "checkSeries [] series = None" "alignBars series = Inr aligned" "runAccounts ctx ops factory cash fm i aligned = Inr subs" "series \<noteq> []"
  shows "\<forall>sub \<in> set subs. map ep_Ts (r_EquityCurve (sr_Result sub)) = timeline series" "subs \<noteq> []" "map sr_Symbol subs = map sb_Symbol series"
    "\<exists>curve. combinedCurve subs (r_EquityCurve (sr_Result (hd subs))) = Some curve \<and> map ep_Ts curve = timeline series
      \<and> (\<forall>j < length curve. ep_Equity (curve ! j) = foldl (\<lambda>t sub. t + ep_Equity (r_EquityCurve (sr_Result sub) ! j)) 0 subs)"
proof -
  have m: "map (\<lambda>sub. map ep_Ts (r_EquityCurve (sr_Result sub))) subs = map (\<lambda>sb. map b_Ts (sb_Bars sb)) aligned"
    using runAccounts_Inr(2) [OF assms(3)] .
  have "\<forall>ts \<in> set (map (\<lambda>sb. map b_Ts (sb_Bars sb)) aligned). ts = timeline series"
    using aligned_times [OF assms(1,2) _ assms(4)] by auto
  then show t: "\<forall>sub \<in> set subs. map ep_Ts (r_EquityCurve (sr_Result sub)) = timeline series" unfolding m [symmetric] by auto
  show sym: "map sr_Symbol subs = map sb_Symbol series"
    using runAccounts_Inr(1) [OF assms(3)] alignBars_length [OF assms(2)] by simp
  then show ne: "subs \<noteq> []" using assms(4) by (cases subs) auto
  let ?first = "r_EquityCurve (sr_Result (hd subs))"
  have h: "map ep_Ts ?first = timeline series" using t ne by simp
  have "\<forall>sub \<in> set subs. length (r_EquityCurve (sr_Result sub)) = length ?first"
    using t h by (metis length_map)
  from combinedCurve_Some [OF this]
  obtain curve where c: "combinedCurve subs ?first = Some curve" "curve = map (\<lambda>i. \<lparr>ep_Ts = ep_Ts (?first ! i),
    ep_Equity = foldl (\<lambda>t sub. t + ep_Equity (r_EquityCurve (sr_Result sub) ! i)) 0 subs\<rparr>) [0..<length ?first]" by blast
  have "map ep_Ts curve = map (\<lambda>i. ep_Ts (?first ! i)) [0..<length ?first]" by (simp add: c(2))
  also have "\<dots> = map ep_Ts ?first" by (simp add: map_equality_iff)
  finally show "\<exists>curve. combinedCurve subs ?first = Some curve \<and> map ep_Ts curve = timeline series
      \<and> (\<forall>j < length curve. ep_Equity (curve ! j) = foldl (\<lambda>t sub. t + ep_Equity (r_EquityCurve (sr_Result sub) ! j)) 0 subs)"
    using c(1) h by (intro exI [of _ curve]) (simp add: c(2))
qed

lemma drawdown_nonneg: "0 \<le> dd \<Longrightarrow> 0 \<le> snd (foldl drawdownStep (peak, dd) curve)"
proof (induction curve arbitrary: peak dd)
  case (Cons eq curve)
  obtain p d where s: "drawdownStep (peak, dd) eq = (p, d)" by fastforce
  then have "d = dd \<or> dd < d" by (auto simp: drawdownStep_def Let_def split: if_splits)
  then have "0 \<le> d" using Cons.prems f64_le_less_trans f64_less_imp_le by blast
  then show ?case using Cons.IH by (simp add: s)
qed simp

lemma RunMulti_split:
  assumes "series \<noteq> []" "checkSeries [] series = None" "alignBars series = Inr aligned"
    "runAccounts ctx ops factory cash fm 0 aligned = Inr subs"
  obtains curve where "(case subs of [] \<Rightarrow> Inl IndexPanic | first # _ \<Rightarrow>
        (case combinedCurve subs (r_EquityCurve (sr_Result first)) of None \<Rightarrow> Inl IndexPanic | Some [] \<Rightarrow> Inl IndexPanic
         | Some curve \<Rightarrow> Inr (multiResult subs initialCash curve))) = Inr (multiResult subs initialCash curve)"
    "map ep_Ts curve = timeline series" "curve \<noteq> []"
    "\<forall>j < length curve. ep_Equity (curve ! j) = foldl (\<lambda>t sub. t + ep_Equity (r_EquityCurve (sr_Result sub) ! j)) 0 subs"
proof -
  obtain curve where c: "combinedCurve subs (r_EquityCurve (sr_Result (hd subs))) = Some curve" "map ep_Ts curve = timeline series"
    "\<forall>j < length curve. ep_Equity (curve ! j) = foldl (\<lambda>t sub. t + ep_Equity (r_EquityCurve (sr_Result sub) ! j)) 0 subs"
    using accounts_combined(4) [OF assms(2,3,4,1)] by blast
  have ne: "curve \<noteq> []" using timeline_nonempty [OF assms(3,1)] c(2) by auto
  show thesis
    by (rule that [OF _ c(2) ne c(3)])
       (use accounts_combined(2) [OF assms(2,3,4,1)] c(1) ne in \<open>auto simp: neq_Nil_conv split: list.split\<close>)
qed

text \<open>
  A replay over several symbols runs every account on the same timeline, exactly the times at which every
  symbol has a bar, in order and never empty; the accounts come in the order of the symbols, and each point of the combined
  curve is the sum of the accounts' equities at that bar.
\<close>

theorem multi_timeline:
  assumes "RunMultiWithFeeModel ctx ops series initialCash fm factory = Inr m"
  shows "map ep_Ts (mr_EquityCurve m) = timeline series \<and> timeline series \<noteq> [] \<and> mr_Bars m = int (length (timeline series))
    \<and> map sr_Symbol (mr_PerSymbol m) = map sb_Symbol series
    \<and> (\<forall>sub \<in> set (mr_PerSymbol m). map ep_Ts (r_EquityCurve (sr_Result sub)) = timeline series)
    \<and> (\<forall>j < length (mr_EquityCurve m). ep_Equity (mr_EquityCurve m ! j) =
         foldl (\<lambda>t sub. t + ep_Equity (r_EquityCurve (sr_Result sub) ! j)) 0 (mr_PerSymbol m))
    \<and> 0 \<le> mr_MaxDrawdown m"
proof -
  obtain aligned subs f where r: "series \<noteq> []" "checkSeries [] series = None" "alignBars series = Inr aligned"
    "runAccounts ctx ops f (initialCash / of_int64 (int (length series))) fm 0 aligned = Inr subs"
    "(case subs of [] \<Rightarrow> Inl IndexPanic | first # _ \<Rightarrow>
        (case combinedCurve subs (r_EquityCurve (sr_Result first)) of None \<Rightarrow> Inl IndexPanic | Some [] \<Rightarrow> Inl IndexPanic
         | Some curve \<Rightarrow> Inr (multiResult subs initialCash curve))) = Inr m"
    using assms by (auto simp: RunMultiWithFeeModel_def split: if_splits option.splits sum.splits)
  obtain curve where c: "m = multiResult subs initialCash curve" "map ep_Ts curve = timeline series" "curve \<noteq> []"
    "\<forall>j < length curve. ep_Equity (curve ! j) = foldl (\<lambda>t sub. t + ep_Equity (r_EquityCurve (sr_Result sub) ! j)) 0 subs"
    using RunMulti_split [OF r(1-4), of initialCash] r(5) by (metis sum.inject(2))
  have "length curve = length (timeline series)" using c(2) by (metis length_map)
  then show ?thesis
    using c accounts_combined(1,3) [OF r(2-4,1)] timeline_nonempty [OF r(3,1)] drawdown_nonneg [of 0 0 curve]
    by (auto simp: multiResult_def Let_def f64_le_refl zero_f64_def)
qed

text \<open>
  Combining the curves never reads beyond the end of one of them, whatever the strategies, the factory and
  the context do.
\<close>

theorem multi_no_panic: "RunMultiWithFeeModel ctx ops series initialCash fm factory \<noteq> Inl IndexPanic"
proof (cases "series = [] \<or> initialCash \<le> 0 \<or> fee_validate fm \<noteq> None \<or> factory = None \<or> checkSeries [] series \<noteq> None")
  case True
  then show ?thesis using checkSeries_no_panic [of "[]" series] by (auto simp: RunMultiWithFeeModel_def split: option.split)
next
  case False
  then obtain f where f: "series \<noteq> []" "\<not> initialCash \<le> 0" "fee_validate fm = None" "factory = Some f" "checkSeries [] series = None" by auto
  show ?thesis
  proof (cases "alignBars series")
    case (Inl err)
    then show ?thesis using f by (auto simp: RunMultiWithFeeModel_def alignBars_def Let_def split: if_splits)
  next
    case (Inr aligned)
    show ?thesis
    proof (cases "runAccounts ctx ops f (initialCash / of_int64 (int (length series))) fm 0 aligned")
      case (Inl err)
      then have "err \<noteq> IndexPanic" using runAccounts_no_panic by metis
      then show ?thesis by (simp add: RunMultiWithFeeModel_def f \<open>alignBars series = Inr aligned\<close> Inl)
    next
      case (Inr subs)
      show ?thesis
        by (rule RunMulti_split [OF f(1,5) \<open>alignBars series = Inr aligned\<close> Inr, of initialCash])
          (simp add: RunMultiWithFeeModel_def f \<open>alignBars series = Inr aligned\<close> Inr)
    qed
  qed
qed

definition sample_series :: "SymbolBars list" where
  "sample_series = [\<lparr>sb_Symbol = ''A'', sb_Bars = [sample_bar 1 10, sample_bar 2 11]\<rparr>,
     \<lparr>sb_Symbol = ''B'', sb_Bars = [sample_bar 1 10, sample_bar 2 11, sample_bar 3 12]\<rparr>]"

definition sample_multi :: "MultiError + MultiResult" where
  "sample_multi = RunMultiWithFeeModel (\<lambda>i. no_ctx) BuyHoldStrategy sample_series (Fin 2000) (LegacyFeeModel 0) (Some (\<lambda>i. Inr \<lparr>bh_bought = False\<rparr>))"

lemma sample_split: "Fin 2000 / of_int64 2 = Fin 1000" "\<not> Fin 2000 \<le> 0" "fee_validate (LegacyFeeModel 0) = None"
  by code_simp+

lemma sample_valid: "checkSeries [] sample_series = None"
  by code_simp

lemma sample_aligned: "alignBars sample_series = Inr [\<lparr>sb_Symbol = ''A'', sb_Bars = [sample_bar 1 10, sample_bar 2 11]\<rparr>,
     \<lparr>sb_Symbol = ''B'', sb_Bars = [sample_bar 1 10, sample_bar 2 11]\<rparr>]"
  by (simp add: alignBars_def commonTimes_def sample_series_def sample_bar_def)

lemma sample_multi_ok: "\<exists>m. sample_multi = Inr m"
proof -
  obtain r where "sample_run = Inr r" using sample_run_ok by (auto split: sum.splits)
  then have a: "runAccounts (\<lambda>i. no_ctx) BuyHoldStrategy (\<lambda>i. Inr \<lparr>bh_bought = False\<rparr>) (Fin 1000) (LegacyFeeModel 0) 0
      [\<lparr>sb_Symbol = ''A'', sb_Bars = [sample_bar 1 10, sample_bar 2 11]\<rparr>, \<lparr>sb_Symbol = ''B'', sb_Bars = [sample_bar 1 10, sample_bar 2 11]\<rparr>] =
      Inr [\<lparr>sr_Symbol = ''A'', sr_Result = r\<rparr>, \<lparr>sr_Symbol = ''B'', sr_Result = r\<rparr>]" by (simp add: sample_run_def)
  have n: "sample_series \<noteq> []" "int (length sample_series) = 2" by (simp_all add: sample_series_def)
  show ?thesis
    by (rule RunMulti_split [OF n(1) sample_valid sample_aligned a, of "Fin 2000"])
       (simp add: sample_multi_def RunMultiWithFeeModel_def n sample_split sample_valid sample_aligned a del: runAccounts.simps)
qed

theorem multi_timeline_witness:
  "\<exists>m. sample_multi = Inr m \<and> map ep_Ts (mr_EquityCurve m) = [1, 2]"
proof -
  obtain m where m: "sample_multi = Inr m" using sample_multi_ok by blast
  have "timeline sample_series = [1, 2]" by (simp add: timeline_def sample_series_def sample_bar_def)
  then show ?thesis using multi_timeline [OF m [unfolded sample_multi_def]] m by auto
qed

end
