(* ===== verification/Go_Text.thy ===== *)
theory Go_Text
  imports Wbot_Prelude
begin

text \<open>
  Text functions of Go's library that the live components use: decimal integers
  (\<^verbatim>\<open>strconv.ParseInt\<close>), prefixes and \<^verbatim>\<open>strings.Cut\<close>, and instants as nanoseconds since 1970.
\<close>

section \<open>Decimal integers\<close>

definition is_digit :: "char \<Rightarrow> bool" where
  "is_digit c \<longleftrightarrow> CHR ''0'' \<le> c \<and> c \<le> CHR ''9''"

definition digit_value :: "char \<Rightarrow> int" where
  "digit_value c = int (of_char c) - 48"

definition digits_value :: "string \<Rightarrow> int" where
  "digits_value = foldl (\<lambda>n c. 10 * n + digit_value c) 0"

definition parse_digits :: "string \<Rightarrow> int option" where
  "parse_digits s = (if s = [] \<or> \<not> list_all is_digit s then None else Some (digits_value s))"

text \<open>\<^verbatim>\<open>strconv.ParseInt(s, 10, 64)\<close>: an optional sign, digits, and the range of an int64.\<close>

definition parse_int64 :: "string \<Rightarrow> int option" where
  "parse_int64 s =
     (case (if has_prefix s ''-'' then map_option uminus (parse_digits (tl s))
            else if has_prefix s ''+'' then parse_digits (tl s) else parse_digits s) of
        None \<Rightarrow> None
      | Some n \<Rightarrow> if - (2 ^ 63) \<le> n \<and> n < 2 ^ 63 then Some n else None)"

lemma digit_char_facts:
  assumes "0 \<le> d" "d < 10"
  shows "is_digit (digit_char d)" "digit_value (digit_char d) = d" "\<not> is_space (digit_char d)"
    "digit_char d \<noteq> CHR ''-''" "digit_char d \<noteq> CHR ''+''"
proof -
  have "d = 0 \<or> d = 1 \<or> d = 2 \<or> d = 3 \<or> d = 4 \<or> d = 5 \<or> d = 6 \<or> d = 7 \<or> d = 8 \<or> d = 9" using assms by presburger
  then show "is_digit (digit_char d)" "digit_value (digit_char d) = d" "\<not> is_space (digit_char d)"
    "digit_char d \<noteq> CHR ''-''" "digit_char d \<noteq> CHR ''+''"
    by (elim disjE; simp; code_simp)+
qed

lemma digits_value_append: "digits_value (s @ [c]) = 10 * digits_value s + digit_value c"
  by (simp add: digits_value_def)

lemma dec_digits_facts:
  "0 \<le> n \<Longrightarrow> dec_digits n \<noteq> [] \<and> list_all is_digit (dec_digits n) \<and> digits_value (dec_digits n) = n
     \<and> list_all (\<lambda>c. \<not> is_space c \<and> c \<noteq> CHR ''-'' \<and> c \<noteq> CHR ''+'') (dec_digits n)"
proof (induction n rule: dec_digits.induct)
  case (1 n)
  show ?case
  proof (cases "n < 10")
    case True
    then show ?thesis using 1 digit_char_facts [of n] by (simp add: dec_digits.simps [of n] digits_value_def)
  next
    case False
    have "0 \<le> n mod 10" "n mod 10 < 10" by simp_all
    note d = digit_char_facts [OF this]
    have "0 \<le> n div 10" using 1(2) by simp
    then show ?thesis using 1(1) [OF False] d False by (simp add: dec_digits.simps [of n] digits_value_append)
  qed
qed

lemma trim_space_id: "list_all (\<lambda>c. \<not> is_space c) s \<Longrightarrow> trim_space s = s"
proof -
  assume s: "list_all (\<lambda>c. \<not> is_space c) s"
  then have "dropWhile is_space s = s" by (cases s) simp_all
  moreover have "dropWhile is_space (rev s) = rev s" using s by (cases s rule: rev_cases) simp_all
  ultimately show ?thesis by (simp add: trim_space_def)
qed

text \<open>A number that is printed reads back.\<close>

lemma parse_fmt_int:
  assumes "0 \<le> n" "n < 2 ^ 63"
  shows "parse_int64 (trim_space (fmt_int n)) = Some n"
proof -
  note d = dec_digits_facts [OF assms(1)]
  have t: "trim_space (dec_digits n) = dec_digits n" using d by (intro trim_space_id) (simp add: list_all_iff)
  obtain c cs where c: "dec_digits n = c # cs" using d by (cases "dec_digits n") simp_all
  then have "\<not> has_prefix (dec_digits n) ''-''" "\<not> has_prefix (dec_digits n) ''+''" using d by (simp_all add: has_prefix_def)
  then show ?thesis using assms d t by (simp add: fmt_int_def parse_int64_def parse_digits_def)
qed

section \<open>Cutting\<close>

definition cut_at :: "char \<Rightarrow> string \<Rightarrow> string \<times> string \<times> bool" where
  "cut_at c s = (takeWhile (\<lambda>x. x \<noteq> c) s, drop 1 (dropWhile (\<lambda>x. x \<noteq> c) s), c \<in> set s)"

definition trim_prefix :: "string \<Rightarrow> string \<Rightarrow> string" where
  "trim_prefix s p = (if has_prefix s p then drop (length p) s else s)"

definition trim_suffix :: "string \<Rightarrow> string \<Rightarrow> string" where
  "trim_suffix s p = (if has_prefix (rev s) (rev p) then take (length s - length p) s else s)"

definition has_suffix :: "string \<Rightarrow> string \<Rightarrow> bool" where
  "has_suffix s p \<longleftrightarrow> has_prefix (rev s) (rev p)"

section \<open>Instants\<close>

text \<open>\<^verbatim>\<open>UnixNano\<close> counts from 1970 and wraps outside the years it can express.\<close>

definition unix_epoch :: time where
  "unix_epoch = 62135596800 * second_ns"

definition unix_nano :: "time \<Rightarrow> int" where
  "unix_nano t = wrap64 (t - unix_epoch)"

definition from_unix_nano :: "int \<Rightarrow> time" where
  "from_unix_nano n = unix_epoch + n"

lemma from_unix_nano: "\<bar>t - unix_epoch\<bar> < 2 ^ 63 \<Longrightarrow> from_unix_nano (unix_nano t) = t"
  using wrap64_id [of "t - unix_epoch"] by (simp add: unix_nano_def from_unix_nano_def abs_less_iff)

end
