(* ===== verification/Backtest_OptionsData.thy ===== *)
theory Backtest_OptionsData
  imports Backtest_Session Go_Text
begin

text \<open>
  Where the quote batches of a replay come from: \<^verbatim>\<open>internal/backtest/options_data.go\<close>, which groups
  stored snapshot rows into atomic batches and prepares their expiry order, and
  \<^verbatim>\<open>internal/backtest/ivrank.go\<close>, which ranks each batch's implied volatility in the trailing year
  of its underlying.  A row is a \<open>QuoteSnapshotRecord\<close> of \<^verbatim>\<open>internal/wheelstore/store.go\<close>.
\<close>

section \<open>Rows\<close>

record QuoteSnapshotRecord =
  qr_ID :: int
  qr_Symbol :: string
  qr_Underlying :: string
  qr_OptionType :: string
  qr_Strike :: f64
  qr_Expiry :: time
  qr_Source :: string
  qr_SnapshotKey :: string
  qr_UnderlyingPrice :: "f64 option"
  qr_Delta :: "f64 option"
  qr_Bid :: "f64 option"
  qr_Ask :: "f64 option"
  qr_IV :: "f64 option"
  qr_Theta :: "f64 option"
  qr_Volume :: "int option"
  qr_OpenInterest :: "int option"
  qr_LotSize :: "int option"
  qr_ObservedAt :: time
  qr_IngestedAt :: time

definition record_Complete :: "QuoteSnapshotRecord \<Rightarrow> bool" where
  "record_Complete r =
     (case (qr_Delta r, qr_Bid r, qr_Ask r, qr_IV r, qr_Theta r, qr_Volume r, qr_OpenInterest r, qr_LotSize r, qr_UnderlyingPrice r) of
        (Some delta, Some _, Some _, Some _, Some _, Some _, Some _, Some _, Some _) \<Rightarrow>
          if qr_Source r = [] \<or> qr_SnapshotKey r = [] then False
          else if qr_OptionType r = ''PUT'' then - 1 \<le> delta \<and> delta \<le> 0
          else 0 \<le> delta \<and> delta \<le> 1
      | _ \<Rightarrow> False)"

text \<open>A missing provider field stays zero in the quote.\<close>

definition orElse :: "'a \<Rightarrow> 'a option \<Rightarrow> 'a" where
  "orElse d x = (case x of None \<Rightarrow> d | Some v \<Rightarrow> v)"

definition optionQuoteFromSnapshot :: "QuoteSnapshotRecord \<Rightarrow> OptionQuote" where
  "optionQuoteFromSnapshot r =
     \<lparr>q_Symbol = qr_Symbol r, q_Code = qr_Symbol r, q_Underlying = qr_Underlying r, q_Source = qr_Source r,
      q_OptionType = to_lower (qr_OptionType r), q_Type = to_lower (qr_OptionType r), q_Expiry = qr_Expiry r,
      q_Strike = qr_Strike r, q_Delta = orElse 0 (qr_Delta r), q_MarketDelta = orElse 0 (qr_Delta r), q_Bid = orElse 0 (qr_Bid r),
      q_Ask = orElse 0 (qr_Ask r), q_Last = 0, q_ImpliedVol = orElse 0 (qr_IV r), q_Theta = qr_Theta r, q_Volume = orElse 0 (qr_Volume r),
      q_OpenInterest = orElse 0 (qr_OpenInterest r), q_LotSize = orElse 0 (qr_LotSize r), q_QuoteTime = qr_ObservedAt r,
      q_CapturedAt = qr_ObservedAt r, q_Timestamp = qr_ObservedAt r, q_Ts = qr_ObservedAt r, q_IV = orElse 0 (qr_IV r),
      q_OI = orElse 0 (qr_OpenInterest r)\<rparr>"

section \<open>Grouping rows into batches\<close>

datatype OptionsError =
    NoSnapshots | SnapshotIncomplete string | MixedUnderlyings string | ConflictingPrices string | MixedSources string
  | NoQuoteRows | UnknownOptionType string string

type_synonym batchKey = "int \<times> string"

definition rowKey :: "QuoteSnapshotRecord \<Rightarrow> batchKey" where
  "rowKey r = (unix_nano (qr_ObservedAt r), qr_SnapshotKey r)"

definition newBatch :: "QuoteSnapshotRecord \<Rightarrow> QuoteSnapshotBatch" where
  "newBatch r = \<lparr>qb_ObservedAt = qr_ObservedAt r, qb_SnapshotKey = qr_SnapshotKey r, qb_Underlying = qr_Underlying r,
     qb_UnderlyingPrice = orElse 0 (qr_UnderlyingPrice r), qb_Quotes = [], qb_IVRank = 0, qb_ExpiryOrder = []\<rparr>"

definition joinBatch :: "QuoteSnapshotBatch \<Rightarrow> QuoteSnapshotRecord \<Rightarrow> OptionsError + QuoteSnapshotBatch" where
  "joinBatch b r =
     (if qb_Underlying b \<noteq> qr_Underlying r then Inl (MixedUnderlyings (qr_SnapshotKey r))
      else case qr_UnderlyingPrice r of
        None \<Rightarrow> Inr b
      | Some price \<Rightarrow>
          if \<not> feq (qb_UnderlyingPrice b) 0 \<and> \<not> feq price (qb_UnderlyingPrice b) then Inl (ConflictingPrices (qr_SnapshotKey r))
          else if feq (qb_UnderlyingPrice b) 0 then Inr (b\<lparr>qb_UnderlyingPrice := price\<rparr>)
          else Inr b)"

definition addQuote :: "QuoteSnapshotBatch \<Rightarrow> QuoteSnapshotRecord \<Rightarrow> OptionsError + QuoteSnapshotBatch" where
  "addQuote b r =
     (case qb_Quotes b of
        q # _ \<Rightarrow>
          if \<not> equal_fold (trim_space (q_Source q)) (trim_space (qr_Source r)) then Inl (MixedSources (qr_SnapshotKey r))
          else Inr (b\<lparr>qb_Quotes := qb_Quotes b @ [optionQuoteFromSnapshot r]\<rparr>)
      | [] \<Rightarrow> Inr (b\<lparr>qb_Quotes := qb_Quotes b @ [optionQuoteFromSnapshot r]\<rparr>))"

definition groupRow :: "(batchKey \<times> QuoteSnapshotBatch) list \<Rightarrow> QuoteSnapshotRecord \<Rightarrow> OptionsError + (batchKey \<times> QuoteSnapshotBatch) list" where
  "groupRow batches r =
     (if is_zero (qr_ObservedAt r) \<or> trim_space (qr_SnapshotKey r) = [] then Inl (SnapshotIncomplete (qr_Symbol r))
      else case (case map_of batches (rowKey r) of None \<Rightarrow> Inr (newBatch r) | Some b \<Rightarrow> joinBatch b r) of
        Inl err \<Rightarrow> Inl err
      | Inr b \<Rightarrow> (case addQuote b r of Inl err \<Rightarrow> Inl err | Inr b \<Rightarrow> Inr (map_put (rowKey r) b batches)))"

fun groupRows :: "(batchKey \<times> QuoteSnapshotBatch) list \<Rightarrow> QuoteSnapshotRecord list \<Rightarrow> OptionsError + (batchKey \<times> QuoteSnapshotBatch) list" where
  "groupRows batches [] = Inr batches"
| "groupRows batches (r # rows) = (case groupRow batches r of Inl err \<Rightarrow> Inl err | Inr batches \<Rightarrow> groupRows batches rows)"

section \<open>Order\<close>

definition nameLess :: "OptionQuote \<Rightarrow> OptionQuote \<Rightarrow> bool" where
  "nameLess a b \<longleftrightarrow> quote_name a < quote_name b"

definition expiryLess :: "OptionQuote list \<Rightarrow> int \<Rightarrow> int \<Rightarrow> bool" where
  "expiryLess quotes i j =
     (let left = quotes ! nat i; right = quotes ! nat j in
      if q_Expiry left \<noteq> q_Expiry right then q_Expiry left < q_Expiry right else quote_name left < quote_name right)"

definition sortBatch :: "QuoteSnapshotBatch \<Rightarrow> QuoteSnapshotBatch" where
  "sortBatch b =
     (let quotes = slice_stable nameLess (qb_Quotes b)
      in b\<lparr>qb_Quotes := quotes, qb_ExpiryOrder := slice_stable (expiryLess quotes) (map int [0..<length quotes])\<rparr>)"

definition batchLess :: "QuoteSnapshotBatch \<Rightarrow> QuoteSnapshotBatch \<Rightarrow> bool" where
  "batchLess a b =
     (if qb_ObservedAt a \<noteq> qb_ObservedAt b then qb_ObservedAt a < qb_ObservedAt b else qb_SnapshotKey a < qb_SnapshotKey b)"

section \<open>Implied-volatility rank\<close>

definition IVRankWindow :: duration where
  "IVRankWindow = 365 * day_ns"

definition minIVRankObservations :: f64 where
  "minIVRankObservations = Fin 20"

definition medianIV :: "OptionQuote list \<Rightarrow> f64" where
  "medianIV quotes =
     (let vs = filter (\<lambda>iv. 0 < iv) (map quote_impliedVol quotes)
      in if vs = [] then 0 else slice_stable (<) vs ! (length vs div 2))"

definition ivGroups :: "QuoteSnapshotBatch list \<Rightarrow> nat list gomap" where
  "ivGroups batches =
     foldl (\<lambda>groups i. let u = qb_Underlying (batches ! i) in map_put u (map_get [] groups u @ [i]) groups) [] [0..<length batches]"

definition windowCounts :: "QuoteSnapshotBatch list \<Rightarrow> nat list \<Rightarrow> f64 list \<Rightarrow> nat \<Rightarrow> f64 \<times> f64" where
  "windowCounts batches idxs medians i =
     (let windowStart = time_add (qb_ObservedAt (batches ! (idxs ! i))) (- IVRankWindow) in
      foldl (\<lambda>(window, below) j.
          if qb_ObservedAt (batches ! (idxs ! j)) < windowStart then (window, below)
          else (window + 1, if medians ! j < medians ! i then below + 1 else below))
        (0, 0) [0..<i + 1])"

definition rankGroup :: "QuoteSnapshotBatch list \<Rightarrow> nat list \<Rightarrow> QuoteSnapshotBatch list" where
  "rankGroup batches idxs =
     (let medians = map (\<lambda>idx. medianIV (qb_Quotes (batches ! idx))) idxs in
      foldl (\<lambda>batches i.
          case windowCounts batches idxs medians i of (window, below) \<Rightarrow>
            if minIVRankObservations \<le> window
            then batches[idxs ! i := (batches ! (idxs ! i))\<lparr>qb_IVRank := below / window\<rparr>] else batches)
        batches [0..<length idxs])"

definition attachIVRanks :: "QuoteSnapshotBatch list \<Rightarrow> QuoteSnapshotBatch list" where
  "attachIVRanks batches = foldl rankGroup batches (map snd (ivGroups batches))"

section \<open>Option data\<close>

definition snapshotMark :: "time \<Rightarrow> OptionQuote \<Rightarrow> Bar" where
  "snapshotMark observedAt q = \<lparr>b_Ts = observedAt, b_Open = q_Bid q, b_High = q_Bid q, b_Low = q_Bid q, b_Close = q_Bid q, b_Volume = q_Volume q, b_Source = [], b_Adjusted = []\<rparr>"

definition addContract :: "time \<Rightarrow> OptionChain \<times> OptionBars \<Rightarrow> OptionQuote \<Rightarrow> OptionChain \<times> OptionBars" where
  "addContract observedAt acc q =
     (case acc of (chain, bars) \<Rightarrow>
        let name = quote_name q; kind = to_lower (q_OptionType q) in
        if kind \<noteq> OptionCall \<and> kind \<noteq> OptionPut then (chain, bars)
        else (map_put name \<lparr>oc_Code = name, oc_Kind = kind, oc_Strike = q_Strike q, oc_Expiry = q_Expiry q\<rparr> chain,
              if 0 < q_Bid q then map_put name (map_get [] bars name @ [snapshotMark observedAt q]) bars else bars))"

text \<open>The map of batches is iterated in any order; the list given here is one such order.\<close>

definition assembleBatches :: "QuoteSnapshotBatch list \<Rightarrow> OptionsData" where
  "assembleBatches batches =
     (let out = attachIVRanks (slice_stable batchLess (map sortBatch batches));
          (chain, bars) = foldl (\<lambda>acc b. foldl (addContract (qb_ObservedAt b)) acc (qb_Quotes b)) ([], []) out
      in \<lparr>od_Bars = Some bars, od_Chain = chain, od_RunSeed = 0, od_QuoteBatches = out, od_Snapshots = out, od_QuoteSnapshots = out\<rparr>)"

definition OptionsDataFromQuoteSnapshots :: "QuoteSnapshotRecord list \<Rightarrow> OptionsError + OptionsData" where
  "OptionsDataFromQuoteSnapshots rows =
     (if rows = [] then Inl NoSnapshots
      else case groupRows [] rows of Inl err \<Rightarrow> Inl err | Inr batches \<Rightarrow> Inr (assembleBatches (map snd batches)))"

definition OptionsDataFromSnapshots :: "QuoteSnapshotRecord list \<Rightarrow> OptionsError + OptionsData" where
  "OptionsDataFromSnapshots rows = OptionsDataFromQuoteSnapshots rows"

section \<open>Legacy option rows\<close>

record OptionQuoteRow =
  or_Symbol :: string
  or_Underlying :: string
  or_OptionType :: string
  or_Strike :: f64
  or_Expiry :: time
  or_Ts :: time
  or_Open :: f64
  or_High :: f64
  or_Low :: f64
  or_Close :: f64
  or_Volume :: int
  or_ImpliedVol :: "f64 option"

definition rowBar :: "OptionQuoteRow \<Rightarrow> Bar" where
  "rowBar r = \<lparr>b_Ts = or_Ts r, b_Open = or_Open r, b_High = or_High r, b_Low = or_Low r, b_Close = or_Close r, b_Volume = or_Volume r, b_Source = [], b_Adjusted = []\<rparr>"

fun addQuoteRows :: "OptionChain \<Rightarrow> OptionBars \<Rightarrow> OptionQuoteRow list \<Rightarrow> OptionsError + OptionChain \<times> OptionBars" where
  "addQuoteRows chain bars [] = Inr (chain, bars)"
| "addQuoteRows chain bars (r # rows) =
     (let kind = or_OptionType r; code = or_Symbol r in
      if kind \<noteq> OptionCall \<and> kind \<noteq> OptionPut then Inl (UnknownOptionType code kind)
      else
        (let chain = (if map_of chain code = None
               then map_put code \<lparr>oc_Code = code, oc_Kind = kind, oc_Strike = or_Strike r, oc_Expiry = or_Expiry r\<rparr> chain else chain)
         in addQuoteRows chain (map_put code (map_get [] bars code @ [rowBar r]) bars) rows))"

definition OptionsDataFromQuotes :: "OptionQuoteRow list \<Rightarrow> OptionsError + OptionsData" where
  "OptionsDataFromQuotes rows =
     (if rows = [] then Inl NoQuoteRows
      else case addQuoteRows [] [] rows of
        Inl err \<Rightarrow> Inl err
      | Inr (chain, bars) \<Rightarrow> Inr \<lparr>od_Bars = Some bars, od_Chain = chain, od_RunSeed = 0, od_QuoteBatches = [], od_Snapshots = [], od_QuoteSnapshots = []\<rparr>)"

end
