(* ===== verification/Backtest_IVRank.thy ===== *)
theory Backtest_IVRank
  imports Backtest_OptionsData Backtest_Ledger
begin

text \<open>
  The implied-volatility rank of a batch against a reference definition: the share of the batches of
  the same underlying in the trailing year, up to and including this one, whose median implied
  volatility lies strictly below.
\<close>

section \<open>Counting in binary64\<close>

lemma counts_foldl:
  assumes "int m + int (length xs) \<le> 2 ^ 53" "k \<le> m"
  shows "foldl (\<lambda>(w, b) x. if P x then (w, b) else (w + 1, if Q x then b + 1 else b)) (whole (int m), whole (int k)) xs =
    (whole (int (m + length (filter (\<lambda>x. \<not> P x) xs))), whole (int (k + length (filter (\<lambda>x. \<not> P x \<and> Q x) xs))))"
  using assms
proof (induction xs arbitrary: m k)
  case (Cons x xs)
  have one: "whole (int n) + 1 = whole (int (Suc n))" if "int n < 2 ^ 53" for n
    using whole_add [of "int n" 1] that by (simp add: one_f64_def)
  show ?case
    using Cons.prems Cons.IH [of m k] Cons.IH [of "Suc m" k] Cons.IH [of "Suc m" "Suc k"] one [of m] one [of k]
    by (auto simp del: of_int_of_nat_eq)
qed simp

section \<open>The reference rank\<close>

definition sameUnderlying :: "QuoteSnapshotBatch list \<Rightarrow> QuoteSnapshotBatch list" where
  "sameUnderlying history = filter (\<lambda>b. qb_Underlying b = qb_Underlying (last history)) history"

definition trailingYear :: "QuoteSnapshotBatch list \<Rightarrow> QuoteSnapshotBatch list" where
  "trailingYear history = filter (\<lambda>b. \<not> qb_ObservedAt b < qb_ObservedAt (last history) - IVRankWindow) (sameUnderlying history)"

definition strictlyBelow :: "QuoteSnapshotBatch list \<Rightarrow> QuoteSnapshotBatch list" where
  "strictlyBelow history = filter (\<lambda>b. medianIV (qb_Quotes b) < medianIV (qb_Quotes (last history))) (trailingYear history)"

definition rankedLast :: "QuoteSnapshotBatch list \<Rightarrow> QuoteSnapshotBatch" where
  "rankedLast history =
     (if 20 \<le> length (trailingYear history)
      then (last history)\<lparr>qb_IVRank := whole (int (length (strictlyBelow history))) / whole (int (length (trailingYear history)))\<rparr>
      else last history)"

section \<open>One group\<close>

definition unranked :: "QuoteSnapshotBatch \<Rightarrow> QuoteSnapshotBatch" where
  "unranked b = b\<lparr>qb_IVRank := 0\<rparr>"

lemma unranked_fields:
  "unranked a = unranked b \<Longrightarrow> qb_ObservedAt a = qb_ObservedAt b \<and> qb_Underlying a = qb_Underlying b \<and> qb_Quotes a = qb_Quotes b"
  by (cases a; cases b) (simp add: unranked_def)

lemma unranked_upd [simp]: "unranked (b\<lparr>qb_IVRank := x\<rparr>) = unranked b"
  by (simp add: unranked_def)

lemma unranked_nth:
  "map unranked bs = map unranked bs' \<Longrightarrow> k < length bs \<Longrightarrow> qb_ObservedAt (bs ! k) = qb_ObservedAt (bs' ! k) \<and> qb_Quotes (bs ! k) = qb_Quotes (bs' ! k)"
  by (metis length_map nth_map unranked_fields)

lemma windowCounts_unranked:
  assumes "map unranked bs = map unranked bs'" "i < length idxs" "\<forall>k \<in> set idxs. k < length bs"
  shows "windowCounts bs idxs ms i = windowCounts bs' idxs ms i"
proof -
  have o: "qb_ObservedAt (bs ! (idxs ! j)) = qb_ObservedAt (bs' ! (idxs ! j))" if "j \<le> i" for j
    using assms that unranked_nth by simp
  show ?thesis unfolding windowCounts_def Let_def by (rule foldl_cong) (auto simp: o)
qed

definition rankStep :: "QuoteSnapshotBatch list \<Rightarrow> nat list \<Rightarrow> f64 list \<Rightarrow> nat \<Rightarrow> QuoteSnapshotBatch \<Rightarrow> QuoteSnapshotBatch" where
  "rankStep bs idxs ms i b = (case windowCounts bs idxs ms i of (window, below) \<Rightarrow>
     if minIVRankObservations \<le> window then b\<lparr>qb_IVRank := below / window\<rparr> else b)"


lemma rankGroup_prefix:
  fixes bs :: "QuoteSnapshotBatch list" and idxs :: "nat list" and ms :: "f64 list"
  assumes "distinct idxs" "\<forall>k \<in> set idxs. k < length bs" "n \<le> length idxs"
  defines "step \<equiv> \<lambda>acc i. case windowCounts acc idxs ms i of (window, below) \<Rightarrow>
      if minIVRankObservations \<le> window then acc[idxs ! i := (acc ! (idxs ! i))\<lparr>qb_IVRank := below / window\<rparr>] else acc"
  shows "length (foldl step bs [0..<n]) = length bs \<and> map unranked (foldl step bs [0..<n]) = map unranked bs
    \<and> (\<forall>i < n. foldl step bs [0..<n] ! (idxs ! i) = rankStep bs idxs ms i (bs ! (idxs ! i)))
    \<and> (\<forall>k. k \<notin> set (take n idxs) \<longrightarrow> foldl step bs [0..<n] ! k = bs ! k)"
  using assms(3)
proof (induction n)
  case (Suc n)
  let ?acc = "foldl step bs [0..<n]" and ?k = "idxs ! n"
  have IH: "length ?acc = length bs" "map unranked ?acc = map unranked bs"
    "\<And>i. i < n \<Longrightarrow> ?acc ! (idxs ! i) = rankStep bs idxs ms i (bs ! (idxs ! i))" "\<And>k. k \<notin> set (take n idxs) \<Longrightarrow> ?acc ! k = bs ! k"
    using Suc by auto
  have k: "?k < length bs" "?k \<in> set idxs" using Suc.prems assms(2) by (simp_all add: Suc_le_eq)
  have k': "?k \<notin> set (take n idxs)" using Suc.prems assms(1) by (auto simp: in_set_conv_nth nth_eq_iff_index_eq)
  have ne: "idxs ! i \<noteq> ?k" if "i < n" for i
    using assms(1) Suc.prems that by (simp add: nth_eq_iff_index_eq)
  obtain w b where wb: "windowCounts bs idxs ms n = (w, b)" by fastforce
  moreover have "windowCounts ?acc idxs ms n = windowCounts bs idxs ms n"
    using windowCounts_unranked [OF IH(2)] Suc.prems assms(2) IH(1) by simp
  ultimately have "windowCounts ?acc idxs ms n = (w, b)" by simp
  then have step: "step ?acc n = ?acc[?k := rankStep bs idxs ms n (bs ! ?k)]"
    using IH(4) [OF k'] wb list_update_id [of ?acc ?k] by (cases "minIVRankObservations \<le> w") (simp_all add: step_def rankStep_def)
  have f: "foldl step bs [0..<Suc n] = ?acc[?k := rankStep bs idxs ms n (bs ! ?k)]" by (simp add: step)
  have u: "unranked (rankStep bs idxs ms n (bs ! ?k)) = unranked (bs ! ?k)" by (simp add: rankStep_def split: prod.split)
  have m: "map unranked (foldl step bs [0..<Suc n]) = map unranked bs"
    unfolding f map_update u IH(2) using k(1) by (simp add: list_update_same_conv)
  have r: "foldl step bs [0..<Suc n] ! (idxs ! i) = rankStep bs idxs ms i (bs ! (idxs ! i))" if "i < Suc n" for i
    using that IH(1) IH(3) [of i] ne [of i] k(1) unfolding f by (cases "i = n") simp_all
  have o: "foldl step bs [0..<Suc n] ! j = bs ! j" if "j \<notin> set (take (Suc n) idxs)" for j
    using that IH(4) [of j] Suc.prems unfolding f by (simp add: take_Suc_conv_app_nth)
  show ?case using IH(1) m r o f by simp
qed simp

lemma rankGroup_nth:
  fixes bs :: "QuoteSnapshotBatch list" and idxs :: "nat list"
  defines "ms \<equiv> map (\<lambda>idx. medianIV (qb_Quotes (bs ! idx))) idxs"
  assumes "distinct idxs" "\<forall>k \<in> set idxs. k < length bs"
  shows "length (rankGroup bs idxs) = length bs" "map unranked (rankGroup bs idxs) = map unranked bs"
    "i < length idxs \<Longrightarrow> rankGroup bs idxs ! (idxs ! i) = rankStep bs idxs ms i (bs ! (idxs ! i))"
    "k \<notin> set idxs \<Longrightarrow> rankGroup bs idxs ! k = bs ! k"
  using rankGroup_prefix [OF assms(2,3) order_refl, of ms] unfolding rankGroup_def Let_def ms_def by auto

section \<open>The groups\<close>

definition ofUnderlying :: "QuoteSnapshotBatch list \<Rightarrow> string \<Rightarrow> nat \<Rightarrow> nat list" where
  "ofUnderlying bs u n = filter (\<lambda>i. qb_Underlying (bs ! i) = u) [0..<n]"

lemma ofUnderlying_Suc: "ofUnderlying bs u (Suc n) = ofUnderlying bs u n @ (if qb_Underlying (bs ! n) = u then [n] else [])"
  by (simp add: ofUnderlying_def)

lemma ivGroups_prefix:
  fixes bs :: "QuoteSnapshotBatch list"
  defines "step \<equiv> \<lambda>groups i. let u = qb_Underlying (bs ! i) in map_put u (map_get [] groups u @ [i]) groups"
  shows "map_ok (foldl step [] [0..<n]) \<and> (\<forall>u. map_of (foldl step [] [0..<n]) u = (if ofUnderlying bs u n = [] then None else Some (ofUnderlying bs u n)))"
proof (induction n)
  case 0
  then show ?case by (simp add: ofUnderlying_def)
next
  case (Suc n)
  then show ?case by (auto simp: step_def Let_def map_of_map_put ofUnderlying_Suc map_get_def)
qed

lemma ivGroups_groups:
  "map_ok (ivGroups bs)" "(u, g) \<in> set (ivGroups bs) \<longleftrightarrow> g = ofUnderlying bs u (length bs) \<and> g \<noteq> []"
  using ivGroups_prefix [of bs "length bs"] by (auto simp: ivGroups_def map_ok_lookup)

lemma ofUnderlying_facts:
  "distinct (ofUnderlying bs u n)" "k \<in> set (ofUnderlying bs u n) \<longleftrightarrow> k < n \<and> qb_Underlying (bs ! k) = u"
  by (auto simp: ofUnderlying_def)

lemma take_ofUnderlying:
  assumes "i < length (ofUnderlying bs u n)"
  shows "take (Suc i) (ofUnderlying bs u n) = ofUnderlying bs u (Suc (ofUnderlying bs u n ! i))"
  using assms
proof (induction n)
  case (Suc n)
  show ?case
  proof (cases "i < length (ofUnderlying bs u n)")
    case True
    then show ?thesis using Suc.IH by (simp add: ofUnderlying_Suc nth_append)
  next
    case False
    then have "i = length (ofUnderlying bs u n)" "qb_Underlying (bs ! n) = u" using Suc.prems by (auto simp: ofUnderlying_Suc split: if_splits)
    then show ?thesis by (simp add: ofUnderlying_Suc)
  qed
qed (simp add: ofUnderlying_def)

text \<open>Each group's step computes the reference rank of its batch.\<close>

lemma map_nth_ofUnderlying:
  assumes "n \<le> length bs"
  shows "map ((!) bs) (ofUnderlying bs u n) = filter (\<lambda>b. qb_Underlying b = u) (take n bs)"
  using assms by (induction n) (simp_all add: ofUnderlying_def take_Suc_conv_app_nth)

lemma foldl_nth: "n \<le> length xs \<Longrightarrow> foldl (\<lambda>a j. f a (xs ! j)) a [0..<n] = foldl f a (take n xs)"
  by (induction n) (simp_all add: take_Suc_conv_app_nth)

lemma rankStep_reference:
  fixes bs u
  defines "idxs \<equiv> ofUnderlying bs u (length bs)"
  assumes "length bs \<le> 2 ^ 53" "i < length idxs"
  shows "rankStep bs idxs (map (\<lambda>idx. medianIV (qb_Quotes (bs ! idx))) idxs) i (bs ! (idxs ! i)) = rankedLast (take (Suc (idxs ! i)) bs)"
proof -
  let ?k = "idxs ! i" and ?ms = "map (\<lambda>idx. medianIV (qb_Quotes (bs ! idx))) idxs"
  let ?h = "take (Suc ?k) bs" and ?b = "bs ! (idxs ! i)"
  have k: "?k < length bs" "qb_Underlying ?b = u"
    using nth_mem [OF assms(3)] unfolding idxs_def by (simp_all add: ofUnderlying_facts)
  have last: "last ?h = ?b" using k(1) by (simp add: take_Suc_conv_app_nth)
  let ?P = "\<lambda>b. qb_ObservedAt b < qb_ObservedAt ?b - IVRankWindow" and ?Q = "\<lambda>b. medianIV (qb_Quotes b) < medianIV (qb_Quotes ?b)"
  let ?c = "\<lambda>(w, b) x. if ?P x then (w, b) else (w + 1, if ?Q x then b + (1 :: f64) else b)"
  have "windowCounts bs idxs ?ms i = foldl (\<lambda>a j. ?c a (map ((!) bs) idxs ! j)) (0 :: f64, 0) [0..<Suc i]"
    unfolding windowCounts_def Let_def using assms(3) by (intro foldl_cong) (auto simp: time_add_def)
  also have "\<dots> = foldl ?c (0, 0) (take (Suc i) (map ((!) bs) idxs))"
    using assms(3) by (intro foldl_nth) simp
  also have "take (Suc i) (map ((!) bs) idxs) = sameUnderlying ?h"
    using take_ofUnderlying [OF assms(3) [unfolded idxs_def]] map_nth_ofUnderlying [of "Suc ?k" bs u] k
    by (simp add: take_map idxs_def sameUnderlying_def last [unfolded idxs_def] del: take_Suc)
  also have "foldl ?c (0, 0) (sameUnderlying ?h) = (whole (int (length (trailingYear ?h))), whole (int (length (strictlyBelow ?h))))"
  proof -
    have "length (sameUnderlying ?h) \<le> length bs" unfolding sameUnderlying_def by (rule order_trans [OF length_filter_le]) simp
    then have "int 0 + int (length (sameUnderlying ?h)) \<le> 2 ^ 53" using assms(2) by simp
    from counts_foldl [OF this order_refl, of ?P ?Q] show ?thesis
      by (simp add: trailingYear_def strictlyBelow_def last zero_f64_def conj_commute)
  qed
  finally have "windowCounts bs idxs ?ms i = (whole (int (length (trailingYear ?h))), whole (int (length (strictlyBelow ?h))))" .
  then show ?thesis by (simp add: rankStep_def rankedLast_def last minIVRankObservations_def)
qed

section \<open>All groups\<close>

lemma foldl_rankGroup:
  fixes bs :: "QuoteSnapshotBatch list"
  assumes "distinct us" "length bs \<le> 2 ^ 53"
  defines "acc \<equiv> \<lambda>us. foldl rankGroup bs (map (\<lambda>u. ofUnderlying bs u (length bs)) us)"
  shows "length (acc us) = length bs \<and> map unranked (acc us) = map unranked bs
    \<and> (\<forall>k < length bs. acc us ! k = (if qb_Underlying (bs ! k) \<in> set us then rankedLast (take (Suc k) bs) else bs ! k))"
  using assms(1)
proof (induction us rule: rev_induct)
  case (snoc u us)
  let ?g = "ofUnderlying bs u (length bs)"
  have IH: "length (acc us) = length bs" "map unranked (acc us) = map unranked bs"
    "\<And>k. k < length bs \<Longrightarrow> acc us ! k = (if qb_Underlying (bs ! k) \<in> set us then rankedLast (take (Suc k) bs) else bs ! k)"
    using snoc by simp_all
  have s: "acc (us @ [u]) = rankGroup (acc us) ?g" by (simp add: acc_def)
  have g: "distinct ?g" "\<forall>k \<in> set ?g. k < length (acc us)" using IH(1) by (simp_all add: ofUnderlying_facts)
  note r = rankGroup_nth [OF g]
  have ms: "map (\<lambda>idx. medianIV (qb_Quotes (acc us ! idx))) ?g = map (\<lambda>idx. medianIV (qb_Quotes (bs ! idx))) ?g"
  proof (rule map_cong [OF refl])
    fix k assume "k \<in> set ?g"
    then show "medianIV (qb_Quotes (acc us ! k)) = medianIV (qb_Quotes (bs ! k))" using unranked_nth [OF IH(2), of k] g(2) by simp
  qed
  have "acc (us @ [u]) ! k = (if qb_Underlying (bs ! k) \<in> set (us @ [u]) then rankedLast (take (Suc k) bs) else bs ! k)" if "k < length bs" for k
  proof (cases "qb_Underlying (bs ! k) = u")
    case True
    then have "k \<in> set ?g" using that by (simp add: ofUnderlying_facts)
    then obtain i where i: "i < length ?g" "?g ! i = k" by (auto simp: in_set_conv_nth)
    have "acc us ! k = bs ! k" using IH(3) [OF that] True snoc.prems by simp
    moreover have "rankStep (acc us) ?g m i b = rankStep bs ?g m i b" for m b
      by (simp only: rankStep_def windowCounts_unranked [OF IH(2) i(1) g(2)])
    ultimately have "rankGroup (acc us) ?g ! k = rankedLast (take (Suc k) bs)"
      using r(3) [OF i(1)] rankStep_reference [OF assms(2) i(1)] unfolding ms i(2) by (simp only:)
    then show ?thesis using True unfolding s by simp
  next
    case False
    then show ?thesis using r(4) [of k] IH(3) [OF that] unfolding s by (simp add: ofUnderlying_facts)
  qed
  then show ?case unfolding s using r(1,2) IH(1,2) by simp
qed (simp add: acc_def)

lemma ivGroups_list: "map snd (ivGroups bs) = map (\<lambda>u. ofUnderlying bs u (length bs)) (map fst (ivGroups bs))"
  using ivGroups_groups(2) [of _ _ bs] by (auto simp: case_prod_beta)

lemma attachIVRanks_reference:
  assumes "length bs \<le> 2 ^ 53"
  shows "attachIVRanks bs = map (\<lambda>i. rankedLast (take (Suc i) bs)) [0..<length bs]"
proof -
  let ?us = "map fst (ivGroups bs)"
  have d: "distinct ?us" using ivGroups_groups(1) [of bs] by (simp add: map_ok_def)
  have a: "attachIVRanks bs = foldl rankGroup bs (map (\<lambda>u. ofUnderlying bs u (length bs)) ?us)"
    unfolding attachIVRanks_def ivGroups_list ..
  have "qb_Underlying (bs ! k) \<in> set ?us" if "k < length bs" for k
  proof -
    have "k \<in> set (ofUnderlying bs (qb_Underlying (bs ! k)) (length bs))" using that by (simp add: ofUnderlying_facts)
    then have "(qb_Underlying (bs ! k), ofUnderlying bs (qb_Underlying (bs ! k)) (length bs)) \<in> set (ivGroups bs)"
      unfolding ivGroups_groups by force
    then show ?thesis by force
  qed
  then show ?thesis
    using foldl_rankGroup [OF d assms] unfolding a by (intro nth_equalityI) auto
qed

text \<open>
  The rank attached to each batch is the reference rank of its own past - among the batches of the same
  underlying up to this one and no older than a year, the share with a strictly lower median, once there are twenty of them.  No
  later batch and no other underlying has any influence: ranking a prefix is the prefix of the ranking.
\<close>

theorem iv_rank_trailing:
  assumes "length bs \<le> 2 ^ 53"
  shows "attachIVRanks bs = map (\<lambda>i. rankedLast (take (Suc i) bs)) [0..<length bs]
    \<and> attachIVRanks (take n bs) = take n (attachIVRanks bs)"
proof -
  have "length (take n bs) \<le> 2 ^ 53" using assms by simp
  then show ?thesis
    using attachIVRanks_reference [of "take n bs"] attachIVRanks_reference [OF assms]
    by (auto intro!: nth_equalityI simp: min_def)
qed

definition sample_batches :: "QuoteSnapshotBatch list" where
  "sample_batches = map (\<lambda>i. \<lparr>qb_ObservedAt = unix_epoch + int i * day_ns, qb_SnapshotKey = ''k'', qb_Underlying = ''HK.00700'',
     qb_UnderlyingPrice = Fin 400, qb_Quotes = [], qb_IVRank = 0, qb_ExpiryOrder = []\<rparr>) [0..<25]"

theorem iv_rank_trailing_witness:
  "length sample_batches \<le> 2 ^ 53 \<and> attachIVRanks (take 3 sample_batches) = take 3 (attachIVRanks sample_batches)"
proof -
  have "length sample_batches \<le> 2 ^ 53" by (simp add: sample_batches_def)
  then show ?thesis using iv_rank_trailing by blast
qed

text \<open>
  Every attached rank lies in [0, 1], and a batch whose median is the lowest of its year - a flat plateau
  included - has rank zero, so that it never passes a positive minimum rank.
\<close>

theorem iv_rank_unit:
  assumes "length bs \<le> 2 ^ 53" "\<forall>b \<in> set bs. qb_IVRank b = 0" "i < length bs"
  shows "0 \<le> qb_IVRank (attachIVRanks bs ! i) \<and> qb_IVRank (attachIVRanks bs ! i) \<le> 1
    \<and> (strictlyBelow (take (Suc i) bs) = [] \<longrightarrow> qb_IVRank (attachIVRanks bs ! i) = 0)"
proof -
  let ?h = "take (Suc i) bs"
  have a: "attachIVRanks bs ! i = rankedLast ?h" using attachIVRanks_reference [OF assms(1)] assms(3) by simp
  have z: "qb_IVRank (last ?h) = 0" using assms(2,3) by (simp add: take_Suc_conv_app_nth)
  have le: "length (strictlyBelow ?h) \<le> length (trailingYear ?h)" by (simp add: strictlyBelow_def)
  show ?thesis
  proof (cases "20 \<le> length (trailingYear ?h)")
    case True
    let ?a = "rat_of_int (int (length (strictlyBelow ?h)))" and ?b = "rat_of_int (int (length (trailingYear ?h)))"
    have "0 \<le> ?a" "?a \<le> ?b" "0 < ?b" using le True by auto
    then show ?thesis
      by (rule div_unit) (use True a in \<open>auto simp: rankedLast_def zero_f64_def one_f64_def\<close>)
  qed (simp add: a rankedLast_def z zero_f64_def one_f64_def)
qed

theorem iv_rank_unit_witness:
  "0 \<le> qb_IVRank (attachIVRanks sample_batches ! 24) \<and> qb_IVRank (attachIVRanks sample_batches ! 24) \<le> 1"
proof -
  have "length sample_batches \<le> 2 ^ 53" "\<forall>b \<in> set sample_batches. qb_IVRank b = 0" "24 < length sample_batches"
    by (simp_all add: sample_batches_def)
  then show ?thesis using iv_rank_unit by blast
qed

end
