(* ===== verification/Strategy_Wheel.thy ===== *)
theory Strategy_Wheel
  imports Backtest_Session Wheel_Evaluate
begin

text \<open>
  The wheel as a backtest strategy: \<^verbatim>\<open>WheelStrategy\<close> of \<^verbatim>\<open>internal/strategy/strategy.go\<close>, from the expiry window
  over the quotes of the current snapshot to the action the session settles. The adapter keeps the
  last signal and what it needs to recognise a fill of the previous bar.
\<close>

section \<open>The expiry window\<close>

text \<open>\<^verbatim>\<open>sort.Search\<close>: binary search for the first index at which the predicate holds.\<close>

function search_loop :: "(nat \<Rightarrow> bool) \<Rightarrow> nat \<Rightarrow> nat \<Rightarrow> nat" where
  "search_loop f i j =
     (if i < j then (let h = (i + j) div 2 in if \<not> f h then search_loop f (h + 1) j else search_loop f i h) else i)"
  by pat_completeness auto

termination
  by (relation "measure (\<lambda>(f, i, j). j - i)") auto

declare search_loop.simps [simp del]

definition sort_search :: "nat \<Rightarrow> (nat \<Rightarrow> bool) \<Rightarrow> nat" where
  "sort_search n f = search_loop f 0 n"

definition filterQuotesByExpiryLinear :: "OptionQuote list \<Rightarrow> time \<Rightarrow> time \<Rightarrow> OptionQuote list" where
  "filterQuotesByExpiryLinear quotes minExpiryDate maxExpiryDate =
     filter (\<lambda>q. is_zero (q_Expiry q)
       \<or> \<not> (calendarDate (q_Expiry q) < minExpiryDate \<or> maxExpiryDate < calendarDate (q_Expiry q))) quotes"

text \<open>The prepared order is used only when it is a permutation that visits the expiry dates in order.\<close>

fun expiryOrderOk :: "OptionQuote list \<Rightarrow> int list \<Rightarrow> time \<Rightarrow> int list \<Rightarrow> bool" where
  "expiryOrderOk quotes seen previousExpiry [] = True"
| "expiryOrderOk quotes seen previousExpiry (index # order) =
     (if index < 0 \<or> int (length quotes) \<le> index \<or> index \<in> set seen then False
      else (let expiry = calendarDate (q_Expiry (quotes ! nat index)) in
            if \<not> is_zero previousExpiry \<and> expiry < previousExpiry then False
            else expiryOrderOk quotes (index # seen) expiry order))"

definition filterByIndex :: "OptionQuote list \<Rightarrow> int list \<Rightarrow> OptionQuote list" where
  "filterByIndex quotes included =
     map snd (filter (\<lambda>(i, q). int i \<in> set included \<or> is_zero (q_Expiry q)) (List.enumerate 0 quotes))"

text \<open>\<open>None\<close> is the run-time panic of a slice whose lower bound exceeds its upper bound.\<close>

definition filterQuotesByExpiry :: "OptionQuote list \<Rightarrow> int list \<Rightarrow> time \<Rightarrow> Config \<Rightarrow> OptionQuote list option" where
  "filterQuotesByExpiry quotes expiryOrder barTs cfg =
     (if is_zero barTs then Some quotes
      else
        (let asOfDate = calendarDate barTs;
             minExpiryDate = add_days asOfDate (cfg_MinDTE cfg);
             maxExpiryDate = add_days asOfDate (cfg_MaxDTE cfg)
         in if length expiryOrder = length quotes then
              (if \<not> expiryOrderOk quotes [] 0 expiryOrder then Some (filterQuotesByExpiryLinear quotes minExpiryDate maxExpiryDate)
               else
                 (let expiryAt = (\<lambda>i. calendarDate (q_Expiry (quotes ! nat (expiryOrder ! i))));
                      lo = sort_search (length expiryOrder) (\<lambda>i. \<not> expiryAt i < minExpiryDate);
                      hi = sort_search (length expiryOrder) (\<lambda>i. maxExpiryDate < expiryAt i)
                  in if hi < lo then None else Some (filterByIndex quotes (take (hi - lo) (drop lo expiryOrder)))))
            else Some (filterQuotesByExpiryLinear quotes minExpiryDate maxExpiryDate)))"

section \<open>Candidates outside the window\<close>

definition rejectedExpiryQuoteReason :: "OptionQuote \<Rightarrow> time \<Rightarrow> Config \<Rightarrow> time \<Rightarrow> time \<Rightarrow> time \<Rightarrow> string" where
  "rejectedExpiryQuoteReason q asOf cfg asOfDate minExpiryDate maxExpiryDate =
     (let delta = quote_delta q; typ = quote_optionType q; iv = quote_impliedVol q; oi = quote_openInterest q; name = quote_name q in
      if name = [] \<or> trim_space (q_Source q) = [] \<or> is_zero (q_Expiry q) \<or> \<not> finite64 delta \<or> delta < - 1 \<or> 1 < delta
         \<or> \<not> finite64 (q_Strike q) \<or> q_Strike q \<le> 0
      then ''wheel: quote missing symbol, source, expiry, strike or delta''
      else if typ \<noteq> PutType \<and> typ \<noteq> CallType then ''wheel: quote has invalid option type''
      else if typ = PutType \<and> 0 \<le> delta then ''wheel: put delta must be negative''
      else if typ = CallType \<and> delta \<le> 0 then ''wheel: call delta must be positive''
      else if \<not> finite64 (q_Bid q) \<or> \<not> finite64 (q_Ask q) \<or> q_Bid q \<le> 0 \<or> q_Ask q \<le> 0 \<or> q_Ask q < q_Bid q
      then ''wheel: quote has missing or inverted bid/ask''
      else if \<not> finite64 iv \<or> iv \<le> 0 \<or> (case q_Theta q of None \<Rightarrow> True | Some th \<Rightarrow> \<not> finite64 th)
         \<or> q_Volume q \<le> 0 \<or> oi \<le> 0 \<or> q_LotSize q \<le> 0
      then ''wheel: quote missing IV, Theta, liquidity or lot size''
      else
        (let qt = quote_quoteTime q in
         if \<not> is_zero asOf \<and> is_zero qt then ''wheel: quote timestamp is missing''
         else if \<not> is_zero asOf \<and> asOf < qt then ''wheel: quote is from the future''
         else if \<not> is_zero asOf \<and> \<not> QuoteFresh cfg name qt asOf then ''wheel: quote is stale''
         else if \<not> is_zero asOf \<and> \<not> asOf < q_Expiry q then ''wheel: option has expired''
         else
           (let dte = quot_trunc (time_sub (calendarDate (q_Expiry q)) asOfDate) (24 * hour_ns) in
            if calendarDate (q_Expiry q) < minExpiryDate \<or> maxExpiryDate < calendarDate (q_Expiry q)
            then ''wheel: DTE '' @ fmt_int dte @ '' outside ['' @ fmt_int (cfg_MinDTE cfg) @ '','' @ fmt_int (cfg_MaxDTE cfg) @ '']''
            else ''wheel: option expiry is outside configured range'')))"

definition byNameAdd :: "CandidateEvaluation list gomap \<Rightarrow> CandidateEvaluation \<Rightarrow> CandidateEvaluation list gomap" where
  "byNameAdd m c = (let name = quote_name (c_Quote c) in map_put name (map_get [] m name @ [c]) m)"

definition restoreDirection :: "Signal \<Rightarrow> string" where
  "restoreDirection signal =
     (if s_Direction signal = DirectionHold \<and> s_Reason signal = ''no quote passed validation and risk checks''
      then (if s_InventoryGap signal < 0 then DirectionCall else DirectionPut)
      else s_Direction signal)"

fun restoreMerge ::
  "CandidateEvaluation list gomap \<Rightarrow> string \<Rightarrow> time \<Rightarrow> Config \<Rightarrow> int gomap \<Rightarrow> OptionQuote list \<Rightarrow> CandidateEvaluation list" where
  "restoreMerge byName direction barTs cfg seen [] = []"
| "restoreMerge byName direction barTs cfg seen (quote # quotes) =
     (let name = quote_name quote; index = map_get 0 seen name; candidates = map_get [] byName name;
          asOfDate = calendarDate barTs;
          minExpiryDate = add_days asOfDate (cfg_MinDTE cfg);
          maxExpiryDate = add_days asOfDate (cfg_MaxDTE cfg) in
      if index < int (length candidates)
      then candidates ! nat index # restoreMerge byName direction barTs cfg (map_put name (index + 1) seen) quotes
      else if is_zero (q_Expiry quote)
         \<or> (\<not> calendarDate (q_Expiry quote) < minExpiryDate \<and> \<not> maxExpiryDate < calendarDate (q_Expiry quote))
      then restoreMerge byName direction barTs cfg seen quotes
      else (new_candidate quote direction)\<lparr>c_Quality := QualityScore quote,
              c_Reasons := [rejectedExpiryQuoteReason quote barTs cfg asOfDate minExpiryDate maxExpiryDate]\<rparr>
           # restoreMerge byName direction barTs cfg seen quotes)"

definition restoreExpiryRejectedCandidates :: "Signal \<Rightarrow> OptionQuote list \<Rightarrow> time \<Rightarrow> Config \<Rightarrow> Signal" where
  "restoreExpiryRejectedCandidates signal allQuotes barTs cfg =
     (let direction = restoreDirection signal in
      if direction \<noteq> DirectionPut \<and> direction \<noteq> DirectionCall then signal
      else
        (let byName = foldl byNameAdd [] (s_Candidates signal);
             merged = restoreMerge byName direction barTs cfg [] allQuotes
         in if merged = [] then signal
            else signal\<lparr>s_Candidates := merged,
                        s_RejectReasons := concat (map c_Reasons (filter (\<lambda>c. \<not> c_Accepted c) merged))\<rparr>))"

section \<open>The adapter\<close>

record WheelStrategy =
  ws_Config :: Config
  ws_LastSignal :: Signal
  ws_TraceCandidates :: bool
  ws_seenFillCount :: int
  ws_prevBarClose :: f64
  ws_lastFillPrice :: f64

definition wheel_KeepCandidateDetails :: "WheelStrategy \<Rightarrow> bool" where
  "wheel_KeepCandidateDetails s = ws_TraceCandidates s"

definition wheel_Signal :: "WheelStrategy \<Rightarrow> Signal" where
  "wheel_Signal s = ws_LastSignal s"

definition blockedSignal :: "string \<Rightarrow> string \<Rightarrow> Signal" where
  "blockedSignal reason dep = zero_signal\<lparr>s_Action := ActionHold, s_Direction := DirectionHold, s_Reason := reason,
     s_Reasons := [reason], s_CapabilityStatus := CapabilityDataBlocked, s_BlockedBy := [dep]\<rparr>"

definition noteFill :: "WheelStrategy \<Rightarrow> Bar \<Rightarrow> State \<Rightarrow> WheelStrategy" where
  "noteFill s bar st =
     (let s = (if ws_seenFillCount s < st_FillCount st
               then s\<lparr>ws_seenFillCount := st_FillCount st, ws_lastFillPrice := ws_prevBarClose s\<rparr> else s)
      in s\<lparr>ws_prevBarClose := b_Close bar\<rparr>)"

definition snapshotUsable :: "QuoteSnapshotBatch \<Rightarrow> bool" where
  "snapshotUsable batch \<longleftrightarrow>
     \<not> is_zero (qb_ObservedAt batch) \<and> qb_SnapshotKey batch \<noteq> [] \<and> \<not> qb_UnderlyingPrice batch \<le> 0 \<and> qb_Quotes batch \<noteq> []"

text \<open>Quotes by contract name, and the quotes of held legs that fell out of the window.\<close>

definition indexQuotes :: "OptionQuote list \<Rightarrow> OptionQuote gomap" where
  "indexQuotes quotes = foldl (\<lambda>m q. if quote_name q \<noteq> [] then map_put (quote_name q) q m else m) [] quotes"

definition mergeHeld :: "OptionQuote list \<Rightarrow> OptionQuote list \<times> OptionQuote gomap \<Rightarrow> string \<Rightarrow> OptionQuote list \<times> OptionQuote gomap" where
  "mergeHeld batchQuotes acc code =
     (case acc of (quotes, quoteByCode) \<Rightarrow>
        if map_of quoteByCode code \<noteq> None then acc
        else case List.find (\<lambda>q. quote_name q = code) batchQuotes of
          None \<Rightarrow> acc
        | Some q \<Rightarrow> (quotes @ [q], map_put code q quoteByCode))"

definition legDelta :: "BtPosition \<Rightarrow> OptionQuote option \<Rightarrow> f64" where
  "legDelta p found =
     (let delta = bp_MarketDelta p;
          delta = (if delta = 0 then bp_Delta p else delta)
      in case found of
           Some q \<Rightarrow> (if delta = 0 then (if q_Delta q = 0 then q_MarketDelta q else q_Delta q) else delta)
         | None \<Rightarrow> delta)"

definition wheelLeg :: "string \<Rightarrow> BtPosition \<Rightarrow> f64 \<Rightarrow> OptionPosition" where
  "wheelLeg code p delta = \<lparr>p_Symbol = code, p_SignedContracts = bp_Contracts p, p_Contracts = 0, p_Strike = bp_Strike p,
     p_MarketDelta = delta, p_Delta = delta, p_LotSize = leg_lot p, p_OptionType = bp_Kind p, p_AvgPremium = bp_AvgPremium p\<rparr>"

fun heldPositions :: "OptionQuote gomap \<Rightarrow> BtPosition gomap \<Rightarrow> string list \<Rightarrow> OptionPosition list option" where
  "heldPositions quoteByCode options [] = Some []"
| "heldPositions quoteByCode options (code # codes) =
     (case map_of options code of
        None \<Rightarrow> heldPositions quoteByCode options codes
      | Some p \<Rightarrow>
          (let delta = legDelta p (map_of quoteByCode code) in
           if delta = 0 then None
           else map_option (Cons (wheelLeg code p delta)) (heldPositions quoteByCode options codes)))"

definition decisionInput :: "WheelStrategy \<Rightarrow> Bar \<Rightarrow> State \<Rightarrow> QuoteSnapshotBatch \<Rightarrow> OptionPosition list \<Rightarrow> OptionQuote list \<Rightarrow> DecisionInput" where
  "decisionInput s bar st batch positions quotes =
     \<lparr>in_CurrentPrice = qb_UnderlyingPrice batch, in_AsOf = b_Ts bar, in_StockShares = st_Position st,
      in_StockAverageCost = st_StockAverageCost st, in_FuturesEquivalentShares = 0, in_Positions = positions,
      in_Quotes = quotes, in_LastEffectiveFillPrice = ws_lastFillPrice s, in_CashAvailable = st_Cash st,
      in_HasCashAvailable = True, in_IVRank = qb_IVRank batch, in_ClosePositions = [], in_Pending = []\<rparr>"

section \<open>From the signal to the action\<close>

definition stockAction :: "StockSuggestion \<Rightarrow> Bar \<Rightarrow> State \<Rightarrow> BtAction \<times> f64" where
  "stockAction sug bar st =
     (let shares = ss_Shares sug; side = ss_Side sug in
      if shares \<le> 0 \<or> (side \<noteq> ''BUY'' \<and> side \<noteq> ''SELL'') then (ActHold, 0)
      else if side = ''SELL'' then
        (if 0 < st_StockAverageCost st \<and> b_Close bar + lit (1 / 10 ^ 9) < st_StockAverageCost st then (ActHold, 0)
         else (let shares = (if st_Position st < shares then st_Position st else shares)
               in if shares \<le> 0 then (ActHold, 0) else (ActSell, shares)))
      else (ActBuy, shares))"

definition pendingCode :: "OptionQuote \<Rightarrow> string" where
  "pendingCode q = quote_name q"

definition closeLot :: "BtPosition \<Rightarrow> OptionQuote \<Rightarrow> int" where
  "closeLot pos q = (if leg_lot pos \<le> 0 then q_LotSize q else leg_lot pos)"

definition closeAction :: "Signal \<Rightarrow> State \<Rightarrow> (BtAction \<times> f64) \<times> State" where
  "closeAction signal st =
     (case s_Quote signal of
        None \<Rightarrow> ((ActHold, 0), st)
      | Some q \<Rightarrow>
          if s_Quantity signal \<le> 0 then ((ActHold, 0), st)
          else case map_of (st_Options st) (q_Symbol q) of
            None \<Rightarrow> ((ActHold, 0), st)
          | Some pos \<Rightarrow>
              (let mark = map_get 0 (st_OptPrice st) (q_Symbol q); lot = closeLot pos q; qty = of_int64 (s_Quantity signal) in
               if 0 \<le> bp_Contracts pos \<or> mark \<le> 0 \<or> lot \<le> 0 then ((ActHold, 0), st)
               else if qty \<le> 0 \<or> st_Cash st + lit (1 / 10 ^ 9) < mark * of_int64 lot * qty then ((ActHold, 0), st)
               else if q_OptionType q \<noteq> OptionCall \<and> q_OptionType q \<noteq> OptionPut then ((ActHold, 0), st)
               else
                 (let pending = \<lparr>bp_Code = pendingCode q, bp_Kind = q_OptionType q, bp_Strike = q_Strike q, bp_Expiry = q_Expiry q,
                        bp_Lot = lot, bp_Contracts = qty, bp_AvgPremium = mark, bp_MarketDelta = q_Delta q, bp_Delta = 0, bp_LotSize = 0\<rparr>
                  in if s_Direction signal = DirectionPut then ((ActBuyPut, qty), st\<lparr>st_Pending := Some pending\<rparr>)
                     else if s_Direction signal = DirectionCall then ((ActBuyCall, qty), st\<lparr>st_Pending := Some pending\<rparr>)
                     else ((ActHold, 0), st\<lparr>st_Pending := None\<rparr>))))"

definition entryAction :: "Signal \<Rightarrow> State \<Rightarrow> (BtAction \<times> f64) \<times> State" where
  "entryAction signal st =
     (case s_Quote signal of
        None \<Rightarrow> ((ActHold, 0), st)
      | Some q \<Rightarrow>
          if s_Action signal \<noteq> ActionAlert \<or> s_Quantity signal \<le> 0 then ((ActHold, 0), st)
          else if q_OptionType q \<noteq> OptionCall \<and> q_OptionType q \<noteq> OptionPut then ((ActHold, 0), st)
          else if q_Bid q \<le> 0 then ((ActHold, 0), st)
          else
            (let qty = of_int64 (s_Quantity signal);
                 pending = \<lparr>bp_Code = pendingCode q, bp_Kind = q_OptionType q, bp_Strike = q_Strike q, bp_Expiry = q_Expiry q,
                   bp_Lot = q_LotSize q, bp_Contracts = - qty, bp_AvgPremium = q_Bid q, bp_MarketDelta = q_Delta q,
                   bp_Delta = 0, bp_LotSize = 0\<rparr>
             in if s_Direction signal = DirectionPut then ((ActSellPut, qty), st\<lparr>st_Pending := Some pending\<rparr>)
                else if s_Direction signal = DirectionCall then ((ActSellCall, qty), st\<lparr>st_Pending := Some pending\<rparr>)
                else ((ActHold, 0), st\<lparr>st_Pending := None\<rparr>)))"

definition signalAction :: "Signal \<Rightarrow> Bar \<Rightarrow> State \<Rightarrow> (BtAction \<times> f64) \<times> State" where
  "signalAction signal bar st =
     (case s_StockSuggestion signal of
        Some sug \<Rightarrow> (stockAction sug bar st, st)
      | None \<Rightarrow> if s_ClosePosition signal then closeAction signal st else entryAction signal st)"

text \<open>What the adapter does with an evaluation.\<close>

definition actOnSignal :: "WheelStrategy \<Rightarrow> Bar \<Rightarrow> State \<Rightarrow> QuoteSnapshotBatch \<Rightarrow> Signal \<times> string option \<Rightarrow> (BtAction \<times> f64) \<times> WheelStrategy \<times> State" where
  "actOnSignal s bar st batch r =
     (case r of
        (signal, Some err) \<Rightarrow> ((ActHold, 0), s\<lparr>ws_LastSignal := signal\<rparr>, st)
      | (signal, None) \<Rightarrow>
          (let signal = (if ws_TraceCandidates s \<and> \<not> s_ClosePosition signal
                         then restoreExpiryRejectedCandidates signal (qb_Quotes batch) (b_Ts bar) (ws_Config s) else signal);
               (act, st) = signalAction signal bar st
           in (act, s\<lparr>ws_LastSignal := signal\<rparr>, st)))"

text \<open>One bar on a usable snapshot.\<close>

definition decideBar :: "WheelStrategy \<Rightarrow> Bar \<Rightarrow> State \<Rightarrow> QuoteSnapshotBatch \<Rightarrow> OptionQuote list \<Rightarrow> (BtAction \<times> f64) \<times> WheelStrategy \<times> State" where
  "decideBar s bar st batch windowQuotes =
     (let (quotes, quoteByCode) = foldl (mergeHeld (qb_Quotes batch)) (windowQuotes, indexQuotes windowQuotes) (map fst (st_Options st)) in
      case heldPositions quoteByCode (st_Options st) (slice_stable (<) (map fst (st_Options st))) of
        None \<Rightarrow>
          ((ActHold, 0), s\<lparr>ws_LastSignal := blockedSignal
             ''wheel: existing option position delta is missing from the current atomic quote batch; HOLD'' ''position_delta''\<rparr>, st)
      | Some positions \<Rightarrow>
          actOnSignal s bar st batch (Evaluate (ws_Config s) (decisionInput s bar st batch positions quotes)))"

definition wheel_OnBar :: "WheelStrategy \<Rightarrow> Bar \<Rightarrow> State \<Rightarrow> (string + (BtAction \<times> f64)) \<times> WheelStrategy \<times> State" where
  "wheel_OnBar s bar st =
     (let s = noteFill s bar st;
          blocked = (Inr (ActHold, 0), s\<lparr>ws_LastSignal := blockedSignal
            ''wheel: complete atomic quote snapshot unavailable (underlying_price, bid/ask, delta, implied_vol, volume, open_interest, quote_time); backtest is DATA_BLOCKED''
            ''option_quote_snapshot''\<rparr>, st)
      in case st_QuoteBatch st of
           None \<Rightarrow> blocked
         | Some batch \<Rightarrow>
             if \<not> snapshotUsable batch then blocked
             else case filterQuotesByExpiry (qb_Quotes batch) (qb_ExpiryOrder batch) (b_Ts bar) (ws_Config s) of
               None \<Rightarrow> (Inl ''runtime error: slice bounds out of range'', s, st)
             | Some quotes \<Rightarrow> (case decideBar s bar st batch quotes of (act, s, st) \<Rightarrow> (Inr act, s, st)))"

text \<open>
  The method as the interface has it: a cancelled context is returned as the error, a missing
  state blocks the signal.
\<close>

definition wheel_OnBar_ctx ::
  "string option \<Rightarrow> WheelStrategy \<Rightarrow> Bar \<Rightarrow> State option \<Rightarrow> (string + (BtAction \<times> f64)) \<times> WheelStrategy \<times> State option" where
  "wheel_OnBar_ctx ctxErr s bar st =
     (case ctxErr of
        Some err \<Rightarrow> (Inl err, s, st)
      | None \<Rightarrow>
          (case st of
             None \<Rightarrow> (Inr (ActHold, 0), s\<lparr>ws_LastSignal := blockedSignal ''wheel: backtest state is missing'' ''backtest_state''\<rparr>, None)
           | Some st \<Rightarrow> (case wheel_OnBar s bar st of (r, s, st) \<Rightarrow> (r, s, Some st))))"

definition WheelOps :: "WheelStrategy strategy" where
  "WheelOps = \<lparr>s_OnBar = (\<lambda>s bar st. case wheel_OnBar_ctx None s bar (Some st) of (r, s, st') \<Rightarrow> (r, s, (case st' of None \<Rightarrow> st | Some x \<Rightarrow> x))),
     s_Signal = (\<lambda>s. Some (wheel_Signal s)), s_KeepCandidateDetails = (\<lambda>s. Some (wheel_KeepCandidateDetails s))\<rparr>"

end
