(* ===== verification/Strategy_Window.thy ===== *)
theory Strategy_Window
  imports Strategy_Wheel Wheel_Decision Backtest_Replay
begin

text \<open>
  The expiry window: binary search finds the boundary of a monotone predicate, and filtering
  through the prepared expiry order is filtering quote by quote.
\<close>

section \<open>Binary search\<close>

text \<open>The result splits the range: the predicate fails below it and holds from it on.\<close>

definition splits_at :: "(nat \<Rightarrow> bool) \<Rightarrow> nat \<Rightarrow> nat \<Rightarrow> nat \<Rightarrow> bool" where
  "splits_at f i j r \<longleftrightarrow> i \<le> r \<and> r \<le> j \<and> (\<forall>k. i \<le> k \<and> k < r \<longrightarrow> \<not> f k) \<and> (\<forall>k. r \<le> k \<and> k < j \<longrightarrow> f k)"

lemma splits_atD:
  assumes "splits_at f i j r"
  shows "i \<le> r" "r \<le> j" "i \<le> k \<Longrightarrow> k < r \<Longrightarrow> \<not> f k" "r \<le> k \<Longrightarrow> k < j \<Longrightarrow> f k"
  using assms unfolding splits_at_def by blast+

lemma splits_at_right:
  assumes "splits_at f (Suc h) j r" "i \<le> h" "\<forall>k. i \<le> k \<and> k \<le> h \<longrightarrow> \<not> f k"
  shows "splits_at f i j r"
proof -
  have "\<not> f k" if k: "i \<le> k" "k < r" for k
  proof (cases "k \<le> h")
    case False
    then have "Suc h \<le> k" by simp
    then show ?thesis using splits_atD(3) [OF assms(1)] k(2) by blast
  qed (use assms(3) k(1) in blast)
  moreover have "i \<le> r" using splits_atD(1) [OF assms(1)] assms(2) by simp
  ultimately show ?thesis using splits_atD(2,4) [OF assms(1)] unfolding splits_at_def by blast
qed

lemma splits_at_left:
  assumes "splits_at f i h r" "h \<le> j" "\<forall>k. h \<le> k \<and> k < j \<longrightarrow> f k"
  shows "splits_at f i j r"
proof -
  have "f k" if k: "r \<le> k" "k < j" for k
  proof (cases "k < h")
    case True
    then show ?thesis using splits_atD(4) [OF assms(1)] k(1) by blast
  next
    case False
    then have "h \<le> k" by simp
    then show ?thesis using assms(3) k(2) by blast
  qed
  moreover have "r \<le> j" using splits_atD(2) [OF assms(1)] assms(2) by simp
  ultimately show ?thesis using splits_atD(1,3) [OF assms(1)] unfolding splits_at_def by blast
qed

lemma search_loop_spec:
  assumes "\<forall>a b. i \<le> a \<and> a \<le> b \<and> b < j \<and> f a \<longrightarrow> f b" "i \<le> j"
  shows "splits_at f i j (search_loop f i j)"
  using assms
proof (induction f i j rule: search_loop.induct)
  case (1 f i j)
  show ?case
  proof (cases "i < j")
    case False
    have "search_loop f i j = i" using False by (simp add: search_loop.simps [of f i j])
    moreover have "j = i" using False 1(4) by simp
    ultimately show ?thesis unfolding splits_at_def by (metis leD order_refl)
  next
    case ij: True
    define h where "h = (i + j) div 2"
    have h: "i \<le> h" "h < j" using ij by (auto simp: h_def)
    show ?thesis
    proof (cases "f h")
      case False
      have "search_loop f i j = search_loop f (Suc h) j"
        using ij False by (simp add: search_loop.simps [of f i j] h_def Let_def)
      moreover have "splits_at f (Suc h) j (search_loop f (Suc h) j)"
      proof -
        have "\<forall>a b. h + 1 \<le> a \<and> a \<le> b \<and> b < j \<and> f a \<longrightarrow> f b" using 1(3) h(1) by (meson add_leE le_trans)
        from 1(1) [OF ij h_def False this] show ?thesis using h(2) unfolding Suc_eq_plus1 by (rule meta_mp) simp
      qed
      moreover have "\<forall>k. i \<le> k \<and> k \<le> h \<longrightarrow> \<not> f k" using 1(3) h(2) False by blast
      ultimately show ?thesis using splits_at_right [OF _ h(1)] by simp
    next
      case True
      have "search_loop f i j = search_loop f i h"
        using ij True by (simp add: search_loop.simps [of f i j] h_def Let_def)
      moreover have "splits_at f i h (search_loop f i h)"
      proof -
        have nn: "\<not> \<not> f h" using True by blast
        have "\<forall>a b. i \<le> a \<and> a \<le> b \<and> b < h \<and> f a \<longrightarrow> f b" using 1(3) h(2) by (meson less_trans)
        from 1(2) [OF ij h_def nn this h(1)] show ?thesis .
      qed
      moreover have "\<forall>k. h \<le> k \<and> k < j \<longrightarrow> f k" using 1(3) h(1) True by blast
      ultimately show ?thesis using splits_at_left [OF _ less_imp_le [OF h(2)]] by simp
    qed
  qed
qed

lemma sort_search_spec:
  assumes "\<forall>a b. a \<le> b \<and> b < n \<and> f a \<longrightarrow> f b"
  shows "splits_at f 0 n (sort_search n f)"
  unfolding sort_search_def by (rule search_loop_spec) (use assms in simp_all)

section \<open>The prepared order\<close>

lemma calendarDate_nonneg: "0 \<le> t \<Longrightarrow> 0 \<le> calendarDate t"
  by (simp add: calendarDate_def midnight_def day_ns_def)

lemma expiryOrderOk_facts:
  assumes "expiryOrderOk quotes seen prev order" "\<forall>q \<in> set quotes. 0 \<le> q_Expiry q" "0 \<le> prev"
  shows "distinct order \<and> set order \<inter> set seen = {} \<and> set order \<subseteq> {0..<int (length quotes)}
    \<and> sorted (prev # map (\<lambda>i. calendarDate (q_Expiry (quotes ! nat i))) order)"
  using assms
proof (induction quotes seen prev order rule: expiryOrderOk.induct)
  case (2 quotes seen prev index order)
  let ?e = "calendarDate (q_Expiry (quotes ! nat index))"
  have ix: "0 \<le> index" "index < int (length quotes)" "index \<notin> set seen" and ord: "is_zero prev \<or> prev \<le> ?e"
    and rest: "expiryOrderOk quotes (index # seen) ?e order"
    using "2.prems"(1) by (auto simp: Let_def not_less split: if_splits)
  have "quotes ! nat index \<in> set quotes" using ix by (intro nth_mem) simp
  then have e: "0 \<le> ?e" using "2.prems"(2) calendarDate_nonneg by blast
  have "distinct order \<and> set order \<inter> set (index # seen) = {} \<and> set order \<subseteq> {0..<int (length quotes)}
      \<and> sorted (?e # map (\<lambda>i. calendarDate (q_Expiry (quotes ! nat i))) order)"
    using "2.IH" ix rest "2.prems"(2) e "2.prems"(1) by (auto simp: Let_def split: if_splits)
  then show ?case using ix ord e by (auto simp: is_zero_def)
qed simp

lemma order_indices:
  assumes "distinct order" "set order \<subseteq> {0..<int n}" "length order = n"
  shows "set order = {0..<int n}"
proof (rule card_subset_eq)
  show "card (set order) = card {0..<int n}" using assms by (simp add: distinct_card)
qed (use assms in simp_all)

lemma filterByIndex_filter:
  assumes "\<And>i. i < length quotes \<Longrightarrow> int i \<in> set included \<or> is_zero (q_Expiry (quotes ! i)) \<longleftrightarrow> P (quotes ! i)"
  shows "filterByIndex quotes included = filter P quotes"
proof -
  have "filter (\<lambda>(i, q). int i \<in> set included \<or> is_zero (q_Expiry q)) (List.enumerate 0 quotes) =
      filter (\<lambda>(i, q). P q) (List.enumerate 0 quotes)"
  proof (rule filter_cong)
    fix x assume "x \<in> set (List.enumerate 0 quotes)"
    then have "fst x < length quotes" "snd x = quotes ! fst x" by (auto simp: in_set_enumerate_eq)
    then show "(case x of (i, q) \<Rightarrow> int i \<in> set included \<or> is_zero (q_Expiry q)) = (case x of (i, q) \<Rightarrow> P q)"
      using assms [of "fst x"] unfolding split_beta by simp
  qed simp
  moreover have "map snd (filter (\<lambda>(i, q). P q) (List.enumerate k quotes)) = filter P quotes" for k
    by (induction quotes arbitrary: k) auto
  ultimately show ?thesis by (simp add: filterByIndex_def)
qed

lemma window_slice:
  assumes ord: "sorted (map e order)" and le: "lo_date \<le> hi_date"
    and lo: "lo = sort_search (length order) (\<lambda>i. \<not> e (order ! i) < (lo_date :: time))"
    and hi: "hi = sort_search (length order) (\<lambda>i. hi_date < e (order ! i))"
  shows "lo \<le> hi" and "set (take (hi - lo) (drop lo order)) = {x \<in> set order. lo_date \<le> e x \<and> e x \<le> hi_date}"
proof -
  have mono: "e (order ! a) \<le> e (order ! b)" if "a \<le> b" "b < length order" for a b
    using sorted_nth_mono [OF ord, of a b] that by simp
  have "splits_at (\<lambda>i. \<not> e (order ! i) < lo_date) 0 (length order) lo"
    unfolding lo by (rule sort_search_spec) (use mono in \<open>meson le_less_trans\<close>)
  note L = splits_atD [OF this]
  have "splits_at (\<lambda>i. hi_date < e (order ! i)) 0 (length order) hi"
    unfolding hi by (rule sort_search_spec) (use mono in \<open>meson less_le_trans\<close>)
  note H = splits_atD [OF this]
  show lh: "lo \<le> hi"
  proof (rule ccontr)
    assume "\<not> lo \<le> hi"
    then have "hi < lo" by simp
    then show False using L(2) L(3) [of hi] H(4) [of hi] le by simp
  qed
  show "set (take (hi - lo) (drop lo order)) = {x \<in> set order. lo_date \<le> e x \<and> e x \<le> hi_date}" (is "?A = ?B")
  proof
    show "?A \<subseteq> ?B"
    proof
      fix x assume "x \<in> ?A"
      then obtain k where k: "k < hi - lo" "lo + k < length order" "x = order ! (lo + k)"
        by (auto simp: in_set_conv_nth)
      moreover have "lo_date \<le> e x" using L(4) [of "lo + k"] k by simp
      moreover have "e x \<le> hi_date" using H(3) [of "lo + k"] k by (simp add: not_less)
      ultimately show "x \<in> ?B" by simp
    qed
    show "?B \<subseteq> ?A"
    proof
      fix x assume "x \<in> ?B"
      then obtain k where k: "k < length order" "x = order ! k" "lo_date \<le> e x" "e x \<le> hi_date" by (auto simp: in_set_conv_nth)
      have "lo \<le> k" using L(3) [of k] k by (cases "k < lo") auto
      moreover have "k < hi" using H(4) [of k] k by (cases "k < hi") auto
      ultimately have "order ! k = take (hi - lo) (drop lo order) ! (k - lo)" "k - lo < length (take (hi - lo) (drop lo order))"
        using k by auto
      then show "x \<in> ?A" using k(2) by (metis nth_mem)
    qed
  qed
qed

text \<open>
  The expiry window through the prepared order (order check, two binary
  searches, re-marking) returns exactly the quotes, in their order, that the quote-by-quote
  filter keeps, and never panics - for every order list, prepared well or not, when the
  window is not reversed.
\<close>

theorem window_filter_linear:
  assumes "\<not> is_zero barTs" "cfg_MinDTE cfg \<le> cfg_MaxDTE cfg" "\<forall>q \<in> set quotes. 0 \<le> q_Expiry q"
  shows "filterQuotesByExpiry quotes order barTs cfg = Some (filterQuotesByExpiryLinear quotes
    (add_days (calendarDate barTs) (cfg_MinDTE cfg)) (add_days (calendarDate barTs) (cfg_MaxDTE cfg)))"
proof (cases "length order = length quotes \<and> expiryOrderOk quotes [] 0 order")
  case False
  then show ?thesis using assms(1) by (auto simp: filterQuotesByExpiry_def Let_def)
next
  case True
  let ?e = "\<lambda>i. calendarDate (q_Expiry (quotes ! nat i))"
  let ?lo = "add_days (calendarDate barTs) (cfg_MinDTE cfg)" and ?hi = "add_days (calendarDate barTs) (cfg_MaxDTE cfg)"
  have f: "distinct order" "set order \<subseteq> {0..<int (length quotes)}" "sorted (map ?e order)"
    using expiryOrderOk_facts [of quotes "[]" 0 order] True assms(3) by auto
  have le: "?lo \<le> ?hi" using assms(2) by (simp add: add_days_def day_ns_def)
  have all: "set order = {0..<int (length quotes)}" by (rule order_indices [OF f(1,2)]) (use True in simp)
  define lo hi where "lo = sort_search (length order) (\<lambda>i. \<not> ?e (order ! i) < ?lo)"
    and "hi = sort_search (length order) (\<lambda>i. ?hi < ?e (order ! i))"
  note w = window_slice [OF f(3) le lo_def hi_def]
  have "filterQuotesByExpiry quotes order barTs cfg = Some (filterByIndex quotes (take (hi - lo) (drop lo order)))"
    using True assms(1) w(1) by (simp add: filterQuotesByExpiry_def Let_def lo_def hi_def)
  also have "filterByIndex quotes (take (hi - lo) (drop lo order)) = filterQuotesByExpiryLinear quotes ?lo ?hi"
    unfolding filterQuotesByExpiryLinear_def by (rule filterByIndex_filter) (auto simp: w(2) all)
  finally show ?thesis .
qed

theorem window_filter_linear_witness:
  "filterQuotesByExpiry [sample_quote ''P64'' ''put'' 64 (-1/4), (sample_quote ''P60'' ''put'' 60 (-1/4))\<lparr>q_Expiry := sample_time + 90 * day_ns\<rparr>]
     [0, 1] sample_time sample_config = Some [sample_quote ''P64'' ''put'' 64 (-1/4)]"
proof -
  let ?quotes = "[sample_quote ''P64'' ''put'' 64 (-1/4), (sample_quote ''P60'' ''put'' 60 (-1/4))\<lparr>q_Expiry := sample_time + 90 * day_ns\<rparr>]"
  have h: "\<not> is_zero sample_time" "cfg_MinDTE sample_config \<le> cfg_MaxDTE sample_config" "\<forall>q \<in> set ?quotes. 0 \<le> q_Expiry q" by code_simp+
  have "filterQuotesByExpiryLinear ?quotes (add_days (calendarDate sample_time) (cfg_MinDTE sample_config))
      (add_days (calendarDate sample_time) (cfg_MaxDTE sample_config)) = [sample_quote ''P64'' ''put'' 64 (-1/4)]" by code_simp
  then show ?thesis using window_filter_linear [OF h] by simp
qed

end
