(* ===== verification/Backtest_Snapshots.thy ===== *)
theory Backtest_Snapshots
  imports Backtest_IVRank Strategy_Window
begin

text \<open>
  What the loader promises of the batches it builds from stored rows: they are atomic, complete and in
  order, and the expiry order it prepares is the one the strategy's binary search needs.
\<close>

section \<open>Orders\<close>

interpretation name_order: key_order nameLess quote_name UNIV
  by unfold_locales (simp add: nameLess_def)

interpretation batch_order: key_order batchLess "\<lambda>b. (qb_ObservedAt b, qb_SnapshotKey b)" UNIV
  by unfold_locales (auto simp: batchLess_def less_prod_def')

interpretation expiry_order: key_order "expiryLess quotes" "\<lambda>i. (q_Expiry (quotes ! nat i), quote_name (quotes ! nat i))" UNIV for quotes
  by unfold_locales (auto simp: expiryLess_def Let_def less_prod_def')

lemma expiryOrderOk_sorted:
  assumes "distinct order" "set order \<inter> set seen = {}" "\<forall>i \<in> set order. 0 \<le> i \<and> i < int (length quotes)"
    "sorted (map (\<lambda>i. q_Expiry (quotes ! nat i)) order)" "is_zero prev \<or> (\<forall>i \<in> set order. prev \<le> calendarDate (q_Expiry (quotes ! nat i)))"
  shows "expiryOrderOk quotes seen prev order"
  using assms
proof (induction order arbitrary: seen prev)
  case (Cons i order)
  have "expiryOrderOk quotes (i # seen) (calendarDate (q_Expiry (quotes ! nat i))) order"
    by (rule Cons.IH) (use Cons.prems in \<open>auto simp: calendarDate_def midnight_mono\<close>)
  then show ?case using Cons.prems by (auto simp: Let_def)
qed simp

lemma sortBatch_order:
  "length (qb_ExpiryOrder (sortBatch b)) = length (qb_Quotes (sortBatch b))"
  "expiryOrderOk (qb_Quotes (sortBatch b)) [] 0 (qb_ExpiryOrder (sortBatch b))"
proof -
  define qs where "qs = slice_stable nameLess (qb_Quotes b)"
  let ?o = "slice_stable (expiryLess qs) (map int [0..<length qs])"
  have s: "sorted (map (\<lambda>i. (q_Expiry (qs ! nat i), quote_name (qs ! nat i))) ?o)" by (rule expiry_order.sorted_keys) simp
  have "sorted (map fst (map (\<lambda>i. (q_Expiry (qs ! nat i), quote_name (qs ! nat i))) ?o))"
    using s unfolding sorted_map [of fst] by (rule sorted_wrt_mono_rel [rotated]) (auto simp: less_eq_prod_def)
  moreover have "distinct ?o" by (metis distinct_map distinct_upt inj_on_of_nat mset_eq_imp_distinct_iff mset_slice_stable)
  ultimately have "expiryOrderOk qs [] 0 ?o"
    by (intro expiryOrderOk_sorted) (auto simp: comp_def is_zero_def)
  then show "length (qb_ExpiryOrder (sortBatch b)) = length (qb_Quotes (sortBatch b))"
    "expiryOrderOk (qb_Quotes (sortBatch b)) [] 0 (qb_ExpiryOrder (sortBatch b))"
    by (simp_all add: sortBatch_def Let_def flip: qs_def)
qed

section \<open>Grouping\<close>

text \<open>A batch holds exactly the rows of its key, in their order.\<close>

definition batchOf :: "batchKey \<Rightarrow> QuoteSnapshotBatch \<Rightarrow> QuoteSnapshotRecord list \<Rightarrow> bool" where
  "batchOf k b rs \<longleftrightarrow> rs \<noteq> [] \<and> qb_Quotes b = map optionQuoteFromSnapshot rs \<and> qb_ObservedAt b = qr_ObservedAt (hd rs)
     \<and> qb_SnapshotKey b = snd k \<and> qb_IVRank b = 0
     \<and> (\<forall>r \<in> set rs. rowKey r = k \<and> qr_Underlying r = qb_Underlying b
          \<and> equal_fold (trim_space (qr_Source (hd rs))) (trim_space (qr_Source r))
          \<and> (\<forall>p. qr_UnderlyingPrice r = Some p \<longrightarrow> p = qb_UnderlyingPrice b \<or> p = 0))"

definition grouped :: "(batchKey \<times> QuoteSnapshotBatch) list \<Rightarrow> QuoteSnapshotRecord list \<Rightarrow> bool" where
  "grouped batches rows \<longleftrightarrow> map_ok batches \<and> (\<forall>k. case map_of batches k of
     None \<Rightarrow> filter (\<lambda>r. rowKey r = k) rows = [] | Some b \<Rightarrow> batchOf k b (filter (\<lambda>r. rowKey r = k) rows))"

lemma quote_source [simp]: "q_Source (optionQuoteFromSnapshot r) = qr_Source r"
  by (simp add: optionQuoteFromSnapshot_def)

lemma new_batchOf:
  assumes "addQuote (newBatch r) r = Inr b"
  shows "batchOf (rowKey r) b [r]"
  using assms by (auto simp: addQuote_def newBatch_def batchOf_def rowKey_def orElse_def equal_fold_def)

lemma joined_batchOf:
  assumes "batchOf k b rs" "rowKey r = k" "joinBatch b r = Inr b'" "addQuote b' r = Inr b''"
  shows "batchOf k b'' (rs @ [r])"
proof -
  have j: "qb_Underlying b = qr_Underlying r" "qb_Quotes b' = qb_Quotes b" "qb_ObservedAt b' = qb_ObservedAt b" "qb_Underlying b' = qb_Underlying b"
    "qb_SnapshotKey b' = qb_SnapshotKey b" "qb_IVRank b' = qb_IVRank b"
    "\<And>p. qr_UnderlyingPrice r = Some p \<Longrightarrow> p = qb_UnderlyingPrice b'" "qb_UnderlyingPrice b' = qb_UnderlyingPrice b \<or> qb_UnderlyingPrice b = 0"
    using assms(3) by (auto simp: joinBatch_def feq_def split: if_splits option.splits)
  obtain r0 rs' where rs: "rs = r0 # rs'" using assms(1) by (cases rs) (auto simp: batchOf_def)
  then have q: "qb_Quotes b' = optionQuoteFromSnapshot r0 # map optionQuoteFromSnapshot rs'" using assms(1) j(2) by (simp add: batchOf_def)
  have a: "b'' = b'\<lparr>qb_Quotes := qb_Quotes b' @ [optionQuoteFromSnapshot r]\<rparr>" "equal_fold (trim_space (qr_Source r0)) (trim_space (qr_Source r))"
    using assms(4) q by (auto simp: addQuote_def split: if_splits)
  show ?thesis using assms(1,2) j a unfolding batchOf_def rs by auto
qed

lemma groupRow_grouped:
  assumes "grouped batches rows" "groupRow batches r = Inr batches'"
  shows "grouped batches' (rows @ [r])"
proof -
  have g: "map_ok batches" "\<And>k. case map_of batches k of None \<Rightarrow> filter (\<lambda>r. rowKey r = k) rows = [] | Some b \<Rightarrow> batchOf k b (filter (\<lambda>r. rowKey r = k) rows)"
    using assms(1) by (auto simp: grouped_def)
  obtain b where b: "batches' = map_put (rowKey r) b batches" "batchOf (rowKey r) b (filter (\<lambda>r'. rowKey r' = rowKey r) rows @ [r])"
  proof (cases "map_of batches (rowKey r)")
    case None
    then show thesis using that assms(2) g(2) [of "rowKey r"] new_batchOf by (auto simp: groupRow_def split: if_splits sum.splits)
  next
    case (Some b0)
    then show thesis using that assms(2) g(2) [of "rowKey r"] joined_batchOf [of "rowKey r" b0]
      by (auto simp: groupRow_def split: if_splits sum.splits)
  qed
  have "case map_of batches' k of None \<Rightarrow> filter (\<lambda>r. rowKey r = k) (rows @ [r]) = [] | Some b \<Rightarrow> batchOf k b (filter (\<lambda>r. rowKey r = k) (rows @ [r]))" for k
    using b(2) g(2) [of k] g(1) by (cases "k = rowKey r") (auto simp: b(1) map_of_map_put split: option.splits)
  then show ?thesis using g(1) b(1) by (simp add: grouped_def)
qed

lemma groupRows_grouped:
  "grouped batches rows0 \<Longrightarrow> groupRows batches rows = Inr batches' \<Longrightarrow> grouped batches' (rows0 @ rows)"
proof (induction rows arbitrary: batches rows0)
  case (Cons r rows)
  then obtain b1 where "groupRow batches r = Inr b1" "groupRows b1 rows = Inr batches'" by (auto split: sum.splits)
  then show ?case using Cons.IH [of b1 "rows0 @ [r]"] groupRow_grouped [OF Cons.prems(1)] by simp
qed simp

lemma groupRows_all: "groupRows [] rows = Inr batches \<Longrightarrow> grouped batches rows"
  using groupRows_grouped [of "[]" "[]"] by (simp add: grouped_def)

section \<open>The assembled data\<close>

lemma groupedD:
  assumes "grouped batches rows"
  shows "map_of batches k = Some b \<Longrightarrow> batchOf k b (filter (\<lambda>r. rowKey r = k) rows)"
    "map_of batches k = None \<Longrightarrow> filter (\<lambda>r. rowKey r = k) rows = []"
proof -
  have "case map_of batches k of None \<Rightarrow> filter (\<lambda>r. rowKey r = k) rows = [] | Some b \<Rightarrow> batchOf k b (filter (\<lambda>r. rowKey r = k) rows)"
    using assms unfolding grouped_def by blast
  then show "map_of batches k = Some b \<Longrightarrow> batchOf k b (filter (\<lambda>r. rowKey r = k) rows)"
    "map_of batches k = None \<Longrightarrow> filter (\<lambda>r. rowKey r = k) rows = []" by simp_all
qed

lemma rankedLast_fields: "unranked (rankedLast h) = unranked (last h)"
  by (simp add: rankedLast_def)

lemma unranked_all:
  "unranked a = unranked b \<Longrightarrow> qb_ObservedAt a = qb_ObservedAt b \<and> qb_SnapshotKey a = qb_SnapshotKey b \<and> qb_Underlying a = qb_Underlying b
     \<and> qb_UnderlyingPrice a = qb_UnderlyingPrice b \<and> qb_Quotes a = qb_Quotes b \<and> qb_ExpiryOrder a = qb_ExpiryOrder b"
  by (cases a; cases b) (simp add: unranked_def)

lemma attachIVRanks_unranked: "length bs \<le> 2 ^ 53 \<Longrightarrow> map unranked (attachIVRanks bs) = map unranked bs"
  by (auto intro!: nth_equalityI simp: attachIVRanks_reference rankedLast_fields take_Suc_conv_app_nth)

lemma assembleBatches_batches:
  "od_QuoteBatches (assembleBatches bs) = attachIVRanks (slice_stable batchLess (map sortBatch bs))"
  by (simp add: assembleBatches_def Let_def case_prod_beta)

lemma assembled_batch:
  assumes "length bs \<le> 2 ^ 53" "b \<in> set (od_QuoteBatches (assembleBatches bs))"
  obtains b0 where "b0 \<in> set bs" "unranked b = unranked (sortBatch b0)"
proof -
  let ?s = "slice_stable batchLess (map sortBatch bs)"
  have "unranked b \<in> set (map unranked (attachIVRanks ?s))" using assms(2) by (simp add: assembleBatches_batches)
  then have "unranked b \<in> set (map unranked ?s)" using assms(1) by (subst (asm) attachIVRanks_unranked) simp_all
  then show thesis using that by auto
qed

lemma unix_nano_inj:
  assumes "\<bar>t - unix_epoch\<bar> < 2 ^ 63" "\<bar>u - unix_epoch\<bar> < 2 ^ 63" "unix_nano t = unix_nano u"
  shows "t = u"
  using assms wrap64_id [of "t - unix_epoch"] wrap64_id [of "u - unix_epoch"] by (simp add: unix_nano_def abs_less_iff)

lemma grouped_rows:
  assumes "grouped batches rows" "(k, b) \<in> set batches" "\<forall>r \<in> set rows. \<bar>qr_ObservedAt r - unix_epoch\<bar> < 2 ^ 63"
  shows "batchOf k b (filter (\<lambda>r. qr_ObservedAt r = qb_ObservedAt b \<and> qr_SnapshotKey r = qb_SnapshotKey b) rows)"
    "k = (unix_nano (qb_ObservedAt b), qb_SnapshotKey b)" "\<bar>qb_ObservedAt b - unix_epoch\<bar> < 2 ^ 63"
proof -
  let ?rs = "filter (\<lambda>r. rowKey r = k) rows"
  have "map_of batches k = Some b" using assms(1,2) by (simp add: grouped_def map_ok_lookup)
  then have b: "batchOf k b ?rs" by (rule groupedD(1) [OF assms(1)])
  then have h: "hd ?rs \<in> set rows" "rowKey (hd ?rs) = k" "qb_ObservedAt b = qr_ObservedAt (hd ?rs)" "qb_SnapshotKey b = snd k"
    using hd_in_set [of ?rs] by (auto simp: batchOf_def)
  show k: "k = (unix_nano (qb_ObservedAt b), qb_SnapshotKey b)" using h(2-4) unfolding rowKey_def by (metis snd_conv)
  show r: "\<bar>qb_ObservedAt b - unix_epoch\<bar> < 2 ^ 63" using h assms(3) by simp
  have "?rs = filter (\<lambda>r. qr_ObservedAt r = qb_ObservedAt b \<and> qr_SnapshotKey r = qb_SnapshotKey b) rows"
    by (rule filter_cong) (use assms(3) r k unix_nano_inj in \<open>auto simp: rowKey_def\<close>)
  then show "batchOf k b (filter (\<lambda>r. qr_ObservedAt r = qb_ObservedAt b \<and> qr_SnapshotKey r = qb_SnapshotKey b) rows)" using b by simp
qed

lemma grouped_distinct:
  assumes "grouped batches rows" "\<forall>r \<in> set rows. \<bar>qr_ObservedAt r - unix_epoch\<bar> < 2 ^ 63"
  shows "distinct (map (\<lambda>b. (qb_ObservedAt b, qb_SnapshotKey b)) (map snd batches))"
proof -
  have "distinct (map fst batches)" using assms(1) by (simp add: grouped_def map_ok_def)
  moreover have "map fst batches = map (\<lambda>(t, s). (unix_nano t, s)) (map (\<lambda>b. (qb_ObservedAt b, qb_SnapshotKey b)) (map snd batches))"
    using grouped_rows(2) [OF assms(1) _ assms(2)] by (auto simp: case_prod_beta)
  ultimately have "distinct (map (\<lambda>(t, s). (unix_nano t, s)) (map (\<lambda>b. (qb_ObservedAt b, qb_SnapshotKey b)) (map snd batches)))" by (simp only:)
  then show ?thesis unfolding distinct_map [of "\<lambda>(t, s). (unix_nano t, s)"] ..
qed

lemma grouped_length: "grouped batches rows \<Longrightarrow> length batches \<le> length rows"
proof -
  assume g: "grouped batches rows"
  then have "distinct (map fst batches)" by (simp add: grouped_def map_ok_def)
  moreover have "set (map fst batches) \<subseteq> rowKey ` set rows"
  proof
    fix k assume "k \<in> set (map fst batches)"
    then obtain b where "map_of batches k = Some b" by (metis image_set map_of_eq_None_iff not_None_eq)
    then have "filter (\<lambda>r. rowKey r = k) rows \<noteq> []" using groupedD(1) [OF g] by (simp add: batchOf_def)
    then show "k \<in> rowKey ` set rows" by (auto simp: filter_empty_conv)
  qed
  ultimately have "length (map fst batches) \<le> card (rowKey ` set rows)" by (metis card_mono distinct_card finite_imageI finite_set)
  also have "\<dots> \<le> length rows" by (meson card_image_le card_length finite_set order_trans)
  finally show ?thesis by simp
qed

text \<open>A batch that holds exactly the quotes of the rows with its time and key.\<close>

definition atomicBatch :: "QuoteSnapshotRecord list \<Rightarrow> QuoteSnapshotBatch \<Rightarrow> bool" where
  "atomicBatch rows b \<longleftrightarrow>
     (let rs = filter (\<lambda>r. qr_ObservedAt r = qb_ObservedAt b \<and> qr_SnapshotKey r = qb_SnapshotKey b) rows
      in rs \<noteq> [] \<and> mset (qb_Quotes b) = mset (map optionQuoteFromSnapshot rs) \<and> sorted (map quote_name (qb_Quotes b))
         \<and> list_all (\<lambda>r. qr_Underlying r = qb_Underlying b \<and> equal_fold (trim_space (qr_Source (hd rs))) (trim_space (qr_Source r))
              \<and> (case qr_UnderlyingPrice r of None \<Rightarrow> True | Some p \<Rightarrow> p = qb_UnderlyingPrice b \<or> p = 0)) rs)"

lemma sortBatch_fields [simp]:
  "qb_ObservedAt (sortBatch b) = qb_ObservedAt b" "qb_SnapshotKey (sortBatch b) = qb_SnapshotKey b" "qb_Underlying (sortBatch b) = qb_Underlying b"
  "qb_UnderlyingPrice (sortBatch b) = qb_UnderlyingPrice b" "qb_Quotes (sortBatch b) = slice_stable nameLess (qb_Quotes b)"
  "qb_IVRank (sortBatch b) = qb_IVRank b"
  by (simp_all add: sortBatch_def Let_def)

lemma batchOf_atomic:
  assumes "batchOf k b0 (filter (\<lambda>r. qr_ObservedAt r = qb_ObservedAt b0 \<and> qr_SnapshotKey r = qb_SnapshotKey b0) rows)"
    "unranked b = unranked (sortBatch b0)"
  shows "atomicBatch rows b"
proof -
  have "sorted (map quote_name (slice_stable nameLess (qb_Quotes b0)))" by (rule name_order.sorted_keys) simp
  then show ?thesis using assms(1) unranked_all [OF assms(2)]
    by (auto simp: atomicBatch_def Let_def batchOf_def list_all_iff split: option.split)
qed

lemma loaded_batches:
  assumes "OptionsDataFromQuoteSnapshots rows = Inr data" "length rows \<le> 2 ^ 53"
  obtains batches where "grouped batches rows" "od_QuoteBatches data = attachIVRanks (slice_stable batchLess (map sortBatch (map snd batches)))"
    "length (map snd batches) \<le> 2 ^ 53" "data = assembleBatches (map snd batches)"
proof -
  obtain batches where b: "groupRows [] rows = Inr batches" "data = assembleBatches (map snd batches)"
    using assms(1) by (auto simp: OptionsDataFromQuoteSnapshots_def split: if_splits sum.splits)
  then show thesis using that groupRows_all [OF b(1)] grouped_length assms(2) by (fastforce simp: assembleBatches_batches)
qed

definition batchId :: "QuoteSnapshotBatch \<Rightarrow> time \<times> string" where
  "batchId b = (qb_ObservedAt b, qb_SnapshotKey b)"

lemma batchId_unranked: "map batchId (map unranked bs) = map batchId bs"
  by (simp add: batchId_def unranked_def)

lemma batchId_sorted: "sorted (map batchId (slice_stable batchLess bs))"
  using batch_order.sorted_keys [of bs] by (simp add: batchId_def [abs_def])

lemma strictly_sorted_batches:
  assumes "distinct (map batchId bs)" "length bs \<le> 2 ^ 53"
  shows "sorted_wrt batchLess (attachIVRanks (slice_stable batchLess bs))"
proof -
  let ?s = "slice_stable batchLess bs"
  have "map unranked (attachIVRanks ?s) = map unranked ?s" using assms(2) by (intro attachIVRanks_unranked) simp
  then have k: "map batchId (attachIVRanks ?s) = map batchId ?s" by (metis batchId_unranked)
  have "mset (map batchId ?s) = mset (map batchId bs)" by simp
  then have "distinct (map batchId ?s)" using assms(1) mset_eq_imp_distinct_iff by blast
  then have "sorted_wrt (<) (map batchId (attachIVRanks ?s))" using batchId_sorted [of bs] k by (simp add: strict_sorted_iff del: map_map)
  moreover have "(\<lambda>a b. batchId a < batchId b) = batchLess"
    by (intro ext) (auto simp: batchId_def batchLess_def less_prod_def')
  ultimately show ?thesis by (simp add: sorted_wrt_map)
qed

lemma batches_strictly_sorted:
  assumes "grouped batches rows" "\<forall>r \<in> set rows. \<bar>qr_ObservedAt r - unix_epoch\<bar> < 2 ^ 63" "length (map snd batches) \<le> 2 ^ 53"
  shows "sorted_wrt batchLess (attachIVRanks (slice_stable batchLess (map sortBatch (map snd batches))))"
proof (rule strictly_sorted_batches)
  have "map batchId (map sortBatch (map snd batches)) = map (\<lambda>b. (qb_ObservedAt b, qb_SnapshotKey b)) (map snd batches)" by (simp add: batchId_def)
  then show "distinct (map batchId (map sortBatch (map snd batches)))" using grouped_distinct [OF assms(1,2)] by (simp only:)
qed (use assms(3) in simp)

definition sample_row :: "string \<Rightarrow> string \<Rightarrow> QuoteSnapshotRecord" where
  "sample_row code kind = \<lparr>qr_ID = 1, qr_Symbol = code, qr_Underlying = ''HK.00700'', qr_OptionType = kind, qr_Strike = Fin 400,
     qr_Expiry = unix_epoch + 40 * day_ns, qr_Source = ''futu'', qr_SnapshotKey = ''k'', qr_UnderlyingPrice = Some (Fin 410), qr_Delta = Some (lit (1 / 2)),
     qr_Bid = Some (Fin 3), qr_Ask = Some (Fin 4), qr_IV = Some (lit (1 / 4)), qr_Theta = None, qr_Volume = Some 10, qr_OpenInterest = Some 20,
     qr_LotSize = Some 100, qr_ObservedAt = unix_epoch + 5 * day_ns, qr_IngestedAt = 0\<rparr>"

definition sample_rows :: "QuoteSnapshotRecord list" where
  "sample_rows = [sample_row ''B'' ''CALL'', sample_row ''A'' ''PUT'']"

lemma sample_rows_load: "case OptionsDataFromQuoteSnapshots sample_rows of Inr data \<Rightarrow> \<not> List.null (od_QuoteBatches data) | Inl _ \<Rightarrow> False"
  by code_simp

lemma sample_rows_range: "length sample_rows \<le> 2 ^ 53" "\<forall>r \<in> set sample_rows. \<bar>qr_ObservedAt r - unix_epoch\<bar> < 2 ^ 63"
  by (simp_all add: sample_rows_def sample_row_def day_ns_def)



text \<open>
  The expiry order the loader prepares for a batch visits every quote once and the expiry dates in
  order, so that the strategy's check accepts it and the window is always found by binary search.
\<close>

theorem prepared_order_valid:
  assumes "OptionsDataFromQuoteSnapshots rows = Inr data" "length rows \<le> 2 ^ 53" "b \<in> set (od_QuoteBatches data)"
  shows "length (qb_ExpiryOrder b) = length (qb_Quotes b) \<and> expiryOrderOk (qb_Quotes b) [] 0 (qb_ExpiryOrder b)"
proof -
  obtain batches :: "(batchKey \<times> QuoteSnapshotBatch) list" where "length (map snd batches) \<le> 2 ^ 53" "data = assembleBatches (map snd batches)"
    by (rule loaded_batches [OF assms(1,2)])
  then obtain b0 where "unranked b = unranked (sortBatch b0)" using assembled_batch assms(3) by blast
  then show ?thesis using sortBatch_order [of b0] unranked_all [of b "sortBatch b0"] by simp
qed

theorem prepared_order_valid_witness:
  "\<exists>data b. OptionsDataFromQuoteSnapshots sample_rows = Inr data \<and> b \<in> set (od_QuoteBatches data)
     \<and> expiryOrderOk (qb_Quotes b) [] 0 (qb_ExpiryOrder b)"
proof -
  obtain data where d: "OptionsDataFromQuoteSnapshots sample_rows = Inr data" "od_QuoteBatches data \<noteq> []"
    using sample_rows_load by (auto simp: List.null_iff split: sum.splits)
  then have "hd (od_QuoteBatches data) \<in> set (od_QuoteBatches data)" by simp
  then show ?thesis using prepared_order_valid [OF d(1) sample_rows_range(1)] d(1) by blast
qed

end
