(* ===== verification/Strategy_Safety.thy ===== *)
theory Strategy_Safety
  imports Strategy_Window Wheel_Safety
begin

text \<open>
  The wheel as the replay runs it: it meets the contract of a strategy, its sales inherit the
  safety of the decision engine for the portfolio of the session, and evaluating only the
  quotes of the expiry window does not change the decision.
\<close>

section \<open>The adapter meets the strategy contract\<close>

lemma pending_self [simp]: "st\<lparr>st_Pending := st_Pending st\<rparr> = st"
  by simp

lemma closeAction_pending: "snd (closeAction signal st) = st\<lparr>st_Pending := st_Pending (snd (closeAction signal st))\<rparr>"
  by (simp add: closeAction_def Let_def split: option.split)

lemma entryAction_pending: "snd (entryAction signal st) = st\<lparr>st_Pending := st_Pending (snd (entryAction signal st))\<rparr>"
  by (simp add: entryAction_def Let_def split: option.split)

lemma signalAction_pending: "snd (signalAction signal bar st) = st\<lparr>st_Pending := st_Pending (snd (signalAction signal bar st))\<rparr>"
  using closeAction_pending entryAction_pending by (simp add: signalAction_def split: option.split)

lemma decideBar_pending:
  assumes "decideBar s bar st batch quotes = (act, s', st')"
  shows "st' = st\<lparr>st_Pending := st_Pending st'\<rparr>"
proof -
  have pass: "x = (a, st') \<Longrightarrow> snd x = st\<lparr>st_Pending := st_Pending (snd x)\<rparr> \<Longrightarrow> st' = st\<lparr>st_Pending := st_Pending st'\<rparr>" for x and a :: "BtAction \<times> f64"
    by simp
  show ?thesis
    using assms by (auto simp: decideBar_def actOnSignal_def Let_def split: prod.splits option.splits intro: pass [OF _ signalAction_pending])
qed

lemma wheel_OnBar_pending:
  assumes "wheel_OnBar s bar st = (r, s', st')"
  shows "st' = st\<lparr>st_Pending := st_Pending st'\<rparr>"
  using assms by (auto simp: wheel_OnBar_def Let_def split: option.splits if_splits prod.splits dest: decideBar_pending)

interpretation wheel: strategy_contract WheelOps
proof
  fix s b st r s' st'
  assume "s_OnBar WheelOps s b st = (r, s', st')"
  then have "wheel_OnBar s b st = (r, s', st')"
    by (simp add: WheelOps_def wheel_OnBar_ctx_def split: prod.splits)
  then show "st' = st\<lparr>st_Pending := st_Pending st'\<rparr>" by (rule wheel_OnBar_pending)
qed

section \<open>Sales\<close>

definition no_delta :: "OptionPosition \<Rightarrow> OptionPosition" where
  "no_delta p = p\<lparr>p_MarketDelta := 0, p_Delta := 0\<rparr>"

text \<open>The legs of the account as the decision sees them, without their deltas.\<close>

definition accountLegs :: "State \<Rightarrow> OptionPosition list" where
  "accountLegs st = List.map_filter (\<lambda>code. map_option (\<lambda>p. wheelLeg code p 0) (map_of (st_Options st) code))
     (slice_stable (<) (map fst (st_Options st)))"

lemma no_delta_fields [simp]:
  "position_contracts (no_delta p) = position_contracts p" "position_lot (no_delta p) d = position_lot p d"
  "position_optionType (no_delta p) = position_optionType p" "p_Strike (no_delta p) = p_Strike p"
  by (simp_all add: no_delta_def position_contracts_def position_lot_def position_optionType_def)

lemma commitments_no_delta:
  "PutAssignmentCash (map no_delta ps) d = PutAssignmentCash ps d"
  "CoveredShares (map no_delta ps) d = CoveredShares ps d"
  by (simp_all add: PutAssignmentCash_def CoveredShares_def foldl_map cong: if_cong)

lemma heldPositions_legs:
  "heldPositions m options codes = Some ps \<Longrightarrow>
   map no_delta ps = List.map_filter (\<lambda>code. map_option (\<lambda>p. wheelLeg code p 0) (map_of options code)) codes"
  by (induction codes arbitrary: ps)
    (auto simp: Let_def map_filter_simps wheelLeg_def no_delta_def split: option.splits if_splits)

lemma restore_fields [simp]:
  "s_Action (restoreExpiryRejectedCandidates sig qs ts cfg) = s_Action sig"
  "s_Direction (restoreExpiryRejectedCandidates sig qs ts cfg) = s_Direction sig"
  "s_Quantity (restoreExpiryRejectedCandidates sig qs ts cfg) = s_Quantity sig"
  "s_Quote (restoreExpiryRejectedCandidates sig qs ts cfg) = s_Quote sig"
  "s_StockSuggestion (restoreExpiryRejectedCandidates sig qs ts cfg) = s_StockSuggestion sig"
  "s_ClosePosition (restoreExpiryRejectedCandidates sig qs ts cfg) = s_ClosePosition sig"
  by (simp_all add: restoreExpiryRejectedCandidates_def Let_def)

lemma restore_action:
  "signalAction (restoreExpiryRejectedCandidates sig qs ts cfg) bar st = signalAction sig bar st"
  by (simp only: signalAction_def closeAction_def entryAction_def restore_fields)

definition salePending :: "OptionQuote \<Rightarrow> f64 \<Rightarrow> BtPosition" where
  "salePending q qty = \<lparr>bp_Code = pendingCode q, bp_Kind = q_OptionType q, bp_Strike = q_Strike q, bp_Expiry = q_Expiry q,
     bp_Lot = q_LotSize q, bp_Contracts = - qty, bp_AvgPremium = q_Bid q, bp_MarketDelta = q_Delta q, bp_Delta = 0, bp_LotSize = 0\<rparr>"

lemma entryAction_sale:
  assumes "entryAction sig st = ((act, sz), st')" "act \<noteq> ActHold"
  obtains q where "s_Quote sig = Some q" "s_Action sig = ActionAlert" "sz = of_int64 (s_Quantity sig)" "q_OptionType q \<in> {OptionCall, OptionPut}"
    "(act = ActSellPut \<and> s_Direction sig = DirectionPut) \<or> (act = ActSellCall \<and> s_Direction sig = DirectionCall)"
    "st_Pending st' = Some (salePending q sz)"
  using assms by (auto simp: entryAction_def Let_def salePending_def split: option.splits if_splits)

lemma signalAction_sale:
  assumes "signalAction sig bar st = ((act, sz), st')" "act = ActSellPut \<or> act = ActSellCall"
  shows "\<not> s_ClosePosition sig \<and> entryAction sig st = ((act, sz), st')"
  using assms by (auto simp: signalAction_def stockAction_def closeAction_def Let_def split: option.splits if_splits)

lemma decideBar_sale:
  assumes "decideBar s bar st batch wq = ((act, sz), s', st')" "act = ActSellPut \<or> act = ActSellCall"
  obtains quotes positions where
    "map no_delta positions = accountLegs st"
    "signalAction (Decide (ws_Config s) (decisionInput s bar st batch positions quotes)) bar st = ((act, sz), st')"
proof -
  obtain quotes m where m: "foldl (mergeHeld (qb_Quotes batch)) (wq, indexQuotes wq) (map fst (st_Options st)) = (quotes, m)"
    by (cases "foldl (mergeHeld (qb_Quotes batch)) (wq, indexQuotes wq) (map fst (st_Options st))")
  from assms obtain positions where p: "heldPositions m (st_Options st) (slice_stable (<) (map fst (st_Options st))) = Some positions"
    by (auto simp: decideBar_def m split: option.splits)
  let ?inp = "decisionInput s bar st batch positions quotes"
  from assms obtain sig where e: "Evaluate (ws_Config s) ?inp = (sig, None)"
    by (auto simp: decideBar_def actOnSignal_def m p split: option.splits prod.splits)
  have "signalAction sig bar st = ((act, sz), st')"
    using assms(1) by (simp add: decideBar_def actOnSignal_def m p e Let_def restore_action split: if_splits prod.splits)
  moreover have "Decide (ws_Config s) ?inp = sig" by (simp add: Decide_def e)
  ultimately show thesis using that [of positions quotes] heldPositions_legs [OF p] by (simp add: accountLegs_def)
qed

lemma noteFill_config [simp]: "ws_Config (noteFill s bar st) = ws_Config s"
  by (simp add: noteFill_def Let_def)

lemma wheel_OnBar_sale:
  assumes "wheel_OnBar s bar st = (Inr (act, sz), s', st')" "act = ActSellPut \<or> act = ActSellCall"
  obtains batch quotes positions q inp where
    "st_QuoteBatch st = Some batch" "map no_delta positions = accountLegs st"
    "inp = decisionInput (noteFill s bar st) bar st batch positions quotes"
    "s_Action (Decide (ws_Config s) inp) = ActionAlert" "\<not> s_ClosePosition (Decide (ws_Config s) inp)"
    "s_Direction (Decide (ws_Config s) inp) = (if act = ActSellPut then DirectionPut else DirectionCall)"
    "s_Quote (Decide (ws_Config s) inp) = Some q" "sz = of_int64 (s_Quantity (Decide (ws_Config s) inp))"
    "st_Pending st' = Some (salePending q sz)"
proof -
  from assms obtain batch wq where b: "st_QuoteBatch st = Some batch"
    "decideBar (noteFill s bar st) bar st batch wq = ((act, sz), s', st')"
    by (auto simp: wheel_OnBar_def Let_def split: option.splits if_splits prod.splits)
  from b(2) assms(2) obtain quotes positions where p: "map no_delta positions = accountLegs st"
    "signalAction (Decide (ws_Config s) (decisionInput (noteFill s bar st) bar st batch positions quotes)) bar st = ((act, sz), st')"
    by (rule decideBar_sale) simp
  let ?inp = "decisionInput (noteFill s bar st) bar st batch positions quotes"
  have sale: "\<not> s_ClosePosition (Decide (ws_Config s) ?inp)" "entryAction (Decide (ws_Config s) ?inp) st = ((act, sz), st')"
    using signalAction_sale [OF p(2) assms(2)] by auto
  obtain q where q: "s_Quote (Decide (ws_Config s) ?inp) = Some q" "s_Action (Decide (ws_Config s) ?inp) = ActionAlert"
    "sz = of_int64 (s_Quantity (Decide (ws_Config s) ?inp))"
    "(act = ActSellPut \<and> s_Direction (Decide (ws_Config s) ?inp) = DirectionPut) \<or> (act = ActSellCall \<and> s_Direction (Decide (ws_Config s) ?inp) = DirectionCall)"
    "st_Pending st' = Some (salePending q sz)"
    using sale(2) assms(2) by (elim entryAction_sale) auto
  show thesis by (rule that [OF b(1) p(1) refl q(2) sale(1) _ q(1,3,5)]) (use q(4) in auto)
qed

lemma decisionInput_fields [simp]:
  "in_CurrentPrice (decisionInput s bar st batch ps qs) = qb_UnderlyingPrice batch"
  "in_CashAvailable (decisionInput s bar st batch ps qs) = st_Cash st"
  "in_StockShares (decisionInput s bar st batch ps qs) = st_Position st"
  "in_StockAverageCost (decisionInput s bar st batch ps qs) = st_StockAverageCost st"
  "in_FuturesEquivalentShares (decisionInput s bar st batch ps qs) = 0"
  "in_Positions (decisionInput s bar st batch ps qs) = ps" "in_Quotes (decisionInput s bar st batch ps qs) = qs"
  "in_AsOf (decisionInput s bar st batch ps qs) = b_Ts bar" "in_Pending (decisionInput s bar st batch ps qs) = []"
  "in_ClosePositions (decisionInput s bar st batch ps qs) = []"
  by (simp_all add: decisionInput_def)


text \<open>
  C3: in a replay the wheel sells calls only against stock: one contract, struck
  above the snapshot's price, at or above the average cost of the stock, and the stock covers
  the delivery of all open short calls of the account together with the new one (up to the
  tolerance of the code); with stock of unknown cost it sells none.
\<close>

theorem wheel_call_covered:
  assumes "wheel_OnBar s bar st = (Inr (ActSellCall, sz), s', st')" "st_Pending st' = Some p"
    "finite64 (st_StockAverageCost st)" "\<not> is_nan (st_Position st)" "st_QuoteBatch st = Some batch"
    "finite64 (ActualInventory (st_Position st) 0 - (CoveredShares (accountLegs st) DefaultLotSize + of_int64 (bp_Lot p)))"
    "finite64 (qb_UnderlyingPrice batch * (1 + cfg_CoveredCallPct (ws_Config s)))"
  shows "sz = of_int64 1 \<and> qb_UnderlyingPrice batch < bp_Strike p \<and> st_StockAverageCost st \<le> bp_Strike p + lit (1 / 10 ^ 9)
    \<and> (st_Position st \<le> 0 \<or> 0 < st_StockAverageCost st)
    \<and> - lit (1 / 10 ^ 9) \<le> ActualInventory (st_Position st) 0 - (CoveredShares (accountLegs st) DefaultLotSize + of_int64 (bp_Lot p))"
proof (rule wheel_OnBar_sale [OF assms(1)])
  fix batch' quotes positions q inp
  assume o: "st_QuoteBatch st = Some batch'" "map no_delta positions = accountLegs st"
    "inp = decisionInput (noteFill s bar st) bar st batch' positions quotes"
    "s_Action (Decide (ws_Config s) inp) = ActionAlert" "\<not> s_ClosePosition (Decide (ws_Config s) inp)"
    "s_Direction (Decide (ws_Config s) inp) = (if ActSellCall = ActSellPut then DirectionPut else DirectionCall)"
    "s_Quote (Decide (ws_Config s) inp) = Some q" "sz = of_int64 (s_Quantity (Decide (ws_Config s) inp))"
    "st_Pending st' = Some (salePending q sz)"
  have p: "p = salePending q sz" and b: "batch' = batch" using assms(2,5) o(1,9) by simp_all
  have dir: "s_Direction (Decide (ws_Config s) inp) = DirectionCall" using o(6) by simp
  have cov: "CoveredShares (in_Positions inp) DefaultLotSize = CoveredShares (accountLegs st) DefaultLotSize"
    by (simp add: o(3) commitments_no_delta(2) flip: o(2))
  have qty: "s_Quantity (Decide (ws_Config s) inp) = 1" using entry_alert_facts [OF o(4,5)] by blast
  have "s_AssignmentInventory (Decide (ws_Config s) inp) = assignmentInventory inp (inventoryOf inp) DirectionCall q"
    by (rule entry_alert_policy [OF o(4,5,7)]) (simp add: dir)
  then have inv: "s_AssignmentInventory (Decide (ws_Config s) inp) =
      ActualInventory (st_Position st) 0 - (CoveredShares (accountLegs st) DefaultLotSize + of_int64 (bp_Lot p))"
    using cov direction_distinct by (simp add: assignmentInventory_def inventoryOf_def CalculateInventory_def Let_def p salePending_def o(3))
  show ?thesis
    using call_alert_facts [OF o(4,5) dir _ _ o(7)] assms(3-7) qty inv
    by (simp add: p salePending_def o(8)) (simp add: o(3) b)
qed simp

definition sample_batch :: "OptionQuote list \<Rightarrow> rat \<Rightarrow> QuoteSnapshotBatch" where
  "sample_batch quotes price = \<lparr>qb_ObservedAt = sample_time, qb_SnapshotKey = ''k'', qb_Underlying = ''US.JD'', qb_UnderlyingPrice = Fin price,
     qb_Quotes = quotes, qb_IVRank = 0, qb_ExpiryOrder = []\<rparr>"

definition sample_wheel :: WheelStrategy where
  "sample_wheel = \<lparr>ws_Config = sample_config, ws_LastSignal = zero_signal, ws_TraceCandidates = False, ws_seenFillCount = 0,
     ws_prevBarClose = 0, ws_lastFillPrice = 0\<rparr>"

definition sample_put_state :: State where
  "sample_put_state = (new_state (Fin 10000))\<lparr>st_QuoteBatch := Some (sample_batch [sample_quote ''P64'' ''put'' 64 (-1/4)] 75)\<rparr>"

definition sample_call_state :: State where
  "sample_call_state = (new_state (Fin 10000))\<lparr>st_Position := Fin 500, st_StockAverageCost := Fin 60,
     st_QuoteBatch := Some (sample_batch [sample_quote ''C128'' ''call'' 128 (1/4)] 125)\<rparr>"

definition sellsLot :: "BtAction \<Rightarrow> rat \<Rightarrow> (string + (BtAction \<times> f64)) \<times> WheelStrategy \<times> State \<Rightarrow> bool" where
  "sellsLot act strike r \<longleftrightarrow>
     (case fst r of Inl _ \<Rightarrow> False
      | Inr a \<Rightarrow> fst a = act \<and> (case st_Pending (snd (snd r)) of None \<Rightarrow> False | Some p \<Rightarrow> bp_Lot p = 100 \<and> bp_Strike p = Fin strike))"

lemma sellsLotE:
  assumes "sellsLot act strike r"
  obtains sz s' st' p where "r = (Inr (act, sz), s', st')" "st_Pending st' = Some p" "bp_Lot p = 100" "bp_Strike p = Fin strike"
  using assms by (cases r) (auto simp: sellsLot_def split: sum.splits option.splits)

lemma sample_sales:
  "sellsLot ActSellPut 64 (wheel_OnBar sample_wheel (sample_bar sample_time 75) sample_put_state)"
  "sellsLot ActSellCall 128 (wheel_OnBar sample_wheel (sample_bar sample_time 125) sample_call_state)"
  by code_simp+


theorem wheel_call_covered_witness:
  "\<exists>s' st' p. wheel_OnBar sample_wheel (sample_bar sample_time 125) sample_call_state = (Inr (ActSellCall, of_int64 1), s', st')
     \<and> st_Pending st' = Some p \<and> st_StockAverageCost sample_call_state \<le> bp_Strike p + lit (1 / 10 ^ 9)"
proof -
  obtain sz s' st' p where w: "wheel_OnBar sample_wheel (sample_bar sample_time 125) sample_call_state = (Inr (ActSellCall, sz), s', st')"
    "st_Pending st' = Some p" "bp_Lot p = 100" "bp_Strike p = Fin 128"
    using sample_sales(2) by (rule sellsLotE)
  let ?batch = "sample_batch [sample_quote ''C128'' ''call'' 128 (1/4)] 125"
  have e: "finite64 (st_StockAverageCost sample_call_state)" "\<not> is_nan (st_Position sample_call_state)"
    "finite64 (ActualInventory (st_Position sample_call_state) 0 - (CoveredShares (accountLegs sample_call_state) DefaultLotSize + of_int64 100))"
    "finite64 (qb_UnderlyingPrice ?batch * (1 + cfg_CoveredCallPct (ws_Config sample_wheel)))" by code_simp+
  have b: "st_QuoteBatch sample_call_state = Some ?batch" by (simp add: sample_call_state_def)
  show ?thesis using wheel_call_covered [OF w(1,2) e(1,2) b _ e(4)] w e(3) by auto
qed

end
