(* ===== verification/Strategy_Pruning.thy ===== *)
theory Strategy_Pruning
  imports Strategy_Window Wheel_Safety
begin

text \<open>
  Pruning: quotes that fail validation influence nothing of a decision but the list of rejected
  candidates, so evaluating the expiry window (and the quotes of held legs) decides as
  evaluating the whole snapshot does.
\<close>

section \<open>What the quotes of an input do not influence\<close>

abbreviation with_quotes :: "OptionQuote list \<Rightarrow> DecisionInput \<Rightarrow> DecisionInput" where
  "with_quotes qs inp \<equiv> inp\<lparr>in_Quotes := qs\<rparr>"

lemma with_quotes_select [simp]:
  "in_CurrentPrice (with_quotes qs inp) = in_CurrentPrice inp" "in_AsOf (with_quotes qs inp) = in_AsOf inp"
  "in_StockShares (with_quotes qs inp) = in_StockShares inp" "in_StockAverageCost (with_quotes qs inp) = in_StockAverageCost inp"
  "in_FuturesEquivalentShares (with_quotes qs inp) = in_FuturesEquivalentShares inp"
  "in_Positions (with_quotes qs inp) = in_Positions inp" "in_Quotes (with_quotes qs inp) = qs"
  "in_LastEffectiveFillPrice (with_quotes qs inp) = in_LastEffectiveFillPrice inp"
  "in_CashAvailable (with_quotes qs inp) = in_CashAvailable inp" "in_HasCashAvailable (with_quotes qs inp) = in_HasCashAvailable inp"
  "in_IVRank (with_quotes qs inp) = in_IVRank inp" "in_ClosePositions (with_quotes qs inp) = in_ClosePositions inp"
  "in_Pending (with_quotes qs inp) = in_Pending inp"
  by simp_all

lemma quotes_irrelevant [simp]:
  "quoteError cfg (with_quotes qs inp) q = quoteError cfg inp q"
  "quoteErrorReason cfg (with_quotes qs inp) q e = quoteErrorReason cfg inp q e"
  "maskCandidate cfg (with_quotes qs inp) d c = maskCandidate cfg inp d c"
  "riskCandidate cfg (with_quotes qs inp) invt target gap d c = riskCandidate cfg inp invt target gap d c"
  "fillMove (with_quotes qs inp) = fillMove inp"
  "stockSwitch (with_quotes qs inp) gap base = stockSwitch inp gap base"
  "policyGate cfg (with_quotes qs inp) d base = policyGate cfg inp d base"
  "closeSet (with_quotes qs inp) = closeSet inp"
  by (simp_all only: with_quotes_select quoteError_def quoteErrorReason_def maskCandidate_def moneynessMasks_def qualityMasks_def
      scoreCandidate_def riskCandidate_def assignmentInventory_def cashShort_def minimumStrike_def fillMove_def stockSwitch_def
      policyGate_def closeSet_def)

lemma loop_quotes_irrelevant [simp]:
  "entryGate cfg (with_quotes qs inp) gap base = entryGate cfg inp gap base"
  "evalQuote cfg (with_quotes qs inp) invt target gap d el q = evalQuote cfg inp invt target gap d el q"
  "candidateOf cfg (with_quotes qs inp) invt target gap d q = candidateOf cfg inp invt target gap d q"
  by (simp_all only: entryGate_def evalQuote_def pendingStep_def candidateOf_def with_quotes_select quotes_irrelevant)

section \<open>Invalid quotes leave no trace but their rejection\<close>

definition forget :: "Signal \<Rightarrow> Signal" where
  "forget sig = sig\<lparr>s_Candidates := [], s_RejectReasons := []\<rparr>"

definition loop_view :: "EvalLoop \<Rightarrow> EvalLoop" where
  "loop_view el = el\<lparr>el_base := forget (el_base el)\<rparr>"

lemma recordCandidate_view: "loop_view (recordCandidate el c) = loop_view el"
  by (simp add: recordCandidate_def loop_view_def forget_def Let_def)

lemma hasPendingContract_Nil [simp]: "hasPendingContract [] c d = False"
  by (simp add: hasPendingContract_def)

text \<open>What a quote changes beside the candidate list: the counters, and only when it is valid.\<close>

definition noteQuote ::
  "Config \<Rightarrow> DecisionInput \<Rightarrow> InventorySnapshot \<Rightarrow> f64 \<Rightarrow> f64 \<Rightarrow> string \<Rightarrow> EvalLoop \<Rightarrow> OptionQuote \<Rightarrow> EvalLoop" where
  "noteQuote cfg inp invt target gap d el q =
     (if quoteError cfg inp q \<noteq> None then el
      else el\<lparr>el_validDirectionQuoteCount := el_validDirectionQuoteCount el + (if directionMismatch d q then 0 else 1),
              el_stockCostBlocked := el_stockCostBlocked el \<or> snd (maskCandidate cfg inp d (new_candidate q d)),
              el_dependencyBlocked := el_dependencyBlocked el
                \<or> snd (riskCandidate cfg inp invt target gap d (fst (maskCandidate cfg inp d (new_candidate q d))))\<rparr>)"

lemma evalQuote_note:
  assumes "in_Pending inp = []"
  shows "loop_view (evalQuote cfg inp invt target gap d el q) = loop_view (noteQuote cfg inp invt target gap d el q)"
  unfolding evalQuote_def noteQuote_def assms hasPendingContract_Nil Let_def split_beta
  by (cases "quoteError cfg inp q"; cases "directionMismatch d q") (simp_all add: recordCandidate_view)

lemma noteQuote_view: "loop_view (noteQuote cfg inp invt target gap d el q) = noteQuote cfg inp invt target gap d (loop_view el) q"
  by (simp add: noteQuote_def loop_view_def)

lemma foldl_evalQuote_view:
  assumes "in_Pending inp = []" "loop_view el = loop_view el'"
  shows "loop_view (foldl (evalQuote cfg inp invt target gap d) el qs) =
    loop_view (foldl (evalQuote cfg inp invt target gap d) el' (filter (\<lambda>q. quoteError cfg inp q = None) qs))"
  using assms(2)
proof (induction qs arbitrary: el el')
  case (Cons q qs)
  have same: "loop_view (evalQuote cfg inp invt target gap d el q) = loop_view (evalQuote cfg inp invt target gap d el' q)"
    by (simp only: evalQuote_note [OF assms(1)] noteQuote_view Cons.prems)
  have "loop_view (evalQuote cfg inp invt target gap d el q) = loop_view el'" if "quoteError cfg inp q \<noteq> None"
    using that Cons.prems by (simp add: evalQuote_note [OF assms(1)] noteQuote_def)
  then show ?case using Cons.IH same by (cases "quoteError cfg inp q") simp_all
qed simp

lemma evalLoop_view:
  assumes "in_Pending inp = []" "filter (\<lambda>q. quoteError cfg inp q = None) qs = filter (\<lambda>q. quoteError cfg inp q = None) (in_Quotes inp)"
  shows "loop_view (evalLoop cfg (with_quotes qs inp) invt target gap d base) = loop_view (evalLoop cfg inp invt target gap d base)"
  unfolding evalLoop_def loop_quotes_irrelevant with_quotes_select
  using foldl_evalQuote_view [OF assms(1) refl] assms(2) by metis

lemma forget_hold: "forget (hold r base) = hold r (forget base)"
  by (simp add: hold_def forget_def Let_def)

lemma forget_block: "forget (block b dep base) = block b dep (forget base)"
  by (simp add: block_def forget_def)

lemma loop_view_fields [simp]:
  "el_base (loop_view el) = forget (el_base el)" "el_validDirectionQuoteCount (loop_view el) = el_validDirectionQuoteCount el"
  "el_dependencyBlocked (loop_view el) = el_dependencyBlocked el" "el_stockCostBlocked (loop_view el) = el_stockCostBlocked el"
  "el_pendingExcluded (loop_view el) = el_pendingExcluded el"
  by (simp_all add: loop_view_def)

lemma noCandidate_view: "forget (noCandidate el) = noCandidate (loop_view el)"
  by (simp only: noCandidate_def Let_def loop_view_fields if_distrib [of forget] forget_hold forget_block)

lemma pendingReplaceTarget_Nil: "pendingReplaceTarget [] d c = None"
  by (simp add: pendingReplaceTarget_def)

lemma alertCandidate_view:
  assumes "in_Pending inp = []"
  shows "forget (alertCandidate cfg inp target gap d el c) = alertCandidate cfg inp target gap d (loop_view el) c"
  using assms by (simp add: alertCandidate_def pendingReplaceTarget_Nil loop_view_def forget_def Let_def)

section \<open>The decision\<close>

text \<open>The quotes \<open>qs\<close> decide like the quotes of the input.\<close>

definition same_market :: "Config \<Rightarrow> DecisionInput \<Rightarrow> OptionQuote list \<Rightarrow> bool" where
  "same_market cfg inp qs \<longleftrightarrow>
     filter (\<lambda>q. quoteError cfg inp q = None) qs = filter (\<lambda>q. quoteError cfg inp q = None) (in_Quotes inp)
     \<and> (\<forall>p \<in> set (in_Positions inp) \<union> set (in_ClosePositions inp). positionQuote qs (p_Symbol p) = positionQuote (in_Quotes inp) (p_Symbol p))"

lemma accepted_valid: "c_Accepted (candidateOf cfg inp invt target gap d q) \<Longrightarrow> quoteError cfg inp q = None"
  by (simp add: candidateOf_accepted admissible_def passesMasks_def)

lemma accepted_filter:
  "filter c_Accepted (map (candidateOf cfg inp invt target gap d) qs) =
   filter c_Accepted (map (candidateOf cfg inp invt target gap d) (filter (\<lambda>q. quoteError cfg inp q = None) qs))"
  by (induction qs) (auto dest: accepted_valid)

lemma chosenCandidate_market:
  assumes "same_market cfg inp qs"
  shows "chosenCandidate cfg (with_quotes qs inp) invt target gap d = chosenCandidate cfg inp invt target gap d"
  using assms accepted_filter [of cfg inp invt target gap d qs] accepted_filter [of cfg inp invt target gap d "in_Quotes inp"]
  unfolding chosenCandidate_def with_quotes_select loop_quotes_irrelevant same_market_def by metis

lemma alertCandidate_quotes: "alertCandidate cfg (with_quotes qs inp) target gap d el c = alertCandidate cfg inp target gap d el c"
  by (simp only: alertCandidate_def with_quotes_select)

lemma selectCandidate_market:
  assumes "same_market cfg inp qs" "in_Pending inp = []" "s_Candidates base = []"
  shows "forget (selectCandidate cfg (with_quotes qs inp) target gap d (evalLoop cfg (with_quotes qs inp) invt target gap d base)) =
    forget (selectCandidate cfg inp target gap d (evalLoop cfg inp invt target gap d base))"
proof -
  have v: "loop_view (evalLoop cfg (with_quotes qs inp) invt target gap d base) = loop_view (evalLoop cfg inp invt target gap d base)"
    using assms(1,2) by (intro evalLoop_view) (simp_all add: same_market_def)
  show ?thesis
    unfolding selectCandidate_evalLoop [OF assms(3)] chosenCandidate_market [OF assms(1)] alertCandidate_quotes
    using v by (cases "chosenCandidate cfg inp invt target gap d") (simp_all add: noCandidate_view alertCandidate_view [OF assms(2)])
qed

lemma takeProfitSignal_market:
  assumes "same_market cfg inp qs"
  shows "takeProfitSignal cfg (with_quotes qs inp) base = takeProfitSignal cfg inp base"
proof -
  have leg: "takeProfitStep cfg (with_quotes qs inp) best p = takeProfitStep cfg inp best p" if "p \<in> set (map snd (closeSet inp))" for best p
  proof -
    have "positionQuote qs (p_Symbol p) = positionQuote (in_Quotes inp) (p_Symbol p)"
      using assms that set_closeSet [of inp] by (auto simp: same_market_def)
    then show ?thesis by (simp only: takeProfitStep_def takeProfitLeg_def with_quotes_select)
  qed
  have "takeProfitBest cfg (with_quotes qs inp) (closeSet inp) = takeProfitBest cfg inp (closeSet inp)"
    unfolding takeProfitBest_def using leg by (intro foldl_cong) auto
  then show ?thesis by (simp only: takeProfitSignal_def quotes_irrelevant)
qed

lemma OptionDeltaStock_lot:
  assumes "\<forall>p \<in> set ps. 0 < p_LotSize p"
  shows "OptionDeltaStock ps l = OptionDeltaStock ps l'"
  unfolding OptionDeltaStock_def using assms by (intro foldl_cong) (auto simp: position_lot_def)

lemma CalculateInventory_lot:
  "\<forall>p \<in> set ps. 0 < p_LotSize p \<Longrightarrow> CalculateInventory a b ps l = CalculateInventory a b ps l'"
  using OptionDeltaStock_lot [of ps l l'] by (simp add: CalculateInventory_def Let_def)

lemma Decide_market:
  assumes "same_market cfg inp qs" "in_Pending inp = []" "\<forall>p \<in> set (in_Positions inp). 0 < p_LotSize p"
  shows "forget (Decide cfg (with_quotes qs inp)) = forget (Decide cfg inp) \<and> snd (Evaluate cfg (with_quotes qs inp)) = snd (Evaluate cfg inp)"
proof -
  have "forget (decide cfg (with_quotes qs inp) target) = forget (decide cfg inp target)" for target
    unfolding decide_def with_quotes_select CalculateInventory_lot [OF assms(3), of _ _ "candidateLotSize qs" "candidateLotSize (in_Quotes inp)"]
      Let_def takeProfitSignal_market [OF assms(1)] loop_quotes_irrelevant quotes_irrelevant
    by (auto simp: selectCandidate_market [OF assms(1,2)] base_signal_def zero_signal_def split: option.split)
  then show ?thesis by (auto simp: Decide_def Evaluate_def split: option.split sum.split)
qed

section \<open>Quotes by name\<close>

abbreviation find_name :: "OptionQuote list \<Rightarrow> string \<Rightarrow> OptionQuote option" where
  "find_name qs c \<equiv> List.find (\<lambda>q. quote_name q = c) qs"

lemma positionQuote_find: "positionQuote qs c = find_name qs c"
  by (induction qs) auto

lemma find_append: "List.find P (xs @ ys) = (case List.find P xs of None \<Rightarrow> List.find P ys | Some x \<Rightarrow> Some x)"
  by (induction xs) auto

lemma find_name_mem: "find_name qs c = Some q \<Longrightarrow> q \<in> set qs \<and> quote_name q = c"
  by (induction qs) (auto split: if_splits)

lemma find_name_distinct: "distinct (map quote_name qs) \<Longrightarrow> q \<in> set qs \<Longrightarrow> find_name qs (quote_name q) = Some q"
  by (induction qs) (auto simp: image_iff)

lemma indexQuotes_find:
  assumes "distinct (map quote_name qs)" "c \<noteq> []"
  shows "map_of (indexQuotes qs) c = find_name qs c"
  using assms(1)
proof (induction qs rule: rev_induct)
  case Nil
  show ?case by (simp add: indexQuotes_def)
next
  case (snoc q qs)
  have "find_name qs c = None" if "quote_name q = c" using snoc.prems that by (cases "find_name qs c") (auto dest!: find_name_mem simp: image_iff)
  then show ?case using snoc assms(2) by (auto simp: indexQuotes_def find_append split: option.split)
qed

section \<open>Merging the quotes of held legs\<close>

text \<open>
  The quotes gathered for the decision: the window and quotes outside of it, with the index by
  name; the codes handled so far are resolved as in the whole snapshot.
\<close>

definition gathered ::
  "OptionQuote list \<Rightarrow> OptionQuote list \<Rightarrow> string set \<Rightarrow> OptionQuote list \<times> OptionQuote gomap \<Rightarrow> bool" where
  "gathered all window codes acc \<longleftrightarrow>
     (\<exists>extra. fst acc = window @ extra \<and> set extra \<subseteq> set all - set window)
     \<and> distinct (map quote_name (fst acc)) \<and> (\<forall>c. c \<noteq> [] \<longrightarrow> map_of (snd acc) c = find_name (fst acc) c)
     \<and> (\<forall>c \<in> codes. find_name (fst acc) c = find_name all c)"

lemma gathered_lookup:
  "gathered all window codes (qs, m) \<Longrightarrow> c \<in> codes \<Longrightarrow> c \<noteq> [] \<Longrightarrow> map_of m c = find_name all c \<and> find_name qs c = find_name all c"
  unfolding gathered_def fst_conv snd_conv by metis

lemma mergeHeld_gathered:
  assumes g: "gathered all window codes acc" and d: "distinct (map quote_name all)" and w: "set window \<subseteq> set all" and c: "code \<noteq> []"
  shows "gathered all window (insert code codes) (mergeHeld all acc code)"
proof -
  obtain quotes m where acc: "acc = (quotes, m)" by (cases acc)
  from g obtain extra where e: "quotes = window @ extra" "set extra \<subseteq> set all - set window" "distinct (map quote_name quotes)"
    "\<And>x. x \<noteq> [] \<Longrightarrow> map_of m x = find_name quotes x" "\<And>x. x \<in> codes \<Longrightarrow> find_name quotes x = find_name all x"
    by (auto simp: gathered_def acc)
  have sub: "set quotes \<subseteq> set all" using e(1,2) w by auto
  have m: "map_of m code = find_name quotes code" using e(4) c by blast
  show ?thesis
  proof (cases "find_name quotes code")
    case (Some q)
    then have "find_name all code = Some q" using find_name_mem [OF Some] sub find_name_distinct [OF d, of q] by auto
    then show ?thesis using g Some m by (simp add: mergeHeld_def acc gathered_def)
  next
    case None
    show ?thesis
    proof (cases "find_name all code")
      case None
      then show ?thesis using g \<open>find_name quotes code = None\<close> m by (simp add: mergeHeld_def acc gathered_def)
    next
      case (Some q)
      have q: "q \<in> set all" "quote_name q = code" using find_name_mem [OF Some] by auto
      have out: "quote_name q \<notin> quote_name ` set quotes"
        using find_name_distinct [OF e(3)] None q(2) by (metis image_iff option.distinct(1))
      have step: "mergeHeld all acc code = (quotes @ [q], map_put code q m)"
        using None Some m by (simp add: mergeHeld_def acc)
      have "find_name (quotes @ [q]) x = (if x = code then Some q else find_name quotes x)" for x
        using None q(2) by (auto simp: find_append split: option.split)
      moreover have "\<exists>extra. quotes @ [q] = window @ extra \<and> set extra \<subseteq> set all - set window"
        using e(1,2) q(1) out by (intro exI [of _ "extra @ [q]"]) auto
      ultimately show ?thesis using e(3-5) out Some unfolding step by (auto simp: gathered_def)
    qed
  qed
qed

lemma foldl_mergeHeld_gathered:
  assumes "gathered all window codes acc" "distinct (map quote_name all)" "set window \<subseteq> set all" "[] \<notin> set cs"
  shows "gathered all window (codes \<union> set cs) (foldl (mergeHeld all) acc cs)"
  using assms(1,4)
proof (induction cs arbitrary: codes acc)
  case (Cons c cs)
  have "gathered all window (insert c codes) (mergeHeld all acc c)"
    using mergeHeld_gathered [OF Cons.prems(1) assms(2,3)] Cons.prems(2) by auto
  from Cons.IH [OF this] show ?case using Cons.prems(2) by simp
qed simp

lemma window_gathered:
  assumes "distinct (map quote_name all)" "set window \<subseteq> set all" "distinct (map quote_name window)" "[] \<notin> set cs"
  shows "gathered all window (set cs) (foldl (mergeHeld all) (window, indexQuotes window) cs)"
proof -
  have "gathered all window {} (window, indexQuotes window)"
    using assms(3) by (simp add: gathered_def indexQuotes_find)
  from foldl_mergeHeld_gathered [OF this assms(1,2,4)] show ?thesis by simp
qed

section \<open>The adapter\<close>

lemma heldPositions_cong:
  "(\<And>c. c \<in> set codes \<Longrightarrow> map_of m c = map_of m' c) \<Longrightarrow> heldPositions m options codes = heldPositions m' options codes"
  by (induction codes) (auto simp: Let_def split: option.split)

lemma heldPositions_symbols: "heldPositions m options codes = Some ps \<Longrightarrow> p \<in> set ps \<Longrightarrow> p_Symbol p \<in> set codes \<and> (\<exists>leg. map_of options (p_Symbol p) = Some leg \<and> p_LotSize p = leg_lot leg)"
  by (induction codes arbitrary: ps) (auto simp: Let_def wheelLeg_def split: option.splits if_splits)

lemma filter_pruned:
  assumes "\<forall>x \<in> set xs. x \<notin> set (filter P xs) \<longrightarrow> \<not> V x"
  shows "filter V (filter P xs) = filter V xs"
  unfolding filter_filter using assms by (intro filter_cong) auto

lemma outside_window_invalid:
  assumes "\<not> is_zero (in_AsOf inp)" "q \<notin> set (filterQuotesByExpiryLinear all (add_days (calendarDate (in_AsOf inp)) (cfg_MinDTE cfg))
      (add_days (calendarDate (in_AsOf inp)) (cfg_MaxDTE cfg)))" "q \<in> set all"
  shows "quoteError cfg inp q \<noteq> None"
proof
  assume "quoteError cfg inp q = None"
  then have "quote_validate q (in_AsOf inp) cfg (calendarDate (in_AsOf inp)) (add_days (calendarDate (in_AsOf inp)) (cfg_MinDTE cfg))
      (add_days (calendarDate (in_AsOf inp)) (cfg_MaxDTE cfg)) = None"
    using assms(1) by (simp add: quoteError_def validationDates_def Let_def)
  from quote_validate_NoneD(16) [OF this] show False
    using assms by (auto simp: filterQuotesByExpiryLinear_def is_zero_def not_less)
qed

definition bar_view :: "(BtAction \<times> f64) \<times> WheelStrategy \<times> State \<Rightarrow> (BtAction \<times> f64) \<times> WheelStrategy \<times> State" where
  "bar_view r = (case r of (act, s, st) \<Rightarrow> (act, s\<lparr>ws_LastSignal := forget (ws_LastSignal s)\<rparr>, st))"

lemma forget_select [simp]:
  "s_Action (forget sig) = s_Action sig" "s_Direction (forget sig) = s_Direction sig" "s_Quantity (forget sig) = s_Quantity sig"
  "s_Quote (forget sig) = s_Quote sig" "s_StockSuggestion (forget sig) = s_StockSuggestion sig"
  "s_ClosePosition (forget sig) = s_ClosePosition sig"
  by (simp_all add: forget_def)

lemma signalAction_forget: "signalAction (forget sig) bar st = signalAction sig bar st"
  by (simp only: signalAction_def closeAction_def entryAction_def forget_select)

lemma restore_forget: "forget (restoreExpiryRejectedCandidates sig qs ts cfg) = forget sig"
  by (simp add: restoreExpiryRejectedCandidates_def forget_def Let_def)

lemma actOnSignal_None:
  "\<exists>y. forget y = forget x
     \<and> actOnSignal s bar st batch (x, None) = (fst (signalAction y bar st), s\<lparr>ws_LastSignal := y\<rparr>, snd (signalAction y bar st))"
proof (cases "ws_TraceCandidates s \<and> \<not> s_ClosePosition x")
  case True
  show ?thesis
    by (rule exI [of _ "restoreExpiryRejectedCandidates x (qb_Quotes batch) (b_Ts bar) (ws_Config s)"])
      (use True in \<open>simp only: restore_forget actOnSignal_def fst_conv snd_conv option.case if_True if_cancel Let_def split_beta simp_thms\<close>)
next
  case False
  show ?thesis
    by (rule exI [of _ x]) (simp only: False actOnSignal_def fst_conv snd_conv option.case if_False Let_def split_beta simp_thms)
qed

lemma actOnSignal_view:
  assumes "forget (fst r) = forget (fst r')" "snd r = snd r'"
  shows "bar_view (actOnSignal s bar st batch r) = bar_view (actOnSignal s bar st batch r')"
proof -
  obtain sig err sig' where r: "r = (sig, err)" "r' = (sig', err)" "forget sig = forget sig'" using assms by (cases r; cases r') auto
  have view: "bar_view (actOnSignal s bar st batch (x, None)) =
      (fst (signalAction (forget x) bar st), s\<lparr>ws_LastSignal := forget x\<rparr>, snd (signalAction (forget x) bar st))" for x
  proof -
    obtain y where y: "forget y = forget x"
      "actOnSignal s bar st batch (x, None) = (fst (signalAction y bar st), s\<lparr>ws_LastSignal := y\<rparr>, snd (signalAction y bar st))"
      using actOnSignal_None by blast
    have "signalAction y bar st = signalAction (forget x) bar st" using signalAction_forget [of y bar st] y(1) by simp
    then show ?thesis using y by (simp add: bar_view_def)
  qed
  show ?thesis
  proof (cases err)
    case None
    show ?thesis unfolding r(1,2) None view r(3) ..
  next
    case (Some e)
    then show ?thesis using r(3) by (simp add: r(1,2) actOnSignal_def bar_view_def)
  qed
qed

text \<open>
  C11: the adapter evaluates only the quotes of the expiry window and of the
  held legs, "out-of-window quotes cannot affect selection": with one quote per contract in the
  snapshot, the action, the pending order and the recorded signal - but for its list of rejected
  candidates - are those of evaluating every quote of the snapshot, for any portfolio of legs
  with a contract size.
\<close>

theorem wheel_pruning_sound:
  assumes "\<not> is_zero (b_Ts bar)" "distinct (map quote_name (qb_Quotes batch))"
    "\<forall>(c, p) \<in> set (st_Options st). c \<noteq> [] \<and> 0 < leg_lot p"
  shows "bar_view (decideBar s bar st batch (filterQuotesByExpiryLinear (qb_Quotes batch)
      (add_days (calendarDate (b_Ts bar)) (cfg_MinDTE (ws_Config s))) (add_days (calendarDate (b_Ts bar)) (cfg_MaxDTE (ws_Config s)))))
    = bar_view (decideBar s bar st batch (qb_Quotes batch))"
proof -
  let ?all = "qb_Quotes batch" and ?codes = "map fst (st_Options st)"
  let ?w = "filterQuotesByExpiryLinear ?all (add_days (calendarDate (b_Ts bar)) (cfg_MinDTE (ws_Config s)))
    (add_days (calendarDate (b_Ts bar)) (cfg_MaxDTE (ws_Config s)))"
  have codes: "[] \<notin> set ?codes" using assms(3) by auto
  have w: "set ?w \<subseteq> set ?all" "distinct (map quote_name ?w)"
    using assms(2) by (auto simp: filterQuotesByExpiryLinear_def distinct_map_filter)
  obtain qs m where f: "foldl (mergeHeld ?all) (?w, indexQuotes ?w) ?codes = (qs, m)" by (meson surj_pair)
  obtain qs' m' where f': "foldl (mergeHeld ?all) (?all, indexQuotes ?all) ?codes = (qs', m')" by (meson surj_pair)
  have g: "gathered ?all ?w (set ?codes) (qs, m)" using window_gathered [OF assms(2) w(1,2) codes] f by simp
  have g': "gathered ?all ?all (set ?codes) (qs', m')" using window_gathered [OF assms(2) order_refl assms(2) codes] f' by simp
  from g' have qs': "qs' = ?all" by (auto simp: gathered_def)
  have look: "map_of m c = map_of m' c" "find_name qs c = find_name ?all c" if "c \<in> set ?codes" for c
    using gathered_lookup [OF g that] gathered_lookup [OF g' that] that codes by metis+
  have pos: "heldPositions m (st_Options st) (slice_stable (<) ?codes) = heldPositions m' (st_Options st) (slice_stable (<) ?codes)"
    by (rule heldPositions_cong) (use look in simp)
  show ?thesis
  proof (cases "heldPositions m' (st_Options st) (slice_stable (<) ?codes)")
    case None
    then show ?thesis using pos by (simp add: decideBar_def f f')
  next
    case (Some ps)
    let ?inp = "decisionInput s bar st batch ps ?all"
    have inp: "decisionInput s bar st batch ps qs = with_quotes qs ?inp" by (simp add: decisionInput_def)
    have lots: "\<forall>p \<in> set (in_Positions ?inp). 0 < p_LotSize p"
      using heldPositions_symbols [OF Some] assms(3) by (fastforce simp: decisionInput_def dest: map_of_SomeD)
    obtain extra where e: "qs = ?w @ extra" "set extra \<subseteq> set ?all - set ?w" using g by (auto simp: gathered_def)
    have inv: "quoteError (ws_Config s) ?inp q \<noteq> None" if "q \<in> set ?all" "q \<notin> set ?w" for q
      by (rule outside_window_invalid) (use that assms(1) in \<open>simp_all add: decisionInput_def\<close>)
    have "filter (\<lambda>q. quoteError (ws_Config s) ?inp q = None) extra = []"
      using e(2) inv by (auto simp: filter_empty_conv)
    moreover have "filter (\<lambda>q. quoteError (ws_Config s) ?inp q = None) ?w = filter (\<lambda>q. quoteError (ws_Config s) ?inp q = None) ?all"
      using inv unfolding filterQuotesByExpiryLinear_def by (intro filter_pruned) blast
    ultimately have "same_market (ws_Config s) ?inp qs"
      using look(2) heldPositions_symbols [OF Some] by (auto simp: same_market_def e(1) positionQuote_find decisionInput_def)
    from Decide_market [OF this _ lots] show ?thesis
      using pos Some by (simp add: decideBar_def f f' qs' inp) (rule actOnSignal_view; simp add: decisionInput_def Decide_def)
  qed
qed

definition sample_late_quote :: OptionQuote where
  "sample_late_quote = (sample_quote ''P60'' ''put'' 60 (-1/4))\<lparr>q_Expiry := sample_time + 90 * day_ns\<rparr>"

definition sample_wide_batch :: QuoteSnapshotBatch where
  "sample_wide_batch = \<lparr>qb_ObservedAt = sample_time, qb_SnapshotKey = ''k'', qb_Underlying = ''US.JD'', qb_UnderlyingPrice = Fin 75,
     qb_Quotes = [sample_late_quote, sample_quote ''P64'' ''put'' 64 (-1/4)], qb_IVRank = 0, qb_ExpiryOrder = []\<rparr>"

definition sample_plain_wheel :: WheelStrategy where
  "sample_plain_wheel = \<lparr>ws_Config = sample_config, ws_LastSignal = zero_signal, ws_TraceCandidates = False, ws_seenFillCount = 0,
     ws_prevBarClose = 0, ws_lastFillPrice = 0\<rparr>"

lemma sample_window:
  "filterQuotesByExpiryLinear (qb_Quotes sample_wide_batch) (add_days (calendarDate sample_time) (cfg_MinDTE sample_config))
     (add_days (calendarDate sample_time) (cfg_MaxDTE sample_config)) = [sample_quote ''P64'' ''put'' 64 (-1/4)]"
  by code_simp

theorem wheel_pruning_sound_witness:
  "bar_view (decideBar sample_plain_wheel (sample_bar sample_time 75) (new_state (Fin 10000)) sample_wide_batch [sample_quote ''P64'' ''put'' 64 (-1/4)])
   = bar_view (decideBar sample_plain_wheel (sample_bar sample_time 75) (new_state (Fin 10000)) sample_wide_batch
       [sample_late_quote, sample_quote ''P64'' ''put'' 64 (-1/4)])"
proof -
  have e: "\<not> is_zero (b_Ts (sample_bar sample_time 75))" "b_Ts (sample_bar sample_time 75) = sample_time"
    "distinct (map quote_name (qb_Quotes sample_wide_batch))" "st_Options (new_state (Fin 10000)) = []" by code_simp+
  have c: "ws_Config sample_plain_wheel = sample_config" by (simp add: sample_plain_wheel_def)
  have "\<forall>(c, p) \<in> set (st_Options (new_state (Fin 10000))). c \<noteq> [] \<and> 0 < leg_lot p" by (simp add: e(4))
  from wheel_pruning_sound [OF e(1,3) this, of sample_plain_wheel] show ?thesis
    by (simp add: e(2) c sample_window) (simp add: sample_wide_batch_def)
qed

end
