(* ===== verification/Strategy_Params.thy ===== *)
theory Strategy_Params
  imports Strategy_Wheel
begin

text \<open>
  Strategy parameters: the registered templates, the schema-driven decoding of a parameter
  object, the read-old/write-new migration of legacy keys and the canonical form that is
  persisted, from \<^verbatim>\<open>internal/strategy/strategy.go\<close>. The display texts of templates and parameters
  are not modelled.
\<close>

section \<open>Dynamic values\<close>

text \<open>
  A Go \<^verbatim>\<open>any\<close> as it reaches the parser: what JSON decoding yields, the typed numbers of Go
  callers (every integer type by its value), a \<^verbatim>\<open>json.Number\<close> by what its \<^verbatim>\<open>Float64\<close> returns, a typed
  curve, or a value of any other type.
\<close>

datatype any =
    ANil | ABool bool | AFloat f64 | AInt int | ANumber "f64 option" | AStr string
  | AArr "any list" | AObj "(string \<times> any) list" | ACurve "PricePoint list" | AOther

fun fromJson :: "json \<Rightarrow> any" where
  "fromJson JNull = ANil"
| "fromJson (JBool b) = ABool b"
| "fromJson (JNum x) = AFloat x"
| "fromJson (JStr s) = AStr s"
| "fromJson (JArr js) = AArr (map fromJson js)"
| "fromJson (JObj kvs) = AObj (map (\<lambda>kv. (fst kv, fromJson (snd kv))) kvs)"

definition pointJson :: "PricePoint \<Rightarrow> json" where
  "pointJson p = JObj [(''price'', JNum (pp_Price p)), (''target_inventory'', JNum (pp_TargetInventory p))]"

definition finitePoint :: "PricePoint \<Rightarrow> bool" where
  "finitePoint p \<longleftrightarrow> finite64 (pp_Price p) \<and> finite64 (pp_TargetInventory p)"

text \<open>The encoder: a number that is not finite is an error (a 64-bit integer always is).\<close>

fun toJson :: "any \<Rightarrow> json option" where
  "toJson ANil = Some JNull"
| "toJson (ABool b) = Some (JBool b)"
| "toJson (AFloat x) = (if finite64 x then Some (JNum x) else None)"
| "toJson (AInt n) = (let x = of_int64 n in if finite64 x then Some (JNum x) else None)"
| "toJson (ANumber x) = (case x of Some f \<Rightarrow> if finite64 f then Some (JNum f) else None | None \<Rightarrow> None)"
| "toJson (AStr s) = Some (JStr s)"
| "toJson (AArr vs) = map_option JArr (those (map toJson vs))"
| "toJson (AObj kvs) =
     map_option (\<lambda>js. JObj (sort_key fst (zip (map fst kvs) js))) (those (map (\<lambda>kv. toJson (snd kv)) kvs))"
| "toJson (ACurve ps) = (if list_all finitePoint ps then Some (JArr (map pointJson ps)) else None)"
| "toJson AOther = None"

section \<open>Numbers\<close>

datatype ParamError =
    ParamsMissing | UnknownTemplate | ParamsNotObject | NotBoolean string | BadAudit string | CurveDecode | CurveTooShort
  | CurvePoint nat | CurveOrder | UnknownParam string string | ParamRequired string string | NotNumber string | NotFinite string
  | OutOfRange string f64 | NotChoice string | NotInteger string | ConfigInvalid string | CanonicalEncode | DTEOrder

definition numberOf :: "string \<Rightarrow> f64 \<Rightarrow> ParamError + f64" where
  "numberOf name f = (if \<not> finite64 f then Inl (NotFinite name) else Inr f)"

fun asNumber :: "string \<Rightarrow> any \<Rightarrow> ParamError + f64" where
  "asNumber name (AFloat f) = numberOf name f"
| "asNumber name (AInt n) = numberOf name (of_int64 n)"
| "asNumber name (ANumber x) = (case x of Some f \<Rightarrow> numberOf name f | None \<Rightarrow> Inl (NotNumber name))"
| "asNumber name _ = Inl (NotNumber name)"

definition asInt :: "string \<Rightarrow> any \<Rightarrow> ParamError + int" where
  "asInt name v =
     (case asNumber name v of
        Inl err \<Rightarrow> Inl err
      | Inr f \<Rightarrow> if \<not> feq (ftrunc f) f \<or> f < 1 \<or> of_int64 (2 ^ 63 - 1) < f then Inl (NotInteger name) else Inr (int_of_f64 f))"

section \<open>Templates\<close>

record Param =
  pm_Name :: string
  pm_Type :: string
  pm_Default :: any
  pm_Required :: bool
  pm_Min :: f64
  pm_Max :: f64
  pm_Allowed :: "string list"

record Template =
  tm_Name :: string
  tm_NeedsOptions :: bool
  tm_Params :: "Param list"

definition MaxFloat64 :: f64 where
  "MaxFloat64 = Fin (2 ^ 1024 - 2 ^ 971)"

lemma MaxFloat64_code [code]: "MaxFloat64 = Fin (of_int 179769313486231570814527423731704356798070567525844996598917476803157260780028538760589558632766878171540458953514382464234321326889464182768467546703537516986049910576551282076245490090389328944075868508455133942304583236903222948165808559332123348274797826204144723168738177180919299881250404026184124858368)"
  by (simp add: MaxFloat64_def)

definition numberParam :: "string \<Rightarrow> f64 \<Rightarrow> f64 \<Rightarrow> f64 \<Rightarrow> Param" where
  "numberParam name dflt lo hi = \<lparr>pm_Name = name, pm_Type = ''number'', pm_Default = AFloat dflt, pm_Required = False,
     pm_Min = lo, pm_Max = hi, pm_Allowed = []\<rparr>"

definition requiredNumber :: "string \<Rightarrow> Param" where
  "requiredNumber name = \<lparr>pm_Name = name, pm_Type = ''number'', pm_Default = ANil, pm_Required = True,
     pm_Min = 0, pm_Max = MaxFloat64, pm_Allowed = []\<rparr>"

definition DefaultMinOptionProfit :: f64 where
  "DefaultMinOptionProfit = Fin 200"

definition DefaultCoveredCallPct :: f64 where
  "DefaultCoveredCallPct = lit (5 / 100)"

definition llmTemplate :: Template where
  "llmTemplate = \<lparr>tm_Name = ''llm'', tm_NeedsOptions = True, tm_Params =
     [numberParam ''option_max_quantity'' (Fin 5) (Fin 1) (Fin 5), numberParam ''stock_max_quantity'' (Fin 1000) (Fin 1) (Fin 1000),
      numberParam ''max_daily_signals'' (Fin 5) (Fin 1) (Fin 20), numberParam ''min_dte'' (Fin 5) (Fin 1) (Fin 30),
      numberParam ''max_dte'' (Fin 10) (Fin 1) (Fin 60)]\<rparr>"

definition wheelTemplate :: Template where
  "wheelTemplate = \<lparr>tm_Name = ''wheel'', tm_NeedsOptions = True, tm_Params =
     [requiredNumber ''full_position_price'', requiredNumber ''zero_position_price'', requiredNumber ''max_inventory'',
      numberParam ''move_interval_pct'' 0 0 MaxFloat64, numberParam ''min_premium_per_share'' 0 0 MaxFloat64,
      numberParam ''min_option_profit'' DefaultMinOptionProfit 0 MaxFloat64, numberParam ''stock_switch_pct'' 0 0 MaxFloat64,
      numberParam ''covered_call_pct'' DefaultCoveredCallPct 0 (Fin 1), numberParam ''profit_take_pct'' 0 0 (lit (8 / 10)),
      numberParam ''put_delta_max'' 0 0 (Fin 1), numberParam ''call_delta_max'' 0 0 (Fin 1), numberParam ''min_iv_rank'' 0 0 (Fin 1),
      numberParam ''trade_gap'' (Fin 50) 0 MaxFloat64, numberParam ''min_dte'' (Fin 5) (of_int64 MinWheelDTE) (of_int64 MaxWheelDTE),
      numberParam ''max_dte'' (Fin 10) (of_int64 MinWheelDTE) (of_int64 MaxWheelDTE),
      numberParam ''min_option_quality'' (lit (6 / 10)) 0 (Fin 1), numberParam ''max_quote_age_seconds'' (Fin 86400) (Fin 1) MaxFloat64,
      \<lparr>pm_Name = ''strategic_state'', pm_Type = ''choice'', pm_Default = AStr StateNormal, pm_Required = False, pm_Min = 0, pm_Max = 0,
       pm_Allowed = [StateNormal, StateCaution, StatePauseBuy, StateExit]\<rparr>]\<rparr>"

definition templates :: "Template list" where
  "templates = [llmTemplate, wheelTemplate]"

definition Templates :: "Template list" where
  "Templates = templates"

definition Lookup :: "string \<Rightarrow> Template option" where
  "Lookup name = List.find (\<lambda>t. tm_Name t = name) templates"

record ContractParam =
  cp_Name :: string
  cp_Type :: string
  cp_Default :: any
  cp_Required :: bool
  cp_Choices :: "string list"

record ContractTemplate =
  ct_Name :: string
  ct_Params :: "ContractParam list"

definition ContractTemplates :: "ContractTemplate list" where
  "ContractTemplates = map (\<lambda>t. \<lparr>ct_Name = tm_Name t, ct_Params = map (\<lambda>p. \<lparr>cp_Name = pm_Name p, cp_Type = pm_Type p,
     cp_Default = pm_Default p, cp_Required = pm_Required p, cp_Choices = pm_Allowed p\<rparr>) (tm_Params t)\<rparr>) templates"

section \<open>Curves\<close>

text \<open>\<^verbatim>\<open>json.Unmarshal\<close> into a price point: members match by name up to case, unknown ones are skipped, null leaves the field.\<close>

definition decodeMember :: "PricePoint option \<Rightarrow> string \<times> json \<Rightarrow> PricePoint option" where
  "decodeMember acc kv =
     (case acc of
        None \<Rightarrow> None
      | Some p \<Rightarrow>
          (if equal_fold (fst kv) ''price'' then
             (case snd kv of JNum x \<Rightarrow> Some (p\<lparr>pp_Price := x\<rparr>) | JNull \<Rightarrow> Some p | _ \<Rightarrow> None)
           else if equal_fold (fst kv) ''target_inventory'' then
             (case snd kv of JNum x \<Rightarrow> Some (p\<lparr>pp_TargetInventory := x\<rparr>) | JNull \<Rightarrow> Some p | _ \<Rightarrow> None)
           else Some p))"

fun decodePoint :: "json \<Rightarrow> PricePoint option" where
  "decodePoint (JObj kvs) = foldl decodeMember (Some \<lparr>pp_Price = 0, pp_TargetInventory = 0\<rparr>) kvs"
| "decodePoint JNull = Some \<lparr>pp_Price = 0, pp_TargetInventory = 0\<rparr>"
| "decodePoint _ = None"

fun decodeCurve :: "json \<Rightarrow> PricePoint list option" where
  "decodeCurve (JArr js) = those (map decodePoint js)"
| "decodeCurve JNull = Some []"
| "decodeCurve _ = None"

fun parseCurve :: "any \<Rightarrow> ParamError + PricePoint list" where
  "parseCurve (ACurve ps) = Inr ps"
| "parseCurve v =
     (case toJson v of
        None \<Rightarrow> Inl CurveDecode
      | Some j \<Rightarrow> (case decodeCurve j of None \<Rightarrow> Inl CurveDecode | Some ps \<Rightarrow> if ps = [] then Inl CurveDecode else Inr ps))"

fun curvePoints :: "nat \<Rightarrow> PricePoint option \<Rightarrow> PricePoint list \<Rightarrow> ParamError option" where
  "curvePoints i prev [] = None"
| "curvePoints i prev (p # ps) =
     (if \<not> finite64 (pp_Price p) \<or> pp_Price p \<le> 0 \<or> \<not> finite64 (pp_TargetInventory p) \<or> pp_TargetInventory p < 0
      then Some (CurvePoint i)
      else if (case prev of None \<Rightarrow> False | Some q \<Rightarrow> pp_Price p \<le> pp_Price q \<or> pp_TargetInventory q < pp_TargetInventory p)
      then Some CurveOrder
      else curvePoints (Suc i) (Some p) ps)"

section \<open>Decoding against the schema\<close>

definition buildParam :: "string \<Rightarrow> Param \<Rightarrow> any option \<Rightarrow> ParamError + any option" where
  "buildParam tname p v =
     (case v of
        None \<Rightarrow> if pm_Required p then Inl (ParamRequired tname (pm_Name p)) else Inr (Some (pm_Default p))
      | Some v \<Rightarrow>
          if v = ANil then (if pm_Required p then Inl (ParamRequired tname (pm_Name p)) else Inr (Some (pm_Default p)))
          else if pm_Type p = ''curve'' then (case parseCurve v of Inl err \<Rightarrow> Inl err | Inr _ \<Rightarrow> Inr (Some v))
          else if pm_Type p = ''number'' then
            (case asNumber (pm_Name p) v of
               Inl err \<Rightarrow> Inl err
             | Inr f \<Rightarrow> if f < pm_Min p \<or> pm_Max p < f then Inl (OutOfRange (pm_Name p) f) else Inr (Some (AFloat f)))
          else if pm_Type p = ''choice'' then
            (case v of AStr s \<Rightarrow> if s \<in> set (pm_Allowed p) then Inr (Some (AStr s)) else Inl (NotChoice (pm_Name p))
             | _ \<Rightarrow> Inl (NotChoice (pm_Name p)))
          else Inr None)"

fun buildAll :: "string \<Rightarrow> any gomap \<Rightarrow> Param list \<Rightarrow> any gomap \<Rightarrow> ParamError + any gomap" where
  "buildAll tname params [] out = Inr out"
| "buildAll tname params (p # ps) out =
     (case buildParam tname p (map_of params (pm_Name p)) of
        Inl err \<Rightarrow> Inl err
      | Inr None \<Rightarrow> buildAll tname params ps out
      | Inr (Some v) \<Rightarrow> buildAll tname params ps (map_put (pm_Name p) v out))"

definition buildParams :: "Template \<Rightarrow> any gomap \<Rightarrow> ParamError + any gomap" where
  "buildParams t params =
     (case List.find (\<lambda>kv. fst kv \<notin> pm_Name ` set (tm_Params t)) params of
        Some kv \<Rightarrow> Inl (UnknownParam (tm_Name t) (fst kv))
      | None \<Rightarrow> buildAll (tm_Name t) params (tm_Params t) [])"

section \<open>Reading old parameters\<close>

definition unwrapParams :: "any gomap \<Rightarrow> ParamError + any gomap" where
  "unwrapParams params =
     (case map_of params ''strategy'' of
        None \<Rightarrow> Inr params
      | Some raw \<Rightarrow>
          if raw \<noteq> AStr ''wheel'' then Inl UnknownTemplate
          else (case map_of params ''params'' of
                  None \<Rightarrow> Inr (map_delete ''strategy'' params)
                | Some (AObj out) \<Rightarrow> Inr out
                | Some _ \<Rightarrow> Inl ParamsNotObject))"

record migrationAudit =
  ma_lossy :: bool
  ma_warnings :: "string list"
  ma_originalCurve :: "json option"
  ma_priceCurve :: "PricePoint list"

fun decodeStrings :: "json \<Rightarrow> string list option" where
  "decodeStrings (JArr js) = those (map (\<lambda>j. case j of JStr s \<Rightarrow> Some s | JNull \<Rightarrow> Some [] | _ \<Rightarrow> None) js)"
| "decodeStrings JNull = Some []"
| "decodeStrings _ = None"

text \<open>Each step takes its keys out of the parameters and into the audit.\<close>

type_synonym migration = "any gomap \<times> migrationAudit"

definition takeLossy :: "migration \<Rightarrow> ParamError + migration" where
  "takeLossy m =
     (case map_of (fst m) ''migration_lossy'' of
        None \<Rightarrow> Inr m
      | Some (ABool b) \<Rightarrow> Inr (map_delete ''migration_lossy'' (fst m), (snd m)\<lparr>ma_lossy := b\<rparr>)
      | Some _ \<Rightarrow> Inl (NotBoolean ''migration_lossy''))"

definition takeOriginalCurve :: "migration \<Rightarrow> ParamError + migration" where
  "takeOriginalCurve m =
     (case map_of (fst m) ''migration_original_price_position_curve'' of
        None \<Rightarrow> Inr m
      | Some raw \<Rightarrow>
          (case toJson raw of
             None \<Rightarrow> Inl (BadAudit ''migration curve audit'')
           | Some encoded \<Rightarrow> Inr (map_delete ''migration_original_price_position_curve'' (fst m), (snd m)\<lparr>ma_originalCurve := Some encoded\<rparr>)))"

definition takeWarnings :: "migration \<Rightarrow> ParamError + migration" where
  "takeWarnings m =
     (case map_of (fst m) ''migration_warnings'' of
        None \<Rightarrow> Inr m
      | Some raw \<Rightarrow>
          (case toJson raw of
             None \<Rightarrow> Inl (BadAudit ''migration_warnings'')
           | Some encoded \<Rightarrow>
               (case decodeStrings encoded of
                  None \<Rightarrow> Inl (BadAudit ''migration_warnings'')
                | Some ws \<Rightarrow> Inr (map_delete ''migration_warnings'' (fst m), (snd m)\<lparr>ma_warnings := ws\<rparr>))))"

definition put_absent :: "string \<Rightarrow> any \<Rightarrow> any gomap \<Rightarrow> any gomap" where
  "put_absent k v m = (if map_of m k = None then map_put k v m else m)"

definition takeCurve :: "migration \<Rightarrow> ParamError + migration" where
  "takeCurve m =
     (case map_of (fst m) ''price_position_curve'' of
        None \<Rightarrow> Inr m
      | Some rawCurve \<Rightarrow>
          (case parseCurve rawCurve of
             Inl err \<Rightarrow> Inl err
           | Inr curve \<Rightarrow>
               if length curve < 2 then Inl CurveTooShort
               else case curvePoints 0 None curve of
                 Some err \<Rightarrow> Inl err
               | None \<Rightarrow>
                   (let out = put_absent ''full_position_price'' (AFloat (pp_Price (hd curve))) (fst m);
                        out = put_absent ''zero_position_price'' (AFloat (pp_Price (last curve))) out
                    in Inr (map_delete ''price_position_curve'' out, (snd m)\<lparr>ma_priceCurve := curve\<rparr>))))"

definition takeGap :: "any gomap \<Rightarrow> any gomap" where
  "takeGap out =
     (case map_of out ''no_trade_gap'' of
        None \<Rightarrow> out
      | Some rawGap \<Rightarrow> map_delete ''no_trade_gap'' (put_absent ''trade_gap'' rawGap out))"

definition ignoreLegacy :: "migration \<Rightarrow> string \<Rightarrow> migration" where
  "ignoreLegacy m key =
     (if map_of (fst m) key = None then m
      else (map_delete key (fst m), (snd m)\<lparr>ma_warnings := ma_warnings (snd m) @ [''ignored legacy parameter: '' @ key]\<rparr>))"

definition bindr :: "'e + 'a \<Rightarrow> ('a \<Rightarrow> 'e + 'b) \<Rightarrow> 'e + 'b" where
  "bindr r f = (case r of Inl e \<Rightarrow> Inl e | Inr x \<Rightarrow> f x)"

definition normalizeLegacyParams :: "any gomap \<Rightarrow> ParamError + migration" where
  "normalizeLegacyParams params =
     bindr (takeLossy (params, \<lparr>ma_lossy = False, ma_warnings = [], ma_originalCurve = None, ma_priceCurve = []\<rparr>)) (\<lambda>m.
     bindr (takeOriginalCurve m) (\<lambda>m.
     bindr (takeWarnings m) (\<lambda>m.
     bindr (takeCurve (map_delete ''migration_warning_count'' (fst m), snd m)) (\<lambda>m.
     Inr (foldl ignoreLegacy (takeGap (fst m), snd m) [''max_daily_orders'', ''extreme_max_daily_orders'', ''lot_size''])))))"

section \<open>Configurations\<close>

definition numberAt :: "any gomap \<Rightarrow> string \<Rightarrow> ParamError + f64" where
  "numberAt values name = asNumber name (map_get ANil values name)"

definition intAt :: "any gomap \<Rightarrow> string \<Rightarrow> ParamError + int" where
  "intAt values name = asInt name (map_get ANil values name)"

definition stateAt :: "any gomap \<Rightarrow> ParamError + string" where
  "stateAt values = (case map_get ANil values ''strategic_state'' of AStr s \<Rightarrow> Inr s | _ \<Rightarrow> Inl (NotChoice ''strategic_state''))"

definition readConfig :: "any gomap \<Rightarrow> migrationAudit \<Rightarrow> ParamError + Config" where
  "readConfig values audit =
     bindr (numberAt values ''full_position_price'') (\<lambda>fullPrice.
     bindr (numberAt values ''zero_position_price'') (\<lambda>zeroPrice.
     bindr (numberAt values ''max_inventory'') (\<lambda>maxInventory.
     bindr (numberAt values ''move_interval_pct'') (\<lambda>moveInterval.
     bindr (numberAt values ''min_premium_per_share'') (\<lambda>minPremium.
     bindr (numberAt values ''min_option_profit'') (\<lambda>minOptionProfit.
     bindr (numberAt values ''stock_switch_pct'') (\<lambda>stockSwitch.
     bindr (numberAt values ''covered_call_pct'') (\<lambda>coveredCallPct.
     bindr (numberAt values ''profit_take_pct'') (\<lambda>profitTakePct.
     bindr (numberAt values ''put_delta_max'') (\<lambda>putDeltaMax.
     bindr (numberAt values ''call_delta_max'') (\<lambda>callDeltaMax.
     bindr (numberAt values ''min_iv_rank'') (\<lambda>minIVRank.
     bindr (numberAt values ''trade_gap'') (\<lambda>tradeGap.
     bindr (intAt values ''min_dte'') (\<lambda>minDTE.
     bindr (intAt values ''max_dte'') (\<lambda>maxDTE.
     bindr (numberAt values ''min_option_quality'') (\<lambda>minQuality.
     bindr (intAt values ''max_quote_age_seconds'') (\<lambda>maxQuoteAge.
     bindr (stateAt values) (\<lambda>state.
       Inr \<lparr>cfg_Strategy = ''wheel'', cfg_PricePositionCurve = ma_priceCurve audit, cfg_FullPositionPrice = fullPrice,
            cfg_ZeroPositionPrice = zeroPrice, cfg_MaxInventory = maxInventory, cfg_MoveIntervalPct = moveInterval,
            cfg_MinPremiumPerShare = minPremium, cfg_MinOptionProfit = minOptionProfit, cfg_StockSwitchPct = stockSwitch,
            cfg_CoveredCallPct = coveredCallPct, cfg_ProfitTakePct = profitTakePct, cfg_PutDeltaMax = putDeltaMax,
            cfg_CallDeltaMax = callDeltaMax, cfg_MinIVRank = minIVRank, cfg_TradeGap = tradeGap, cfg_MinOptionQuality = minQuality,
            cfg_MinDTE = minDTE, cfg_MaxDTE = maxDTE, cfg_StrategicState = state, cfg_MigrationLossy = ma_lossy audit,
            cfg_MigrationWarningCount = int (length (ma_warnings audit)), cfg_MigrationWarnings = ma_warnings audit,
            cfg_MigrationOriginalCurve = ma_originalCurve audit, cfg_MaxQuoteAgeSeconds = maxQuoteAge, cfg_Calendar = None\<rparr>))))))))))))))))))"

text \<open>A nil map of parameters is \<open>None\<close>.\<close>

definition ParseConfig :: "any gomap option \<Rightarrow> ParamError + Config" where
  "ParseConfig params =
     (case params of
        None \<Rightarrow> Inl ParamsMissing
      | Some params \<Rightarrow>
          bindr (unwrapParams params) (\<lambda>params.
          bindr (normalizeLegacyParams params) (\<lambda>m.
          bindr (buildParams wheelTemplate (fst m)) (\<lambda>values.
          bindr (readConfig values (snd m)) (\<lambda>cfg.
            case Validate cfg of Some err \<Rightarrow> Inl (ConfigInvalid err) | None \<Rightarrow> Inr cfg)))))"

section \<open>The canonical form\<close>

definition omitEmpty :: "bool \<Rightarrow> string \<Rightarrow> json \<Rightarrow> (string \<times> json) list" where
  "omitEmpty absent key j = (if absent then [] else [(key, j)])"

definition configMembers :: "Config \<Rightarrow> (string \<times> json) list" where
  "configMembers c =
     [(''strategy'', JStr (cfg_Strategy c))]
     @ omitEmpty (cfg_PricePositionCurve c = []) ''price_position_curve'' (JArr (map pointJson (cfg_PricePositionCurve c)))
     @ [(''full_position_price'', JNum (cfg_FullPositionPrice c)), (''zero_position_price'', JNum (cfg_ZeroPositionPrice c)),
        (''max_inventory'', JNum (cfg_MaxInventory c)), (''move_interval_pct'', JNum (cfg_MoveIntervalPct c)),
        (''min_premium_per_share'', JNum (cfg_MinPremiumPerShare c)), (''min_option_profit'', JNum (cfg_MinOptionProfit c)),
        (''stock_switch_pct'', JNum (cfg_StockSwitchPct c)), (''covered_call_pct'', JNum (cfg_CoveredCallPct c))]
     @ omitEmpty (feq (cfg_ProfitTakePct c) 0) ''profit_take_pct'' (JNum (cfg_ProfitTakePct c))
     @ omitEmpty (feq (cfg_PutDeltaMax c) 0) ''put_delta_max'' (JNum (cfg_PutDeltaMax c))
     @ omitEmpty (feq (cfg_CallDeltaMax c) 0) ''call_delta_max'' (JNum (cfg_CallDeltaMax c))
     @ omitEmpty (feq (cfg_MinIVRank c) 0) ''min_iv_rank'' (JNum (cfg_MinIVRank c))
     @ [(''trade_gap'', JNum (cfg_TradeGap c)), (''min_option_quality'', JNum (cfg_MinOptionQuality c)),
        (''min_dte'', JNum (of_int64 (cfg_MinDTE c))), (''max_dte'', JNum (of_int64 (cfg_MaxDTE c))),
        (''strategic_state'', JStr (cfg_StrategicState c))]
     @ omitEmpty (\<not> cfg_MigrationLossy c) ''migration_lossy'' (JBool (cfg_MigrationLossy c))
     @ omitEmpty (cfg_MigrationWarningCount c = 0) ''migration_warning_count'' (JNum (of_int64 (cfg_MigrationWarningCount c)))
     @ omitEmpty (cfg_MigrationWarnings c = []) ''migration_warnings'' (JArr (map JStr (cfg_MigrationWarnings c)))
     @ omitEmpty (cfg_MigrationOriginalCurve c = None) ''migration_original_price_position_curve'' (the (cfg_MigrationOriginalCurve c))
     @ omitEmpty (cfg_MaxQuoteAgeSeconds c = 0) ''max_quote_age_seconds'' (JNum (of_int64 (cfg_MaxQuoteAgeSeconds c)))"

text \<open>The encoder fails on a number that is not finite.\<close>

definition marshalConfig :: "Config \<Rightarrow> json option" where
  "marshalConfig c =
     (if list_all finite64 [cfg_FullPositionPrice c, cfg_ZeroPositionPrice c, cfg_MaxInventory c, cfg_MoveIntervalPct c,
           cfg_MinPremiumPerShare c, cfg_MinOptionProfit c, cfg_StockSwitchPct c, cfg_CoveredCallPct c, cfg_ProfitTakePct c,
           cfg_PutDeltaMax c, cfg_CallDeltaMax c, cfg_MinIVRank c, cfg_TradeGap c, cfg_MinOptionQuality c]
         \<and> list_all finitePoint (cfg_PricePositionCurve c)
      then Some (JObj (configMembers c)) else None)"

definition CanonicalParams :: "any gomap option \<Rightarrow> ParamError + any gomap" where
  "CanonicalParams params =
     bindr (ParseConfig params) (\<lambda>cfg.
       case map_option fromJson (marshalConfig cfg) of
         Some (AObj out) \<Rightarrow>
           (let out = map_delete ''strategy'' out
            in Inr (if cfg_PricePositionCurve cfg \<noteq> []
                    then map_delete ''zero_position_price'' (map_delete ''full_position_price'' out) else out))
       | _ \<Rightarrow> Inl CanonicalEncode)"

section \<open>Validation and construction\<close>

definition strategy_Validate :: "string \<Rightarrow> any gomap option \<Rightarrow> ParamError option" where
  "strategy_Validate name params =
     (case Lookup name of
        None \<Rightarrow> Some UnknownTemplate
      | Some t \<Rightarrow>
          if name = ''llm'' then
            (case bindr (buildParams t (case params of None \<Rightarrow> [] | Some m \<Rightarrow> m)) (\<lambda>values.
                  bindr (intAt values ''min_dte'') (\<lambda>minDTE.
                  bindr (intAt values ''max_dte'') (\<lambda>maxDTE. if maxDTE < minDTE then Inl DTEOrder else Inr ()))) of
               Inl err \<Rightarrow> Some err
             | Inr _ \<Rightarrow> None)
          else (case ParseConfig params of Inl err \<Rightarrow> Some err | Inr _ \<Rightarrow> None))"

definition ValidateConfig :: "Config \<Rightarrow> string option" where
  "ValidateConfig cfg = Validate cfg"

definition Factory :: "string \<Rightarrow> any gomap option \<Rightarrow> ParamError + WheelStrategy" where
  "Factory name params =
     (if Lookup name = None then Inl UnknownTemplate
      else bindr (ParseConfig params) (\<lambda>cfg.
        Inr \<lparr>ws_Config = cfg, ws_LastSignal = zero_signal, ws_TraceCandidates = False, ws_seenFillCount = 0, ws_prevBarClose = 0,
             ws_lastFillPrice = 0\<rparr>))"

end
