(* ===== verification/Strategy_Roundtrip.thy ===== *)
theory Strategy_Roundtrip
  imports Strategy_Params
begin

text \<open>
  What the parameter boundary guarantees: a parsed configuration is valid, and the canonical form
  that is persisted reads back as the same configuration.
\<close>

section \<open>JSON there and back\<close>

fun json_wf :: "json \<Rightarrow> bool" where
  "json_wf (JNum x) \<longleftrightarrow> finite64 x"
| "json_wf (JArr js) \<longleftrightarrow> list_all json_wf js"
| "json_wf (JObj kvs) \<longleftrightarrow> sorted (map fst kvs) \<and> list_all (\<lambda>kv. json_wf (snd kv)) kvs"
| "json_wf _ \<longleftrightarrow> True"

lemma those_Some_iff: "those xs = Some ys \<longleftrightarrow> xs = map Some ys"
proof (induction xs arbitrary: ys)
  case (Cons x xs)
  then show ?case by (cases x; cases ys) auto
qed auto

lemma those_map_Some: "those (map (\<lambda>x. Some (f x)) xs) = Some (map f xs)"
  by (simp add: those_Some_iff)

lemma those_map_cong: "(\<And>x. x \<in> set xs \<Longrightarrow> f x = Some (g x)) \<Longrightarrow> those (map f xs) = Some (map g xs)"
  by (induction xs) auto

lemma toJson_fromJson: "json_wf j \<Longrightarrow> toJson (fromJson j) = Some j"
proof (induction j rule: fromJson.induct)
  case (5 js)
  then have "those (map (\<lambda>j. toJson (fromJson j)) js) = Some (map id js)"
    by (intro those_map_cong) (auto simp: list_all_iff)
  then show ?case by (simp add: comp_def)
next
  case (6 kvs)
  then have "those (map (\<lambda>kv. toJson (fromJson (snd kv))) kvs) = Some (map snd kvs)"
    by (intro those_map_cong) (auto simp: list_all_iff)
  moreover have "sort_key fst (zip (map fst kvs) (map snd kvs)) = kvs"
    using 6(2) by (simp add: zip_map_fst_snd sort_key_id_if_sorted)
  ultimately show ?case by (simp add: comp_def)
qed auto

lemma pointJson_wf: "finitePoint p \<Longrightarrow> json_wf (pointJson p)"
  by (simp add: pointJson_def finitePoint_def)

lemma set_sort_zip: "length xs = length ys \<Longrightarrow> snd ` set (sort_key fst (zip xs ys)) = set ys"
  by (simp add: set_zip_rightD) (metis map_snd_zip set_map)

lemma toJson_wf: "toJson v = Some j \<Longrightarrow> json_wf j"
proof (induction v arbitrary: j rule: toJson.induct)
  case (7 vs)
  then obtain js where js: "j = JArr js" "map toJson vs = map Some js" by (auto simp: those_Some_iff)
  have "json_wf x" if "x \<in> set js" for x
  proof -
    have "Some x \<in> set (map toJson vs)" using that js(2) by simp
    then show ?thesis using 7(1) by auto
  qed
  then show ?case by (simp add: js(1) list_all_iff)
next
  case (8 kvs)
  then obtain js where js: "j = JObj (sort_key fst (zip (map fst kvs) js))" "map (\<lambda>kv. toJson (snd kv)) kvs = map Some js"
    by (auto simp: those_Some_iff)
  have len: "length (map fst kvs) = length js" using arg_cong [OF js(2), of length] by simp
  have "json_wf x" if "x \<in> set js" for x
  proof -
    have "Some x \<in> set (map (\<lambda>kv. toJson (snd kv)) kvs)" using that js(2) by simp
    then show ?thesis using 8(1) by auto
  qed
  then have "\<forall>y \<in> snd ` set (sort_key fst (zip (map fst kvs) js)). json_wf y" using set_sort_zip [OF len] by simp
  then show ?case by (simp add: js(1) list_all_iff)
next
  case (9 ps)
  then show ?case using pointJson_wf by (auto simp: list_all_iff split: if_splits)
qed (auto simp: Let_def split: if_splits option.splits)

lemma decodePoint_pointJson: "decodePoint (pointJson p) = Some p"
  by (simp add: pointJson_def decodeMember_def equal_fold_def to_lower_def char_lower_def)

lemma parseCurve_points:
  assumes "ps \<noteq> []" "list_all finitePoint ps"
  shows "parseCurve (fromJson (JArr (map pointJson ps))) = Inr ps"
proof -
  have "toJson (fromJson (JArr (map pointJson ps))) = Some (JArr (map pointJson ps))"
    using assms(2) pointJson_wf by (intro toJson_fromJson) (auto simp: list_all_iff)
  moreover have "decodeCurve (JArr (map pointJson ps)) = Some ps"
    by (simp add: comp_def decodePoint_pointJson those_map_Some)
  ultimately show ?thesis using assms(1) by (simp del: toJson.simps)
qed

lemma decodeStrings_JStr: "decodeStrings (JArr (map JStr ws)) = Some ws"
  by (simp add: comp_def those_map_Some)

section \<open>Schema decoding\<close>

definition typed :: "Param \<Rightarrow> bool" where
  "typed p \<longleftrightarrow> pm_Type p = ''number'' \<or> pm_Type p = ''choice''"

text \<open>The default of an optional parameter is itself a value the schema accepts.\<close>

definition default_ok :: "Param \<Rightarrow> bool" where
  "default_ok p \<longleftrightarrow> pm_Required p \<or> (pm_Default p \<noteq> ANil \<and> buildParam [] p (Some (pm_Default p)) = Inr (Some (pm_Default p)))"

lemma buildParam_tname:
  "buildParam t p v = Inr r \<longleftrightarrow> buildParam t' p v = Inr r"
  by (auto simp: buildParam_def split: option.split if_splits)

lemma buildParam_typed:
  assumes "typed p" "default_ok p" "buildParam t p v = Inr r"
  obtains x where "r = Some x" "x \<noteq> ANil" "buildParam t p (Some x) = Inr (Some x)"
proof (cases "v = None \<or> v = Some ANil")
  case True
  then have "r = Some (pm_Default p)" "\<not> pm_Required p" using assms(3) by (auto simp: buildParam_def split: if_splits)
  then show thesis using that assms(2) buildParam_tname [of "[]" p _ _ t] by (auto simp: default_ok_def)
next
  case False
  then obtain w where v: "v = Some w" "w \<noteq> ANil" by auto
  show thesis
  proof (cases "pm_Type p = ''number''")
    case True
    then obtain f where "asNumber (pm_Name p) w = Inr f" "r = Some (AFloat f)" "\<not> (f < pm_Min p \<or> pm_Max p < f)"
      using assms(3) v by (auto simp: buildParam_def split: sum.splits if_splits)
    moreover have "finite64 f" using calculation(1) by (cases w) (auto simp: numberOf_def split: if_splits option.splits)
    ultimately show thesis using True by (intro that [of "AFloat f"]) (simp_all add: buildParam_def numberOf_def)
  next
    case False
    then have c: "pm_Type p = ''choice''" using assms(1) by (simp add: typed_def)
    then obtain s where "r = Some (AStr s)" "s \<in> set (pm_Allowed p)"
      using assms(3) v by (auto simp: buildParam_def split: any.splits if_splits)
    then show thesis using c by (intro that [of "AStr s"]) (simp_all add: buildParam_def)
  qed
qed

lemma buildAll_Inr:
  assumes "distinct (map pm_Name ps)" "\<forall>p \<in> set ps. typed p \<and> default_ok p" "buildAll t params ps out = Inr values"
  shows "(\<forall>p \<in> set ps. \<exists>v. buildParam t p (map_of params (pm_Name p)) = Inr (Some v) \<and> map_of values (pm_Name p) = Some v)
    \<and> (\<forall>k. k \<notin> pm_Name ` set ps \<longrightarrow> map_of values k = map_of out k)"
  using assms
proof (induction ps arbitrary: out)
  case (Cons p ps)
  obtain r where r: "buildParam t p (map_of params (pm_Name p)) = Inr r" using Cons.prems(3) by (auto split: sum.splits)
  obtain x where x: "r = Some x" by (rule buildParam_typed [OF _ _ r]) (use Cons.prems(2) in auto)
  have "buildAll t params ps (map_put (pm_Name p) x out) = Inr values" using Cons.prems(3) r x by simp
  then show ?case using Cons r x by (auto simp: map_of_map_put)
qed simp

lemma buildAll_total:
  assumes "\<forall>p \<in> set ps. \<exists>v. buildParam t p (map_of params (pm_Name p)) = Inr (Some v)"
  shows "\<exists>values. buildAll t params ps out = Inr values"
  using assms by (induction ps arbitrary: out) auto

abbreviation wheel_names :: "string set" where
  "wheel_names \<equiv> pm_Name ` set (tm_Params wheelTemplate)"

lemma below_MaxFloat64: "r \<le> 2 ^ 64 \<Longrightarrow> \<not> MaxFloat64 < Fin r"
proof -
  have "(2 :: rat) ^ 64 \<le> 2 ^ 971 * (2 ^ 53 - 1)"
    using mult_mono [of "(2 :: rat) ^ 64" "2 ^ 971" 1 "2 ^ 53 - 1"] power_increasing [of 64 971 "2 :: rat"] by simp
  also have "\<dots> = 2 ^ 1024 - 2 ^ 971" by (simp add: right_diff_distrib flip: power_add)
  finally show "r \<le> 2 ^ 64 \<Longrightarrow> \<not> MaxFloat64 < Fin r" unfolding MaxFloat64_def by (simp del: power_numeral)
qed

lemma numberParam_ok:
  assumes "finite64 d" "\<not> d < lo" "\<not> hi < d"
  shows "typed (numberParam name d lo hi) \<and> default_ok (numberParam name d lo hi)"
  using assms by (simp add: typed_def default_ok_def numberParam_def buildParam_def numberOf_def)

lemma requiredNumber_ok: "typed (requiredNumber name) \<and> default_ok (requiredNumber name)"
  by (simp add: typed_def default_ok_def requiredNumber_def)

lemma wheel_defaults:
  "finite64 DefaultMinOptionProfit" "\<not> DefaultMinOptionProfit < 0" "\<not> MaxFloat64 < DefaultMinOptionProfit"
  "finite64 DefaultCoveredCallPct" "\<not> DefaultCoveredCallPct < 0" "\<not> Fin 1 < DefaultCoveredCallPct"
  "finite64 (lit (3 / 5))" "\<not> lit (3 / 5) < 0" "\<not> Fin 1 < lit (3 / 5)" "\<not> lit (4 / 5) < 0"
  "finite64 (0 :: f64)" "\<not> (0 :: f64) < 0" "\<not> MaxFloat64 < 0" "\<not> Fin 1 < 0" "\<not> MaxFloat64 < Fin 50" "\<not> MaxFloat64 < Fin 86400"
  "finite64 (Fin r)" "\<not> Fin 50 < 0" "\<not> Fin 86400 < Fin 1"
  "\<not> Fin 5 < of_int64 MinWheelDTE" "\<not> of_int64 MaxWheelDTE < Fin 5" "\<not> Fin 10 < of_int64 MinWheelDTE" "\<not> of_int64 MaxWheelDTE < Fin 10"
proof -
  show "\<not> MaxFloat64 < DefaultMinOptionProfit" "\<not> MaxFloat64 < 0" "\<not> MaxFloat64 < Fin 50" "\<not> MaxFloat64 < Fin 86400"
    unfolding DefaultMinOptionProfit_def zero_f64_def by (rule below_MaxFloat64, simp)+
qed (code_simp, code_simp, code_simp, code_simp, code_simp, code_simp, code_simp, code_simp, code_simp, code_simp, code_simp, code_simp,
    simp, code_simp, code_simp, code_simp, code_simp, code_simp, code_simp)

lemma wheel_schema:
  "distinct (map pm_Name (tm_Params wheelTemplate))" "\<forall>p \<in> set (tm_Params wheelTemplate). typed p \<and> default_ok p"
proof -
  show "distinct (map pm_Name (tm_Params wheelTemplate))" by (simp add: wheelTemplate_def numberParam_def requiredNumber_def)
  have "typed p \<and> default_ok p" if "pm_Type p = ''choice''" "pm_Default p = AStr s" "s \<in> set (pm_Allowed p)" for p s
    using that by (simp add: typed_def default_ok_def buildParam_def)
  then show "\<forall>p \<in> set (tm_Params wheelTemplate). typed p \<and> default_ok p"
    by (simp add: wheelTemplate_def numberParam_ok requiredNumber_ok wheel_defaults)
qed

text \<open>Two parameter maps whose entries the schema reads alike give the same values.\<close>

lemma buildParams_values:
  assumes "buildParams wheelTemplate params = Inr values" "k \<in> wheel_names"
  obtains p v where "p \<in> set (tm_Params wheelTemplate)" "pm_Name p = k" "map_of values k = Some v" "v \<noteq> ANil"
    "buildParam (tm_Name wheelTemplate) p (Some v) = Inr (Some v)" "buildParam (tm_Name wheelTemplate) p (map_of params k) = Inr (Some v)"
proof -
  obtain p where p: "p \<in> set (tm_Params wheelTemplate)" "pm_Name p = k" using assms(2) by auto
  have "buildAll (tm_Name wheelTemplate) params (tm_Params wheelTemplate) [] = Inr values"
    using assms(1) by (simp add: buildParams_def split: option.splits)
  from buildAll_Inr [OF wheel_schema this] p obtain v where
    v: "buildParam (tm_Name wheelTemplate) p (map_of params k) = Inr (Some v)" "map_of values k = Some v" by blast
  obtain x where "Some v = Some x" "x \<noteq> ANil" "buildParam (tm_Name wheelTemplate) p (Some x) = Inr (Some x)"
    by (rule buildParam_typed [OF _ _ v(1)]) (use wheel_schema(2) p in auto)
  then show thesis using that [OF p v(2) _ _ v(1)] by simp
qed

lemma buildParams_again:
  assumes "buildParams wheelTemplate params = Inr values" "fst ` set params' \<subseteq> wheel_names"
    "\<And>p. p \<in> set (tm_Params wheelTemplate) \<Longrightarrow>
       \<exists>v. buildParam (tm_Name wheelTemplate) p (map_of params' (pm_Name p)) = Inr (Some v) \<and> target (pm_Name p) = Some v"
  shows "\<exists>values'. buildParams wheelTemplate params' = Inr values' \<and> (\<forall>k \<in> wheel_names. map_of values' k = target k)"
proof -
  have known: "List.find (\<lambda>kv. fst kv \<notin> wheel_names) params' = None"
    using assms(2) by (auto simp: find_None_iff)
  obtain values' where v: "buildAll (tm_Name wheelTemplate) params' (tm_Params wheelTemplate) [] = Inr values'"
    using buildAll_total assms(3) by meson
  have "map_of values' k = target k" if "k \<in> wheel_names" for k
    using buildAll_Inr [OF wheel_schema v] assms(3) that by fastforce
  then show ?thesis using v known by (auto simp: buildParams_def)
qed

section \<open>Reading a configuration\<close>

lemma bindr_Inr: "bindr r f = Inr x \<longleftrightarrow> (\<exists>y. r = Inr y \<and> f y = Inr x)"
  by (cases r) (simp_all add: bindr_def)

lemma bindr_simps [simp]: "bindr (Inr y) f = f y" "bindr (Inl e) f = Inl e"
  by (simp_all add: bindr_def)

lemma wheel_names_eq:
  "wheel_names = {''full_position_price'', ''zero_position_price'', ''max_inventory'', ''move_interval_pct'', ''min_premium_per_share'',
     ''min_option_profit'', ''stock_switch_pct'', ''covered_call_pct'', ''profit_take_pct'', ''put_delta_max'', ''call_delta_max'',
     ''min_iv_rank'', ''trade_gap'', ''min_dte'', ''max_dte'', ''min_option_quality'', ''max_quote_age_seconds'', ''strategic_state''}"
  by (simp add: wheelTemplate_def numberParam_def requiredNumber_def)

lemma wheel_types:
  assumes "p \<in> set (tm_Params wheelTemplate)"
  shows "pm_Name p \<noteq> ''strategic_state'' \<Longrightarrow> pm_Type p = ''number''"
    "pm_Name p = ''strategic_state'' \<Longrightarrow> pm_Type p = ''choice''"
    "pm_Name p \<in> {''profit_take_pct'', ''put_delta_max'', ''call_delta_max'', ''min_iv_rank''} \<Longrightarrow> \<not> pm_Required p \<and> pm_Default p = AFloat 0"
  using assms by (auto simp: wheelTemplate_def numberParam_def requiredNumber_def)

lemma values_number:
  assumes "buildParams wheelTemplate params = Inr values" "k \<in> wheel_names" "k \<noteq> ''strategic_state''"
  obtains f where "map_of values k = Some (AFloat f)" "finite64 f"
proof (rule buildParams_values [OF assms(1,2)])
  fix p v assume p: "p \<in> set (tm_Params wheelTemplate)" "pm_Name p = k" "map_of values k = Some v" "v \<noteq> ANil"
    "buildParam (tm_Name wheelTemplate) p (Some v) = Inr (Some v)"
  have "pm_Type p = ''number''" using wheel_types(1) [OF p(1)] p(2) assms(3) by simp
  then obtain f where f: "asNumber (pm_Name p) v = Inr f" "v = AFloat f" using p(4,5) by (auto simp: buildParam_def split: sum.splits if_splits)
  moreover have "finite64 f" using f by (simp add: numberOf_def split: if_splits)
  ultimately show thesis using that p(3) by simp
qed

lemma values_state:
  assumes "buildParams wheelTemplate params = Inr values"
  obtains s where "map_of values ''strategic_state'' = Some (AStr s)"
proof (rule buildParams_values [OF assms, of "''strategic_state''"])
  fix p v assume p: "p \<in> set (tm_Params wheelTemplate)" "pm_Name p = ''strategic_state''" "map_of values ''strategic_state'' = Some v"
    "v \<noteq> ANil" "buildParam (tm_Name wheelTemplate) p (Some v) = Inr (Some v)"
  then show thesis using that wheel_types(2) [OF p(1,2)] by (auto simp: buildParam_def split: any.splits if_splits)
qed (simp add: wheel_names_eq)

text \<open>The value of a number parameter is the field that is read from it.\<close>

lemma numberAt_value:
  assumes "buildParams wheelTemplate params = Inr values" "numberAt values k = Inr x" "k \<in> wheel_names" "k \<noteq> ''strategic_state''"
  shows "map_of values k = Some (AFloat x)"
  by (rule values_number [OF assms(1,3,4)]) (use assms(2) in \<open>simp add: numberAt_def map_get_def numberOf_def\<close>)

lemma asInt_exact:
  assumes "asInt name (AFloat f) = Inr n" "0 < n" "n \<le> 2 ^ 53"
  shows "f = of_int64 n"
proof -
  have f: "finite64 f" "feq (ftrunc f) f" "n = int_of_f64 f"
    using assms(1) by (auto simp: asInt_def numberOf_def split: if_splits)
  obtain r where r: "f = Fin r" using f(1) finite64_iff by blast
  define k where "k = (if 0 \<le> r then \<lfloor>r\<rfloor> else \<lceil>r\<rceil>)"
  have k: "r = of_int k" using f(2) by (simp add: r feq_def k_def)
  have "n = k" using f(3) assms(2) by (simp add: r Let_def flip: k_def split: if_splits)
  then show ?thesis using of_int64_exact [of n] assms(2,3) by (simp add: r k)
qed

lemma intAt_value:
  assumes "buildParams wheelTemplate params = Inr values" "intAt values k = Inr n" "k \<in> wheel_names" "k \<noteq> ''strategic_state''"
    "0 < n" "n \<le> 2 ^ 53"
  shows "map_of values k = Some (AFloat (of_int64 n))"
  by (rule values_number [OF assms(1,3,4)]) (use assms(2,5,6) asInt_exact in \<open>auto simp: intAt_def map_get_def\<close>)

lemma stateAt_value:
  assumes "buildParams wheelTemplate params = Inr values" "stateAt values = Inr s"
  shows "map_of values ''strategic_state'' = Some (AStr s)"
  by (rule values_state [OF assms(1)]) (use assms(2) in \<open>simp add: stateAt_def map_get_def\<close>)

lemma readConfig_Inr:
  assumes "readConfig values audit = Inr cfg"
  shows "numberAt values ''full_position_price'' = Inr (cfg_FullPositionPrice cfg)" "numberAt values ''zero_position_price'' = Inr (cfg_ZeroPositionPrice cfg)"
    "numberAt values ''max_inventory'' = Inr (cfg_MaxInventory cfg)" "numberAt values ''move_interval_pct'' = Inr (cfg_MoveIntervalPct cfg)"
    "numberAt values ''min_premium_per_share'' = Inr (cfg_MinPremiumPerShare cfg)" "numberAt values ''min_option_profit'' = Inr (cfg_MinOptionProfit cfg)"
    "numberAt values ''stock_switch_pct'' = Inr (cfg_StockSwitchPct cfg)" "numberAt values ''covered_call_pct'' = Inr (cfg_CoveredCallPct cfg)"
    "numberAt values ''profit_take_pct'' = Inr (cfg_ProfitTakePct cfg)" "numberAt values ''put_delta_max'' = Inr (cfg_PutDeltaMax cfg)"
    "numberAt values ''call_delta_max'' = Inr (cfg_CallDeltaMax cfg)" "numberAt values ''min_iv_rank'' = Inr (cfg_MinIVRank cfg)"
    "numberAt values ''trade_gap'' = Inr (cfg_TradeGap cfg)" "numberAt values ''min_option_quality'' = Inr (cfg_MinOptionQuality cfg)"
    "intAt values ''min_dte'' = Inr (cfg_MinDTE cfg)" "intAt values ''max_dte'' = Inr (cfg_MaxDTE cfg)"
    "intAt values ''max_quote_age_seconds'' = Inr (cfg_MaxQuoteAgeSeconds cfg)" "stateAt values = Inr (cfg_StrategicState cfg)"
    "cfg_Strategy cfg = ''wheel''" "cfg_PricePositionCurve cfg = ma_priceCurve audit" "cfg_MigrationLossy cfg = ma_lossy audit"
    "cfg_MigrationWarnings cfg = ma_warnings audit" "cfg_MigrationWarningCount cfg = int (length (ma_warnings audit))"
    "cfg_MigrationOriginalCurve cfg = ma_originalCurve audit" "cfg_Calendar cfg = None"
  using assms unfolding readConfig_def bindr_Inr by auto

text \<open>A parsed configuration, step by step.\<close>

lemma ParseConfig_Inr:
  assumes "ParseConfig (Some params) = Inr cfg"
  obtains params' out audit vals where "unwrapParams params = Inr params'" "normalizeLegacyParams params' = Inr (out, audit)"
    "buildParams wheelTemplate out = Inr vals" "readConfig vals audit = Inr cfg" "Validate cfg = None"
  using assms by (auto simp: ParseConfig_def bindr_Inr split: option.splits prod.splits)

section \<open>The canonical map\<close>

definition canonicalOf :: "Config \<Rightarrow> any gomap" where
  "canonicalOf c =
     (let out = map_delete ''strategy'' (map (\<lambda>kv. (fst kv, fromJson (snd kv))) (configMembers c))
      in if cfg_PricePositionCurve c \<noteq> [] then map_delete ''zero_position_price'' (map_delete ''full_position_price'' out) else out)"

lemma CanonicalParams_Inr:
  assumes "CanonicalParams params = Inr out"
  obtains cfg where "ParseConfig params = Inr cfg" "out = canonicalOf cfg" "marshalConfig cfg \<noteq> None"
  using assms by (auto simp: CanonicalParams_def bindr_Inr canonicalOf_def marshalConfig_def Let_def split: if_splits)

lemma fromJson_members: "map_of (map (\<lambda>kv. (fst kv, fromJson (snd kv))) kvs) k = map_option fromJson (map_of kvs k)"
  by (induction kvs) auto

lemma omitEmpty_lookup: "map_of (omitEmpty b key j @ kvs) k = (if \<not> b \<and> k = key then Some j else map_of kvs k)"
  "map_of (omitEmpty b key j) k = (if \<not> b \<and> k = key then Some j else None)"
  by (simp_all add: omitEmpty_def)

lemma members_numbers:
  "map_of (configMembers c) ''full_position_price'' = Some (JNum (cfg_FullPositionPrice c))"
  "map_of (configMembers c) ''zero_position_price'' = Some (JNum (cfg_ZeroPositionPrice c))"
  "map_of (configMembers c) ''max_inventory'' = Some (JNum (cfg_MaxInventory c))"
  "map_of (configMembers c) ''move_interval_pct'' = Some (JNum (cfg_MoveIntervalPct c))"
  "map_of (configMembers c) ''min_premium_per_share'' = Some (JNum (cfg_MinPremiumPerShare c))"
  "map_of (configMembers c) ''min_option_profit'' = Some (JNum (cfg_MinOptionProfit c))"
  "map_of (configMembers c) ''stock_switch_pct'' = Some (JNum (cfg_StockSwitchPct c))"
  "map_of (configMembers c) ''covered_call_pct'' = Some (JNum (cfg_CoveredCallPct c))"
  "map_of (configMembers c) ''trade_gap'' = Some (JNum (cfg_TradeGap c))"
  "map_of (configMembers c) ''min_option_quality'' = Some (JNum (cfg_MinOptionQuality c))"
  "map_of (configMembers c) ''min_dte'' = Some (JNum (of_int64 (cfg_MinDTE c)))"
  "map_of (configMembers c) ''max_dte'' = Some (JNum (of_int64 (cfg_MaxDTE c)))"
  "map_of (configMembers c) ''strategic_state'' = Some (JStr (cfg_StrategicState c))"
  by (simp_all add: configMembers_def omitEmpty_lookup del: map_of_append)

lemma members_optional:
  "map_of (configMembers c) ''profit_take_pct'' = (if feq (cfg_ProfitTakePct c) 0 then None else Some (JNum (cfg_ProfitTakePct c)))"
  "map_of (configMembers c) ''put_delta_max'' = (if feq (cfg_PutDeltaMax c) 0 then None else Some (JNum (cfg_PutDeltaMax c)))"
  "map_of (configMembers c) ''call_delta_max'' = (if feq (cfg_CallDeltaMax c) 0 then None else Some (JNum (cfg_CallDeltaMax c)))"
  "map_of (configMembers c) ''min_iv_rank'' = (if feq (cfg_MinIVRank c) 0 then None else Some (JNum (cfg_MinIVRank c)))"
  "map_of (configMembers c) ''max_quote_age_seconds'' =
     (if cfg_MaxQuoteAgeSeconds c = 0 then None else Some (JNum (of_int64 (cfg_MaxQuoteAgeSeconds c))))"
  by (simp_all add: configMembers_def omitEmpty_lookup del: map_of_append)

lemma members_audit:
  "map_of (configMembers c) ''price_position_curve'' =
     (if cfg_PricePositionCurve c = [] then None else Some (JArr (map pointJson (cfg_PricePositionCurve c))))"
  "map_of (configMembers c) ''migration_lossy'' = (if cfg_MigrationLossy c then Some (JBool True) else None)"
  "map_of (configMembers c) ''migration_warnings'' =
     (if cfg_MigrationWarnings c = [] then None else Some (JArr (map JStr (cfg_MigrationWarnings c))))"
  "map_of (configMembers c) ''migration_original_price_position_curve'' = cfg_MigrationOriginalCurve c"
  "map_of (configMembers c) ''no_trade_gap'' = None" "map_of (configMembers c) ''max_daily_orders'' = None"
  "map_of (configMembers c) ''extreme_max_daily_orders'' = None" "map_of (configMembers c) ''lot_size'' = None"
  by (simp_all add: configMembers_def omitEmpty_lookup del: map_of_append)

lemma members_keys:
  "fst ` set (configMembers c) \<subseteq> wheel_names \<union> {''strategy'', ''price_position_curve'', ''migration_lossy'', ''migration_warning_count'',
     ''migration_warnings'', ''migration_original_price_position_curve''}"
  by (auto simp: configMembers_def omitEmpty_def wheel_names_eq split: if_splits)

lemmas members_lookup = members_numbers members_optional members_audit

lemma map_delete_absent: "map_of m k = None \<Longrightarrow> map_delete k m = m"
  by (induction m) (auto simp: map_delete_def split: if_splits)

lemma keys_map_delete: "fst ` set (map_delete k m) = fst ` set m - {k}"
  by (auto simp: map_delete_def)

lemma canonicalOf_lookup:
  assumes "k \<noteq> ''strategy''"
  shows "map_of (canonicalOf c) k =
    (if cfg_PricePositionCurve c \<noteq> [] \<and> k \<in> {''full_position_price'', ''zero_position_price''} then None
     else map_option fromJson (map_of (configMembers c) k))"
  using assms by (simp add: canonicalOf_def Let_def map_of_delete fromJson_members)

lemma canonicalOf_keys:
  "fst ` set (canonicalOf c) \<subseteq> wheel_names \<union> {''price_position_curve'', ''migration_lossy'', ''migration_warning_count'',
     ''migration_warnings'', ''migration_original_price_position_curve''}"
proof -
  have "fst ` set (map (\<lambda>kv. (fst kv, fromJson (snd kv))) (configMembers c)) = fst ` set (configMembers c)" by force
  then show ?thesis using members_keys [of c] by (auto simp: canonicalOf_def Let_def keys_map_delete)
qed

section \<open>Reading the canonical map\<close>

text \<open>What the migration of a parsed configuration has established.\<close>

definition audited :: "Config \<Rightarrow> bool" where
  "audited c \<longleftrightarrow>
     (cfg_PricePositionCurve c = [] \<or> (2 \<le> length (cfg_PricePositionCurve c) \<and> curvePoints 0 None (cfg_PricePositionCurve c) = None))
     \<and> (\<forall>j. cfg_MigrationOriginalCurve c = Some j \<longrightarrow> json_wf j)
     \<and> cfg_MigrationWarningCount c = int (length (cfg_MigrationWarnings c))"

lemma takeLossy_keeps: "takeLossy m = Inr m' \<Longrightarrow> ma_priceCurve (snd m') = ma_priceCurve (snd m) \<and> ma_originalCurve (snd m') = ma_originalCurve (snd m)"
  by (auto simp: takeLossy_def split: option.splits any.splits)

lemma takeOriginalCurve_keeps:
  "takeOriginalCurve m = Inr m' \<Longrightarrow> ma_originalCurve (snd m) = None \<Longrightarrow>
   ma_priceCurve (snd m') = ma_priceCurve (snd m) \<and> (\<forall>j. ma_originalCurve (snd m') = Some j \<longrightarrow> json_wf j)"
  by (auto simp: takeOriginalCurve_def toJson_wf split: option.splits)

lemma takeWarnings_keeps: "takeWarnings m = Inr m' \<Longrightarrow> ma_priceCurve (snd m') = ma_priceCurve (snd m) \<and> ma_originalCurve (snd m') = ma_originalCurve (snd m)"
  by (auto simp: takeWarnings_def split: option.splits)

lemma takeCurve_checked:
  "takeCurve m = Inr m' \<Longrightarrow> ma_priceCurve (snd m) = [] \<Longrightarrow> ma_originalCurve (snd m') = ma_originalCurve (snd m)
   \<and> (ma_priceCurve (snd m') = [] \<or> (2 \<le> length (ma_priceCurve (snd m')) \<and> curvePoints 0 None (ma_priceCurve (snd m')) = None))"
  by (auto simp: takeCurve_def Let_def split: option.splits sum.splits if_splits)

lemma ignoreLegacy_keeps:
  "ma_priceCurve (snd (foldl ignoreLegacy m ks)) = ma_priceCurve (snd m) \<and> ma_originalCurve (snd (foldl ignoreLegacy m ks)) = ma_originalCurve (snd m)"
  by (induction ks arbitrary: m) (simp_all add: ignoreLegacy_def)

lemma normalize_audited:
  assumes "normalizeLegacyParams params = Inr (out, audit)" "readConfig vals audit = Inr cfg"
  shows "audited cfg"
proof -
  obtain m1 m2 m3 m4 where m: "takeLossy (params, \<lparr>ma_lossy = False, ma_warnings = [], ma_originalCurve = None, ma_priceCurve = []\<rparr>) = Inr m1"
    "takeOriginalCurve m1 = Inr m2" "takeWarnings m2 = Inr m3" "takeCurve (map_delete ''migration_warning_count'' (fst m3), snd m3) = Inr m4"
    "(out, audit) = foldl ignoreLegacy (takeGap (fst m4), snd m4) [''max_daily_orders'', ''extreme_max_daily_orders'', ''lot_size'']"
    using assms(1) unfolding normalizeLegacyParams_def bindr_Inr by auto
  have "audit = snd (foldl ignoreLegacy (takeGap (fst m4), snd m4) [''max_daily_orders'', ''extreme_max_daily_orders'', ''lot_size''])"
    by (simp only: m(5) [symmetric] snd_conv)
  then have a: "ma_priceCurve audit = ma_priceCurve (snd m4)" "ma_originalCurve audit = ma_originalCurve (snd m4)"
    by (simp_all only: ignoreLegacy_keeps snd_conv)
  show ?thesis
    using takeLossy_keeps [OF m(1)] takeOriginalCurve_keeps [OF m(2)] takeWarnings_keeps [OF m(3)] takeCurve_checked [OF m(4)] a
      readConfig_Inr(20,22-24) [OF assms(2)]
    by (auto simp: audited_def)
qed

lemma curvePoints_finite: "curvePoints i prev ps = None \<Longrightarrow> list_all finitePoint ps \<and> (\<forall>p \<in> set ps. \<not> pp_Price p \<le> 0)"
  by (induction ps arbitrary: i prev) (auto simp: finitePoint_def split: if_splits)

definition auditOf :: "Config \<Rightarrow> migrationAudit" where
  "auditOf c = \<lparr>ma_lossy = cfg_MigrationLossy c, ma_warnings = cfg_MigrationWarnings c,
     ma_originalCurve = cfg_MigrationOriginalCurve c, ma_priceCurve = cfg_PricePositionCurve c\<rparr>"

lemma normalize_canonical:
  assumes "audited c"
  obtains out where "normalizeLegacyParams (canonicalOf c) = Inr (out, auditOf c)" "fst ` set out \<subseteq> wheel_names"
    "\<And>k. k \<in> wheel_names \<Longrightarrow> map_of out k =
      (if cfg_PricePositionCurve c \<noteq> [] \<and> k = ''full_position_price'' then Some (AFloat (pp_Price (hd (cfg_PricePositionCurve c))))
       else if cfg_PricePositionCurve c \<noteq> [] \<and> k = ''zero_position_price'' then Some (AFloat (pp_Price (last (cfg_PricePositionCurve c))))
       else map_option fromJson (map_of (configMembers c) k))"
proof -
  let ?a0 = "\<lparr>ma_lossy = False, ma_warnings = [], ma_originalCurve = None, ma_priceCurve = []\<rparr>"
  define o1 where "o1 = map_delete ''migration_lossy'' (canonicalOf c)"
  define o2 where "o2 = map_delete ''migration_original_price_position_curve'' o1"
  define o3 where "o3 = map_delete ''migration_warning_count'' (map_delete ''migration_warnings'' o2)"
  define o4 where "o4 = (if cfg_PricePositionCurve c = [] then o3
    else map_delete ''price_position_curve'' (map_put ''zero_position_price'' (AFloat (pp_Price (last (cfg_PricePositionCurve c))))
      (map_put ''full_position_price'' (AFloat (pp_Price (hd (cfg_PricePositionCurve c)))) o3)))"
  have lk: "map_of o1 k = map_of (canonicalOf c) k" "map_of o2 k = map_of (canonicalOf c) k" "map_of o3 k = map_of (canonicalOf c) k"
    if "k \<notin> {''migration_lossy'', ''migration_original_price_position_curve'', ''migration_warning_count'', ''migration_warnings''}" for k
    using that by (auto simp: o1_def o2_def o3_def map_of_delete)
  have lossy: "takeLossy (canonicalOf c, ?a0) = Inr (o1, ?a0\<lparr>ma_lossy := cfg_MigrationLossy c\<rparr>)"
    by (cases "cfg_MigrationLossy c") (simp_all add: takeLossy_def canonicalOf_lookup members_lookup o1_def map_delete_absent)
  have orig: "takeOriginalCurve (o1, a) = Inr (o2, a\<lparr>ma_originalCurve := cfg_MigrationOriginalCurve c\<rparr>)" if "ma_originalCurve a = None" for a
  proof -
    have l: "map_of o1 ''migration_original_price_position_curve'' = map_option fromJson (cfg_MigrationOriginalCurve c)"
      by (simp add: o1_def map_of_delete canonicalOf_lookup members_lookup)
    show ?thesis
      using assms that by (cases "cfg_MigrationOriginalCurve c")
        (simp_all add: takeOriginalCurve_def l o2_def map_delete_absent audited_def toJson_fromJson)
  qed
  have warn: "takeWarnings (o2, a) = Inr (map_delete ''migration_warnings'' o2, a\<lparr>ma_warnings := cfg_MigrationWarnings c\<rparr>)" if "ma_warnings a = []" for a
  proof -
    have l: "map_of o2 ''migration_warnings'' = map_option fromJson (map_of (configMembers c) ''migration_warnings'')"
      by (simp add: o2_def o1_def map_of_delete canonicalOf_lookup)
    have "toJson (fromJson (JArr (map JStr ws))) = Some (JArr (map JStr ws))" for ws
      by (rule toJson_fromJson) (simp add: list_all_iff)
    then show ?thesis
      using that l by (cases "cfg_MigrationWarnings c = []")
        (simp_all add: takeWarnings_def members_lookup map_delete_absent decodeStrings_JStr del: fromJson.simps toJson.simps decodeStrings.simps)
  qed
  have curve: "takeCurve (o3, a) = Inr (o4, a\<lparr>ma_priceCurve := cfg_PricePositionCurve c\<rparr>)" if "ma_priceCurve a = []" for a
  proof (cases "cfg_PricePositionCurve c = []")
    case True
    then show ?thesis using that by (simp add: takeCurve_def lk canonicalOf_lookup members_lookup o4_def)
  next
    case False
    have ok: "2 \<le> length (cfg_PricePositionCurve c)" "curvePoints 0 None (cfg_PricePositionCurve c) = None" using assms False by (auto simp: audited_def)
    have l: "map_of o3 ''price_position_curve'' = Some (fromJson (JArr (map pointJson (cfg_PricePositionCurve c))))"
      using False by (simp add: lk canonicalOf_lookup members_lookup)
    have p: "parseCurve (fromJson (JArr (map pointJson (cfg_PricePositionCurve c)))) = Inr (cfg_PricePositionCurve c)"
      using parseCurve_points [OF False] curvePoints_finite [OF ok(2)] by simp
    have n: "map_of o3 ''full_position_price'' = None" "map_of o3 ''zero_position_price'' = None"
      using False by (simp_all add: lk canonicalOf_lookup)
    show ?thesis
      using False ok
      by (simp add: takeCurve_def put_absent_def l p n map_of_map_put o4_def Let_def not_less del: fromJson.simps)
  qed
  have o4: "map_of o4 k = (if cfg_PricePositionCurve c \<noteq> [] \<and> k = ''full_position_price'' then Some (AFloat (pp_Price (hd (cfg_PricePositionCurve c))))
       else if cfg_PricePositionCurve c \<noteq> [] \<and> k = ''zero_position_price'' then Some (AFloat (pp_Price (last (cfg_PricePositionCurve c))))
       else map_option fromJson (map_of (configMembers c) k))"
    if "k \<notin> {''strategy'', ''price_position_curve'', ''migration_lossy'', ''migration_original_price_position_curve'', ''migration_warning_count'', ''migration_warnings''}" for k
    using that by (auto simp: o4_def map_of_delete map_of_map_put lk canonicalOf_lookup)
  have gap: "takeGap o4 = o4" by (simp add: takeGap_def o4 members_lookup)
  have legacy: "foldl ignoreLegacy (o4, a) [''max_daily_orders'', ''extreme_max_daily_orders'', ''lot_size''] = (o4, a)" for a
    by (simp add: ignoreLegacy_def o4 members_lookup)
  have keys: "fst ` set o4 \<subseteq> wheel_names"
  proof -
    have o3: "fst ` set o3 \<subseteq> wheel_names \<union> {''price_position_curve''}"
      using canonicalOf_keys [of c] unfolding o3_def o2_def o1_def keys_map_delete by blast
    show ?thesis
    proof (cases "cfg_PricePositionCurve c = []")
      case True
      then have "''price_position_curve'' \<notin> fst ` set o3"
        unfolding map_of_eq_None_iff [symmetric] by (simp add: lk canonicalOf_lookup members_lookup)
      then show ?thesis using o3 True by (simp add: o4_def subset_insert)
    next
      case False
      have "''full_position_price'' \<in> wheel_names" "''zero_position_price'' \<in> wheel_names" by (simp_all add: wheel_names_eq)
      then show ?thesis using o3 False by (simp add: o4_def keys_map_delete Diff_subset_conv)
    qed
  qed
  have "normalizeLegacyParams (canonicalOf c) = Inr (o4, auditOf c)"
    by (simp add: normalizeLegacyParams_def lossy orig warn curve gap legacy auditOf_def o3_def [symmetric] del: foldl_Cons)
  then show thesis
  proof (rule that [OF _ keys])
    fix k
    assume "k \<in> wheel_names"
    then show "map_of o4 k = (if cfg_PricePositionCurve c \<noteq> [] \<and> k = ''full_position_price'' then Some (AFloat (pp_Price (hd (cfg_PricePositionCurve c))))
       else if cfg_PricePositionCurve c \<noteq> [] \<and> k = ''zero_position_price'' then Some (AFloat (pp_Price (last (cfg_PricePositionCurve c))))
       else map_option fromJson (map_of (configMembers c) k))"
      by (intro o4) (simp add: wheel_names_eq, elim disjE, simp_all)
  qed
qed

section \<open>The round trip\<close>

text \<open>The value each parameter has when it is read back from a configuration, and what a configuration that was read fulfils.\<close>

definition valueOf :: "Config \<Rightarrow> string \<Rightarrow> any option" where
  "valueOf c = map_of
     [(''full_position_price'', AFloat (cfg_FullPositionPrice c)), (''zero_position_price'', AFloat (cfg_ZeroPositionPrice c)),
      (''max_inventory'', AFloat (cfg_MaxInventory c)), (''move_interval_pct'', AFloat (cfg_MoveIntervalPct c)),
      (''min_premium_per_share'', AFloat (cfg_MinPremiumPerShare c)), (''min_option_profit'', AFloat (cfg_MinOptionProfit c)),
      (''stock_switch_pct'', AFloat (cfg_StockSwitchPct c)), (''covered_call_pct'', AFloat (cfg_CoveredCallPct c)),
      (''profit_take_pct'', AFloat (cfg_ProfitTakePct c)), (''put_delta_max'', AFloat (cfg_PutDeltaMax c)),
      (''call_delta_max'', AFloat (cfg_CallDeltaMax c)), (''min_iv_rank'', AFloat (cfg_MinIVRank c)),
      (''trade_gap'', AFloat (cfg_TradeGap c)), (''min_option_quality'', AFloat (cfg_MinOptionQuality c)),
      (''min_dte'', AFloat (of_int64 (cfg_MinDTE c))), (''max_dte'', AFloat (of_int64 (cfg_MaxDTE c))),
      (''max_quote_age_seconds'', AFloat (of_int64 (cfg_MaxQuoteAgeSeconds c))), (''strategic_state'', AStr (cfg_StrategicState c))]"

definition exact_int :: "int \<Rightarrow> bool" where
  "exact_int n \<longleftrightarrow> 0 < n \<and> n \<le> 2 ^ 53"

lemma Validate_DTE: "Validate c = None \<Longrightarrow> exact_int (cfg_MinDTE c) \<and> exact_int (cfg_MaxDTE c)"
  using Validate_tactics [of c] by (auto simp: validateTactics_def exact_int_def MinWheelDTE_def MaxWheelDTE_def split: if_splits)

lemma values_valueOf:
  assumes "buildParams wheelTemplate params = Inr vals" "readConfig vals audit = Inr cfg" "Validate cfg = None"
    "exact_int (cfg_MaxQuoteAgeSeconds cfg)" "k \<in> wheel_names"
  shows "map_of vals k = valueOf cfg k"
proof -
  note r = readConfig_Inr [OF assms(2)]
  have n: "map_of vals name = Some (AFloat x)" if "numberAt vals name = Inr x" "name \<in> wheel_names" "name \<noteq> ''strategic_state''" for name x
    using numberAt_value [OF assms(1) that] .
  have i: "map_of vals name = Some (AFloat (of_int64 x))"
    if "intAt vals name = Inr x" "name \<in> wheel_names" "name \<noteq> ''strategic_state''" "exact_int x" for name x
    using intAt_value [OF assms(1) that(1-3)] that(4) by (simp add: exact_int_def)
  show ?thesis
    using assms(5) n [OF r(1)] n [OF r(2)] n [OF r(3)] n [OF r(4)] n [OF r(5)] n [OF r(6)] n [OF r(7)] n [OF r(8)] n [OF r(9)] n [OF r(10)]
      n [OF r(11)] n [OF r(12)] n [OF r(13)] n [OF r(14)] i [OF r(15)] i [OF r(16)] i [OF r(17)] stateAt_value [OF assms(1) r(18)]
      Validate_DTE [OF assms(3)] assms(4)
    unfolding wheel_names_eq by (elim insertE emptyE) (simp_all add: valueOf_def)
qed

lemma asInt_of_int64: "exact_int n \<Longrightarrow> asInt name (AFloat (of_int64 n)) = Inr n"
proof -
  assume n: "exact_int n"
  then have e: "of_int64 n = Fin (of_int n)" using of_int64_exact [of n] by (simp add: exact_int_def)
  have "of_int64 (2 ^ 63 - 1) = Fin (2 ^ 63)" by code_simp
  moreover have "\<not> Fin (of_int n) < 1" using n by (simp add: exact_int_def one_f64_def)
  moreover have "\<not> (2 ^ 63 :: rat) < of_int n" using n by (simp add: exact_int_def)
  ultimately show ?thesis using n by (simp add: asInt_def numberOf_def exact_int_def e feq_def Let_def)
qed

lemma readConfig_valueOf:
  assumes "\<And>k. k \<in> wheel_names \<Longrightarrow> map_of values k = valueOf c k"
    and "list_all finite64 [cfg_FullPositionPrice c, cfg_ZeroPositionPrice c, cfg_MaxInventory c, cfg_MoveIntervalPct c,
           cfg_MinPremiumPerShare c, cfg_MinOptionProfit c, cfg_StockSwitchPct c, cfg_CoveredCallPct c, cfg_ProfitTakePct c,
           cfg_PutDeltaMax c, cfg_CallDeltaMax c, cfg_MinIVRank c, cfg_TradeGap c, cfg_MinOptionQuality c]"
    and "exact_int (cfg_MinDTE c)" "exact_int (cfg_MaxDTE c)" "exact_int (cfg_MaxQuoteAgeSeconds c)"
    and "cfg_Strategy c = ''wheel''" "cfg_Calendar c = None" "cfg_MigrationWarningCount c = int (length (cfg_MigrationWarnings c))"
  shows "readConfig values (auditOf c) = Inr c"
proof -
  have l: "map_get ANil values k = the (valueOf c k)" if "k \<in> wheel_names" "valueOf c k \<noteq> None" for k
    using assms(1) [OF that(1)] that(2) by (auto simp: map_get_def)
  show ?thesis
    using assms(2-8) unfolding readConfig_def numberAt_def intAt_def stateAt_def
    by (simp add: l wheel_names_eq valueOf_def numberOf_def asInt_of_int64 auditOf_def)
qed

lemma member_value:
  assumes "k \<in> wheel_names" "cfg_MaxQuoteAgeSeconds c \<noteq> 0"
  shows "map_option fromJson (map_of (configMembers c) k) = valueOf c k
    \<or> (map_of (configMembers c) k = None \<and> k \<in> {''profit_take_pct'', ''put_delta_max'', ''call_delta_max'', ''min_iv_rank''} \<and> valueOf c k = Some (AFloat 0))"
  using assms unfolding wheel_names_eq by (elim insertE emptyE) (auto simp: members_lookup valueOf_def feq_def)

text \<open>Rereading the canonical map puts the ends of the curve, when there is one, in place of the two anchor prices.\<close>

definition anchored :: "Config \<Rightarrow> Config" where
  "anchored c = (if cfg_PricePositionCurve c = [] then c
     else c\<lparr>cfg_FullPositionPrice := pp_Price (hd (cfg_PricePositionCurve c)), cfg_ZeroPositionPrice := pp_Price (last (cfg_PricePositionCurve c))\<rparr>)"

lemma validateTactics_anchors:
  "validateTactics (c\<lparr>cfg_FullPositionPrice := x, cfg_ZeroPositionPrice := y\<rparr>) = validateTactics c"
  by (simp add: validateTactics_def cong: if_cong)

lemma anchored_simps [simp]:
  "cfg_PricePositionCurve (anchored c) = cfg_PricePositionCurve c" "auditOf (anchored c) = auditOf c" "Validate (anchored c) = Validate c"
  "anchored (anchored c) = anchored c" "cfg_MinDTE (anchored c) = cfg_MinDTE c" "cfg_MaxDTE (anchored c) = cfg_MaxDTE c"
  "cfg_MaxQuoteAgeSeconds (anchored c) = cfg_MaxQuoteAgeSeconds c" "cfg_Strategy (anchored c) = cfg_Strategy c"
  "cfg_Calendar (anchored c) = cfg_Calendar c" "cfg_MigrationWarningCount (anchored c) = cfg_MigrationWarningCount c"
  "cfg_MigrationWarnings (anchored c) = cfg_MigrationWarnings c"
  by (simp_all add: anchored_def auditOf_def Validate_def validateAnchors_def validateTactics_anchors split: option.split)

lemma valueOf_anchored:
  "valueOf (anchored c) k =
     (if cfg_PricePositionCurve c \<noteq> [] \<and> k = ''full_position_price'' then Some (AFloat (pp_Price (hd (cfg_PricePositionCurve c))))
      else if cfg_PricePositionCurve c \<noteq> [] \<and> k = ''zero_position_price'' then Some (AFloat (pp_Price (last (cfg_PricePositionCurve c))))
      else valueOf c k)"
  by (simp add: anchored_def valueOf_def)

lemma anchor_accepted:
  assumes "p \<in> set (tm_Params wheelTemplate)" "pm_Name p \<in> {''full_position_price'', ''zero_position_price''}"
    "finite64 x" "\<not> x \<le> 0" "x \<le> MaxFloat64"
  shows "buildParam t p (Some (AFloat x)) = Inr (Some (AFloat x))"
proof -
  have "pm_Type p = ''number'' \<and> pm_Min p = 0 \<and> pm_Max p = MaxFloat64"
    using assms(1,2) by (auto simp: wheelTemplate_def numberParam_def requiredNumber_def)
  moreover have "\<not> x < 0" "\<not> MaxFloat64 < x" using assms(3-5) by (cases x; auto simp: MaxFloat64_def zero_f64_def)+
  ultimately show ?thesis using assms(3) by (simp add: buildParam_def numberOf_def)
qed

lemma parsed_facts:
  assumes "ParseConfig params = Inr cfg"
  obtains out vals audit where "buildParams wheelTemplate out = Inr vals" "readConfig vals audit = Inr cfg" "Validate cfg = None" "audited cfg"
    "cfg_Strategy cfg = ''wheel''" "cfg_Calendar cfg = None"
proof -
  obtain ps where "params = Some ps" using assms by (cases params) (simp_all add: ParseConfig_def)
  then obtain ps' out audit vals where s: "normalizeLegacyParams ps' = Inr (out, audit)" "buildParams wheelTemplate out = Inr vals"
    "readConfig vals audit = Inr cfg" "Validate cfg = None"
    using assms by (auto elim: ParseConfig_Inr)
  then show thesis using that normalize_audited [OF s(1,3)] readConfig_Inr(19,25) [OF s(3)] by blast
qed

lemma rebuild:
  assumes "buildParams wheelTemplate params = Inr vals" "\<And>k. k \<in> wheel_names \<Longrightarrow> map_of vals k = valueOf c k"
    "fst ` set out \<subseteq> wheel_names" "cfg_MaxQuoteAgeSeconds c \<noteq> 0" "audited c"
    "\<And>k. k \<in> wheel_names \<Longrightarrow> map_of out k =
      (if cfg_PricePositionCurve c \<noteq> [] \<and> k = ''full_position_price'' then Some (AFloat (pp_Price (hd (cfg_PricePositionCurve c))))
       else if cfg_PricePositionCurve c \<noteq> [] \<and> k = ''zero_position_price'' then Some (AFloat (pp_Price (last (cfg_PricePositionCurve c))))
       else map_option fromJson (map_of (configMembers c) k))"
    "\<forall>p \<in> set (cfg_PricePositionCurve c). pp_Price p \<le> MaxFloat64"
  shows "\<exists>vals'. buildParams wheelTemplate out = Inr vals' \<and> (\<forall>k \<in> wheel_names. map_of vals' k = valueOf (anchored c) k)"
proof (rule buildParams_again [OF assms(1,3)])
  fix p assume p: "p \<in> set (tm_Params wheelTemplate)"
  let ?k = "pm_Name p" and ?b = "buildParam (tm_Name wheelTemplate) p"
  have k: "?k \<in> wheel_names" using p by simp
  have ends: "finite64 (pp_Price q) \<and> \<not> pp_Price q \<le> 0 \<and> pp_Price q \<le> MaxFloat64" if "q \<in> set (cfg_PricePositionCurve c)" for q
    using that assms(5,7) curvePoints_finite [of 0 None "cfg_PricePositionCurve c"] by (auto simp: audited_def list_all_iff finitePoint_def)
  show "\<exists>v. ?b (map_of out ?k) = Inr (Some v) \<and> valueOf (anchored c) ?k = Some v"
  proof (cases "cfg_PricePositionCurve c \<noteq> [] \<and> ?k \<in> {''full_position_price'', ''zero_position_price''}")
    case True
    then show ?thesis using anchor_accepted [OF p] ends assms(6) [OF k] by (auto simp: valueOf_anchored)
  next
    case False
    then have a: "valueOf (anchored c) ?k = valueOf c ?k" "map_of out ?k = map_option fromJson (map_of (configMembers c) ?k)"
      using assms(6) [OF k] by (auto simp: valueOf_anchored)
    obtain v where v: "map_of vals ?k = Some v" "?b (Some v) = Inr (Some v)"
    proof (rule buildParams_values [OF assms(1) k])
      fix q v assume "q \<in> set (tm_Params wheelTemplate)" "pm_Name q = ?k" "map_of vals ?k = Some v"
        "buildParam (tm_Name wheelTemplate) q (Some v) = Inr (Some v)"
      moreover have "q = p" using wheel_schema(1) p calculation(1,2) by (auto simp: distinct_map inj_on_def)
      ultimately show thesis using that by simp
    qed
    have "?b None = Inr (Some (AFloat 0))" if "?k \<in> {''profit_take_pct'', ''put_delta_max'', ''call_delta_max'', ''min_iv_rank''}"
      using wheel_types(3) [OF p that] by (simp add: buildParam_def)
    then show ?thesis using member_value [OF k assms(4)] a v assms(2) [OF k] by auto
  qed
qed

lemma reparse_canonical:
  assumes "ParseConfig params = Inr cfg" "CanonicalParams params = Inr out"
    and "0 < cfg_MaxQuoteAgeSeconds cfg" "cfg_MaxQuoteAgeSeconds cfg \<le> 2 ^ 53"
    and "\<forall>p \<in> set (cfg_PricePositionCurve cfg). pp_Price p \<le> MaxFloat64"
  shows "ParseConfig (Some out) = Inr (anchored cfg)"
proof -
  have age: "exact_int (cfg_MaxQuoteAgeSeconds cfg)" "cfg_MaxQuoteAgeSeconds cfg \<noteq> 0" using assms(3,4) by (auto simp: exact_int_def)
  obtain ps vals audit where p: "buildParams wheelTemplate ps = Inr vals" "readConfig vals audit = Inr cfg" "Validate cfg = None"
    "audited cfg" "cfg_Strategy cfg = ''wheel''" "cfg_Calendar cfg = None"
    using assms(1) by (rule parsed_facts)
  have out: "out = canonicalOf cfg" and m: "marshalConfig cfg \<noteq> None"
    using assms(2) by (auto elim: CanonicalParams_Inr simp: assms(1))
  have fin: "list_all finite64 [cfg_FullPositionPrice (anchored cfg), cfg_ZeroPositionPrice (anchored cfg)]"
    using m p(4) curvePoints_finite [of 0 None "cfg_PricePositionCurve cfg"]
    by (auto simp: anchored_def marshalConfig_def audited_def list_all_iff finitePoint_def split: if_splits)
  obtain o' where o': "normalizeLegacyParams out = Inr (o', auditOf cfg)" "fst ` set o' \<subseteq> wheel_names"
    "\<And>k. k \<in> wheel_names \<Longrightarrow> map_of o' k =
      (if cfg_PricePositionCurve cfg \<noteq> [] \<and> k = ''full_position_price'' then Some (AFloat (pp_Price (hd (cfg_PricePositionCurve cfg))))
       else if cfg_PricePositionCurve cfg \<noteq> [] \<and> k = ''zero_position_price'' then Some (AFloat (pp_Price (last (cfg_PricePositionCurve cfg))))
       else map_option fromJson (map_of (configMembers cfg) k))"
    using normalize_canonical [OF p(4)] out by blast
  obtain vals' where v: "buildParams wheelTemplate o' = Inr vals'" "\<And>k. k \<in> wheel_names \<Longrightarrow> map_of vals' k = valueOf (anchored cfg) k"
    using rebuild [OF p(1) values_valueOf [OF p(1-3) age(1)] o'(2) age(2) p(4) o'(3) assms(5)] by blast
  have "readConfig vals' (auditOf (anchored cfg)) = Inr (anchored cfg)"
    by (rule readConfig_valueOf [OF v(2)])
       (use fin m Validate_DTE [OF p(3)] age p in \<open>auto simp: marshalConfig_def audited_def anchored_def split: if_splits\<close>)
  moreover have "map_of out ''strategy'' = None"
    by (simp add: out canonicalOf_def Let_def map_of_delete)
  ultimately show ?thesis
    using o'(1) v(1) p(3) by (simp add: ParseConfig_def unwrapParams_def)
qed

lemma canonicalOf_anchored: "canonicalOf (anchored c) = canonicalOf c"
  by (simp add: canonicalOf_def anchored_def configMembers_def omitEmpty_def map_delete_def)

text \<open>C12: the canonical form of a parameter map reads back as the configuration the map was read as, up to the two anchor
  prices, which a price curve replaces by its own ends; and canonicalising the canonical form changes nothing.  The quote age is
  bounded because the field is an int64 that a binary64 value must carry exactly.\<close>

theorem canonical_roundtrip:
  assumes "ParseConfig params = Inr cfg" "CanonicalParams params = Inr out"
    and "0 < cfg_MaxQuoteAgeSeconds cfg" "cfg_MaxQuoteAgeSeconds cfg \<le> 2 ^ 53"
    and "\<forall>p \<in> set (cfg_PricePositionCurve cfg). pp_Price p \<le> MaxFloat64"
  shows "ParseConfig (Some out) = Inr (anchored cfg) \<and> CanonicalParams (Some out) = Inr out"
proof -
  note r = reparse_canonical [OF assms]
  have out: "out = canonicalOf cfg" and m: "marshalConfig cfg \<noteq> None"
    using assms(2) by (auto elim: CanonicalParams_Inr simp: assms(1))
  have "audited cfg" using assms(1) by (rule parsed_facts)
  then have "marshalConfig (anchored cfg) = Some (JObj (configMembers (anchored cfg)))"
    using m curvePoints_finite [of 0 None "cfg_PricePositionCurve cfg"]
    by (auto simp: anchored_def marshalConfig_def audited_def list_all_iff finitePoint_def split: if_splits)
  then have "CanonicalParams (Some out) = Inr (canonicalOf (anchored cfg))"
    by (simp add: CanonicalParams_def r canonicalOf_def Let_def)
  then show ?thesis using r by (simp add: out canonicalOf_anchored)
qed

definition roundtrip_params :: "any gomap" where
  "roundtrip_params = [(''strategy'', AStr ''wheel''), (''max_inventory'', AInt 200), (''lot_size'', AInt 100), (''no_trade_gap'', AInt 20),
     (''price_position_curve'', AArr [AObj [(''price'', AFloat (Fin 10)), (''target_inventory'', AFloat (Fin 200))],
        AObj [(''price'', AFloat (Fin 20)), (''target_inventory'', AFloat 0)]])]"

definition roundtrip_check :: bool where
  "roundtrip_check = (case (ParseConfig (Some roundtrip_params), CanonicalParams (Some roundtrip_params)) of
     (Inr cfg, Inr out) \<Rightarrow> 0 < cfg_MaxQuoteAgeSeconds cfg \<and> cfg_MaxQuoteAgeSeconds cfg \<le> 2 ^ 53
       \<and> list_all (\<lambda>p. pp_Price p \<le> MaxFloat64) (cfg_PricePositionCurve cfg) \<and> cfg_PricePositionCurve cfg \<noteq> []
   | _ \<Rightarrow> False)"

lemma roundtrip_sample: "roundtrip_check"
  by code_simp

theorem canonical_roundtrip_witness:
  "\<exists>cfg out. ParseConfig (Some roundtrip_params) = Inr cfg \<and> cfg_PricePositionCurve cfg \<noteq> [] \<and> CanonicalParams (Some roundtrip_params) = Inr out
     \<and> ParseConfig (Some out) = Inr (anchored cfg) \<and> CanonicalParams (Some out) = Inr out"
proof -
  obtain cfg out where s: "ParseConfig (Some roundtrip_params) = Inr cfg" "CanonicalParams (Some roundtrip_params) = Inr out"
    "0 < cfg_MaxQuoteAgeSeconds cfg" "cfg_MaxQuoteAgeSeconds cfg \<le> 2 ^ 53"
    "\<forall>p \<in> set (cfg_PricePositionCurve cfg). pp_Price p \<le> MaxFloat64" "cfg_PricePositionCurve cfg \<noteq> []"
    using roundtrip_sample by (auto simp: roundtrip_check_def list_all_iff split: sum.splits)
  show ?thesis using canonical_roundtrip [OF s(1-5)] s by blast
qed

section \<open>Accepted parameters\<close>



definition aged_params :: "any gomap" where
  "aged_params = [(''max_inventory'', AInt 200), (''full_position_price'', AInt 10), (''zero_position_price'', AInt 20),
     (''max_quote_age_seconds'', AInt 10000000000)]"


end
