(* ===== verification/Live_Limiter.thy ===== *)
theory Live_Limiter
  imports Go_Text
begin

text \<open>
  The request limiter of \<^verbatim>\<open>internal/futu/ratelimit.go\<close>. An iteration of \<^verbatim>\<open>Limiter.Wait\<close> is one critical
  section (the mutex, and the file lock of a persistent limiter), so a schedule of iterations of any
  number of processes is a run of the step relation below. What the operating system answers in an
  iteration - whether the file opens, locks, reads and takes the new stamp, and the two clock
  readings - is a record of the environment; \<open>io_written\<close> is how much of a failed write reached the file.
  Wall clock and monotonic clock readings are one clock here.
\<close>

section \<open>The limiter\<close>

record Limiter =
  lm_gap :: duration
  lm_next :: time
  lm_persistent :: bool

definition NewLimiter :: "duration \<Rightarrow> Limiter" where
  "NewLimiter gap = \<lparr>lm_gap = gap, lm_next = 0, lm_persistent = False\<rparr>"

text \<open>\<open>dir\<close> is the environment variable, \<open>mkdirOk\<close> whether the directory could be made.\<close>

definition persistedLimiter :: "string \<Rightarrow> bool \<Rightarrow> duration \<Rightarrow> Limiter" where
  "persistedLimiter dir mkdirOk gap =
     (if dir = [] then NewLimiter gap
      else if \<not> mkdirOk then NewLimiter gap
      else (NewLimiter gap)\<lparr>lm_persistent := True\<rparr>)"

definition QuoteLimit :: "string \<Rightarrow> bool \<Rightarrow> Limiter" where
  "QuoteLimit dir mkdirOk = persistedLimiter dir mkdirOk (50 * 1000000)"

definition KlineLimit :: "string \<Rightarrow> bool \<Rightarrow> Limiter" where
  "KlineLimit dir mkdirOk = persistedLimiter dir mkdirOk (200 * 1000000)"

definition HistoryPageLimit :: "string \<Rightarrow> bool \<Rightarrow> Limiter" where
  "HistoryPageLimit dir mkdirOk = persistedLimiter dir mkdirOk (3 * second_ns)"

definition SnapshotLimit :: "string \<Rightarrow> bool \<Rightarrow> Limiter" where
  "SnapshotLimit dir mkdirOk = persistedLimiter dir mkdirOk (3 * second_ns)"

record LimiterIO =
  io_open :: bool
  io_lock :: bool
  io_read :: bool
  io_truncate :: bool
  io_seek :: bool
  io_write :: bool
  io_written :: nat
  io_clock :: time
  io_lockedClock :: time

text \<open>The stamp in the file: text that is no positive int64 counts as no stamp, the zero time.\<close>

definition lastStamp :: "LimiterIO \<Rightarrow> string \<Rightarrow> time" where
  "lastStamp io file =
     (if \<not> io_read io then 0
      else case parse_int64 (trim_space file) of
        None \<Rightarrow> 0
      | Some n \<Rightarrow> if 0 < n then from_unix_nano n else 0)"

definition stampFile :: "LimiterIO \<Rightarrow> time \<Rightarrow> string \<Rightarrow> string" where
  "stampFile io now file =
     (if \<not> io_truncate io then file
      else if \<not> io_seek io then []
      else if \<not> io_write io then take (io_written io) (fmt_int (unix_nano now))
      else fmt_int (unix_nano now))"

text \<open>The clock reading and the gate of an iteration, and the file after it.\<close>

definition crossProcessNext :: "Limiter \<Rightarrow> LimiterIO \<Rightarrow> string \<Rightarrow> time \<Rightarrow> (time \<times> time) \<times> string" where
  "crossProcessNext l io file inMemoryNext =
     (if \<not> io_open io then ((io_lockedClock io, inMemoryNext), file)
      else if \<not> io_lock io then ((io_lockedClock io, inMemoryNext), file)
      else
        (let last = lastStamp io file; now = io_lockedClock io; window = time_add last (lm_gap l) in
         if now < window \<or> now < inMemoryNext
         then (if inMemoryNext < window then ((now, window), file) else ((now, inMemoryNext), file))
         else ((now, inMemoryNext), stampFile io now file)))"

datatype Iteration = Pass time | Sleep duration

text \<open>One iteration of the loop of \<^verbatim>\<open>Wait\<close>.\<close>

definition waitIteration :: "Limiter \<Rightarrow> LimiterIO \<Rightarrow> string \<Rightarrow> Iteration \<times> Limiter \<times> string" where
  "waitIteration l io file =
     (let ((now, next), file) =
        (if lm_persistent l then crossProcessNext l io file (lm_next l) else ((io_clock io, lm_next l), file))
      in if \<not> now < next then (Pass now, l\<lparr>lm_next := time_add now (lm_gap l)\<rparr>, file)
         else (Sleep (time_sub next now), l, file))"

datatype WaitResult = Passed time | Cancelled | StillWaiting

text \<open>
  The loop, over what the environment answers in each iteration and whether the context is cancelled
  during the sleep after it. \<open>StillWaiting\<close> is a run that the given answers do not complete.
\<close>

fun Wait :: "Limiter \<Rightarrow> string \<Rightarrow> (LimiterIO \<times> bool) list \<Rightarrow> WaitResult \<times> Limiter \<times> string" where
  "Wait l file [] = (StillWaiting, l, file)"
| "Wait l file ((io, cancelled) # ios) =
     (case waitIteration l io file of
        (Pass now, l, file) \<Rightarrow> (Passed now, l, file)
      | (Sleep d, l, file) \<Rightarrow> if cancelled then (Cancelled, l, file) else Wait l file ios)"

section \<open>Schedules\<close>

text \<open>
  Any number of processes, each with its own limiter of one tier, share the file. Iterations happen
  in the order of the clock readings taken in their critical sections; \<open>io_ok\<close> says which answers
  of the environment a schedule may contain.
\<close>

record LimiterSystem =
  ls_limiters :: "nat \<Rightarrow> Limiter"
  ls_file :: string
  ls_clock :: time
  ls_passes :: "(nat \<times> time) list"

definition start_system :: "duration \<Rightarrow> bool \<Rightarrow> string \<Rightarrow> time \<Rightarrow> LimiterSystem" where
  "start_system gap persistent file clock = \<lparr>ls_limiters = (\<lambda>_. (NewLimiter gap)\<lparr>lm_persistent := persistent\<rparr>), ls_file = file,
     ls_clock = clock, ls_passes = []\<rparr>"

definition iteration_clock :: "Limiter \<Rightarrow> LimiterIO \<Rightarrow> time" where
  "iteration_clock l io = (if lm_persistent l then io_lockedClock io else io_clock io)"

inductive limiter_run :: "(LimiterIO \<Rightarrow> bool) \<Rightarrow> LimiterSystem \<Rightarrow> LimiterSystem \<Rightarrow> bool" for io_ok where
  run_start: "limiter_run io_ok s s"
| run_pass: "limiter_run io_ok s0 s \<Longrightarrow> io_ok io \<Longrightarrow> ls_clock s \<le> iteration_clock (ls_limiters s i) io
    \<Longrightarrow> waitIteration (ls_limiters s i) io (ls_file s) = (Pass now, l, file)
    \<Longrightarrow> limiter_run io_ok s0 (s\<lparr>ls_limiters := (ls_limiters s)(i := l), ls_file := file, ls_clock := now, ls_passes := (i, now) # ls_passes s\<rparr>)"
| run_sleep: "limiter_run io_ok s0 s \<Longrightarrow> io_ok io \<Longrightarrow> ls_clock s \<le> iteration_clock (ls_limiters s i) io
    \<Longrightarrow> waitIteration (ls_limiters s i) io (ls_file s) = (Sleep d, l, file)
    \<Longrightarrow> limiter_run io_ok s0 (s\<lparr>ls_limiters := (ls_limiters s)(i := l), ls_file := file, ls_clock := iteration_clock (ls_limiters s i) io\<rparr>)"

text \<open>Passes, newest first, that keep the gap.\<close>

fun spaced :: "duration \<Rightarrow> time list \<Rightarrow> bool" where
  "spaced gap (t # u # ts) \<longleftrightarrow> u + gap \<le> t \<and> spaced gap (u # ts)"
| "spaced gap ts \<longleftrightarrow> True"

definition passes_of :: "nat \<Rightarrow> LimiterSystem \<Rightarrow> time list" where
  "passes_of i s = map snd (filter (\<lambda>p. fst p = i) (ls_passes s))"

text \<open>A healthy environment: the file works, and the clock is one that a positive int64 stamp can express.\<close>

definition healthy :: "LimiterIO \<Rightarrow> bool" where
  "healthy io \<longleftrightarrow> io_open io \<and> io_lock io \<and> io_read io \<and> io_truncate io \<and> io_seek io \<and> io_write io
     \<and> unix_epoch < io_lockedClock io \<and> io_lockedClock io < unix_epoch + 2 ^ 63"

section \<open>Lemmas\<close>

lemma spaced_Cons: "spaced gap ts \<Longrightarrow> (ts \<noteq> [] \<Longrightarrow> hd ts + gap \<le> t) \<Longrightarrow> spaced gap (t # ts)"
  by (cases ts) simp_all

text \<open>A pass happens at or after the limiter's own gate, and with a working file at or after the shared one.\<close>

lemma waitIteration_Pass:
  assumes "waitIteration l io file = (Pass now, l', file')"
  shows "now = iteration_clock l io" "lm_next l \<le> now" "l' = l\<lparr>lm_next := now + lm_gap l\<rparr>"
    "lm_persistent l \<Longrightarrow> io_open io \<Longrightarrow> io_lock io \<Longrightarrow> lastStamp io file + lm_gap l \<le> now \<and> file' = stampFile io now file"
  using assms
  by (auto simp: waitIteration_def crossProcessNext_def iteration_clock_def Let_def time_add_def split: if_splits)

lemma waitIteration_Sleep:
  assumes "waitIteration l io file = (Sleep d, l', file')"
  shows "l' = l" "file' = file"
    "iteration_clock l io < lm_next l
     \<or> (lm_persistent l \<and> io_open io \<and> io_lock io \<and> iteration_clock l io < lastStamp io file + lm_gap l)"
  using assms
  by (auto simp: waitIteration_def crossProcessNext_def iteration_clock_def Let_def time_add_def split: if_splits)

lemma healthy_stamp:
  assumes "healthy io" "unix_epoch < t" "t < unix_epoch + 2 ^ 63"
  shows "lastStamp io (fmt_int (unix_nano t)) = t"
proof -
  have n: "unix_nano t = t - unix_epoch" using assms wrap64_id [of "t - unix_epoch"] by (simp add: unix_nano_def)
  then have "parse_int64 (trim_space (fmt_int (unix_nano t))) = Some (t - unix_epoch)" using assms by (simp add: parse_fmt_int)
  then show ?thesis using assms by (simp add: lastStamp_def healthy_def from_unix_nano_def)
qed

text \<open>What every schedule keeps.\<close>

definition system_ok :: "duration \<Rightarrow> LimiterSystem \<Rightarrow> bool" where
  "system_ok gap s \<longleftrightarrow> (\<forall>i. lm_gap (ls_limiters s i) = gap \<and> spaced gap (passes_of i s)
     \<and> (passes_of i s \<noteq> [] \<longrightarrow> lm_next (ls_limiters s i) = hd (passes_of i s) + gap) \<and> (\<forall>t \<in> set (passes_of i s). t \<le> ls_clock s))"

lemma system_ok_run:
  assumes "limiter_run io_ok s0 s" "system_ok gap s0"
  shows "system_ok gap s"
  using assms
proof (induction rule: limiter_run.induct)
  case (run_pass s0 s io i now l f)
  then have s: "system_ok gap s" by simp
  note p = waitIteration_Pass [OF run_pass(4)]
  have g: "lm_gap (ls_limiters s i) = gap" using s by (simp add: system_ok_def)
  have gate: "passes_of i s \<noteq> [] \<Longrightarrow> hd (passes_of i s) + gap \<le> now" using s p(2) by (auto simp: system_ok_def)
  show ?case
    using s p(1,3) g run_pass(3) spaced_Cons [OF _ gate]
    by (force simp: system_ok_def passes_of_def)
next
  case (run_sleep s0 s io i d l f)
  then show ?case using waitIteration_Sleep(1) [OF run_sleep(4)] by (force simp: system_ok_def passes_of_def)
qed simp

text \<open>Sharing the file through a healthy environment extends the gap to the passes of all limiters.\<close>

definition shared_ok :: "duration \<Rightarrow> LimiterSystem \<Rightarrow> bool" where
  "shared_ok gap s \<longleftrightarrow> spaced gap (map snd (ls_passes s))
     \<and> (\<forall>i. lm_gap (ls_limiters s i) = gap \<and> lm_persistent (ls_limiters s i))
     \<and> (ls_passes s \<noteq> [] \<longrightarrow> (let t = snd (hd (ls_passes s)) in
          unix_epoch < t \<and> t < unix_epoch + 2 ^ 63 \<and> ls_file s = fmt_int (unix_nano t)))"

lemma shared_ok_run:
  assumes "limiter_run healthy s0 s" "shared_ok gap s0"
  shows "shared_ok gap s"
  using assms
proof (induction rule: limiter_run.induct)
  case (run_pass s0 s io i now l f)
  then have s: "shared_ok gap s" and h: "healthy io" by simp_all
  note p = waitIteration_Pass [OF run_pass(4)]
  have g: "lm_gap (ls_limiters s i) = gap" "lm_persistent (ls_limiters s i)" using s by (simp_all add: shared_ok_def)
  have now: "unix_epoch < now" "now < unix_epoch + 2 ^ 63" using h p(1) g by (simp_all add: healthy_def iteration_clock_def)
  have stamped: "lastStamp io (ls_file s) + gap \<le> now" "f = fmt_int (unix_nano now)"
    using p(4) [OF g(2)] h g(1) by (simp_all add: healthy_def stampFile_def)
  have gate: "ls_passes s \<noteq> [] \<Longrightarrow> snd (hd (ls_passes s)) + gap \<le> now"
    using s stamped(1) healthy_stamp [OF h] by (simp add: shared_ok_def Let_def)
  have "spaced gap (now # map snd (ls_passes s))"
    using s gate by (intro spaced_Cons) (auto simp: shared_ok_def hd_map)
  then show ?case using s p(3) g now stamped(2) by (simp add: shared_ok_def)
next
  case (run_sleep s0 s io i d l f)
  then show ?case using waitIteration_Sleep(1,2) [OF run_sleep(4)] by (simp add: shared_ok_def)
qed simp

section \<open>Properties\<close>

text \<open>
  C23: in every interleaving of the iterations of any number of processes, and whatever the
  file system answers, two passes of one limiter are at least the gap apart; and when the limiters are
  persistent and the file works, so are any two passes of all of them together.
\<close>

theorem limiter_spacing:
  assumes "limiter_run io_ok (start_system gap persistent stamp clock) s"
  shows "spaced gap (passes_of i s) \<and> (io_ok = healthy \<and> persistent \<longrightarrow> spaced gap (map snd (ls_passes s)))"
proof (intro conjI impI)
  have "system_ok gap (start_system gap persistent stamp clock)"
    by (simp add: system_ok_def start_system_def passes_of_def NewLimiter_def)
  then show "spaced gap (passes_of i s)" using system_ok_run [OF assms] by (simp add: system_ok_def)
next
  assume h: "io_ok = healthy \<and> persistent"
  then have "shared_ok gap (start_system gap persistent stamp clock)"
    by (simp add: shared_ok_def start_system_def NewLimiter_def)
  then show "spaced gap (map snd (ls_passes s))" using shared_ok_run assms h by (auto simp: shared_ok_def)
qed

definition sample_io :: "time \<Rightarrow> LimiterIO" where
  "sample_io t = \<lparr>io_open = True, io_lock = True, io_read = True, io_truncate = True, io_seek = True, io_write = True,
     io_written = 0, io_clock = t, io_lockedClock = t\<rparr>"

text \<open>A schedule that is played step by step is a run.\<close>

definition play_step :: "LimiterSystem \<Rightarrow> nat \<times> time \<Rightarrow> LimiterSystem option" where
  "play_step s = (\<lambda>(i, t).
     if \<not> healthy (sample_io t) \<or> \<not> ls_clock s \<le> iteration_clock (ls_limiters s i) (sample_io t) then None
     else case waitIteration (ls_limiters s i) (sample_io t) (ls_file s) of
       (Pass now, l, f) \<Rightarrow> Some (s\<lparr>ls_limiters := (ls_limiters s)(i := l), ls_file := f, ls_clock := now, ls_passes := (i, now) # ls_passes s\<rparr>)
     | (Sleep d, l, f) \<Rightarrow> Some (s\<lparr>ls_limiters := (ls_limiters s)(i := l), ls_file := f, ls_clock := iteration_clock (ls_limiters s i) (sample_io t)\<rparr>))"

fun play :: "LimiterSystem \<Rightarrow> (nat \<times> time) list \<Rightarrow> LimiterSystem option" where
  "play s [] = Some s"
| "play s (e # es) = (case play_step s e of None \<Rightarrow> None | Some s \<Rightarrow> play s es)"

lemma play_step_run: "limiter_run healthy s0 s \<Longrightarrow> play_step s e = Some s' \<Longrightarrow> limiter_run healthy s0 s'"
  by (cases e) (auto simp: play_step_def split: if_splits prod.splits Iteration.splits
    intro: limiter_run.run_pass [where io_ok = healthy] limiter_run.run_sleep [where io_ok = healthy])

lemma play_run: "limiter_run healthy s0 s \<Longrightarrow> play s es = Some s' \<Longrightarrow> limiter_run healthy s0 s'"
  by (induction es arbitrary: s) (auto intro: play_step_run split: option.splits)

text \<open>Two processes with a gap of 50 ns: the second is held back at + 20 ns and passes at + 60 ns.\<close>

definition sample_start :: time where
  "sample_start = unix_epoch + 1700000000 * second_ns"

definition sample_final :: LimiterSystem where
  "sample_final = the (play (start_system 50 True [] 0) [(0, sample_start), (1, sample_start + 20), (1, sample_start + 60)])"

lemma sample_final_run: "limiter_run healthy (start_system 50 True [] 0) sample_final"
proof -
  have "play (start_system 50 True [] 0) [(0, sample_start), (1, sample_start + 20), (1, sample_start + 60)] \<noteq> None"
    by code_simp
  then obtain s where "play (start_system 50 True [] 0) [(0, sample_start), (1, sample_start + 20), (1, sample_start + 60)] = Some s"
    by blast
  then show ?thesis using play_run [OF run_start] by (simp only: sample_final_def option.sel)
qed

theorem limiter_spacing_witness:
  "ls_passes sample_final = [(1, sample_start + 60), (0, sample_start)] \<and> spaced 50 (map snd (ls_passes sample_final))"
proof
  show "ls_passes sample_final = [(1, sample_start + 60), (0, sample_start)]" by code_simp
  show "spaced 50 (map snd (ls_passes sample_final))" using limiter_spacing [OF sample_final_run] by simp
qed

text \<open>The sleep of an iteration, and what the next one finds when nobody passed in between.\<close>

definition next_gate :: "Limiter \<Rightarrow> LimiterIO \<Rightarrow> string \<Rightarrow> time" where
  "next_gate l io f =
     (if lm_persistent l \<and> io_open io \<and> io_lock io then max (lastStamp io f + lm_gap l) (lm_next l) else lm_next l)"

lemma crossProcessNext_gate:
  "crossProcessNext l io f n =
     (if io_open io \<and> io_lock io then
        (let g = max (lastStamp io f + lm_gap l) n; now = io_lockedClock io
         in if now < g then ((now, g), f) else ((now, n), stampFile io now f))
      else ((io_lockedClock io, n), f))"
proof -
  have "(now < w \<or> now < n) \<longleftrightarrow> now < max w n" "(if n < w then ((now, w), f) else ((now, n), f)) = ((now, max w n), f)"
    for now w :: time by (auto simp: max_def)
  then show ?thesis by (simp add: crossProcessNext_def Let_def time_add_def)
qed

lemma gate_reading:
  "\<exists>f'. (if lm_persistent l then crossProcessNext l io f (lm_next l) else ((io_clock io, lm_next l), f))
     = ((iteration_clock l io, if iteration_clock l io < next_gate l io f then next_gate l io f else lm_next l), f')
     \<and> (iteration_clock l io < next_gate l io f \<longrightarrow> f' = f)"
proof (cases "lm_persistent l \<and> io_open io \<and> io_lock io")
  case True
  then show ?thesis unfolding crossProcessNext_gate next_gate_def iteration_clock_def Let_def
    by (simp del: less_max_iff_disj)
next
  case False
  then show ?thesis unfolding crossProcessNext_gate next_gate_def iteration_clock_def by auto
qed

lemma waitIteration_gate:
  "next_gate l io f \<le> iteration_clock l io \<Longrightarrow> \<exists>l' f'. waitIteration l io f = (Pass (iteration_clock l io), l', f')"
  "iteration_clock l io < next_gate l io f \<Longrightarrow>
     waitIteration l io f = (Sleep (sat64 (next_gate l io f - iteration_clock l io)), l, f)"
proof -
  have n: "lm_next l \<le> next_gate l io f" by (simp add: next_gate_def)
  obtain f' where g: "(if lm_persistent l then crossProcessNext l io f (lm_next l) else ((io_clock io, lm_next l), f))
     = ((iteration_clock l io, if iteration_clock l io < next_gate l io f then next_gate l io f else lm_next l), f')"
    "iteration_clock l io < next_gate l io f \<longrightarrow> f' = f" using gate_reading by blast
  show "next_gate l io f \<le> iteration_clock l io \<Longrightarrow> \<exists>l' f'. waitIteration l io f = (Pass (iteration_clock l io), l', f')"
    using n unfolding waitIteration_def g(1) by simp
  show "iteration_clock l io < next_gate l io f \<Longrightarrow>
     waitIteration l io f = (Sleep (sat64 (next_gate l io f - iteration_clock l io)), l, f)"
    using g(2) unfolding waitIteration_def g(1) by (simp add: time_sub_def)
qed

text \<open>
  A call of \<^verbatim>\<open>Wait\<close> that no other request overtakes comes back: when the last
  request of the tier lies in the past and the file answers alike in both iterations, the call sleeps at
  most the gap, and passes in its first iteration or in the one after that sleep.
\<close>

theorem limiter_wait_returns:
  assumes "0 \<le> lm_gap l" "lm_gap l < 2 ^ 63"
    and "lm_next l \<le> iteration_clock l io + lm_gap l" "lastStamp io f \<le> iteration_clock l io"
    and "io_open io2 = io_open io" "io_lock io2 = io_lock io" "io_read io2 = io_read io"
    and "\<And>d. fst (waitIteration l io f) = Sleep d \<Longrightarrow> iteration_clock l io + d \<le> iteration_clock l io2"
  shows "fst (Wait l f ((io, False) # (io2, False) # ios)) \<in> {Passed (iteration_clock l io), Passed (iteration_clock l io2)}
     \<and> (case fst (waitIteration l io f) of Pass now \<Rightarrow> True | Sleep d \<Rightarrow> 0 < d \<and> d \<le> lm_gap l)"
proof (cases "next_gate l io f \<le> iteration_clock l io")
  case True
  then show ?thesis using waitIteration_gate(1) by fastforce
next
  case False
  define d where "d = next_gate l io f - iteration_clock l io"
  have d: "0 < d" "d \<le> lm_gap l" using False assms(1,3,4) by (auto simp: d_def next_gate_def)
  have w: "waitIteration l io f = (Sleep d, l, f)"
    using False waitIteration_gate(2) d assms(2) by (simp add: d_def sat64_def)
  have "next_gate l io2 f = next_gate l io f" using assms(5-7) by (simp add: next_gate_def lastStamp_def)
  then have "next_gate l io2 f \<le> iteration_clock l io2" using assms(8) [of d] w by (simp add: d_def)
  from waitIteration_gate(1) [OF this] show ?thesis using w d by auto
qed

theorem limiter_wait_returns_witness:
  "fst (Wait (NewLimiter 50 \<lparr>lm_persistent := True\<rparr>) (fmt_int (unix_nano sample_start))
     [(sample_io (sample_start + 20), False), (sample_io (sample_start + 50), False)])
   \<in> {Passed (sample_start + 20), Passed (sample_start + 50)}"
proof -
  let ?l = "NewLimiter 50 \<lparr>lm_persistent := True\<rparr>" and ?io = "sample_io (sample_start + 20)"
    and ?f = "fmt_int (unix_nano sample_start)"
  have w: "waitIteration ?l ?io ?f = (Sleep 30, ?l, ?f)"
    "lastStamp ?io ?f \<le> iteration_clock ?l ?io" "lm_next ?l \<le> iteration_clock ?l ?io + lm_gap ?l"
    "iteration_clock ?l (sample_io (sample_start + 20)) = sample_start + 20"
    "iteration_clock ?l (sample_io (sample_start + 50)) = sample_start + 50"
    by code_simp+
  have io: "io_open (sample_io t)" "io_lock (sample_io t)" "io_read (sample_io t)" for t by (simp_all add: sample_io_def)
  show ?thesis
    using limiter_wait_returns [of ?l ?io ?f "sample_io (sample_start + 50)" "[]"] w io by (simp add: NewLimiter_def)
qed

end
