(* ===== verification/Live_Calendar.thy ===== *)
theory Live_Calendar
  imports Go_Text Backtest_Unfilled
begin

text \<open>
  Exchange sessions and data completeness: \<^verbatim>\<open>internal/datacheck/calendar.go\<close> and \<^verbatim>\<open>datacheck.go\<close>, the
  freshness rules of \<^verbatim>\<open>internal/ingest/freshness.go\<close> and the trading-hours gate of
  \<^verbatim>\<open>internal/wheelrun/market_hours.go\<close>. The time zone database is a parameter: a zone gives the
  offset east of UTC at an instant.
\<close>

section \<open>Local time\<close>

type_synonym zone = "time \<Rightarrow> duration"
type_synonym tzdata = "string \<Rightarrow> zone option"

definition UTC :: zone where
  "UTC t = 0"

definition local_clock :: "zone \<Rightarrow> time \<Rightarrow> time" where
  "local_clock z t = t + z t"

text \<open>\<^verbatim>\<open>time.Date\<close>: the instant of a wall clock reading, its offset looked up as the library does.\<close>

definition date_instant :: "zone \<Rightarrow> time \<Rightarrow> time" where
  "date_instant z w = w - z (w - z w)"

definition local_day :: "zone \<Rightarrow> time \<Rightarrow> int" where
  "local_day z t = local_clock z t div day_ns"

text \<open>\<^verbatim>\<open>AddDate(0, 0, n)\<close>\<close>

definition addDate :: "zone \<Rightarrow> time \<Rightarrow> int \<Rightarrow> time" where
  "addDate z t n = date_instant z (local_clock z t + n * day_ns)"

definition clock_of_day :: "zone \<Rightarrow> time \<Rightarrow> int \<Rightarrow> int \<Rightarrow> time" where
  "clock_of_day z t h m = date_instant z (local_day z t * day_ns + h * hour_ns + m * 60 * second_ns)"

text \<open>Day 0, 1 January of year 1, is a Monday; Sunday is 0.\<close>

definition weekday :: "int \<Rightarrow> int" where
  "weekday d = (d + 1) mod 7"

definition day_key :: "int \<Rightarrow> int" where
  "day_key d = (case civil d of (y, m, dd) \<Rightarrow> y * 10000 + m * 100 + dd)"

definition dateKey :: "zone \<Rightarrow> time \<Rightarrow> int" where
  "dateKey z t = day_key (local_day z t)"

section \<open>The exchange calendar\<close>

datatype market = marketMainland | marketHK | marketUS

record MarketSession =
  TradingDay :: bool
  ReadyHour :: int
  ReadyMinute :: int

text \<open>An exchange calendar is asked with the symbol and a time in its location.\<close>

type_synonym Calendar = "string \<Rightarrow> zone \<Rightarrow> time \<Rightarrow> MarketSession"

definition marketForSymbol :: "string \<Rightarrow> market" where
  "marketForSymbol symbol =
     (let p = to_upper (fst (cut_at CHR ''.'' symbol))
      in if p = ''US'' then marketUS else if p = ''HK'' then marketHK else marketMainland)"

definition normalReadyTime :: "market \<Rightarrow> int \<times> int" where
  "normalReadyTime m = (if m = marketMainland then (15, 30) else (16, 30))"

fun containsDate :: "int list \<Rightarrow> int \<Rightarrow> bool" where
  "containsDate [] target \<longleftrightarrow> False"
| "containsDate (date # dates) target \<longleftrightarrow> (if date = target then True else containsDate dates target)"

definition mainlandClosed2026 :: "int list" where
  "mainlandClosed2026 =
     [20260101, 20260102,
      20260216, 20260217, 20260218, 20260219, 20260220, 20260223,
      20260406,
      20260501, 20260504, 20260505,
      20260619,
      20260925,
      20261001, 20261002, 20261005, 20261006, 20261007]"

definition hkexClosed2026 :: "int list" where
  "hkexClosed2026 =
     [20260101,
      20260217, 20260218, 20260219,
      20260403, 20260406, 20260407,
      20260501, 20260525,
      20260619,
      20260701,
      20261001, 20261019,
      20261225]"

definition hkexHalfDay2026 :: "int list" where
  "hkexHalfDay2026 = [20260216, 20261224, 20261231]"

definition nyseClosed2026 :: "int list" where
  "nyseClosed2026 =
     [20260101, 20260119, 20260216, 20260403, 20260525,
      20260619, 20260703, 20260907, 20261126, 20261225]"

definition nyseEarlyClose2026 :: "int list" where
  "nyseEarlyClose2026 = [20261127, 20261224]"

text \<open>The session depends on the local date only, so its body is over the day.\<close>

definition sessionOfDay :: "string \<Rightarrow> int \<Rightarrow> MarketSession" where
  "sessionOfDay symbol day =
     (let market = marketForSymbol symbol;
          (hour, minute) = normalReadyTime market;
          session = \<lparr>TradingDay = (weekday day \<noteq> 6 \<and> weekday day \<noteq> 0), ReadyHour = hour, ReadyMinute = minute\<rparr>
      in if \<not> TradingDay session \<or> fst (civil day) \<noteq> 2026 then session
         else
           (let key = day_key day
            in case market of
                 marketUS \<Rightarrow>
                   if containsDate nyseClosed2026 key then session\<lparr>TradingDay := False\<rparr>
                   else if containsDate nyseEarlyClose2026 key then session\<lparr>ReadyHour := 13, ReadyMinute := 30\<rparr>
                   else session
               | marketHK \<Rightarrow>
                   if containsDate hkexClosed2026 key then session\<lparr>TradingDay := False\<rparr>
                   else if containsDate hkexHalfDay2026 key then session\<lparr>ReadyHour := 12, ReadyMinute := 30\<rparr>
                   else session
               | marketMainland \<Rightarrow>
                   if containsDate mainlandClosed2026 key then session\<lparr>TradingDay := False\<rparr> else session))"

definition ExchangeCalendar :: Calendar where
  "ExchangeCalendar symbol z date = sessionOfDay symbol (local_day z date)"

definition marketLocation :: "tzdata \<Rightarrow> string \<Rightarrow> zone" where
  "marketLocation tz symbol =
     (let name = (case marketForSymbol symbol of
          marketUS \<Rightarrow> ''America/New_York'' | marketHK \<Rightarrow> ''Asia/Hong_Kong'' | marketMainland \<Rightarrow> ''Asia/Shanghai'')
      in case tz name of None \<Rightarrow> UTC | Some loc \<Rightarrow> loc)"

definition marketDate :: "tzdata \<Rightarrow> time \<Rightarrow> string \<Rightarrow> int" where
  "marketDate tz value symbol = dateKey (marketLocation tz symbol) value"

section \<open>The latest session whose data is due\<close>

definition or_default :: "Calendar option \<Rightarrow> Calendar" where
  "or_default calendar = (case calendar of None \<Rightarrow> ExchangeCalendar | Some c \<Rightarrow> c)"

definition firstSessionCandidate :: "Calendar \<Rightarrow> string \<Rightarrow> zone \<Rightarrow> time \<Rightarrow> time" where
  "firstSessionCandidate calendar symbol loc now =
     (let session = calendar symbol loc now;
          readyAt = clock_of_day loc now (ReadyHour session) (ReadyMinute session)
      in if \<not> TradingDay session \<or> now < readyAt then addDate loc now (- 1) else now)"

text \<open>The bounded scan: the key of the first trading day among the next \<open>n\<close> candidates.\<close>

fun scanSessions :: "Calendar \<Rightarrow> string \<Rightarrow> zone \<Rightarrow> nat \<Rightarrow> time \<Rightarrow> int option" where
  "scanSessions calendar symbol loc 0 candidate = None"
| "scanSessions calendar symbol loc (Suc n) candidate =
     (if TradingDay (calendar symbol loc candidate) then Some (dateKey loc candidate)
      else scanSessions calendar symbol loc n (addDate loc candidate (- 1)))"

text \<open>
  The fallback calls the function again with the checked-in calendar, so nothing in its text bounds the
  recursion: a call that never returned would have the value \<^term>\<open>None\<close>.
\<close>

partial_function (option) expectedSessionDateWithCalendar ::
  "tzdata \<Rightarrow> time \<Rightarrow> string \<Rightarrow> Calendar option \<Rightarrow> int option" where
  "expectedSessionDateWithCalendar tz now symbol calendar =
     (let loc = marketLocation tz symbol; cal = or_default calendar
      in case scanSessions cal symbol loc 370 (firstSessionCandidate cal symbol loc now) of
           Some key \<Rightarrow> Some key
         | None \<Rightarrow> expectedSessionDateWithCalendar tz now symbol (Some ExchangeCalendar))"

definition expectedSessionDate :: "tzdata \<Rightarrow> time \<Rightarrow> string \<Rightarrow> int option" where
  "expectedSessionDate tz now symbol = expectedSessionDateWithCalendar tz now symbol None"

section \<open>Freshness\<close>

datatype FreshnessStatus = Fresh | Stale | Unknown

definition JudgeFreshness :: "time \<Rightarrow> time \<Rightarrow> duration \<Rightarrow> FreshnessStatus" where
  "JudgeFreshness maxTs now maxAge =
     (if is_zero maxTs then Unknown
      else if time_sub now maxTs \<le> maxAge then Fresh
      else Stale)"

definition bar_suffixes :: "(string \<times> duration) list" where
  "bar_suffixes =
     [(''mo'', 30 * 24 * hour_ns), (''w'', 7 * 24 * hour_ns), (''d'', 24 * hour_ns), (''h'', hour_ns), (''m'', 60 * second_ns)]"

fun suffix_interval :: "(string \<times> duration) list \<Rightarrow> string \<Rightarrow> duration option" where
  "suffix_interval [] tf = None"
| "suffix_interval ((suf, ns) # rest) tf =
     (if \<not> has_suffix tf suf then suffix_interval rest tf
      else case parse_int64 (trim_suffix tf suf) of
        None \<Rightarrow> None
      | Some n \<Rightarrow> if n \<le> 0 then None else Some (wrap64 (n * ns)))"

definition parseBarInterval :: "string \<Rightarrow> duration option" where
  "parseBarInterval timeframe = suffix_interval bar_suffixes (trim_space timeframe)"

definition MaxAgeForTimeframe :: "string \<Rightarrow> duration" where
  "MaxAgeForTimeframe timeframe =
     (case parseBarInterval timeframe of
        None \<Rightarrow> 24 * hour_ns
      | Some d \<Rightarrow>
          let t = wrap64 (3 * d) in if 10 * 60 * second_ns \<le> t then t else 10 * 60 * second_ns)"

definition MaxAgeForOptions :: duration where
  "MaxAgeForOptions = 4 * hour_ns"

definition HKEXDataSource :: string where
  "HKEXDataSource = ''hkex''"

definition MaxAgeForOptionSource :: "string \<Rightarrow> duration" where
  "MaxAgeForOptionSource source =
     (if equal_fold (trim_space source) HKEXDataSource then MaxAgeForTimeframe ''1d'' else MaxAgeForOptions)"
section \<open>Civil years\<close>

text \<open>The days of 2026 are 739616 up to 739980.\<close>

lemma civil_year_2026:
  assumes "fst (civil d) = 2026"
  shows "739616 \<le> d \<and> d < 739981"
proof -
  define r where "r = d mod 146097"
  define n100 where "n100 = min 3 (r div 36524)"
  define q where "q = r - 36524 * n100"
  define n1 where "n1 = min 3 (q mod 1461 div 365)"
  have y: "400 * (d div 146097) + 100 * n100 + 4 * (q div 1461) + n1 + 1 = 2026"
    using assms unfolding civil_def Let_def r_def n100_def q_def n1_def by (simp only: fst_conv)
  have r: "0 \<le> r" "r < 146097" by (simp_all add: r_def)
  have n: "0 \<le> n100" "n100 \<le> 3" "0 \<le> q" "q < 36525" using r by (auto simp: n100_def q_def min_def)
  then have m: "0 \<le> q div 1461" "q div 1461 \<le> 24" "0 \<le> n1" "n1 \<le> 3" by (auto simp: n1_def min_def)
  have "A = 5 \<and> B = 0 \<and> C = 6 \<and> E = 1"
    if "400 * A + 100 * B + 4 * C + E + 1 = 2026" "0 \<le> B" "B \<le> 3" "0 \<le> C" "C \<le> 24" "0 \<le> E" "E \<le> 3" for A B C E :: int
  proof -
    have "A = 5" using that by linarith
    moreover from this have "B = 0" using that by linarith
    moreover from calculation have "C = 6" using that by linarith
    ultimately show ?thesis using that by linarith
  qed
  from this [OF y n(1,2) m] have e: "d div 146097 = 5" "n100 = 0" "q div 1461 = 6" "n1 = 1" by simp_all
  have "q = r" using e(2) by (simp add: q_def)
  moreover have "365 \<le> q mod 1461" "q mod 1461 < 730" using e(4) by (auto simp: n1_def min_def split: if_splits)
  ultimately show ?thesis using e(1,3) div_mult_mod_eq [of d 146097] div_mult_mod_eq [of q 1461] by (simp add: r_def)
qed

section \<open>The calendar has no long closure\<close>

lemma session_outside_2026:
  "fst (civil d) \<noteq> 2026 \<Longrightarrow> TradingDay (sessionOfDay symbol d) \<longleftrightarrow> weekday d \<noteq> 6 \<and> weekday d \<noteq> 0"
  by (simp add: sessionOfDay_def Let_def split: prod.splits)

definition open_Wednesday :: "string \<Rightarrow> int \<Rightarrow> bool" where
  "open_Wednesday symbol k \<longleftrightarrow> TradingDay (sessionOfDay symbol (7 * k + 2))"

lemma open_Wednesdays_2026:
  "list_all (\<lambda>n. \<forall>symbol \<in> {''US'', ''HK'', ''SH''}.
     open_Wednesday symbol (105658 + int n) \<or> open_Wednesday symbol (105657 + int n)) [0..<55]"
  by code_simp

lemma sessionOfDay_market: "marketForSymbol s = marketForSymbol s' \<Longrightarrow> sessionOfDay s = sessionOfDay s'"
  by (simp add: sessionOfDay_def fun_eq_iff)

lemma sample_symbol: "\<exists>s \<in> {''US'', ''HK'', ''SH''}. marketForSymbol s = marketForSymbol symbol"
  by (cases "marketForSymbol symbol") (simp_all; code_simp)+

lemma open_Wednesday_near: "open_Wednesday symbol k \<or> open_Wednesday symbol (k - 1)"
proof (cases "105658 \<le> k \<and> k < 105713")
  case True
  obtain s where s: "s \<in> {''US'', ''HK'', ''SH''}" "marketForSymbol s = marketForSymbol symbol" using sample_symbol by blast
  have n: "k = 105658 + int (nat (k - 105658))" "nat (k - 105658) \<in> set [0..<55]" using True by auto
  have "open_Wednesday s (105658 + int (nat (k - 105658))) \<or> open_Wednesday s (105657 + int (nat (k - 105658)))"
    using bspec [OF open_Wednesdays_2026 [unfolded list_all_iff] n(2)] s(1) by blast
  then have "open_Wednesday s k \<or> open_Wednesday s (k - 1)" using True by simp
  then show ?thesis using sessionOfDay_market [OF s(2)] by (simp add: open_Wednesday_def)
next
  case False
  then have "fst (civil (7 * k + 2)) \<noteq> 2026" using civil_year_2026 [of "7 * k + 2"] by auto
  moreover have "weekday (7 * k + 2) = 3" by (simp add: weekday_def)
  ultimately show ?thesis by (simp add: open_Wednesday_def session_outside_2026)
qed

text \<open>Every day is a trading day or has one among the 13 days before it.\<close>

lemma exchange_open_near: "\<exists>n < 14. TradingDay (sessionOfDay symbol (day - int n))"
proof -
  define k where "k = (day - 2) div 7"
  define n where "n = nat ((day - 2) mod 7)"
  have "day = 7 * k + 2 + int n" and n: "n < 7" by (simp_all add: k_def n_def)
  then have "day - int n = 7 * k + 2" "day - int (n + 7) = 7 * (k - 1) + 2" by simp_all
  then have "TradingDay (sessionOfDay symbol (day - int n)) \<or> TradingDay (sessionOfDay symbol (day - int (n + 7)))"
    using open_Wednesday_near [of symbol k] by (simp only: open_Wednesday_def)
  moreover have "n < 14" "n + 7 < 14" using n by simp_all
  ultimately show ?thesis by blast
qed

section \<open>The scan\<close>

text \<open>A zone that keeps the dates of the year before a day: no local midnight is skipped into another date.\<close>

definition keeps_dates :: "zone \<Rightarrow> int \<Rightarrow> bool" where
  "keeps_dates z d \<longleftrightarrow>
     (\<forall>w. d - 370 \<le> w div day_ns \<and> w div day_ns \<le> d \<longrightarrow> local_day z (date_instant z w) = w div day_ns)"

definition days_back :: "zone \<Rightarrow> time \<Rightarrow> nat \<Rightarrow> time" where
  "days_back z t k = ((\<lambda>u. addDate z u (- 1)) ^^ k) t"

lemma days_back_simps [simp]:
  "days_back z t 0 = t" "days_back z (addDate z t (- 1)) k = days_back z t (Suc k)"
  "addDate z (days_back z t k) (- 1) = days_back z t (Suc k)"
  using funpow_swap1 [of "\<lambda>u. addDate z u (- 1)" k t] by (simp_all add: days_back_def)

lemma scanSessions_Some:
  "scanSessions cal symbol z n t = Some key \<longleftrightarrow>
     (\<exists>k < n. key = dateKey z (days_back z t k) \<and> TradingDay (cal symbol z (days_back z t k))
        \<and> (\<forall>j < k. \<not> TradingDay (cal symbol z (days_back z t j))))"
proof (induction n arbitrary: t)
  case (Suc n)
  show ?case
  proof (cases "TradingDay (cal symbol z t)")
    case True
    then show ?thesis by (force intro: exI [of _ 0])
  next
    case False
    then show ?thesis using Suc.IH [of "addDate z t (- 1)"] by (simp add: Ex_less_Suc2 All_less_Suc2)
  qed
qed simp

lemma local_day_addDate:
  assumes "keeps_dates z d" "d - 370 \<le> local_day z t - 1" "local_day z t \<le> d"
  shows "local_day z (addDate z t (- 1)) = local_day z t - 1"
proof -
  have "(local_clock z t + - 1 * day_ns) div day_ns = local_day z t - 1"
    by (simp add: local_day_def day_ns_def)
  then show ?thesis using assms by (simp add: addDate_def keeps_dates_def)
qed

lemma local_day_back:
  "keeps_dates z d \<Longrightarrow> local_day z t \<le> d \<Longrightarrow> d - 370 \<le> local_day z t - int k
     \<Longrightarrow> local_day z (days_back z t k) = local_day z t - int k"
proof (induction k)
  case (Suc k)
  then have "local_day z (days_back z t k) = local_day z t - int k" by simp
  then show ?case using Suc.prems local_day_addDate [of z d "days_back z t k"] by simp
qed simp

text \<open>With the checked-in calendar the scan ends at the latest trading day, at most 13 days back.\<close>

lemma scan_exchange:
  assumes "keeps_dates z d" "local_day z t \<le> d" "d - 1 \<le> local_day z t"
  shows "\<exists>k < 14. scanSessions ExchangeCalendar symbol z 370 t = Some (day_key (local_day z t - int k))
     \<and> TradingDay (sessionOfDay symbol (local_day z t - int k))
     \<and> (\<forall>j < k. \<not> TradingDay (sessionOfDay symbol (local_day z t - int j)))"
proof -
  let ?open = "\<lambda>k. TradingDay (sessionOfDay symbol (local_day z t - int k))"
  define k where "k = (LEAST k. ?open k)"
  obtain n where n: "n < 14" "?open n" using exchange_open_near by blast
  have k: "?open k" "k \<le> n" "\<forall>j < k. \<not> ?open j"
    using n(2) LeastI [of ?open n] Least_le [of ?open n] not_less_Least [of _ ?open] by (auto simp: k_def)
  have b: "local_day z (days_back z t j) = local_day z t - int j" if "j \<le> k" for j
    using that k(2) n(1) assms by (intro local_day_back [OF assms(1,2)]) simp
  have "scanSessions ExchangeCalendar symbol z 370 t = Some (day_key (local_day z t - int k))"
    unfolding scanSessions_Some
    using k n(1) b by (intro exI [of _ k]) (simp add: dateKey_def ExchangeCalendar_def)
  then show ?thesis using k n(1) by (intro exI [of _ k]) simp
qed

section \<open>Properties\<close>

text \<open>The day the scan starts from: today once its data is due, yesterday otherwise.\<close>

lemma firstSessionCandidate_day:
  assumes "keeps_dates z (local_day z now)"
  shows "local_day z (firstSessionCandidate cal symbol z now) =
     (if TradingDay (cal symbol z now) \<and> clock_of_day z now (ReadyHour (cal symbol z now)) (ReadyMinute (cal symbol z now)) \<le> now
      then local_day z now else local_day z now - 1)"
  using local_day_addDate [OF assms] by (auto simp: firstSessionCandidate_def Let_def not_le)

definition data_due :: "zone \<Rightarrow> time \<Rightarrow> string \<Rightarrow> int \<Rightarrow> bool" where
  "data_due z now symbol day \<longleftrightarrow>
     TradingDay (sessionOfDay symbol day)
     \<and> (day < local_day z now
        \<or> day = local_day z now
          \<and> clock_of_day z now (ReadyHour (sessionOfDay symbol day)) (ReadyMinute (sessionOfDay symbol day)) \<le> now)"

lemma expected_exchange:
  assumes "keeps_dates z (local_day z now)" "z = marketLocation tz symbol" "or_default calendar = ExchangeCalendar"
  shows "\<exists>day. expectedSessionDateWithCalendar tz now symbol calendar = Some (day_key day)
     \<and> data_due z now symbol day \<and> (\<forall>e. data_due z now symbol e \<longrightarrow> e \<le> day) \<and> local_day z now - 14 \<le> day"
proof -
  let ?c = "firstSessionCandidate ExchangeCalendar symbol z now" and ?d = "local_day z now"
  have "ExchangeCalendar symbol z now = sessionOfDay symbol ?d" by (simp add: ExchangeCalendar_def)
  note c = firstSessionCandidate_day [OF assms(1), of ExchangeCalendar symbol, unfolded this]
  have "local_day z ?c \<le> ?d" "?d - 1 \<le> local_day z ?c" by (simp_all add: c)
  from scan_exchange [OF assms(1) this, of symbol] obtain k where
    k: "k < 14" "scanSessions ExchangeCalendar symbol z 370 ?c = Some (day_key (local_day z ?c - int k))"
      "TradingDay (sessionOfDay symbol (local_day z ?c - int k))"
      "\<And>j. j < k \<Longrightarrow> \<not> TradingDay (sessionOfDay symbol (local_day z ?c - int j))" by blast
  let ?day = "local_day z ?c - int k"
  have e: "expectedSessionDateWithCalendar tz now symbol calendar = Some (day_key ?day)"
    using assms(2,3) k(2) by (subst expectedSessionDateWithCalendar.simps) (simp add: Let_def)
  have due: "data_due z now symbol ?day"
  proof (cases "k = 0 \<and> local_day z ?c = ?d")
    case True
    then show ?thesis using k(3) c by (simp add: data_due_def split: if_splits)
  next
    case False
    then have "?day < ?d" using c by (auto split: if_splits)
    then show ?thesis using k(3) by (simp add: data_due_def)
  qed
  have last: "x \<le> ?day" if x: "data_due z now symbol x" for x
  proof (rule ccontr)
    assume n: "\<not> x \<le> ?day"
    have "x \<le> local_day z ?c" using x c by (auto simp: data_due_def)
    then have "\<not> TradingDay (sessionOfDay symbol x)" using k(4) [of "nat (local_day z ?c - x)"] n by simp
    then show False using x by (simp add: data_due_def)
  qed
  have "?d - 14 \<le> ?day" using k(1) \<open>?d - 1 \<le> local_day z ?c\<close> by simp
  then show ?thesis using e due last by blast
qed

lemma expected_session_total:
  assumes "keeps_dates (marketLocation tz symbol) (local_day (marketLocation tz symbol) now)"
  shows "expectedSessionDateWithCalendar tz now symbol calendar \<noteq> None"
proof -
  have ex: "expectedSessionDateWithCalendar tz now symbol (Some ExchangeCalendar) \<noteq> None"
    using expected_exchange [OF assms refl, of "Some ExchangeCalendar"] by (auto simp: or_default_def)
  then show ?thesis
    by (subst expectedSessionDateWithCalendar.simps) (simp add: Let_def split: option.split)
qed

text \<open>
  C35: the recursive search for the latest session whose data is due always returns -
  whatever calendar is injected, since the scan is bounded and the fallback calendar has no closure as long
  as a scan - and with the checked-in calendar it returns the latest trading day, at most 14 days back,
  whose ready time has passed.
\<close>

theorem expected_session_returns:
  assumes "keeps_dates (marketLocation tz symbol) (local_day (marketLocation tz symbol) now)"
  shows "expectedSessionDateWithCalendar tz now symbol calendar \<noteq> None
     \<and> (\<exists>day. expectedSessionDate tz now symbol = Some (day_key day)
          \<and> data_due (marketLocation tz symbol) now symbol day
          \<and> (\<forall>e. data_due (marketLocation tz symbol) now symbol e \<longrightarrow> e \<le> day)
          \<and> local_day (marketLocation tz symbol) now - 14 \<le> day)"
proof
  show "expectedSessionDateWithCalendar tz now symbol calendar \<noteq> None" by (rule expected_session_total [OF assms])
  show "\<exists>day. expectedSessionDate tz now symbol = Some (day_key day)
      \<and> data_due (marketLocation tz symbol) now symbol day
      \<and> (\<forall>e. data_due (marketLocation tz symbol) now symbol e \<longrightarrow> e \<le> day)
      \<and> local_day (marketLocation tz symbol) now - 14 \<le> day"
    using expected_exchange [OF assms refl, of None] by (simp add: or_default_def expectedSessionDate_def)
qed

text \<open>A zone with a fixed offset, and an instant on Monday, 6 April 2026, a holiday in Shanghai.\<close>

definition sample_tz :: tzdata where
  "sample_tz name = Some (\<lambda>_. 8 * hour_ns)"

lemma fixed_offset_keeps_dates: "keeps_dates (\<lambda>_. off) d"
  by (simp add: keeps_dates_def local_day_def local_clock_def date_instant_def)

theorem expected_session_returns_witness:
  "expectedSessionDateWithCalendar sample_tz (739711 * day_ns) ''SH.600000'' (Some (\<lambda>_ _ _. \<lparr>TradingDay = False, ReadyHour = 0, ReadyMinute = 0\<rparr>)) \<noteq> None"
proof -
  have "marketLocation sample_tz ''SH.600000'' = (\<lambda>_. 8 * hour_ns)" by (simp add: marketLocation_def sample_tz_def)
  then show ?thesis
    using expected_session_returns [of sample_tz "''SH.600000''" "739711 * day_ns"] fixed_offset_keeps_dates by simp
qed

end
