(* ===== verification/Live_Datacheck.thy ===== *)
theory Live_Datacheck
  imports Live_Calendar Wheel_Evaluate
begin

text \<open>
  The completeness report and the repair cycle of \<^verbatim>\<open>internal/datacheck/datacheck.go\<close> and
  \<^verbatim>\<open>service.go\<close>. The stored coverage and the repairs are what the database and the gateway answer.
\<close>

section \<open>Policy and coverage\<close>

datatype ItemState = StateComplete | StateMissing | StateStale

record Policy =
  Timeframes :: "string list"
  Adjusts :: "string list"
  Options :: bool
  CalendarOverride :: "Calendar option"
  SessionAware :: bool

definition DefaultPolicy :: Policy where
  "DefaultPolicy =
     \<lparr>Timeframes = [''1m'', ''5m'', ''15m'', ''30m'', ''60m'', ''1d'', ''1w'', ''1mo''],
      Adjusts = [''none'', ''fwd'', ''back''], Options = True, CalendarOverride = None, SessionAware = True\<rparr>"

record BarCoverage =
  bc_Symbol :: string
  bc_Timeframe :: string
  bc_Adjust :: string
  bc_Count :: int
  bc_MinTs :: time
  bc_MaxTs :: time

record OptionCoverage =
  oc_Underlying :: string
  oc_MaxTs :: time
  oc_MaxExpiry :: time

datatype ItemKind = BarsItem | OptionsItem

record Item =
  it_Symbol :: string
  it_Kind :: ItemKind
  it_Timeframe :: string
  it_Adjust :: string
  it_State :: ItemState
  it_MaxTs :: time
  it_MaxExpiry :: time
  it_AgeSeconds :: int

record Report =
  CheckedAt :: time
  Symbols :: int
  TotalItems :: int
  Missing :: int
  StaleCount :: int
  Items :: "Item list"

definition Complete :: "Report \<Rightarrow> bool" where
  "Complete r \<longleftrightarrow> Missing r = 0 \<and> StaleCount r = 0"

section \<open>The check\<close>

definition uniqueSorted :: "string list \<Rightarrow> string list" where
  "uniqueSorted vs = sort (remdups (filter (\<lambda>v. v \<noteq> []) vs))"

text \<open>The \<^verbatim>\<open>Seconds\<close> of a duration are a float64, cut to an integer.\<close>

definition duration_seconds :: "duration \<Rightarrow> f64" where
  "duration_seconds d =
     of_int64 (quot_trunc d second_ns) + of_int64 (d - quot_trunc d second_ns * second_ns) / of_int64 1000000000"

definition ageSeconds :: "time \<Rightarrow> time \<Rightarrow> int" where
  "ageSeconds now since = (let age = time_sub now since in if age < 0 then 0 else int_of_f64 (duration_seconds age))"

text \<open>\<open>loc\<close> is the location of \<open>now\<close>.\<close>

definition expiryBefore :: "time \<Rightarrow> zone \<Rightarrow> time \<Rightarrow> bool" where
  "expiryBefore expiry loc now = (if is_zero expiry then True else expiry < clock_of_day loc now 0 0)"

definition barsStale :: "tzdata \<Rightarrow> string \<Rightarrow> string \<Rightarrow> time \<Rightarrow> time \<Rightarrow> Policy \<Rightarrow> bool option" where
  "barsStale tz symbol timeframe maxTs now policy =
     (if SessionAware policy \<and> timeframe \<noteq> ''1w'' \<and> timeframe \<noteq> ''1mo'' then
        (case expectedSessionDateWithCalendar tz now symbol (CalendarOverride policy) of
           None \<Rightarrow> None
         | Some expected \<Rightarrow> Some (marketDate tz maxTs symbol < expected))
      else Some (JudgeFreshness maxTs now (MaxAgeForTimeframe timeframe) \<noteq> Fresh))"

definition optionsStale :: "tzdata \<Rightarrow> zone \<Rightarrow> string \<Rightarrow> OptionCoverage \<Rightarrow> time \<Rightarrow> Policy \<Rightarrow> bool option" where
  "optionsStale tz loc symbol coverage now policy =
     (let stale = JudgeFreshness (oc_MaxTs coverage) now MaxAgeForOptions \<noteq> Fresh
      in case (if SessionAware policy
               then (case expectedSessionDateWithCalendar tz now symbol (CalendarOverride policy) of
                       None \<Rightarrow> None
                     | Some expected \<Rightarrow> Some (marketDate tz (oc_MaxTs coverage) symbol < expected))
               else Some stale) of
           None \<Rightarrow> None
         | Some stale \<Rightarrow> Some (stale \<or> expiryBefore (oc_MaxExpiry coverage) loc now))"

definition report_add :: "Report \<Rightarrow> Item \<Rightarrow> Report" where
  "report_add r item =
     (let r = r\<lparr>TotalItems := TotalItems r + 1\<rparr>;
          r = (case it_State item of
                 StateMissing \<Rightarrow> r\<lparr>Missing := Missing r + 1\<rparr>
               | StateStale \<Rightarrow> r\<lparr>StaleCount := StaleCount r + 1\<rparr>
               | StateComplete \<Rightarrow> r)
      in r\<lparr>Items := Items r @ [item]\<rparr>)"

definition bar_key :: "string \<Rightarrow> string \<Rightarrow> string \<Rightarrow> string" where
  "bar_key symbol timeframe adjust = symbol @ [CHR 0x00] @ timeframe @ [CHR 0x00] @ adjust"

text \<open>The newest coverage per key; the first of equally new ones stays.\<close>

definition keep_newest :: "('v \<Rightarrow> string) \<Rightarrow> ('v \<Rightarrow> time) \<Rightarrow> 'v gomap \<Rightarrow> 'v \<Rightarrow> 'v gomap" where
  "keep_newest key ts m v =
     (case map_of m (key v) of
        None \<Rightarrow> map_put (key v) v m
      | Some old \<Rightarrow> if ts old < ts v then map_put (key v) v m else m)"

definition barByKey :: "BarCoverage list \<Rightarrow> BarCoverage gomap" where
  "barByKey bars = foldl (keep_newest (\<lambda>b. bar_key (bc_Symbol b) (bc_Timeframe b) (bc_Adjust b)) bc_MaxTs) [] bars"

definition optionBySymbol :: "OptionCoverage list \<Rightarrow> OptionCoverage gomap" where
  "optionBySymbol options = foldl (keep_newest oc_Underlying oc_MaxTs) [] options"

definition missing_item :: "string \<Rightarrow> ItemKind \<Rightarrow> string \<Rightarrow> string \<Rightarrow> Item" where
  "missing_item symbol kind timeframe adjust =
     \<lparr>it_Symbol = symbol, it_Kind = kind, it_Timeframe = timeframe, it_Adjust = adjust, it_State = StateMissing,
      it_MaxTs = 0, it_MaxExpiry = 0, it_AgeSeconds = 0\<rparr>"

definition bars_item :: "tzdata \<Rightarrow> BarCoverage gomap \<Rightarrow> time \<Rightarrow> Policy \<Rightarrow> string \<Rightarrow> string \<Rightarrow> string \<Rightarrow> Item option" where
  "bars_item tz byKey now policy symbol timeframe adjust =
     (let item = missing_item symbol BarsItem timeframe adjust
      in case map_of byKey (bar_key symbol timeframe adjust) of
           None \<Rightarrow> Some item
         | Some coverage \<Rightarrow>
             (let item = item\<lparr>it_MaxTs := bc_MaxTs coverage, it_AgeSeconds := ageSeconds now (bc_MaxTs coverage),
                              it_State := StateComplete\<rparr>
              in case barsStale tz symbol timeframe (bc_MaxTs coverage) now policy of
                   None \<Rightarrow> None
                 | Some stale \<Rightarrow> Some (if stale then item\<lparr>it_State := StateStale\<rparr> else item)))"

definition options_item :: "tzdata \<Rightarrow> zone \<Rightarrow> OptionCoverage gomap \<Rightarrow> time \<Rightarrow> Policy \<Rightarrow> string \<Rightarrow> Item option" where
  "options_item tz loc bySymbol now policy symbol =
     (let item = missing_item symbol OptionsItem [] []
      in case map_of bySymbol symbol of
           None \<Rightarrow> Some item
         | Some coverage \<Rightarrow>
             (let item = item\<lparr>it_MaxTs := oc_MaxTs coverage, it_MaxExpiry := oc_MaxExpiry coverage,
                              it_AgeSeconds := ageSeconds now (oc_MaxTs coverage), it_State := StateComplete\<rparr>
              in case optionsStale tz loc symbol coverage now policy of
                   None \<Rightarrow> None
                 | Some stale \<Rightarrow> Some (if stale then item\<lparr>it_State := StateStale\<rparr> else item)))"

text \<open>The loops of \<^verbatim>\<open>Check\<close>, over timeframes and adjustments, and over the symbols.\<close>

fun add_items :: "Item option list \<Rightarrow> Report \<Rightarrow> Report option" where
  "add_items [] report = Some report"
| "add_items (None # items) report = None"
| "add_items (Some item # items) report = add_items items (report_add report item)"

definition symbol_items ::
  "tzdata \<Rightarrow> zone \<Rightarrow> BarCoverage gomap \<Rightarrow> OptionCoverage gomap \<Rightarrow> time \<Rightarrow> Policy \<Rightarrow> string \<Rightarrow> Item option list" where
  "symbol_items tz loc byKey bySymbol now policy symbol =
     concat (map (\<lambda>timeframe. map (\<lambda>adjust. bars_item tz byKey now policy symbol timeframe adjust) (Adjusts policy)) (Timeframes policy))
     @ (if Options policy then [options_item tz loc bySymbol now policy symbol] else [])"

definition Check ::
  "tzdata \<Rightarrow> zone \<Rightarrow> string list \<Rightarrow> BarCoverage list \<Rightarrow> OptionCoverage list \<Rightarrow> time \<Rightarrow> Policy \<Rightarrow> Report option" where
  "Check tz loc symbols bars options now policy =
     (let byKey = barByKey bars; bySymbol = optionBySymbol options; unique = uniqueSorted symbols;
          report = \<lparr>CheckedAt = now, Symbols = int (length unique), TotalItems = 0, Missing = 0, StaleCount = 0, Items = []\<rparr>
      in add_items (concat (map (symbol_items tz loc byKey bySymbol now policy) unique)) report)"

section \<open>The repair cycle\<close>

record SnapshotData =
  sd_Symbols :: "string list"
  sd_Bars :: "BarCoverage list"
  sd_Options :: "OptionCoverage list"

record RunResult =
  Before :: Report
  After :: "Report option"
  RepairErrors :: "string list"

text \<open>
  The loader and the repairer act on a store of any type \<open>'s\<close>; an error is its text. A repair is asked
  for one item and answers the store afterwards and an error.
\<close>

type_synonym 's loader = "'s \<Rightarrow> string + SnapshotData"
type_synonym 's repairer = "Item \<Rightarrow> time \<Rightarrow> 's \<Rightarrow> 's \<times> string option"

definition repair_name :: "Item \<Rightarrow> string" where
  "repair_name item = (case it_Kind item of BarsItem \<Rightarrow> it_Timeframe item @ ''/'' @ it_Adjust item | OptionsItem \<Rightarrow> ''options'')"

fun repairItems :: "'s repairer \<Rightarrow> 's repairer \<Rightarrow> time \<Rightarrow> Item list \<Rightarrow> 's \<times> string list \<Rightarrow> 's \<times> string list" where
  "repairItems rbars ropts now [] acc = acc"
| "repairItems rbars ropts now (item # items) (st, errs) =
     (if it_State item = StateComplete then repairItems rbars ropts now items (st, errs)
      else
        (let (st, err) = (if it_Kind item = OptionsItem then ropts item now st else rbars item now st)
         in case err of
              None \<Rightarrow> repairItems rbars ropts now items (st, errs)
            | Some e \<Rightarrow> repairItems rbars ropts now items (st, errs @ [it_Symbol item @ '' '' @ repair_name item @ '': '' @ e])))"

definition effectivePolicy :: "Policy \<Rightarrow> Policy" where
  "effectivePolicy policy = (if Timeframes policy = [] \<or> Adjusts policy = [] then DefaultPolicy else policy)"

text \<open>
  \<^verbatim>\<open>Service.Run\<close>: the result and the error it returns, and the store it leaves. \<open>None\<close> is a run that
  does not return.
\<close>

definition Service_Run ::
  "tzdata \<Rightarrow> zone \<Rightarrow> ('s loader \<times> 's repairer \<times> 's repairer) option \<Rightarrow> Policy \<Rightarrow> time \<Rightarrow> 's
     \<Rightarrow> ((RunResult option \<times> string option) \<times> 's) option" where
  "Service_Run tz loc svc policy now st =
     (case svc of
        None \<Rightarrow> Some ((None, Some ''datacheck: service requires loader and repairer''), st)
      | Some (load, rbars, ropts) \<Rightarrow>
          (let policy = effectivePolicy policy
           in case load st of
                Inl e \<Rightarrow> Some ((None, Some (''datacheck: load before repair: '' @ e)), st)
              | Inr before \<Rightarrow>
                  (case Check tz loc (sd_Symbols before) (sd_Bars before) (sd_Options before) now policy of
                     None \<Rightarrow> None
                   | Some rep \<Rightarrow>
                       (let (st, errs) = repairItems rbars ropts now (Items rep) (st, [])
                        in case load st of
                             Inl e \<Rightarrow> Some ((Some \<lparr>Before = rep, After = None, RepairErrors = errs\<rparr>,
                                             Some (''datacheck: load after repair: '' @ e)), st)
                           | Inr aft \<Rightarrow>
                               (case Check tz loc (sd_Symbols aft) (sd_Bars aft) (sd_Options aft) now policy of
                                  None \<Rightarrow> None
                                | Some rep2 \<Rightarrow> Some ((Some \<lparr>Before = rep, After = Some rep2, RepairErrors = errs\<rparr>, None), st))))))"

definition NextRun :: "zone \<Rightarrow> time \<Rightarrow> int \<Rightarrow> int \<Rightarrow> time" where
  "NextRun loc now hour minute =
     (let next = clock_of_day loc now hour minute in if \<not> now < next then addDate loc next 1 else next)"

section \<open>Lemmas\<close>

definition count_state :: "ItemState \<Rightarrow> Item list \<Rightarrow> int" where
  "count_state s items = int (length (filter (\<lambda>i. it_State i = s) items))"

definition report_ok :: "Report \<Rightarrow> bool" where
  "report_ok r \<longleftrightarrow> TotalItems r = int (length (Items r)) \<and> Missing r = count_state StateMissing (Items r)
     \<and> StaleCount r = count_state StateStale (Items r)"

lemma report_ok_add: "report_ok r \<Longrightarrow> report_ok (report_add r item)"
  by (cases "it_State item") (simp_all add: report_ok_def report_add_def count_state_def Let_def)

lemma report_add_fields [simp]:
  "Items (report_add r item) = Items r @ [item]" "CheckedAt (report_add r item) = CheckedAt r"
  "Symbols (report_add r item) = Symbols r"
  by (cases "it_State item"; simp add: report_add_def Let_def)+

lemma add_items_Some:
  "list_all (\<lambda>i. i \<noteq> None) items \<Longrightarrow> report_ok r \<Longrightarrow>
     \<exists>r'. add_items items r = Some r' \<and> report_ok r' \<and> Items r' = Items r @ map the items
       \<and> CheckedAt r' = CheckedAt r \<and> Symbols r' = Symbols r"
proof (induction items arbitrary: r)
  case (Cons i items)
  then show ?case using Cons.IH [of "report_add r (the i)"] by (cases i) (auto simp: report_ok_add)
qed simp

text \<open>The complete items are the ones neither missing nor stale.\<close>

lemma report_complete:
  assumes "report_ok r"
  shows "Complete r \<longleftrightarrow> (\<forall>item \<in> set (Items r). it_State item = StateComplete)"
proof -
  have "s = StateComplete \<longleftrightarrow> s \<noteq> StateMissing \<and> s \<noteq> StateStale" for s by (cases s) simp_all
  then show ?thesis using assms by (auto simp: report_ok_def Complete_def count_state_def filter_empty_conv)
qed

text \<open>Keeping the newest of each key.\<close>

definition newest_of :: "('v \<Rightarrow> string) \<Rightarrow> ('v \<Rightarrow> time) \<Rightarrow> 'v list \<Rightarrow> string \<Rightarrow> 'v option \<Rightarrow> bool" where
  "newest_of key ts vs k found \<longleftrightarrow>
     (case found of
        None \<Rightarrow> \<forall>v \<in> set vs. key v \<noteq> k
      | Some v \<Rightarrow> v \<in> set vs \<and> key v = k \<and> (\<forall>u \<in> set vs. key u = k \<longrightarrow> ts u \<le> ts v))"

lemma keep_newest_step:
  "newest_of key ts vs k (map_of m k) \<Longrightarrow> newest_of key ts (vs @ [v]) k (map_of (keep_newest key ts m v) k)"
  by (auto simp: keep_newest_def newest_of_def split: option.splits)

lemma keep_newest_fold: "newest_of key ts vs k (map_of (foldl (keep_newest key ts) [] vs) k)"
  by (induction vs rule: rev_induct) (simp_all add: keep_newest_step, simp add: newest_of_def)

text \<open>A judgement of staleness returns when the zone keeps its dates.\<close>

definition zones_ok :: "tzdata \<Rightarrow> time \<Rightarrow> bool" where
  "zones_ok tz now \<longleftrightarrow> (\<forall>symbol. keeps_dates (marketLocation tz symbol) (local_day (marketLocation tz symbol) now))"

lemma expected_Some: "zones_ok tz now \<Longrightarrow> \<exists>k. expectedSessionDateWithCalendar tz now symbol cal = Some k"
  using expected_session_total [of tz symbol now cal] by (simp add: zones_ok_def)

lemma stale_Some:
  "zones_ok tz now \<Longrightarrow> barsStale tz symbol tf maxTs now policy \<noteq> None"
  "zones_ok tz now \<Longrightarrow> optionsStale tz loc symbol cov now policy \<noteq> None"
  using expected_Some [of tz now symbol "CalendarOverride policy"] by (auto simp: barsStale_def optionsStale_def Let_def)

definition item_state :: "'v option \<Rightarrow> ('v \<Rightarrow> bool option) \<Rightarrow> ItemState" where
  "item_state found stale =
     (case found of None \<Rightarrow> StateMissing | Some v \<Rightarrow> if stale v = Some True then StateStale else StateComplete)"

lemma stale_None:
  "zones_ok tz now \<Longrightarrow> (barsStale tz symbol tf maxTs now policy = None) = False"
  "zones_ok tz now \<Longrightarrow> (optionsStale tz loc symbol cov now policy = None) = False"
  using stale_Some by simp_all

lemma bars_item_Some:
  assumes "zones_ok tz now"
  shows "\<exists>item. bars_item tz byKey now policy symbol tf adj = Some item
     \<and> (it_Symbol item, it_Kind item, it_Timeframe item, it_Adjust item) = (symbol, BarsItem, tf, adj)
     \<and> it_State item = item_state (map_of byKey (bar_key symbol tf adj)) (\<lambda>c. barsStale tz symbol tf (bc_MaxTs c) now policy)"
  by (auto simp: bars_item_def stale_None [OF assms] missing_item_def item_state_def Let_def split: option.splits)

lemma options_item_Some:
  assumes "zones_ok tz now"
  shows "\<exists>item. options_item tz loc bySymbol now policy symbol = Some item
     \<and> (it_Symbol item, it_Kind item, it_Timeframe item, it_Adjust item) = (symbol, OptionsItem, [], [])
     \<and> it_State item = item_state (map_of bySymbol symbol) (\<lambda>c. optionsStale tz loc symbol c now policy)"
  by (auto simp: options_item_def stale_None [OF assms] missing_item_def item_state_def Let_def split: option.splits)

definition required :: "Policy \<Rightarrow> string \<Rightarrow> (string \<times> ItemKind \<times> string \<times> string) list" where
  "required policy symbol =
     concat (map (\<lambda>tf. map (\<lambda>adj. (symbol, BarsItem, tf, adj)) (Adjusts policy)) (Timeframes policy))
     @ (if Options policy then [(symbol, OptionsItem, [], [])] else [])"

definition identity_of :: "Item \<Rightarrow> string \<times> ItemKind \<times> string \<times> string" where
  "identity_of item = (it_Symbol item, it_Kind item, it_Timeframe item, it_Adjust item)"

definition judged :: "tzdata \<Rightarrow> zone \<Rightarrow> BarCoverage list \<Rightarrow> OptionCoverage list \<Rightarrow> time \<Rightarrow> Policy \<Rightarrow> Item \<Rightarrow> bool" where
  "judged tz loc bars options now policy item \<longleftrightarrow>
     (case it_Kind item of
        BarsItem \<Rightarrow> (\<exists>found. newest_of (\<lambda>b. bar_key (bc_Symbol b) (bc_Timeframe b) (bc_Adjust b)) bc_MaxTs bars
            (bar_key (it_Symbol item) (it_Timeframe item) (it_Adjust item)) found
          \<and> it_State item = item_state found (\<lambda>c. barsStale tz (it_Symbol item) (it_Timeframe item) (bc_MaxTs c) now policy))
      | OptionsItem \<Rightarrow> (\<exists>found. newest_of oc_Underlying oc_MaxTs options (it_Symbol item) found
          \<and> it_State item = item_state found (\<lambda>c. optionsStale tz loc (it_Symbol item) c now policy)))"

lemma newest_bars: "newest_of (\<lambda>b. bar_key (bc_Symbol b) (bc_Timeframe b) (bc_Adjust b)) bc_MaxTs bars k (map_of (barByKey bars) k)"
  unfolding barByKey_def by (rule keep_newest_fold)

lemma newest_options: "newest_of oc_Underlying oc_MaxTs options k (map_of (optionBySymbol options) k)"
  unfolding optionBySymbol_def by (rule keep_newest_fold)

text \<open>An item of the loops exists, carries the identity asked for and is judged by the newest coverage.\<close>

definition item_for ::
  "tzdata \<Rightarrow> zone \<Rightarrow> BarCoverage list \<Rightarrow> OptionCoverage list \<Rightarrow> time \<Rightarrow> Policy \<Rightarrow> Item option \<Rightarrow> string \<times> ItemKind \<times> string \<times> string \<Rightarrow> bool" where
  "item_for tz loc bars options now policy oi ident \<longleftrightarrow>
     (\<exists>item. oi = Some item \<and> identity_of item = ident \<and> judged tz loc bars options now policy item)"

lemma bars_item_for:
  "zones_ok tz now \<Longrightarrow> item_for tz loc bars options now policy (bars_item tz (barByKey bars) now policy symbol tf adj) (symbol, BarsItem, tf, adj)"
  using bars_item_Some [of tz now "barByKey bars" policy symbol tf adj] newest_bars [of bars "bar_key symbol tf adj"]
  unfolding item_for_def identity_of_def judged_def by fastforce

lemma options_item_for:
  "zones_ok tz now \<Longrightarrow> item_for tz loc bars options now policy (options_item tz loc (optionBySymbol options) now policy symbol) (symbol, OptionsItem, [], [])"
  using options_item_Some [of tz now loc "optionBySymbol options" policy symbol] newest_options [of options symbol]
  unfolding item_for_def identity_of_def judged_def by fastforce

lemma symbol_items_for:
  assumes "zones_ok tz now"
  shows "list_all2 (item_for tz loc bars options now policy)
     (symbol_items tz loc (barByKey bars) (optionBySymbol options) now policy symbol) (required policy symbol)"
proof -
  note b = bars_item_for [OF assms] and o = options_item_for [OF assms]
  have "list_all2 (item_for tz loc bars options now policy)
      (map (\<lambda>adjust. bars_item tz (barByKey bars) now policy symbol tf adjust) adjs) (map (\<lambda>adj. (symbol, BarsItem, tf, adj)) adjs)"
    for tf adjs by (simp add: list_all2_map1 list_all2_map2 list.rel_refl b)
  then have "list_all2 (item_for tz loc bars options now policy)
      (concat (map (\<lambda>tf. map (\<lambda>adjust. bars_item tz (barByKey bars) now policy symbol tf adjust) adjs) tfs))
      (concat (map (\<lambda>tf. map (\<lambda>adj. (symbol, BarsItem, tf, adj)) adjs) tfs))" for adjs tfs
    by (induction tfs) (simp_all add: list_all2_appendI)
  then show ?thesis using o by (simp add: symbol_items_def required_def list_all2_appendI)
qed

lemma all_items_for:
  assumes "zones_ok tz now"
  shows "list_all2 (item_for tz loc bars options now policy)
     (concat (map (symbol_items tz loc (barByKey bars) (optionBySymbol options) now policy) syms))
     (concat (map (required policy) syms))"
  by (induction syms) (simp_all add: list_all2_appendI symbol_items_for [OF assms])

lemma items_for_Some:
  "list_all2 (item_for tz loc bars options now policy) items idents \<Longrightarrow>
     list_all (\<lambda>i. i \<noteq> None) items \<and> map identity_of (map the items) = idents
     \<and> (\<forall>item \<in> set (map the items). judged tz loc bars options now policy item)"
  by (induction rule: list_all2_induct) (auto simp: item_for_def)

section \<open>Properties\<close>



end
