(* ===== verification/Live_Hours.thy ===== *)
theory Live_Hours
  imports Live_Calendar
begin

text \<open>The trading-hours gate of \<^verbatim>\<open>internal/wheelrun/market_hours.go\<close>.\<close>

section \<open>The gate\<close>

definition symbolMarket :: "string \<Rightarrow> string" where
  "symbolMarket symbol =
     (let p = to_upper (fst (cut_at CHR ''.'' symbol))
      in if p = ''HK'' then ''hk'' else if p = ''US'' then ''us'' else ''mainland'')"

definition wr_marketLocation :: "tzdata \<Rightarrow> string \<Rightarrow> zone" where
  "wr_marketLocation tz market =
     (let name = (if market = ''hk'' then ''Asia/Hong_Kong'' else if market = ''us'' then ''America/New_York'' else ''Asia/Shanghai'')
      in case tz name of None \<Rightarrow> UTC | Some loc \<Rightarrow> loc)"

definition inWindow :: "int \<Rightarrow> int \<Rightarrow> int \<Rightarrow> bool" where
  "inWindow minute b e \<longleftrightarrow> b \<le> minute \<and> minute < e"

definition normalCloseMinute :: "string \<Rightarrow> int" where
  "normalCloseMinute market = (if market = ''mainland'' then 15 * 60 else 16 * 60)"

definition minute_of_day :: "zone \<Rightarrow> time \<Rightarrow> int" where
  "minute_of_day z t = local_clock z t mod day_ns div (60 * second_ns)"

definition closeMinute :: "string \<Rightarrow> MarketSession \<Rightarrow> int" where
  "closeMinute market session =
     (if 0 < ReadyHour session \<or> 0 < ReadyMinute session then
        (let candidate = ReadyHour session * 60 + ReadyMinute session - 30
         in if 0 < candidate then candidate else normalCloseMinute market)
      else normalCloseMinute market)"

definition MarketIsOpen :: "tzdata \<Rightarrow> string \<Rightarrow> time \<Rightarrow> Calendar option \<Rightarrow> bool" where
  "MarketIsOpen tz symbol now calendar =
     (let market = symbolMarket symbol; loc = wr_marketLocation tz market;
          session = or_default calendar symbol loc now
      in if \<not> TradingDay session then False
         else
           (let minute = minute_of_day loc now; close = closeMinute market session
            in if market = ''hk'' then
                 (let morningEnd = (if close < 12 * 60 then close else 12 * 60)
                  in inWindow minute (9 * 60 + 30) morningEnd \<or> inWindow minute (13 * 60) close)
               else if market = ''us'' then inWindow minute (9 * 60 + 30) close
               else
                 (let morningEnd = (if close < 11 * 60 + 30 then close else 11 * 60 + 30)
                  in inWindow minute (9 * 60 + 30) morningEnd \<or> inWindow minute (13 * 60) close)))"

section \<open>The sessions of the exchanges\<close>

text \<open>The continuous sessions of the exchanges in minutes of the local day, on a normal and on a short day.\<close>

fun continuous_sessions :: "market \<Rightarrow> bool \<Rightarrow> (int \<times> int) list" where
  "continuous_sessions marketUS False = [(570, 960)]"
| "continuous_sessions marketUS True = [(570, 780)]"
| "continuous_sessions marketHK False = [(570, 720), (780, 960)]"
| "continuous_sessions marketHK True = [(570, 720)]"
| "continuous_sessions marketMainland short = [(570, 690), (780, 900)]"

definition short_day :: "string \<Rightarrow> int \<Rightarrow> bool" where
  "short_day symbol day \<longleftrightarrow> fst (civil day) = 2026 \<and>
     (case marketForSymbol symbol of
        marketUS \<Rightarrow> containsDate nyseEarlyClose2026 (day_key day)
      | marketHK \<Rightarrow> containsDate hkexHalfDay2026 (day_key day)
      | marketMainland \<Rightarrow> False)"

lemma markets:
  "marketForSymbol symbol = marketUS \<longleftrightarrow> symbolMarket symbol = ''us''"
  "marketForSymbol symbol = marketHK \<longleftrightarrow> symbolMarket symbol = ''hk''"
  "marketForSymbol symbol = marketMainland \<longleftrightarrow> symbolMarket symbol = ''mainland''"
  by (auto simp: marketForSymbol_def symbolMarket_def Let_def)

lemma locations: "wr_marketLocation tz (symbolMarket symbol) = marketLocation tz symbol"
  by (cases "marketForSymbol symbol") (simp_all add: markets [THEN iffD1] marketLocation_def wr_marketLocation_def)

text \<open>The ready times of the calendar are half an hour after the close.\<close>

definition close_of :: "market \<Rightarrow> bool \<Rightarrow> int" where
  "close_of m short =
     (case m of marketUS \<Rightarrow> if short then 780 else 960 | marketHK \<Rightarrow> if short then 720 else 960 | marketMainland \<Rightarrow> 900)"

lemma closeMinute_session:
  "TradingDay (sessionOfDay symbol day) \<Longrightarrow>
     closeMinute (symbolMarket symbol) (sessionOfDay symbol day) = close_of (marketForSymbol symbol) (short_day symbol day)"
  by (cases "marketForSymbol symbol")
     (auto simp: sessionOfDay_def normalReadyTime_def closeMinute_def close_of_def short_day_def Let_def split: if_splits)

section \<open>Properties\<close>

text \<open>
  C37: with the checked-in calendar the gate opens exactly during the continuous sessions
  of the symbol's exchange - on a trading day, in exchange-local minutes, with the lunch breaks of Hong Kong
  and the mainland, and shortened on half days and early closes.
\<close>

theorem market_open_sessions:
  "MarketIsOpen tz symbol now None \<longleftrightarrow>
     (let loc = marketLocation tz symbol; day = local_day loc now
      in TradingDay (sessionOfDay symbol day)
         \<and> list_ex (\<lambda>(b, e). b \<le> minute_of_day loc now \<and> minute_of_day loc now < e)
             (continuous_sessions (marketForSymbol symbol) (short_day symbol day)))"
proof -
  have s: "or_default None symbol loc now = sessionOfDay symbol (local_day loc now)" for loc
    by (simp add: or_default_def ExchangeCalendar_def)
  show ?thesis
    unfolding MarketIsOpen_def Let_def locations s
    using closeMinute_session [of symbol "local_day (marketLocation tz symbol) now"] markets [of symbol]
    by (cases "marketForSymbol symbol"; cases "short_day symbol (local_day (marketLocation tz symbol) now)")
       (auto simp: inWindow_def close_of_def)
qed

end
