(* ===== verification/Live_Review.thy ===== *)
theory Live_Review
  imports Go_Json
begin

text \<open>
  The review gate of \<^verbatim>\<open>internal/llmreview\<close>: what \<^verbatim>\<open>RecordLLMGate\<close> (\<^verbatim>\<open>gate.go\<close>) makes of a reviewer's answer,
  and the checks of a verdict and the cleaning of the request in \<^verbatim>\<open>llmreview.go\<close>. The chat endpoint is
  the reviewer, a function from requests to an error or a result; the signal repository acts on a store
  of any type.
\<close>

section \<open>Reviews\<close>

record Usage =
  PromptTokens :: int
  CompletionTokens :: int
  TotalTokens :: int
  CacheHitTokens :: int
  CacheMissTokens :: int

record ReviewResult =
  rr_Verdict :: string
  rr_Reasons :: "string list option"
  rr_Notes :: string
  rr_Usage :: Usage

text \<open>A nil slice of reasons is \<^term>\<open>None\<close>.\<close>

definition deriveCacheMiss :: "int \<Rightarrow> int \<Rightarrow> int \<Rightarrow> int" where
  "deriveCacheMiss hit miss prompt =
     (if miss = 0 \<and> 0 < hit \<and> hit < prompt then wrap64 (prompt - hit) else miss)"

record usageInfo =
  ui_PromptTokens :: int
  ui_CompletionTokens :: int
  ui_TotalTokens :: int
  ui_PromptCacheHitTokens :: int
  ui_PromptCacheMissTokens :: int
  ui_CachedTokens :: "int option"

definition usageFrom :: "usageInfo \<Rightarrow> Usage" where
  "usageFrom u =
     (let hit = ui_PromptCacheHitTokens u;
          hit = (case ui_CachedTokens u of Some c \<Rightarrow> if hit = 0 then c else hit | None \<Rightarrow> hit)
      in \<lparr>PromptTokens = ui_PromptTokens u, CompletionTokens = ui_CompletionTokens u, TotalTokens = ui_TotalTokens u,
          CacheHitTokens = hit, CacheMissTokens = deriveCacheMiss hit (ui_PromptCacheMissTokens u) (ui_PromptTokens u)\<rparr>)"

text \<open>The checks on a decoded verdict.\<close>

definition parseResult :: "string \<Rightarrow> string list option \<Rightarrow> string \<Rightarrow> string + (string \<times> string list \<times> string)" where
  "parseResult verdict reasons notes =
     (let v = to_upper (trim_space verdict)
      in if v \<noteq> ''APPROVE'' \<and> v \<noteq> ''REJECT'' then Inl (''llmreview: unexpected verdict '' @ fmt_quote verdict)
         else
           (let reasons = (case reasons of None \<Rightarrow> [] | Some rs \<Rightarrow> rs)
            in if v = ''REJECT'' \<and> reasons = [] then Inl ''llmreview: REJECT verdict requires at least one reason''
               else Inr (v, reasons, notes)))"

text \<open>Zero times are dropped from every object of the request.\<close>

definition zero_time_text :: string where
  "zero_time_text = ''0001-01-01T00:00:00Z''"

fun dropZeroTimes :: "json \<Rightarrow> json" where
  "dropZeroTimes (JObj kvs) =
     JObj (map (\<lambda>(k, v). (k, dropZeroTimes v)) (filter (\<lambda>(k, v). v \<noteq> JStr zero_time_text) kvs))"
| "dropZeroTimes (JArr vs) = JArr (map dropZeroTimes vs)"
| "dropZeroTimes v = v"

section \<open>The gate\<close>

record usageDetail =
  ud_prompt_tokens :: int
  ud_completion_tokens :: int
  ud_cache_hit_tokens :: int
  ud_cache_miss_tokens :: int
  ud_cache_hit_rate :: "f64 option"

definition usageDetailMap :: "Usage \<Rightarrow> usageDetail" where
  "usageDetailMap u =
     (let hit = CacheHitTokens u; miss = deriveCacheMiss hit (CacheMissTokens u) (PromptTokens u);
          n = wrap64 (hit + miss)
      in \<lparr>ud_prompt_tokens = PromptTokens u, ud_completion_tokens = CompletionTokens u, ud_cache_hit_tokens = hit,
          ud_cache_miss_tokens = miss, ud_cache_hit_rate = (if 0 < n then Some (of_int64 hit / of_int64 n) else None)\<rparr>)"

text \<open>The audit details, an absent key being \<^term>\<open>None\<close>; the summary is the caller's.\<close>

record 'm GateDetails =
  gd_verdict :: string
  gd_reasons :: "string list"
  gd_input_summary :: 'm
  gd_error :: "string option"
  gd_notes :: "string option"
  gd_usage :: "usageDetail option"

record 'm ActionRecord =
  ar_SignalID :: int
  ar_Action :: string
  ar_Actor :: string
  ar_Details :: "'m GateDetails"

record ('q, 'm) GateInput =
  gi_SignalID :: int
  gi_Request :: 'q
  gi_Summary :: 'm
  gi_UnexpectedVerdictIsFailure :: bool

type_synonym 'q reviewer = "'q \<Rightarrow> string + ReviewResult"
type_synonym ('m, 's) append_action = "'m ActionRecord \<Rightarrow> 's \<Rightarrow> 's \<times> string option"

definition unavailable_text :: string where
  "unavailable_text = ''llm reviewer unavailable (set LLM_BASE_URL, LLM_API_KEY, LLM_MODEL)''"

text \<open>Verdict, disposition and details after the reviewer's part.\<close>

definition judge :: "'q reviewer option \<Rightarrow> ('q, 'm) GateInput \<Rightarrow> string \<times> string \<times> 'm GateDetails" where
  "judge reviewer input =
     (let details = \<lparr>gd_verdict = ''REJECT'', gd_reasons = [], gd_input_summary = gi_Summary input, gd_error = None,
            gd_notes = None, gd_usage = None\<rparr>
      in case reviewer of
           None \<Rightarrow> (''REJECT'', ''REJECTED'', details\<lparr>gd_reasons := [unavailable_text]\<rparr>)
         | Some review \<Rightarrow>
             (case review (gi_Request input) of
                Inl reason \<Rightarrow>
                  (''REJECT'', ''LLM_REVIEW_FAILED'', details\<lparr>gd_reasons := [reason], gd_error := Some reason\<rparr>)
              | Inr result \<Rightarrow>
                  (let verdict = to_upper (trim_space (rr_Verdict result));
                       reasons = (case rr_Reasons result of None \<Rightarrow> [] | Some rs \<Rightarrow> rs);
                       details = details\<lparr>gd_verdict := verdict, gd_reasons := reasons\<rparr>;
                       details = (if rr_Notes result \<noteq> []
                                    \<and> (verdict = ''APPROVE'' \<or> verdict = ''REJECT'' \<or> \<not> gi_UnexpectedVerdictIsFailure input)
                                  then details\<lparr>gd_notes := Some (rr_Notes result)\<rparr> else details);
                       details = details\<lparr>gd_usage := Some (usageDetailMap (rr_Usage result))\<rparr>
                   in if verdict \<noteq> ''APPROVE'' \<and> verdict \<noteq> ''REJECT'' then
                        (if gi_UnexpectedVerdictIsFailure input then
                           (let message = ''unexpected LLM verdict '' @ fmt_quote (rr_Verdict result)
                            in (''REJECT'', ''REJECTED'',
                                details\<lparr>gd_error := Some message, gd_reasons := [message], gd_verdict := ''REJECT''\<rparr>))
                         else
                           (let message = ''unexpected LLM verdict '' @ rr_Verdict result
                            in (''REJECT'', ''REJECTED'', details\<lparr>gd_reasons := message # reasons, gd_verdict := ''REJECT''\<rparr>)))
                      else (verdict, ''REJECTED'', details))))"

definition RecordLLMGate ::
  "('m, 's) append_action option \<Rightarrow> 'q reviewer option \<Rightarrow> string \<Rightarrow> ('q, 'm) GateInput \<Rightarrow> 's
     \<Rightarrow> (string \<times> string \<times> string option) \<times> 's" where
  "RecordLLMGate repo reviewer model input st =
     (let actor = (if model \<noteq> [] then ''llm:'' @ model else ''llm:unknown'');
          (verdict, disposition, details) = judge reviewer input;
          (verdict, disposition) = (if verdict = ''APPROVE'' then (verdict, ''LLM_REVIEW'') else (''REJECT'', disposition))
      in case repo of
           None \<Rightarrow> ((verdict, disposition, Some ''record LLM gate: nil signal repository''), st)
         | Some add \<Rightarrow>
             (let (st, err) = add \<lparr>ar_SignalID = gi_SignalID input, ar_Action = disposition, ar_Actor = actor,
                                       ar_Details = details\<rparr> st
              in ((verdict, disposition, err), st)))"

section \<open>Lemmas\<close>

lemma drop_zero_idem: "dropZeroTimes (dropZeroTimes j) = dropZeroTimes j"
proof (induction j rule: dropZeroTimes.induct)
  case (1 kvs)
  have "dropZeroTimes v \<noteq> JStr zero_time_text" if "v \<noteq> JStr zero_time_text" for v using that by (cases v) simp_all
  then show ?case using 1 by (auto simp: filter_map o_def split_beta intro!: map_cong filter_cong)
qed simp_all

text \<open>No member of an object is left with a zero time, at any depth.\<close>

fun no_zero_times :: "json \<Rightarrow> bool" where
  "no_zero_times (JObj kvs) \<longleftrightarrow> list_all (\<lambda>(k, v). v \<noteq> JStr zero_time_text \<and> no_zero_times v) kvs"
| "no_zero_times (JArr vs) \<longleftrightarrow> list_all no_zero_times vs"
| "no_zero_times v \<longleftrightarrow> True"

lemma no_zero_times: "no_zero_times (dropZeroTimes j)"
proof (induction j rule: dropZeroTimes.induct)
  case (1 kvs)
  have "dropZeroTimes v \<noteq> JStr zero_time_text" if "v \<noteq> JStr zero_time_text" for v using that by (cases v) simp_all
  then show ?case using 1 by (auto simp: list_all_iff)
qed (simp_all add: list_all_iff)

text \<open>The answer of the reviewer, as the gate classifies it.\<close>

datatype GateAnswer = NoReviewer | ReviewError string | Verdict string

definition answer_of :: "'q reviewer option \<Rightarrow> 'q \<Rightarrow> GateAnswer" where
  "answer_of reviewer request =
     (case reviewer of
        None \<Rightarrow> NoReviewer
      | Some review \<Rightarrow>
          (case review request of Inl e \<Rightarrow> ReviewError e | Inr r \<Rightarrow> Verdict (to_upper (trim_space (rr_Verdict r)))))"

fun gate_disposition :: "GateAnswer \<Rightarrow> string" where
  "gate_disposition NoReviewer = ''REJECTED''"
| "gate_disposition (ReviewError e) = ''LLM_REVIEW_FAILED''"
| "gate_disposition (Verdict v) = (if v = ''APPROVE'' then ''LLM_REVIEW'' else ''REJECTED'')"

lemma judge_answer:
  "judge reviewer input = (v, d, details) \<Longrightarrow>
     v = (if answer_of reviewer (gi_Request input) = Verdict ''APPROVE'' then ''APPROVE'' else ''REJECT'')
     \<and> (v \<noteq> ''APPROVE'' \<longrightarrow> d = gate_disposition (answer_of reviewer (gi_Request input)))
     \<and> gd_verdict details = v \<and> gd_input_summary details = gi_Summary input
     \<and> (v = ''REJECT'' \<and> answer_of reviewer (gi_Request input) \<noteq> Verdict ''REJECT'' \<longrightarrow> gd_reasons details \<noteq> [])"
  by (auto simp: judge_def answer_of_def Let_def split: option.splits sum.splits if_splits)

section \<open>Properties\<close>

text \<open>
  C25: the gate passes a signal exactly when a reviewer answered an explicit APPROVE; every other
  outcome - no reviewer, a failed request, any other verdict - is a rejection, and a failed request is
  told apart from a verdict. One action is appended, it carries the disposition the caller gets, and its
  recorded verdict is the returned one, even where the append fails.
\<close>

theorem gate_fail_closed:
  "\<exists>rec. RecordLLMGate (Some add) reviewer model input st =
       ((if answer_of reviewer (gi_Request input) = Verdict ''APPROVE'' then ''APPROVE'' else ''REJECT'',
         gate_disposition (answer_of reviewer (gi_Request input)), snd (add rec st)), fst (add rec st))
     \<and> ar_SignalID rec = gi_SignalID input \<and> ar_Action rec = gate_disposition (answer_of reviewer (gi_Request input))
     \<and> (gd_verdict (ar_Details rec) = ''APPROVE'') = (ar_Action rec = ''LLM_REVIEW'')
     \<and> gd_input_summary (ar_Details rec) = gi_Summary input"
proof -
  obtain v d details where j: "judge reviewer input = (v, d, details)" by (cases "judge reviewer input") auto
  note a = judge_answer [OF j]
  have ap: "gate_disposition x = ''LLM_REVIEW'' \<longleftrightarrow> x = Verdict ''APPROVE''" for x by (cases x) simp_all
  show ?thesis
    using a by (intro exI [of _ "\<lparr>ar_SignalID = gi_SignalID input, ar_Action = gate_disposition (answer_of reviewer (gi_Request input)),
        ar_Actor = (if model \<noteq> [] then ''llm:'' @ model else ''llm:unknown''), ar_Details = details\<rparr>"])
      (auto simp: RecordLLMGate_def j Let_def split_beta ap)
qed

end
