(* ===== verification/Live_Positions.thy ===== *)
theory Live_Positions
  imports Go_Text Backtest_Unfilled Wheel_Evaluate
begin

text \<open>
  Broker positions of \<^verbatim>\<open>internal/wheelrun/positions.go\<close>: the option code parser with its two regular
  expressions, the attribution of positions to an option chain, the legs outside the chain window that
  stay closable, and the mapping to the decision's inventory input.
\<close>

section \<open>Option codes\<close>

definition SideLong :: int where
  "SideLong = 0"

definition SideShort :: int where
  "SideShort = 1"

record Position =
  ps_Symbol :: string
  ps_Code :: string
  ps_Qty :: f64
  ps_Side :: int
  ps_AvgCost :: f64

definition is_letter :: "char \<Rightarrow> bool" where
  "is_letter c \<longleftrightarrow> CHR ''A'' \<le> c \<and> c \<le> CHR ''Z'' \<or> CHR ''a'' \<le> c \<and> c \<le> CHR ''z''"

definition is_cp :: "char \<Rightarrow> bool" where
  "is_cp c \<longleftrightarrow> c = CHR ''C'' \<or> c = CHR ''P''"

record OptionCode =
  oc_letters :: string
  oc_yy :: string
  oc_mm :: string
  oc_dd :: string
  oc_cp :: char
  oc_strike :: string

text \<open>\<open>^([A-Za-z]+)(\d{2})(\d{2})(\d{2})([CP])(\d+)$\<close>: the groups are determined by the character classes.\<close>

definition optionCodeRE :: "string \<Rightarrow> OptionCode option" where
  "optionCodeRE s =
     (let letters = takeWhile is_letter s; rest = dropWhile is_letter s; date = take 6 rest; tail = drop 6 rest
      in if letters \<noteq> [] \<and> length date = 6 \<and> list_all is_digit date \<and> tail \<noteq> [] \<and> is_cp (hd tail)
            \<and> tl tail \<noteq> [] \<and> list_all is_digit (tl tail)
         then Some \<lparr>oc_letters = letters, oc_yy = take 2 date, oc_mm = take 2 (drop 2 date), oc_dd = drop 4 date,
                    oc_cp = hd tail, oc_strike = tl tail\<rparr>
         else None)"

text \<open>\<open>^[^A-Za-z].*[CP]\d+$\<close>: the letter stands front the last run of digits; the dot excludes line ends.\<close>

definition suspiciousOptionRE :: "string \<Rightarrow> bool" where
  "suspiciousOptionRE s =
     (case s of
        [] \<Rightarrow> False
      | c # rest \<Rightarrow>
          (let digits = takeWhile is_digit (rev rest); front = dropWhile is_digit (rev rest)
           in \<not> is_letter c \<and> digits \<noteq> [] \<and> front \<noteq> [] \<and> is_cp (hd front)
              \<and> list_all (\<lambda>x. x \<noteq> char_of (10::nat)) (tl front)))"

datatype OptionCodeError = UnsupportedOption string | NotOptionCode string | BadExpiry string | BadStrike string

text \<open>Day number of a civil date; two-digit years from 69 on are of the last century.\<close>

definition days_before_year :: "int \<Rightarrow> int" where
  "days_before_year y = 365 * (y - 1) + (y - 1) div 4 - (y - 1) div 100 + (y - 1) div 400"

definition day_of_civil :: "int \<Rightarrow> int \<Rightarrow> int \<Rightarrow> int" where
  "day_of_civil y m d = days_before_year y + sum_list (take (nat (m - 1)) (month_lengths y)) + d - 1"

definition parse_yymmdd :: "string \<Rightarrow> string \<Rightarrow> string \<Rightarrow> time option" where
  "parse_yymmdd yy mm dd =
     (let y = digits_value yy; year = (if 69 \<le> y then 1900 + y else 2000 + y); m = digits_value mm; d = digits_value dd
      in if m < 1 \<or> 12 < m then None
         else if d < 1 \<or> month_lengths year ! nat (m - 1) < d then None
         else Some (day_of_civil year m d * day_ns))"

definition trim_markets :: "string \<Rightarrow> string" where
  "trim_markets code = foldl trim_prefix code [''HK.'', ''US.'', ''SH.'', ''SZ.'']"

definition parseOptionCode :: "string \<Rightarrow> OptionCodeError + (f64 \<times> time \<times> string)" where
  "parseOptionCode code =
     (let code = trim_markets code
      in case optionCodeRE code of
           None \<Rightarrow> Inl (if suspiciousOptionRE code then UnsupportedOption code else NotOptionCode code)
         | Some m \<Rightarrow>
             (case parse_yymmdd (oc_yy m) (oc_mm m) (oc_dd m) of
                None \<Rightarrow> Inl (BadExpiry code)
              | Some expiry \<Rightarrow>
                  (case of_int64 (digits_value (oc_strike m)) of
                     PInf \<Rightarrow> Inl (BadStrike code)
                   | strike \<Rightarrow> Inr (strike / of_int64 1000, expiry, if oc_cp m = CHR ''P'' then PutType else CallType))))"

definition bareSecurityCode :: "string \<Rightarrow> string" where
  "bareSecurityCode symbol = (case cut_at CHR ''.'' symbol of (front, code, ok) \<Rightarrow> if ok then code else symbol)"

definition position_code :: "Position \<Rightarrow> string" where
  "position_code p = (if ps_Code p = [] then ps_Symbol p else ps_Code p)"

section \<open>Attribution to a chain\<close>

definition chainCodes :: "string list \<Rightarrow> (string \<times> unit) list" where
  "chainCodes contractSymbols =
     foldl (\<lambda>m s. if s = [] then m else set_add (bareSecurityCode s) (set_add s m)) [] contractSymbols"

definition optionCodeInChain :: "Position \<Rightarrow> (string \<times> unit) list \<Rightarrow> bool" where
  "optionCodeInChain p codes =
     list_ex (\<lambda>candidate. candidate \<noteq> [] \<and> (map_of codes candidate \<noteq> None \<or> map_of codes (bareSecurityCode candidate) \<noteq> None))
       [ps_Code p, ps_Symbol p]"

definition filterStep :: "string \<Rightarrow> (string \<times> unit) list \<Rightarrow> Position list \<times> Position list \<Rightarrow> Position \<Rightarrow> Position list \<times> Position list" where
  "filterStep symbol codes = (\<lambda>(matched, unassigned) p.
     (case parseOptionCode (position_code p) of
        Inr _ \<Rightarrow> if optionCodeInChain p codes then (matched @ [p], unassigned) else (matched, unassigned @ [p])
      | Inl (UnsupportedOption _) \<Rightarrow> (matched, unassigned @ [p])
      | Inl _ \<Rightarrow> if ps_Symbol p = symbol then (matched @ [p], unassigned) else (matched, unassigned)))"

definition filterPositions :: "string \<Rightarrow> Position list \<Rightarrow> string list \<Rightarrow> Position list \<times> Position list" where
  "filterPositions symbol positions contractSymbols =
     foldl (filterStep symbol (chainCodes contractSymbols)) ([], []) positions"

fun chainUnderlyingLetters :: "string list \<Rightarrow> string" where
  "chainUnderlyingLetters [] = []"
| "chainUnderlyingLetters (s # ss) =
     (if s = [] then chainUnderlyingLetters ss
      else case optionCodeRE (bareSecurityCode s) of
        None \<Rightarrow> chainUnderlyingLetters ss
      | Some m \<Rightarrow> to_upper (oc_letters m))"

section \<open>Signed quantities and the inventory input\<close>

datatype PositionError =
    NegativeQty f64 string | UnknownSide int string | PositionWithoutCode | UnsupportedPosition string OptionCodeError

definition signedQty :: "Position \<Rightarrow> PositionError + f64" where
  "signedQty p =
     (if ps_Qty p < 0 then Inl (NegativeQty (ps_Qty p) (ps_Symbol p))
      else if ps_Side p = SideLong then Inr (ps_Qty p)
      else if ps_Side p = SideShort then Inr (- ps_Qty p)
      else Inl (UnknownSide (ps_Side p) (ps_Symbol p)))"

definition option_position :: "string \<Rightarrow> f64 \<Rightarrow> f64 \<Rightarrow> string \<Rightarrow> f64 \<Rightarrow> OptionPosition" where
  "option_position symbol qty strike typ premium =
     \<lparr>p_Symbol = symbol, p_SignedContracts = qty, p_Contracts = 0, p_Strike = strike, p_MarketDelta = 0, p_Delta = 0,
      p_LotSize = 0, p_OptionType = typ, p_AvgPremium = premium\<rparr>"

definition position_symbol :: "Position \<Rightarrow> string" where
  "position_symbol p = (if ps_Symbol p = [] then position_code p else ps_Symbol p)"

text \<open>One leg of \<^verbatim>\<open>closePositionLegs\<close>, \<^term>\<open>None\<close> where the loop continues without it.\<close>

definition closeLeg :: "string \<Rightarrow> Position \<Rightarrow> (OptionPosition \<times> time) option" where
  "closeLeg underlyingLetters p =
     (let code = position_code p
      in if code = [] then None
         else case optionCodeRE (bareSecurityCode code) of
           None \<Rightarrow> None
         | Some m \<Rightarrow>
             (if underlyingLetters = [] \<or> \<not> equal_fold (oc_letters m) underlyingLetters then None
              else case parseOptionCode code of
                Inl _ \<Rightarrow> None
              | Inr (strike, expiry, typ) \<Rightarrow>
                  (case signedQty p of
                     Inl _ \<Rightarrow> None
                   | Inr qty \<Rightarrow>
                       if \<not> (qty < 0) then None
                       else Some (option_position (position_symbol p) qty strike typ (ps_AvgCost p), expiry))))"

definition closeStep ::
  "string \<Rightarrow> OptionPosition list \<times> Position list \<times> time gomap \<Rightarrow> Position \<Rightarrow> OptionPosition list \<times> Position list \<times> time gomap" where
  "closeStep underlyingLetters = (\<lambda>(legs, review, expiries) p.
     (case closeLeg underlyingLetters p of
        None \<Rightarrow> (legs, review, expiries)
      | Some (leg, expiry) \<Rightarrow> (legs @ [leg], review @ [p], map_put (p_Symbol leg) expiry expiries)))"

definition closePositionLegs :: "Position list \<Rightarrow> string \<Rightarrow> OptionPosition list \<times> Position list \<times> time gomap" where
  "closePositionLegs unassigned underlyingLetters = foldl (closeStep underlyingLetters) ([], [], []) unassigned"

fun positionsInputFrom :: "Position list \<Rightarrow> f64 \<times> OptionPosition list \<Rightarrow> PositionError + (f64 \<times> OptionPosition list)" where
  "positionsInputFrom [] acc = Inr acc"
| "positionsInputFrom (p # ps) (stockShares, opts) =
     (if position_code p = [] then Inl PositionWithoutCode
      else case signedQty p of
        Inl e \<Rightarrow> Inl e
      | Inr qty \<Rightarrow>
          (case parseOptionCode (position_code p) of
             Inr (strike, expiry, typ) \<Rightarrow>
               positionsInputFrom ps (stockShares, opts @ [option_position (position_symbol p) qty strike typ (ps_AvgCost p)])
           | Inl (UnsupportedOption c) \<Rightarrow> Inl (UnsupportedPosition (position_symbol p) (UnsupportedOption c))
           | Inl _ \<Rightarrow> positionsInputFrom ps (stockShares + qty, opts)))"

definition PositionsInput :: "Position list \<Rightarrow> PositionError + (f64 \<times> OptionPosition list)" where
  "PositionsInput positions = positionsInputFrom positions (0, [])"

definition costStep :: "f64 \<times> f64 \<Rightarrow> Position \<Rightarrow> f64 \<times> f64" where
  "costStep = (\<lambda>(shares, amount) p.
     (if (case parseOptionCode (position_code p) of Inr _ \<Rightarrow> True | Inl _ \<Rightarrow> False) \<or> ps_Side p \<noteq> SideLong
         \<or> ps_Qty p \<le> 0 \<or> ps_AvgCost p \<le> 0
      then (shares, amount) else (shares + ps_Qty p, amount + ps_Qty p * ps_AvgCost p)))"

definition StockAverageCost :: "Position list \<Rightarrow> f64" where
  "StockAverageCost positions =
     (let (shares, amount) = foldl costStep (0, 0) positions in if feq shares 0 then 0 else amount / shares)"

section \<open>Lemmas\<close>

datatype Attribution = InChain | OwnStock | Orphan | Foreign

text \<open>What the filter does with a position, by its parsed code.\<close>

definition attribution :: "string \<Rightarrow> (string \<times> unit) list \<Rightarrow> Position \<Rightarrow> Attribution" where
  "attribution symbol codes p =
     (case parseOptionCode (position_code p) of
        Inr _ \<Rightarrow> if optionCodeInChain p codes then InChain else Orphan
      | Inl (UnsupportedOption _) \<Rightarrow> Orphan
      | Inl _ \<Rightarrow> if ps_Symbol p = symbol then OwnStock else Foreign)"

lemma filterStep_attribution:
  "filterStep symbol codes (ms, us) p =
     (if attribution symbol codes p \<in> {InChain, OwnStock} then ms @ [p] else ms,
      if attribution symbol codes p = Orphan then us @ [p] else us)"
  by (auto simp: filterStep_def attribution_def split: sum.splits OptionCodeError.splits)

lemma filterPositions_filter:
  "filterPositions symbol ps chain =
     (filter (\<lambda>p. attribution symbol (chainCodes chain) p \<in> {InChain, OwnStock}) ps,
      filter (\<lambda>p. attribution symbol (chainCodes chain) p = Orphan) ps)"
  unfolding filterPositions_def by (induction ps rule: rev_induct) (simp_all add: filterStep_attribution)

lemma closePositionLegs_spec:
  "closePositionLegs ps letters = (legs, review, expiries) \<Longrightarrow>
     review = filter (\<lambda>p. closeLeg letters p \<noteq> None) ps \<and> legs = map (\<lambda>p. fst (the (closeLeg letters p))) review"
  unfolding closePositionLegs_def
proof (induction ps arbitrary: legs review expiries rule: rev_induct)
  case (snoc p ps)
  obtain l r e where f: "foldl (closeStep letters) ([], [], []) ps = (l, r, e)" by (cases "foldl (closeStep letters) ([], [], []) ps") auto
  show ?case using snoc.prems snoc.IH [OF f] f by (cases "closeLeg letters p") (auto simp: closeStep_def)
qed simp

text \<open>The legs of the input, and the shares it adds up.\<close>

definition option_of :: "Position \<Rightarrow> OptionPosition option" where
  "option_of p =
     (case (parseOptionCode (position_code p), signedQty p) of
        (Inr (strike, expiry, typ), Inr qty) \<Rightarrow> Some (option_position (position_symbol p) qty strike typ (ps_AvgCost p))
      | _ \<Rightarrow> None)"

definition stock_of :: "Position \<Rightarrow> f64 option" where
  "stock_of p =
     (case (parseOptionCode (position_code p), signedQty p) of
        (Inl (UnsupportedOption _), _) \<Rightarrow> None
      | (Inl _, Inr qty) \<Rightarrow> Some qty
      | _ \<Rightarrow> None)"

definition sound_position :: "Position \<Rightarrow> bool" where
  "sound_position p \<longleftrightarrow> position_code p \<noteq> [] \<and> \<not> ps_Qty p < 0 \<and> (ps_Side p = SideLong \<or> ps_Side p = SideShort)"

lemma signedQty_sound: "sound_position p \<longleftrightarrow> position_code p \<noteq> [] \<and> (\<exists>q. signedQty p = Inr q)"
  by (auto simp: sound_position_def signedQty_def)

definition supported :: "Position \<Rightarrow> bool" where
  "supported p \<longleftrightarrow> (\<forall>c. parseOptionCode (position_code p) \<noteq> Inl (UnsupportedOption c))"

lemma positionsInput_step:
  assumes "supported p" "sound_position p"
  shows "positionsInputFrom (p # ps) (stock, opts) =
     positionsInputFrom ps
       (case stock_of p of None \<Rightarrow> stock | Some q \<Rightarrow> stock + q, case option_of p of None \<Rightarrow> opts | Some leg \<Rightarrow> opts @ [leg])"
  using assms
  by (auto simp: supported_def signedQty_sound stock_of_def option_of_def split: sum.splits OptionCodeError.splits)

lemma positionsInputFrom_sound:
  "\<forall>p \<in> set ps. supported p \<and> sound_position p \<Longrightarrow>
     positionsInputFrom ps (stock, opts) = Inr (foldl (+) stock (List.map_filter stock_of ps), opts @ List.map_filter option_of ps)"
proof (induction ps arbitrary: stock opts)
  case (Cons p ps)
  then show ?case using positionsInput_step [of p ps stock opts] by (simp add: map_filter_simps split: option.split)
qed (simp add: map_filter_simps)

lemma positionsInputFrom_unsound:
  "\<exists>p \<in> set ps. \<not> sound_position p \<Longrightarrow> \<exists>e. positionsInputFrom ps acc = Inl e"
proof (induction ps arbitrary: acc)
  case (Cons p ps)
  obtain stock opts where acc: "acc = (stock, opts)" by (cases acc)
  show ?case
  proof (cases "sound_position p")
    case True
    then show ?thesis using Cons acc by (auto split: sum.splits OptionCodeError.splits)
  next
    case False
    then show ?thesis using acc by (auto simp: signedQty_sound split: sum.splits)
  qed
qed simp

lemma closeLeg_Some:
  assumes "closeLeg letters p = Some (leg, expiry)"
  shows "p_SignedContracts leg < 0" "letters \<noteq> []"
    "\<exists>m. optionCodeRE (bareSecurityCode (position_code p)) = Some m \<and> equal_fold (oc_letters m) letters"
    "option_of p = Some leg"
  using assms by (auto simp: closeLeg_def option_of_def option_position_def Let_def split: if_splits option.splits sum.splits)

lemma matched_supported:
  assumes "p \<in> set (fst (filterPositions symbol ps chain))"
  shows "supported p"
    and "option_of p \<noteq> None \<Longrightarrow> optionCodeInChain p (chainCodes chain)"
    and "stock_of p \<noteq> None \<Longrightarrow> ps_Symbol p = symbol"
  using assms
  by (auto simp: filterPositions_filter supported_def attribution_def option_of_def stock_of_def
      split: sum.splits OptionCodeError.splits if_splits)

lemma map_filter_eq_map: "\<forall>x \<in> set xs. f x = Some (g x) \<Longrightarrow> List.map_filter f xs = map g xs"
  by (induction xs) (simp_all add: map_filter_simps)

section \<open>Properties\<close>


definition sample_positions :: "Position list" where
  "sample_positions =
     [\<lparr>ps_Symbol = ''HK.00700'', ps_Code = ''00700'', ps_Qty = Fin 500, ps_Side = 0, ps_AvgCost = Fin 320\<rparr>,
      \<lparr>ps_Symbol = ''HK.TCH260807P335000'', ps_Code = ''TCH260807P335000'', ps_Qty = Fin 2, ps_Side = 1, ps_AvgCost = Fin 4\<rparr>,
      \<lparr>ps_Symbol = ''HK.TCH260703C400000'', ps_Code = ''TCH260703C400000'', ps_Qty = Fin 1, ps_Side = 1, ps_AvgCost = Fin 3\<rparr>]"


end
