(* ===== verification/Live_Quotes.thy ===== *)
theory Live_Quotes
  imports Live_Positions Backtest_OptionsData
begin

text \<open>
  The live option quotes of \<^verbatim>\<open>internal/wheelrun/atm_expansion.go\<close> and \<^verbatim>\<open>quote_collection.go\<close>: strike
  levels around the money, the fetch that grows from the money outwards, the merge of chain metadata with
  quotes (\<^verbatim>\<open>assembleQuotes\<close> of \<^verbatim>\<open>runner.go\<close>) and the snapshot records.

  The gateway and the clock are an environment that answers the \<open>n\<close>th call of a run; the run counts its
  calls and keeps the quote requests it made.
\<close>

section \<open>Contracts and quotes of the gateway\<close>

record OptionContract_ingest =
  ct_Symbol :: string
  ct_Underlying :: string
  ct_OptionType :: string
  ct_Strike :: f64
  ct_Expiry :: time
  ct_LotSize :: int

record OptionQuoteEx =
  qx_Symbol :: string
  qx_Bid :: f64
  qx_Ask :: f64
  qx_Last :: f64
  qx_Volume :: int
  qx_OpenInterest :: int
  qx_ImpliedVol :: f64
  qx_Delta :: f64
  qx_Theta :: "f64 option"
  qx_QuoteTime :: time
  qx_LotSize :: int

text \<open>The gateway's answer is a Go map; its pairs come in the order in which the loop ranges over them.\<close>

type_synonym QuotePage = "(string \<times> OptionQuoteEx) list"

record QuoterEnv =
  env_OptionQuotes :: "nat \<Rightarrow> string list \<Rightarrow> string + QuotePage"
  env_Now :: "nat \<Rightarrow> time"

record Exec =
  ex_calls :: nat
  ex_requests :: "string list list"

definition ask_OptionQuotes :: "'e QuoterEnv_scheme \<Rightarrow> string list \<Rightarrow> 'z Exec_scheme \<Rightarrow> (string + QuotePage) \<times> 'z Exec_scheme" where
  "ask_OptionQuotes env symbols ex =
     (env_OptionQuotes env (ex_calls ex) symbols, ex\<lparr>ex_calls := Suc (ex_calls ex), ex_requests := ex_requests ex @ [symbols]\<rparr>)"

definition ask_Now :: "'e QuoterEnv_scheme \<Rightarrow> 'z Exec_scheme \<Rightarrow> time \<times> 'z Exec_scheme" where
  "ask_Now env ex = (env_Now env (ex_calls ex), ex\<lparr>ex_calls := Suc (ex_calls ex)\<rparr>)"

section \<open>Strike levels\<close>

definition maxATMExpansionRadius :: int where
  "maxATMExpansionRadius = 10"

definition minQualityCandidates :: int where
  "minQualityCandidates = 2"

type_synonym strikeLevel = "f64 \<times> OptionContract_ingest list"

definition contract_less :: "OptionContract_ingest \<Rightarrow> OptionContract_ingest \<Rightarrow> bool" where
  "contract_less a b =
     (if \<not> feq (ct_Strike a) (ct_Strike b) then ct_Strike a < ct_Strike b
      else if ct_Expiry a \<noteq> ct_Expiry b then ct_Expiry a < ct_Expiry b
      else (let left = to_lower (ct_OptionType a); right = to_lower (ct_OptionType b)
            in if left \<noteq> right then left < right else ct_Symbol a < ct_Symbol b))"

definition levelStep :: "strikeLevel list \<Rightarrow> OptionContract_ingest \<Rightarrow> strikeLevel list" where
  "levelStep levels contract =
     (let levels = (if levels = [] \<or> \<not> feq (fst (last levels)) (ct_Strike contract)
                    then levels @ [(ct_Strike contract, [])] else levels)
      in butlast levels @ [(fst (last levels), snd (last levels) @ [contract])])"

definition strikeLevels :: "OptionContract_ingest list \<Rightarrow> strikeLevel list" where
  "strikeLevels contracts = foldl levelStep [] (slice_stable contract_less contracts)"

text \<open>The level nearest to the price, the lower strike of equally near ones.\<close>

definition centerStep :: "strikeLevel list \<Rightarrow> f64 \<Rightarrow> nat \<times> f64 \<Rightarrow> nat \<Rightarrow> nat \<times> f64" where
  "centerStep levels price = (\<lambda>(center, centerDistance) i.
     (let distance = \<bar>fst (levels ! i) - price\<bar>
      in if distance < centerDistance \<or> feq distance centerDistance \<and> fst (levels ! i) < fst (levels ! center)
         then (i, distance) else (center, centerDistance)))"

definition centerLevel :: "strikeLevel list \<Rightarrow> f64 \<Rightarrow> nat" where
  "centerLevel levels price =
     fst (foldl (centerStep levels price) (0, \<bar>fst (levels ! 0) - price\<bar>) [1..<length levels])"

text \<open>The loop over distances, here counting the distances that are left; it breaks once both sides are used up.\<close>

fun expandFrom :: "strikeLevel list \<Rightarrow> int \<Rightarrow> nat \<Rightarrow> int \<Rightarrow> OptionContract_ingest list list" where
  "expandFrom levels center 0 distance = []"
| "expandFrom levels center (Suc n) distance =
     (let down = (if 0 \<le> center - distance then [snd (levels ! nat (center - distance))] else []);
          up = (if 0 < distance \<and> center + distance < int (length levels) then [snd (levels ! nat (center + distance))] else [])
      in down @ up @
         (if center - distance < 0 \<and> int (length levels) \<le> center + distance then []
          else expandFrom levels center n (distance + 1)))"

definition atmExpansionLevels :: "OptionContract_ingest list \<Rightarrow> f64 \<Rightarrow> int \<Rightarrow> OptionContract_ingest list list" where
  "atmExpansionLevels contracts price radius =
     (let levels = strikeLevels contracts
      in if levels = [] then []
         else (let radius = (if radius < 0 then 0 else radius)
               in expandFrom levels (int (centerLevel levels price)) (nat (radius + 1)) 0))"

section \<open>Assembling quotes\<close>

definition assembleQuote :: "string \<Rightarrow> (string \<times> OptionQuoteEx) list \<Rightarrow> OptionContract_ingest \<Rightarrow> OptionQuote option" where
  "assembleQuote underlying quotes c =
     (case map_of quotes (ct_Symbol c) of
        None \<Rightarrow> None
      | Some q \<Rightarrow>
          (let symbol = (if qx_Symbol q = [] then ct_Symbol c else qx_Symbol q);
               lot = (if qx_LotSize q \<le> 0 then ct_LotSize c else qx_LotSize q)
           in Some \<lparr>q_Symbol = symbol, q_Code = [], q_Underlying = underlying, q_Source = ''futu'',
                q_OptionType = ct_OptionType c, q_Type = [], q_Expiry = ct_Expiry c, q_Strike = ct_Strike c,
                q_Delta = qx_Delta q, q_MarketDelta = 0, q_Bid = qx_Bid q, q_Ask = qx_Ask q, q_Last = qx_Last q,
                q_ImpliedVol = qx_ImpliedVol q, q_Theta = qx_Theta q, q_Volume = qx_Volume q,
                q_OpenInterest = qx_OpenInterest q, q_LotSize = lot, q_QuoteTime = qx_QuoteTime q,
                q_CapturedAt = 0, q_Timestamp = 0, q_Ts = 0, q_IV = 0, q_OI = 0\<rparr>))"

definition assembleQuotes :: "string \<Rightarrow> OptionContract_ingest list \<Rightarrow> (string \<times> OptionQuoteEx) list \<Rightarrow> OptionQuote list" where
  "assembleQuotes underlying contracts quotes = List.map_filter (assembleQuote underlying quotes) contracts"

section \<open>Collecting quotes\<close>

definition desiredOptionType :: "Config \<Rightarrow> f64 \<Rightarrow> f64 \<Rightarrow> OptionPosition list \<Rightarrow> string option" where
  "desiredOptionType cfg price stockShares positions =
     (case TargetInventory cfg price of
        Inl _ \<Rightarrow> None
      | Inr target \<Rightarrow>
          (let inv = CalculateInventory stockShares 0 positions DefaultLotSize;
               gap = target - inv_EffectiveInventory inv
           in if \<bar>gap\<bar> \<le> cfg_TradeGap cfg then None
              else if gap < 0 then Some CallType else Some PutType))"

definition countable_quote :: "string \<Rightarrow> f64 \<Rightarrow> f64 \<Rightarrow> Config \<Rightarrow> time \<Rightarrow> OptionQuote \<Rightarrow> bool" where
  "countable_quote direction underlyingPrice stockAverageCost cfg asOf q =
     (if \<not> equal_fold (q_OptionType q) direction then False
      else if direction = PutType \<and> underlyingPrice \<le> q_Strike q then False
      else if direction = CallType \<and>
          (let minimumStrike = underlyingPrice * (1 + cfg_CoveredCallPct cfg);
               minimumStrike = (if minimumStrike < stockAverageCost then stockAverageCost else minimumStrike)
           in q_Strike q \<le> underlyingPrice \<or> q_Strike q < minimumStrike) then False
      else if quote_Validate q asOf cfg \<noteq> None \<or> QualityScore q < cfg_MinOptionQuality cfg then False
      else True)"

definition qualityCandidateCount ::
  "string \<Rightarrow> OptionContract_ingest list \<Rightarrow> (string \<times> OptionQuoteEx) list \<Rightarrow> string \<Rightarrow> f64 \<Rightarrow> f64 \<Rightarrow> Config \<Rightarrow> time \<Rightarrow> int" where
  "qualityCandidateCount underlying contracts quotes direction underlyingPrice stockAverageCost cfg asOf =
     foldl (\<lambda>count q. if countable_quote direction underlyingPrice stockAverageCost cfg asOf q then count + 1 else count)
       0 (assembleQuotes underlying contracts quotes)"

text \<open>The contracts of a level that are fetched: the wanted direction, each symbol once.\<close>

definition selectStep ::
  "string \<Rightarrow> OptionContract_ingest list \<times> (string \<times> unit) list \<times> string list \<Rightarrow> OptionContract_ingest
     \<Rightarrow> OptionContract_ingest list \<times> (string \<times> unit) list \<times> string list" where
  "selectStep direction = (\<lambda>(selected, seen, symbols) contract.
     (if ct_Symbol contract = [] \<or> \<not> equal_fold (ct_OptionType contract) direction then (selected, seen, symbols)
      else if map_of seen (ct_Symbol contract) \<noteq> None then (selected, seen, symbols)
      else (selected @ [contract], set_add (ct_Symbol contract) seen, symbols @ [ct_Symbol contract])))"

definition mergePage :: "(string \<times> OptionQuoteEx) list \<Rightarrow> QuotePage \<Rightarrow> (string \<times> OptionQuoteEx) list" where
  "mergePage quotes page =
     foldl (\<lambda>quotes (key, q). let q = (if qx_Symbol q = [] then q\<lparr>qx_Symbol := key\<rparr> else q)
        in map_put (qx_Symbol q) q (map_put key q quotes)) quotes page"

record Collect =
  cl_underlying :: string
  cl_direction :: string
  cl_price :: f64
  cl_cfg :: Config
  cl_averageCost :: f64
  cl_now :: time

fun collectLevels ::
  "'e QuoterEnv_scheme \<Rightarrow> Collect \<Rightarrow> OptionContract_ingest list list \<Rightarrow> OptionContract_ingest list \<Rightarrow> (string \<times> unit) list
     \<Rightarrow> (string \<times> OptionQuoteEx) list \<Rightarrow> 'z Exec_scheme
     \<Rightarrow> (string + (OptionContract_ingest list \<times> (string \<times> OptionQuoteEx) list)) \<times> 'z Exec_scheme" where
  "collectLevels env c [] selected seen quotes ex = (Inr (selected, quotes), ex)"
| "collectLevels env c (level # levels) selected seen quotes ex =
     (let (selected, seen, symbols) = foldl (selectStep (cl_direction c)) (selected, seen, []) level
      in if symbols = [] then collectLevels env c levels selected seen quotes ex
         else
           (case ask_OptionQuotes env symbols ex of
              (Inl err, ex) \<Rightarrow> (Inl err, ex)
            | (Inr page, ex) \<Rightarrow>
                (let quotes = mergePage quotes page; (quoteAsOf, ex) = ask_Now env ex;
                     quoteAsOf = (if is_zero quoteAsOf then cl_now c else quoteAsOf)
                 in if minQualityCandidates \<le> qualityCandidateCount (cl_underlying c) selected quotes (cl_direction c)
                        (cl_price c) (cl_averageCost c) (cl_cfg c) quoteAsOf
                    then (Inr (selected, quotes), ex)
                    else collectLevels env c levels selected seen quotes ex)))"

definition collectOptionQuotes ::
  "'e QuoterEnv_scheme \<Rightarrow> string \<Rightarrow> OptionContract_ingest list \<Rightarrow> f64 \<Rightarrow> Config \<Rightarrow> f64 \<Rightarrow> f64 \<Rightarrow> OptionPosition list \<Rightarrow> time
     \<Rightarrow> 'z Exec_scheme \<Rightarrow> (string + (OptionContract_ingest list \<times> (string \<times> OptionQuoteEx) list)) \<times> 'z Exec_scheme" where
  "collectOptionQuotes env underlying contracts price cfg stockShares stockAverageCost positions now ex =
     (case desiredOptionType cfg price stockShares positions of
        None \<Rightarrow> (Inr ([], []), ex)
      | Some direction \<Rightarrow>
          collectLevels env
            \<lparr>cl_underlying = underlying, cl_direction = direction, cl_price = price, cl_cfg = cfg,
             cl_averageCost = stockAverageCost, cl_now = now\<rparr>
            (atmExpansionLevels contracts price maxATMExpansionRadius) [] [] [] ex)"

section \<open>Snapshot records\<close>

definition positiveFloat :: "f64 \<Rightarrow> f64 option" where
  "positiveFloat v = (if v \<le> 0 \<or> is_nan v \<or> v = PInf \<or> v = NInf then None else Some v)"

definition nonZeroFloat :: "f64 \<Rightarrow> f64 option" where
  "nonZeroFloat v = (if feq v 0 \<or> is_nan v \<or> v = PInf \<or> v = NInf then None else Some v)"

definition positiveInt :: "int \<Rightarrow> int option" where
  "positiveInt v = (if v \<le> 0 then None else Some v)"

definition copyFloat :: "f64 option \<Rightarrow> f64 option" where
  "copyFloat v = (case v of None \<Rightarrow> None | Some x \<Rightarrow> if is_nan x \<or> x = PInf \<or> x = NInf then None else Some x)"

definition zero_quoteEx :: OptionQuoteEx where
  "zero_quoteEx = \<lparr>qx_Symbol = [], qx_Bid = 0, qx_Ask = 0, qx_Last = 0, qx_Volume = 0, qx_OpenInterest = 0,
     qx_ImpliedVol = 0, qx_Delta = 0, qx_Theta = None, qx_QuoteTime = 0, qx_LotSize = 0\<rparr>"

text \<open>\<open>wall\<close> is the wall clock, which the records do not take from the injected clock.\<close>

definition makeQuoteSnapshotRecords ::
  "string \<Rightarrow> f64 \<Rightarrow> OptionContract_ingest list \<Rightarrow> (string \<times> OptionQuoteEx) list \<Rightarrow> time \<Rightarrow> time \<Rightarrow> QuoteSnapshotRecord list" where
  "makeQuoteSnapshotRecords underlying price contracts quotes observedAt wall =
     (let observedAt = (if is_zero observedAt then wall else observedAt);
          key = ''wheel-'' @ map (\<lambda>c. if c = CHR ''.'' then CHR ''_'' else c) underlying @ ''-'' @ fmt_int (unix_nano wall)
      in map (\<lambda>contract.
           let q = (case map_of quotes (ct_Symbol contract) of Some q \<Rightarrow> q | None \<Rightarrow> zero_quoteEx);
               symbol = (if qx_Symbol q = [] then ct_Symbol contract else qx_Symbol q);
               lot = (if qx_LotSize q \<le> 0 then ct_LotSize contract else qx_LotSize q);
               optionType = to_upper (ct_OptionType contract);
               optionType = (if optionType = [] then ''CALL'' else optionType)
           in \<lparr>qr_ID = 0, qr_Symbol = symbol, qr_Underlying = underlying, qr_OptionType = optionType, qr_Strike = ct_Strike contract,
               qr_Expiry = ct_Expiry contract, qr_Source = ''futu'', qr_SnapshotKey = key,
               qr_UnderlyingPrice = positiveFloat price, qr_Delta = nonZeroFloat (qx_Delta q),
               qr_Bid = positiveFloat (qx_Bid q), qr_Ask = positiveFloat (qx_Ask q), qr_IV = positiveFloat (qx_ImpliedVol q),
               qr_Theta = copyFloat (qx_Theta q), qr_Volume = positiveInt (qx_Volume q),
               qr_OpenInterest = positiveInt (qx_OpenInterest q), qr_LotSize = positiveInt lot, qr_ObservedAt = observedAt, qr_IngestedAt = 0\<rparr>)
         contracts)"

section \<open>Lemmas on levels\<close>

lemma levelStep_contracts: "concat (map snd (levelStep levels c)) = concat (map snd levels) @ [c]"
proof (cases "levels = [] \<or> \<not> feq (fst (last levels)) (ct_Strike c)")
  case False
  then have "levels = butlast levels @ [last levels]" by simp
  then have "concat (map snd levels) = concat (map snd (butlast levels @ [last levels]))" by simp
  then show ?thesis using False by (simp add: levelStep_def Let_def)
qed (auto simp: levelStep_def Let_def)

lemma strikeLevels_contracts: "set (concat (map snd (strikeLevels cs))) = set cs"
proof -
  have "concat (map snd (foldl levelStep [] xs)) = xs" for xs
    by (induction xs rule: rev_induct) (simp_all add: levelStep_contracts)
  then show ?thesis by (simp add: strikeLevels_def)
qed

lemma centerLevel_less: "levels \<noteq> [] \<Longrightarrow> centerLevel levels price < length levels"
proof -
  assume l: "levels \<noteq> []"
  have "fst (foldl (centerStep levels price) (c, d) is) < length levels"
    if "c < length levels" "\<forall>i \<in> set is. i < length levels" for c d "is"
    using that by (induction "is" arbitrary: c d) (auto simp: centerStep_def Let_def)
  then show ?thesis using l by (simp add: centerLevel_def)
qed

lemma expandFrom_levels:
  "0 \<le> center \<Longrightarrow> center < int (length levels) \<Longrightarrow> 0 \<le> d \<Longrightarrow>
     set (expandFrom levels center n d) \<subseteq> snd ` set levels"
  by (induction levels center n d rule: expandFrom.induct) (auto simp: Let_def)

lemma expandFrom_length: "length (expandFrom levels center n d) \<le> 2 * n"
proof (induction n arbitrary: d)
  case (Suc n)
  from Suc [of "d + 1"] have "length (expandFrom levels center n (d + 1)) \<le> 2 * n" .
  then show ?case by (auto simp: Let_def intro: le_SucI)
qed simp

lemma expandFrom_length_0: "length (expandFrom levels center (Suc n) 0) \<le> 2 * n + 1"
  using expandFrom_length [of levels center n 1] by (simp add: Let_def)

lemma atmExpansionLevels_cases:
  "atmExpansionLevels cs price maxATMExpansionRadius = [] \<or>
   atmExpansionLevels cs price maxATMExpansionRadius
     = expandFrom (strikeLevels cs) (int (centerLevel (strikeLevels cs) price)) (Suc 10) 0"
proof -
  have "nat (10 + 1) = Suc 10" "\<not> 10 < (0::int)" by simp_all
  then show ?thesis unfolding atmExpansionLevels_def maxATMExpansionRadius_def Let_def by (simp only: if_False split: if_split) blast
qed

lemma atm_levels_length: "length (atmExpansionLevels cs price maxATMExpansionRadius) \<le> 21"
proof -
  have "length (expandFrom levels c (Suc 10) 0) \<le> 21" for levels c using expandFrom_length_0 [of levels c 10] by linarith
  then show ?thesis using atmExpansionLevels_cases [of cs price] by fastforce
qed

lemma atm_levels_contracts: "set (concat (atmExpansionLevels cs price r)) \<subseteq> set cs"
proof -
  have "set (atmExpansionLevels cs price r) \<subseteq> snd ` set (strikeLevels cs)"
  proof (cases "strikeLevels cs = []")
    case False
    then have e: "atmExpansionLevels cs price r =
        expandFrom (strikeLevels cs) (int (centerLevel (strikeLevels cs) price)) (nat ((if r < 0 then 0 else r) + 1)) 0"
      by (simp only: atmExpansionLevels_def Let_def if_False)
    show ?thesis unfolding e by (rule expandFrom_levels) (simp_all only: of_nat_0_le_iff of_nat_less_iff centerLevel_less [OF False] order_refl)
  qed (simp add: atmExpansionLevels_def)
  then have "set (concat (atmExpansionLevels cs price r)) \<subseteq> set (concat (map snd (strikeLevels cs)))"
    unfolding set_concat set_map by blast
  then show ?thesis by (simp only: strikeLevels_contracts)
qed

section \<open>Lemmas on requests\<close>

definition wanted :: "string \<Rightarrow> OptionContract_ingest \<Rightarrow> bool" where
  "wanted direction c \<longleftrightarrow> ct_Symbol c \<noteq> [] \<and> equal_fold (ct_OptionType c) direction"

lemma selectSteps:
  "\<exists>new. foldl (selectStep direction) (selected, seen, symbols) level
      = (selected @ new, foldl (\<lambda>m c. set_add (ct_Symbol c) m) seen new, symbols @ map ct_Symbol new)
     \<and> set new \<subseteq> set level \<and> list_all (wanted direction) new \<and> distinct (map ct_Symbol new)
     \<and> (\<forall>c \<in> set new. map_of seen (ct_Symbol c) = None)"
proof (induction level rule: rev_induct)
  case (snoc c level)
  then obtain new where new: "foldl (selectStep direction) (selected, seen, symbols) level
      = (selected @ new, foldl (\<lambda>m c. set_add (ct_Symbol c) m) seen new, symbols @ map ct_Symbol new)"
    "set new \<subseteq> set level" "list_all (wanted direction) new" "distinct (map ct_Symbol new)"
    "\<forall>c \<in> set new. map_of seen (ct_Symbol c) = None" by blast
  have seen: "map_of (foldl (\<lambda>m c. set_add (ct_Symbol c) m) seen xs) s
      = (if s \<in> ct_Symbol ` set xs then Some () else map_of seen s)" for xs s
    by (induction xs rule: rev_induct) (auto simp: set_add_def)
  show ?case
  proof (cases "wanted direction c \<and> map_of seen (ct_Symbol c) = None \<and> ct_Symbol c \<notin> ct_Symbol ` set new")
    case True
    then have "selectStep direction (selected @ new, foldl (\<lambda>m c. set_add (ct_Symbol c) m) seen new, symbols @ map ct_Symbol new) c
      = (selected @ new @ [c], foldl (\<lambda>m c. set_add (ct_Symbol c) m) seen (new @ [c]), symbols @ map ct_Symbol (new @ [c]))"
      by (simp add: selectStep_def wanted_def seen)
    then show ?thesis using new True by (intro exI [of _ "new @ [c]"]) auto
  next
    case False
    then have "selectStep direction (selected @ new, foldl (\<lambda>m c. set_add (ct_Symbol c) m) seen new, symbols @ map ct_Symbol new) c
      = (selected @ new, foldl (\<lambda>m c. set_add (ct_Symbol c) m) seen new, symbols @ map ct_Symbol new)"
      by (auto simp: selectStep_def wanted_def seen)
    then show ?thesis using new by (intro exI [of _ new]) auto
  qed
qed (rule exI [of _ "[]"], simp)

lemma seen_after: "map_of (foldl (\<lambda>m c. set_add (ct_Symbol c) m) seen xs) s
    = (if s \<in> ct_Symbol ` set xs then Some () else map_of seen s)"
  by (induction xs rule: rev_induct) (auto simp: set_add_def)

text \<open>What a run of the fetch adds to the requests, given the symbols seen so far.\<close>

definition requests_ok ::
  "string \<Rightarrow> OptionContract_ingest list list \<Rightarrow> OptionContract_ingest list \<Rightarrow> (string \<times> unit) list
     \<Rightarrow> string + (OptionContract_ingest list \<times> (string \<times> OptionQuoteEx) list) \<Rightarrow> string list list \<Rightarrow> bool" where
  "requests_ok direction levels selected seen res reqs \<longleftrightarrow>
     length reqs \<le> length levels
     \<and> (\<exists>cs. concat reqs = map ct_Symbol cs \<and> distinct (concat reqs) \<and> list_all (wanted direction) cs
          \<and> set cs \<subseteq> set (concat levels) \<and> (\<forall>c \<in> set cs. map_of seen (ct_Symbol c) = None)
          \<and> (\<forall>sel quotes. res = Inr (sel, quotes) \<longrightarrow> sel = selected @ cs))"

lemma requests_ok_cons:
  assumes "set new \<subseteq> set level" "list_all (wanted direction) new" "distinct (map ct_Symbol new)"
    and "\<forall>c \<in> set new. map_of seen (ct_Symbol c) = None"
    and "requests_ok direction levels (selected @ new) (foldl (\<lambda>m c. set_add (ct_Symbol c) m) seen new) res reqs"
  shows "requests_ok direction (level # levels) selected seen res (map ct_Symbol new # reqs)"
    "new = [] \<Longrightarrow> requests_ok direction (level # levels) selected seen res reqs"
proof -
  have after: "map_of (foldl (\<lambda>m c. set_add (ct_Symbol c) m) seen new) (ct_Symbol c) = None \<longleftrightarrow>
      map_of seen (ct_Symbol c) = None \<and> ct_Symbol c \<notin> ct_Symbol ` set new" for c
    unfolding seen_after by simp
  obtain cs where cs: "concat reqs = map ct_Symbol cs" "distinct (concat reqs)" "list_all (wanted direction) cs"
    "set cs \<subseteq> set (concat levels)" "\<forall>c \<in> set cs. map_of seen (ct_Symbol c) = None \<and> ct_Symbol c \<notin> ct_Symbol ` set new"
    "\<forall>sel quotes. res = Inr (sel, quotes) \<longrightarrow> sel = (selected @ new) @ cs" "length reqs \<le> length levels"
    using assms(5) unfolding requests_ok_def after by blast
  have "s \<notin> set (map ct_Symbol new)" if s: "s \<in> set (map ct_Symbol cs)" for s
  proof -
    obtain c where "c \<in> set cs" "s = ct_Symbol c" using s by auto
    then show ?thesis using cs(5) by simp
  qed
  then have "set (map ct_Symbol new) \<inter> set (map ct_Symbol cs) = {}" by blast
  then have "distinct (map ct_Symbol (new @ cs))" using cs(1,2) assms(3) by simp
  then show "requests_ok direction (level # levels) selected seen res (map ct_Symbol new # reqs)"
    using cs assms(1,2,4) unfolding requests_ok_def by (intro conjI exI [of _ "new @ cs"]) auto
  show "new = [] \<Longrightarrow> requests_ok direction (level # levels) selected seen res reqs"
    using cs unfolding requests_ok_def by (intro conjI exI [of _ cs]) auto
qed

lemma requests_ok_stop: "requests_ok direction levels selected seen (Inr (selected, quotes)) []" "requests_ok direction levels selected seen (Inl e) []"
  by (auto simp: requests_ok_def)

lemma collectLevels_requests:
  "\<exists>reqs. ex_requests (snd (collectLevels env c levels selected seen quotes ex)) = ex_requests ex @ reqs
     \<and> requests_ok (cl_direction c) levels selected seen (fst (collectLevels env c levels selected seen quotes ex)) reqs"
proof (induction levels arbitrary: selected seen quotes ex)
  case (Cons level levels)
  obtain new where new: "foldl (selectStep (cl_direction c)) (selected, seen, []) level
      = (selected @ new, foldl (\<lambda>m c. set_add (ct_Symbol c) m) seen new, map ct_Symbol new)"
    "set new \<subseteq> set level" "list_all (wanted (cl_direction c)) new" "distinct (map ct_Symbol new)"
    "\<forall>c \<in> set new. map_of seen (ct_Symbol c) = None" using selectSteps [of "cl_direction c" selected seen "[]" level] by auto
  note cons = requests_ok_cons [OF new(2-5)]
  show ?case
  proof (cases "new = []")
    case True
    then show ?thesis using new(1) Cons [of selected seen quotes ex] cons(2) by (auto simp: Let_def)
  next
    case False
    let ?ex = "ex\<lparr>ex_calls := Suc (ex_calls ex), ex_requests := ex_requests ex @ [map ct_Symbol new]\<rparr>"
    show ?thesis
    proof (cases "env_OptionQuotes env (ex_calls ex) (map ct_Symbol new)")
      case (Inl err)
      then show ?thesis using new(1) False cons(1) [OF requests_ok_stop(2)]
        by (auto simp: Let_def ask_OptionQuotes_def intro!: exI [of _ "[map ct_Symbol new]"])
    next
      case (Inr page)
      let ?quotes = "mergePage quotes page" and ?ex2 = "?ex\<lparr>ex_calls := Suc (ex_calls ?ex)\<rparr>"
      obtain reqs where reqs: "ex_requests (snd (collectLevels env c levels (selected @ new)
            (foldl (\<lambda>m c. set_add (ct_Symbol c) m) seen new) ?quotes ?ex2)) = ex_requests ?ex2 @ reqs"
          "requests_ok (cl_direction c) levels (selected @ new) (foldl (\<lambda>m c. set_add (ct_Symbol c) m) seen new)
            (fst (collectLevels env c levels (selected @ new) (foldl (\<lambda>m c. set_add (ct_Symbol c) m) seen new) ?quotes ?ex2)) reqs"
        using Cons by blast
      show ?thesis
        using new(1) False Inr cons(1) [OF requests_ok_stop(1)] cons(1) [OF reqs(2)] reqs(1)
        by (auto simp: Let_def ask_OptionQuotes_def ask_Now_def intro: exI [of _ "[map ct_Symbol new]"] exI [of _ "map ct_Symbol new # reqs"])
    qed
  qed
qed (simp add: requests_ok_stop)

section \<open>Properties\<close>

text \<open>
  C27: the live fetch asks the gateway at most 21 times per symbol and pass - the money and
  ten strike levels on each side - only for contracts of the chain and of the direction the inventory gap
  wants, and for no contract twice; and the contracts it returns are exactly the ones it asked for. With
  no wanted direction it asks nothing.
\<close>

theorem quote_requests_bounded:
  "case collectOptionQuotes env underlying contracts price cfg stockShares averageCost positions now ex of (res, ex') \<Rightarrow>
   \<exists>reqs cs. ex_requests ex' = ex_requests ex @ reqs \<and> length reqs \<le> 21
     \<and> concat reqs = map ct_Symbol cs \<and> distinct (map ct_Symbol cs) \<and> set cs \<subseteq> set contracts
     \<and> (case desiredOptionType cfg price stockShares positions of
          None \<Rightarrow> reqs = [] | Some direction \<Rightarrow> list_all (wanted direction) cs)
     \<and> (case res of Inl err \<Rightarrow> True | Inr (selected, quotes) \<Rightarrow> selected = cs)"
proof (cases "desiredOptionType cfg price stockShares positions")
  case None
  then show ?thesis by (simp add: collectOptionQuotes_def)
next
  case (Some direction)
  let ?c = "\<lparr>cl_underlying = underlying, cl_direction = direction, cl_price = price, cl_cfg = cfg, cl_averageCost = averageCost, cl_now = now\<rparr>"
  let ?levels = "atmExpansionLevels contracts price maxATMExpansionRadius"
  obtain res ex' where r: "collectLevels env ?c ?levels [] [] [] ex = (res, ex')" by (cases "collectLevels env ?c ?levels [] [] [] ex")
  obtain reqs where reqs: "ex_requests ex' = ex_requests ex @ reqs" "requests_ok direction ?levels [] [] res reqs"
    using collectLevels_requests [of env ?c ?levels "[]" "[]" "[]" ex] r by auto
  obtain cs where cs: "length reqs \<le> length ?levels" "concat reqs = map ct_Symbol cs" "distinct (concat reqs)" "list_all (wanted direction) cs"
    "set cs \<subseteq> set (concat ?levels)" "\<And>sel quotes. res = Inr (sel, quotes) \<Longrightarrow> sel = cs"
    using reqs(2) unfolding requests_ok_def append_Nil by blast
  have "length reqs \<le> 21" "set cs \<subseteq> set contracts"
    using cs(1,5) atm_levels_length [of contracts price] atm_levels_contracts [of contracts price] by fastforce+
  moreover have "case res of Inl err \<Rightarrow> True | Inr (selected, quotes) \<Rightarrow> selected = cs"
    using cs(6) by (auto split: sum.split)
  moreover have "collectOptionQuotes env underlying contracts price cfg stockShares averageCost positions now ex = (res, ex')"
    using r Some by (simp add: collectOptionQuotes_def)
  ultimately show ?thesis using reqs(1) cs(2-4) Some by fastforce
qed

end
