(* ===== verification/Live_Signals.thy ===== *)
theory Live_Signals
  imports Live_Quotes
begin

text \<open>
  The persisted form of a decision: the signal and candidate rows of \<^verbatim>\<open>internal/wheelstore\<close> and the mapping
  \<^verbatim>\<open>mapSignal\<close>, \<^verbatim>\<open>candidateRecords\<close> and \<^verbatim>\<open>quoteRecord\<close> of \<^verbatim>\<open>internal/wheelrun/runner.go\<close>.
  A time is written in its location, so the RFC 3339 format is a parameter of the mapping.
\<close>

section \<open>Rows\<close>

datatype candidateWireMode = wireSparse | wireCompact | wireFull

record WireQuote =
  wq_Symbol :: string
  wq_Code :: string
  wq_Underlying :: string
  wq_Source :: string
  wq_OptionType :: string
  wq_Type :: string
  wq_Expiry :: string
  wq_Strike :: f64
  wq_Delta :: f64
  wq_MarketDelta :: f64
  wq_Bid :: f64
  wq_Ask :: f64
  wq_Last :: f64
  wq_ImpliedVol :: f64
  wq_Theta :: "f64 option"
  wq_Volume :: int
  wq_OpenInterest :: int
  wq_LotSize :: int
  wq_QuoteTime :: string
  wq_CapturedAt :: string
  wq_Timestamp :: string
  wq_Ts :: string
  wq_IV :: f64
  wq_OI :: int
  wq_wireMode :: candidateWireMode

record Candidate =
  cd_Symbol :: string
  cd_QuoteSnapshotID :: int
  cd_Quote :: "WireQuote option"
  cd_Direction :: string
  cd_Quantity :: int
  cd_SignedContracts :: int
  cd_Quality :: f64
  cd_ExpectedGain :: f64
  cd_PostTradeEffective :: f64
  cd_AssignmentInventory :: f64
  cd_Accepted :: bool
  cd_Reasons :: "string list"
  cd_wireMode :: candidateWireMode

definition AsWireCandidate :: "candidateWireMode \<Rightarrow> Candidate \<Rightarrow> Candidate" where
  "AsWireCandidate mode c =
     (let c = c\<lparr>cd_wireMode := mode\<rparr>
      in case cd_Quote c of None \<Rightarrow> c | Some q \<Rightarrow> c\<lparr>cd_Quote := Some (q\<lparr>wq_wireMode := mode\<rparr>)\<rparr>)"

definition AsCompactCandidate :: "Candidate \<Rightarrow> Candidate" where
  "AsCompactCandidate c = AsWireCandidate wireCompact c"

definition AsFullCandidate :: "Candidate \<Rightarrow> Candidate" where
  "AsFullCandidate c = AsWireCandidate wireFull c"

record StoredInventory =
  si_CurrentPrice :: "f64 option"
  si_ActualInventory :: "f64 option"
  si_OptionDeltaStock :: "f64 option"
  si_EffectiveInventory :: "f64 option"
  si_TargetInventory :: "f64 option"
  si_InventoryGap :: "f64 option"

definition no_inventory :: StoredInventory where
  "no_inventory = \<lparr>si_CurrentPrice = None, si_ActualInventory = None, si_OptionDeltaStock = None,
     si_EffectiveInventory = None, si_TargetInventory = None, si_InventoryGap = None\<rparr>"

record ReplaceRecord =
  rp_OrderID :: string
  rp_Contract :: string

record SignalRecord =
  rec_Symbol :: string
  rec_Action :: string
  rec_ConfigVersion :: int
  rec_CapabilityStatus :: string
  rec_BlockedBy :: "string list"
  rec_Inventory :: StoredInventory
  rec_Candidates :: "Candidate list"
  rec_RejectionReasons :: "string list"
  rec_Reason :: string
  rec_Strategy :: string
  rec_Replace :: "ReplaceRecord option"
  rec_ClosePosition :: bool
  rec_CloseQty :: int
  rec_CloseQuote :: "WireQuote option"

section \<open>The mapping\<close>

definition fallbackBlocker :: string where
  "fallbackBlocker = ''no complete quote snapshot''"

definition StatusReady :: string where
  "StatusReady = ''READY''"

definition StatusDataBlocked :: string where
  "StatusDataBlocked = ''DATA_BLOCKED''"

definition quoteRecord :: "(time \<Rightarrow> string) \<Rightarrow> OptionQuote \<Rightarrow> WireQuote" where
  "quoteRecord rfc q =
     \<lparr>wq_Symbol = q_Symbol q, wq_Code = q_Code q, wq_Underlying = q_Underlying q, wq_Source = q_Source q,
      wq_OptionType = q_OptionType q, wq_Type = q_Type q, wq_Expiry = rfc (q_Expiry q), wq_Strike = q_Strike q,
      wq_Delta = q_Delta q, wq_MarketDelta = q_MarketDelta q, wq_Bid = q_Bid q, wq_Ask = q_Ask q, wq_Last = q_Last q,
      wq_ImpliedVol = q_ImpliedVol q, wq_Theta = q_Theta q, wq_Volume = q_Volume q, wq_OpenInterest = q_OpenInterest q,
      wq_LotSize = q_LotSize q, wq_QuoteTime = rfc (q_QuoteTime q), wq_CapturedAt = rfc (q_CapturedAt q),
      wq_Timestamp = rfc (q_Timestamp q), wq_Ts = rfc (q_Ts q), wq_IV = q_IV q, wq_OI = q_OI q, wq_wireMode = wireSparse\<rparr>"

definition candidateRecord :: "(time \<Rightarrow> string) \<Rightarrow> CandidateEvaluation \<Rightarrow> Candidate" where
  "candidateRecord rfc c =
     AsFullCandidate
       \<lparr>cd_Symbol = [], cd_QuoteSnapshotID = 0, cd_Quote = Some (quoteRecord rfc (c_Quote c)), cd_Direction = c_Direction c,
        cd_Quantity = c_Quantity c, cd_SignedContracts = c_SignedContracts c, cd_Quality = c_Quality c,
        cd_ExpectedGain = c_ExpectedGain c, cd_PostTradeEffective = c_PostTradeEffective c,
        cd_AssignmentInventory = c_AssignmentInventory c, cd_Accepted = c_Accepted c, cd_Reasons = c_Reasons c,
        cd_wireMode = wireSparse\<rparr>"

definition candidateRecords :: "(time \<Rightarrow> string) \<Rightarrow> CandidateEvaluation list \<Rightarrow> Candidate list" where
  "candidateRecords rfc cands = map (candidateRecord rfc) cands"

definition mapSignal :: "(time \<Rightarrow> string) \<Rightarrow> string \<Rightarrow> int \<Rightarrow> Signal \<Rightarrow> f64 \<Rightarrow> SignalRecord \<times> string \<times> string" where
  "mapSignal rfc symbol version sig price =
     (let capStatus = to_upper (trim_space (s_CapabilityStatus sig));
          capStatus = (if capStatus = [] then CapabilityReady else capStatus);
          blocked = s_BlockedBy sig;
          blocked = (if capStatus \<noteq> CapabilityReady \<and> blocked = [] then [fallbackBlocker] else blocked);
          rec = \<lparr>rec_Symbol = symbol, rec_Action = to_upper (s_Action sig), rec_ConfigVersion = version,
            rec_CapabilityStatus = capStatus, rec_BlockedBy = blocked,
            rec_Inventory = \<lparr>si_CurrentPrice = Some price, si_ActualInventory = Some (s_ActualInventory sig),
              si_OptionDeltaStock = Some (s_OptionDeltaStock sig), si_EffectiveInventory = Some (s_EffectiveInventory sig),
              si_TargetInventory = Some (s_TargetInventory sig), si_InventoryGap = Some (s_InventoryGap sig)\<rparr>,
            rec_Candidates = candidateRecords rfc (s_Candidates sig), rec_RejectionReasons = s_RejectReasons sig,
            rec_Reason = s_Reason sig, rec_Strategy = ''wheel'', rec_Replace = None, rec_ClosePosition = False,
            rec_CloseQty = 0, rec_CloseQuote = None\<rparr>;
          rec = (case s_Quote sig of
              Some q \<Rightarrow> if s_ClosePosition sig
                        then rec\<lparr>rec_ClosePosition := True, rec_CloseQty := s_Quantity sig, rec_CloseQuote := Some (quoteRecord rfc q)\<rparr>
                        else rec
            | None \<Rightarrow> rec);
          rec = (case s_Replace sig of
              Some r \<Rightarrow> rec\<lparr>rec_Replace := Some \<lparr>rp_OrderID = ro_OrderID r, rp_Contract = ro_Contract r\<rparr>\<rparr>
            | None \<Rightarrow> rec);
          (status, reason) = (if capStatus \<noteq> CapabilityReady
            then (StatusDataBlocked, if blocked \<noteq> [] then hd blocked else []) else (StatusReady, []))
      in (rec, status, reason))"

end
