(* ===== verification/Live_Store.thy ===== *)
theory Live_Store
  imports Live_Signals
begin

text \<open>
  The signal repository of \<^verbatim>\<open>internal/wheelstore/store.go\<close>: the validation of every row it accepts, and its
  statements as operations on the tables, each a list of rows in insertion order. The identities the
  database generates grow. An operation's \<open>outage\<close> is an error of the database itself, which leaves
  the tables alone; \<open>now\<close> is the database's clock.
\<close>

section \<open>Errors and validation\<close>

datatype StoreError =
    ErrNotFound | ErrInvalidRecord string | ErrInvalidAction | ErrInvalidStatus | ErrInvalidOp | StoreFailure string

definition validateSignal :: "SignalRecord \<Rightarrow> StoreError + SignalRecord" where
  "validateSignal r =
     (let r = r\<lparr>rec_Action := to_upper (trim_space (rec_Action r))\<rparr>
      in if rec_Action r \<noteq> ''ALERT'' \<and> rec_Action r \<noteq> ''HOLD'' then Inl ErrInvalidAction
         else if trim_space (rec_Symbol r) = [] \<or> rec_ConfigVersion r \<le> 0 \<or> trim_space (rec_Reason r) = []
         then Inl (ErrInvalidRecord ''signal symbol, config version, and reason are required'')
         else
           (let r = r\<lparr>rec_CapabilityStatus := to_upper (trim_space (rec_CapabilityStatus r))\<rparr>
            in if rec_CapabilityStatus r = ''READY'' \<and> rec_BlockedBy r \<noteq> []
               then Inl (ErrInvalidRecord ''READY capability must not have blockers'')
               else if rec_CapabilityStatus r = ''DATA_BLOCKED'' \<and> rec_BlockedBy r = []
               then Inl (ErrInvalidRecord ''DATA_BLOCKED capability requires at least one blocker'')
               else if rec_CapabilityStatus r \<noteq> ''READY'' \<and> rec_CapabilityStatus r \<noteq> ''DATA_BLOCKED''
               then Inl (ErrInvalidRecord ''capability status must be READY or DATA_BLOCKED'')
               else if rec_Action r = ''ALERT'' \<and> rec_CapabilityStatus r \<noteq> ''READY''
               then Inl (ErrInvalidRecord ''ALERT requires READY capability'')
               else if rec_Action r = ''ALERT'' \<and>
                   (si_CurrentPrice (rec_Inventory r) = None \<or> si_ActualInventory (rec_Inventory r) = None
                    \<or> si_OptionDeltaStock (rec_Inventory r) = None \<or> si_EffectiveInventory (rec_Inventory r) = None
                    \<or> si_TargetInventory (rec_Inventory r) = None \<or> si_InventoryGap (rec_Inventory r) = None)
               then Inl (ErrInvalidRecord ''ALERT requires a complete inventory snapshot'')
               else if rec_Action r = ''ALERT'' \<and> rec_Candidates r = []
               then Inl (ErrInvalidRecord ''ALERT requires at least one candidate'')
               else Inr r))"

definition opt_bad :: "(f64 \<Rightarrow> bool) \<Rightarrow> f64 option \<Rightarrow> bool" where
  "opt_bad bad v = (case v of None \<Rightarrow> False | Some x \<Rightarrow> bad x)"

text \<open>Which of several non-finite or negative fields an error names depends on the map order; it is not modelled.\<close>

definition validateQuote :: "QuoteSnapshotRecord \<Rightarrow> StoreError option" where
  "validateQuote r =
     (let optionType = to_upper (trim_space (qr_OptionType r)) in
      if trim_space (qr_Symbol r) = [] \<or> trim_space (qr_Underlying r) = [] \<or> trim_space (qr_Source r) = []
         \<or> trim_space (qr_SnapshotKey r) = [] \<or> is_zero (qr_Expiry r) \<or> is_zero (qr_ObservedAt r)
         \<or> qr_Strike r \<le> 0 \<or> \<not> finite64 (qr_Strike r)
      then Some (ErrInvalidRecord ''quote identity/timestamps/strike are required'')
      else if optionType \<noteq> ''PUT'' \<and> optionType \<noteq> ''CALL''
      then Some (ErrInvalidRecord ''option type must be PUT or CALL'')
      else if list_ex (opt_bad (\<lambda>x. \<not> finite64 x)) [qr_Delta r, qr_Bid r, qr_Ask r, qr_IV r, qr_Theta r]
      then Some (ErrInvalidRecord ''is not finite'')
      else if opt_bad (\<lambda>x. x \<le> 0) (qr_Bid r) \<or> opt_bad (\<lambda>x. x < 0) (qr_Ask r)
      then Some (ErrInvalidRecord ''bid must be positive and ask non-negative'')
      else if (case (qr_Bid r, qr_Ask r) of (Some b, Some a) \<Rightarrow> a < b | _ \<Rightarrow> False)
      then Some (ErrInvalidRecord ''ask is below bid'')
      else if opt_bad (\<lambda>x. x < 0) (qr_IV r) then Some (ErrInvalidRecord ''implied volatility must be non-negative'')
      else if opt_bad (\<lambda>x. x < 0 \<or> \<not> finite64 x) (qr_UnderlyingPrice r)
      then Some (ErrInvalidRecord ''underlying price must be non-negative and finite'')
      else if opt_bad (\<lambda>d. optionType = ''PUT'' \<and> (d < - 1 \<or> 0 < d) \<or> optionType = ''CALL'' \<and> (d < 0 \<or> 1 < d)) (qr_Delta r)
      then Some (ErrInvalidRecord (''delta is outside the '' @ optionType @ '' range''))
      else if (case qr_Volume r of Some n \<Rightarrow> n < 0 | None \<Rightarrow> False) \<or> (case qr_OpenInterest r of Some n \<Rightarrow> n < 0 | None \<Rightarrow> False)
      then Some (ErrInvalidRecord ''must be non-negative'')
      else if (case qr_LotSize r of Some n \<Rightarrow> n \<le> 0 | None \<Rightarrow> False)
      then Some (ErrInvalidRecord ''lot size must be positive'')
      else None)"

definition validAction :: "string \<Rightarrow> bool" where
  "validAction a \<longleftrightarrow>
     to_upper (trim_space a) \<in> {''CONFIRM'', ''IGNORE'', ''FILL'', ''NOTE'', ''LLM_REVIEW'', ''LLM_REVIEW_FAILED'', ''NO'', ''REJECTED''}"

text \<open>What the JSON encoder can write: no number of an encoded field may be infinite or NaN.\<close>

definition opt_finite :: "f64 option \<Rightarrow> bool" where
  "opt_finite v = (case v of None \<Rightarrow> True | Some x \<Rightarrow> finite64 x)"

definition quote_encodable :: "WireQuote \<Rightarrow> bool" where
  "quote_encodable q \<longleftrightarrow>
     list_all finite64 [wq_Strike q, wq_Bid q, wq_Ask q, wq_Last q, wq_Delta q, wq_ImpliedVol q]
     \<and> (wq_wireMode q = wireCompact \<or> finite64 (wq_MarketDelta q) \<and> opt_finite (wq_Theta q) \<and> finite64 (wq_IV q))"

definition candidate_encodable :: "Candidate \<Rightarrow> bool" where
  "candidate_encodable c \<longleftrightarrow>
     (case cd_Quote c of None \<Rightarrow> True | Some q \<Rightarrow> quote_encodable q)
     \<and> (cd_wireMode c = wireCompact \<or> list_all finite64 [cd_Quality c, cd_PostTradeEffective c, cd_AssignmentInventory c])
     \<and> (cd_wireMode c \<noteq> wireFull \<or> finite64 (cd_ExpectedGain c))"

definition inventory_encodable :: "StoredInventory \<Rightarrow> bool" where
  "inventory_encodable i \<longleftrightarrow>
     list_all opt_finite [si_CurrentPrice i, si_ActualInventory i, si_OptionDeltaStock i, si_EffectiveInventory i,
       si_TargetInventory i, si_InventoryGap i]"

section \<open>Tables\<close>

record SignalRow =
  sw_id :: int
  sw_record :: SignalRecord
  sw_created :: time

text \<open>The audit details of an action are of any type; \<^verbatim>\<open>details->>'order_id'\<close> is a projection of them.\<close>

record 'd ActionRow =
  aw_id :: int
  aw_signal :: int
  aw_action :: string
  aw_actor :: string
  aw_note :: string
  aw_details :: 'd
  aw_created :: time

record 'd ClaimRow =
  cw_signal :: int
  cw_actor :: string
  cw_order :: "(int \<times> string \<times> 'd \<times> time) option"

record 'd DB =
  db_signals :: "SignalRow list"
  db_actions :: "'d ActionRow list"
  db_claims :: "'d ClaimRow list"
  db_dismissals :: "(string \<times> int) list"

definition next_id :: "int list \<Rightarrow> int" where
  "next_id ids = foldl max 0 ids + 1"

section \<open>Signals\<close>

definition AppendSignal :: "string option \<Rightarrow> time \<Rightarrow> SignalRecord \<Rightarrow> 'd DB \<Rightarrow> (StoreError + int) \<times> 'd DB" where
  "AppendSignal outage now r db =
     (case validateSignal r of
        Inl e \<Rightarrow> (Inl e, db)
      | Inr r \<Rightarrow>
          if \<not> inventory_encodable (rec_Inventory r) then (Inl (ErrInvalidRecord ''inventory''), db)
          else if \<not> list_all candidate_encodable (rec_Candidates r) then (Inl (ErrInvalidRecord ''candidates''), db)
          else
            (let strategy = (if trim_space (rec_Strategy r) = [] then ''wheel'' else trim_space (rec_Strategy r));
                 closeQuote = (case rec_CloseQuote r of Some q \<Rightarrow> if quote_encodable q then Some q else None | None \<Rightarrow> None)
             in case outage of
                  Some e \<Rightarrow> (Inl (StoreFailure e), db)
                | None \<Rightarrow>
                    (let new = next_id (map sw_id (db_signals db))
                     in (Inr new, db\<lparr>db_signals := db_signals db @
                          [\<lparr>sw_id = new, sw_record = r\<lparr>rec_Strategy := strategy, rec_CloseQuote := closeQuote\<rparr>, sw_created = now\<rparr>]\<rparr>))))"

definition GetSignal :: "int \<Rightarrow> 'd DB \<Rightarrow> StoreError + SignalRow" where
  "GetSignal sid db =
     (if sid \<le> 0 then Inl (ErrInvalidRecord ''positive signal id required'')
      else case find (\<lambda>s. sw_id s = sid) (db_signals db) of None \<Rightarrow> Inl ErrNotFound | Some s \<Rightarrow> Inr s)"

section \<open>Actions\<close>

definition AppendAction ::
  "string option \<Rightarrow> time \<Rightarrow> int \<Rightarrow> string \<Rightarrow> string \<Rightarrow> string \<Rightarrow> 'd \<Rightarrow> 'd DB \<Rightarrow> (StoreError + int) \<times> 'd DB" where
  "AppendAction outage now signalID action actor note details db =
     (if signalID \<le> 0 \<or> trim_space actor = [] then (Inl (ErrInvalidRecord ''signal id and actor are required''), db)
      else if \<not> validAction (to_upper (trim_space action)) then (Inl ErrInvalidOp, db)
      else case outage of
        Some e \<Rightarrow> (Inl (StoreFailure e), db)
      | None \<Rightarrow>
          (let new = next_id (map aw_id (db_actions db))
           in (Inr new, db\<lparr>db_actions := db_actions db @
                [\<lparr>aw_id = new, aw_signal = signalID, aw_action = to_upper (trim_space action), aw_actor = actor, aw_note = note,
                  aw_details = details, aw_created = now\<rparr>]\<rparr>)))"

definition exists_action :: "'d DB \<Rightarrow> int \<Rightarrow> string list \<Rightarrow> bool" where
  "exists_action db sid acts \<longleftrightarrow> list_ex (\<lambda>a. aw_signal a = sid \<and> aw_action a \<in> set acts) (db_actions db)"

definition HasAction :: "int \<Rightarrow> string \<Rightarrow> 'd DB \<Rightarrow> StoreError + bool" where
  "HasAction signalID action db =
     (if signalID \<le> 0 then Inl (ErrInvalidRecord ''positive signal id required'')
      else if \<not> validAction action then Inl ErrInvalidOp
      else Inr (exists_action db signalID [to_upper (trim_space action)]))"

text \<open>Newest by creation time, then by identity.\<close>

definition newer_action :: "'d ActionRow \<Rightarrow> 'd ActionRow \<Rightarrow> 'd ActionRow" where
  "newer_action a b = (if (aw_created a, aw_id a) \<le> (aw_created b, aw_id b) then b else a)"

definition LatestAction :: "int \<Rightarrow> string \<Rightarrow> 'd DB \<Rightarrow> StoreError + 'd ActionRow" where
  "LatestAction signalID action db =
     (let act = to_upper (trim_space action) in
      if signalID \<le> 0 then Inl (ErrInvalidRecord ''positive signal id required'')
      else if \<not> validAction act then Inl ErrInvalidOp
      else case filter (\<lambda>a. aw_signal a = signalID \<and> aw_action a = act) (db_actions db) of
        [] \<Rightarrow> Inl ErrNotFound
      | a # as \<Rightarrow> Inr (foldl newer_action a as))"

section \<open>Order claims\<close>

definition ClaimOrder :: "string option \<Rightarrow> int \<Rightarrow> string \<Rightarrow> 'd DB \<Rightarrow> (StoreError + bool) \<times> 'd DB" where
  "ClaimOrder outage signalID actor db =
     (let actor = trim_space actor in
      if signalID \<le> 0 \<or> actor = [] then (Inl (ErrInvalidRecord ''signal id and actor are required''), db)
      else case outage of
        Some e \<Rightarrow> (Inl (StoreFailure e), db)
      | None \<Rightarrow>
          if list_ex (\<lambda>c. cw_signal c = signalID) (db_claims db) then (Inr False, db)
          else (Inr True, db\<lparr>db_claims := db_claims db @ [\<lparr>cw_signal = signalID, cw_actor = actor, cw_order = None\<rparr>]\<rparr>))"

definition CompleteOrderClaim ::
  "string option \<Rightarrow> time \<Rightarrow> int \<Rightarrow> int \<Rightarrow> string \<Rightarrow> 'd \<Rightarrow> 'd DB \<Rightarrow> StoreError option \<times> 'd DB" where
  "CompleteOrderClaim outage now signalID orderID orderIDEx details db =
     (if signalID \<le> 0 \<or> orderID = 0 then (Some (ErrInvalidRecord ''signal id and broker order id are required''), db)
      else case outage of
        Some e \<Rightarrow> (Some (StoreFailure e), db)
      | None \<Rightarrow>
          (let db' = db\<lparr>db_claims := map (\<lambda>c. if cw_signal c = signalID
                        then c\<lparr>cw_order := Some (orderID, trim_space orderIDEx, details, now)\<rparr> else c) (db_claims db)\<rparr>
           in if length (filter (\<lambda>c. cw_signal c = signalID) (db_claims db)) \<noteq> 1 then (Some ErrNotFound, db') else (None, db')))"

section \<open>Pending orders and dismissals\<close>

definition HasRecentUndisposedSignal :: "string \<Rightarrow> time \<Rightarrow> 'd DB \<Rightarrow> StoreError + bool" where
  "HasRecentUndisposedSignal symbol since db =
     (let symbol = trim_space symbol in
      if symbol = [] \<or> is_zero since then Inl (ErrInvalidRecord ''symbol and since are required'')
      else Inr (list_ex (\<lambda>s. rec_Symbol (sw_record s) = symbol \<and> since \<le> sw_created s \<and> rec_Action (sw_record s) = ''ALERT''
             \<and> \<not> exists_action db (sw_id s) [''CONFIRM'', ''NO'', ''REJECTED'']) (db_signals db)))"

definition HasPendingOrder :: "string \<Rightarrow> 'd DB \<Rightarrow> StoreError + bool" where
  "HasPendingOrder symbol db =
     (let symbol = trim_space symbol in
      if symbol = [] then Inl (ErrInvalidRecord ''symbol is required'')
      else Inr (list_ex (\<lambda>s. rec_Symbol (sw_record s) = symbol \<and> rec_Action (sw_record s) = ''ALERT''
             \<and> exists_action db (sw_id s) [''CONFIRM''] \<and> \<not> exists_action db (sw_id s) [''FILL'']
             \<and> \<not> exists_action db (sw_id s) [''NO'', ''REJECTED'']) (db_signals db)))"

record OpenOrder =
  oo_SignalID :: int
  oo_OrderID :: string
  oo_Direction :: string
  oo_Quantity :: int
  oo_Contract :: string
  oo_Strike :: f64
  oo_Expiry :: string
  oo_Premium :: f64
  oo_PlacedAt :: time

text \<open>The confirmation with the highest identity, joined laterally.\<close>

definition lastConfirm :: "'d DB \<Rightarrow> int \<Rightarrow> 'd ActionRow option" where
  "lastConfirm db sid =
     (case filter (\<lambda>a. aw_signal a = sid \<and> aw_action a = ''CONFIRM'') (db_actions db) of
        [] \<Rightarrow> None
      | a # as \<Rightarrow> Some (foldl (\<lambda>x y. if aw_id x < aw_id y then y else x) a as))"

definition fillOrder :: "'d DB \<Rightarrow> OpenOrder \<Rightarrow> OpenOrder" where
  "fillOrder db o1 =
     (case GetSignal (oo_SignalID o1) db of
        Inl _ \<Rightarrow> o1
      | Inr row \<Rightarrow>
          (case rec_Candidates (sw_record row) of
             [] \<Rightarrow> o1
           | c # _ \<Rightarrow>
               (let o1 = o1\<lparr>oo_Direction := cd_Direction c, oo_Quantity := cd_Quantity c\<rparr>
                in case cd_Quote c of
                     None \<Rightarrow> o1
                   | Some q \<Rightarrow> o1\<lparr>oo_Contract := wq_Symbol q, oo_Strike := wq_Strike q, oo_Expiry := wq_Expiry q, oo_Premium := wq_Bid q\<rparr>)))"

text \<open>Scanning a NULL order number into a Go string is an error, which ends the loop.\<close>

fun scanOrders :: "('d \<Rightarrow> string option) \<Rightarrow> 'd DB \<Rightarrow> (int \<times> 'd ActionRow) list \<Rightarrow> StoreError + OpenOrder list" where
  "scanOrders order_text db [] = Inr []"
| "scanOrders order_text db ((sid, a) # rows) =
     (case order_text (aw_details a) of
        None \<Rightarrow> Inl (StoreFailure ''list pending orders'')
      | Some oid \<Rightarrow>
          (case scanOrders order_text db rows of
             Inl e \<Rightarrow> Inl e
           | Inr orders \<Rightarrow>
               Inr (fillOrder db \<lparr>oo_SignalID = sid, oo_OrderID = oid, oo_Direction = [], oo_Quantity = 0, oo_Contract = [],
                      oo_Strike = 0, oo_Expiry = [], oo_Premium = 0, oo_PlacedAt = aw_created a\<rparr> # orders)))"

definition pendingRow :: "'d DB \<Rightarrow> string \<Rightarrow> SignalRow \<Rightarrow> (int \<times> 'd ActionRow) option" where
  "pendingRow db symbol s =
     (if rec_Symbol (sw_record s) = symbol \<and> rec_Action (sw_record s) = ''ALERT''
         \<and> \<not> exists_action db (sw_id s) [''FILL''] \<and> \<not> exists_action db (sw_id s) [''NO'', ''REJECTED'']
      then map_option (Pair (sw_id s)) (lastConfirm db (sw_id s)) else None)"

definition ListPendingOrders :: "('d \<Rightarrow> string option) \<Rightarrow> string \<Rightarrow> 'd DB \<Rightarrow> StoreError + OpenOrder list" where
  "ListPendingOrders order_text symbol db =
     (let symbol = trim_space symbol in
      if symbol = [] then Inl (ErrInvalidRecord ''symbol is required'')
      else scanOrders order_text db (List.map_filter (pendingRow db symbol) (sort_key sw_id (db_signals db))))"

text \<open>The footprint the strategy sees of the open orders (\<^verbatim>\<open>mapPending\<close> of \<^verbatim>\<open>wheelrun/runner.go\<close>).\<close>

definition mapPending :: "OpenOrder list \<Rightarrow> PendingOrder list" where
  "mapPending rows =
     map (\<lambda>r. \<lparr>po_Contract = oo_Contract r, po_Direction = oo_Direction r, po_OrderID = oo_OrderID r\<rparr>) rows"

definition MaxSignalID :: "'d DB \<Rightarrow> int" where
  "MaxSignalID db = foldl max 0 (map sw_id (db_signals db))"

text \<open>A dismissal is stored for the day of its date.\<close>

definition Dismiss :: "string option \<Rightarrow> string \<Rightarrow> time \<Rightarrow> 'd DB \<Rightarrow> StoreError option \<times> 'd DB" where
  "Dismiss outage symbol date db =
     (if trim_space symbol = [] \<or> is_zero date then (Some (ErrInvalidRecord ''symbol and date are required''), db)
      else case outage of
        Some e \<Rightarrow> (Some (StoreFailure e), db)
      | None \<Rightarrow>
          (let key = (trim_space symbol, date div day_ns)
           in (None, if key \<in> set (db_dismissals db) then db else db\<lparr>db_dismissals := db_dismissals db @ [key]\<rparr>)))"

definition IsDismissed :: "string \<Rightarrow> time \<Rightarrow> 'd DB \<Rightarrow> StoreError + bool" where
  "IsDismissed symbol date db =
     (if trim_space symbol = [] \<or> is_zero date then Inl (ErrInvalidRecord ''symbol and date are required'')
      else Inr ((trim_space symbol, date div day_ns) \<in> set (db_dismissals db)))"

section \<open>Lemmas\<close>

definition confirms :: "'d DB \<Rightarrow> int \<Rightarrow> 'd ActionRow list" where
  "confirms db sid = filter (\<lambda>a. aw_signal a = sid \<and> aw_action a = ''CONFIRM'') (db_actions db)"

lemma lastConfirm_confirms:
  "lastConfirm db sid = (case confirms db sid of [] \<Rightarrow> None | a # as \<Rightarrow> Some (foldl (\<lambda>x y. if aw_id x < aw_id y then y else x) a as))"
  by (simp add: lastConfirm_def confirms_def)

lemma exists_action_lastConfirm: "lastConfirm db sid \<noteq> None \<longleftrightarrow> exists_action db sid [''CONFIRM'']"
proof -
  have "lastConfirm db sid \<noteq> None \<longleftrightarrow> confirms db sid \<noteq> []" by (simp add: lastConfirm_confirms split: list.split)
  then show ?thesis by (simp add: confirms_def exists_action_def list_ex_iff filter_empty_conv)
qed

lemma scanOrders_length:
  "scanOrders order_text db rows = Inr orders \<Longrightarrow> length orders = length rows"
  by (induction rows arbitrary: orders) (auto split: option.splits sum.splits)

lemma scanOrders_total:
  "\<forall>(sid, a) \<in> set rows. order_text (aw_details a) \<noteq> None \<Longrightarrow> \<exists>orders. scanOrders order_text db rows = Inr orders"
  by (induction rows) (auto split: option.splits sum.splits)

lemma fillOrder_id [simp]: "oo_SignalID (fillOrder db o1) = oo_SignalID o1"
  by (auto simp: fillOrder_def Let_def split: sum.split list.split option.split)

lemma scanOrders_ids:
  "scanOrders order_text db rows = Inr orders \<Longrightarrow> map oo_SignalID orders = map fst rows"
  by (induction rows arbitrary: orders) (auto split: option.splits sum.splits)

lemma map_filter_Nil: "List.map_filter f xs = [] \<longleftrightarrow> (\<forall>x \<in> set xs. f x = None)"
  by (induction xs) (auto simp: map_filter_simps split: option.splits)

lemma set_map_filter_iff: "y \<in> set (List.map_filter f xs) \<longleftrightarrow> (\<exists>x \<in> set xs. f x = Some y)"
  by (induction xs) (auto simp: map_filter_simps split: option.splits)

text \<open>The condition of a row in both queries.\<close>

lemma pendingRow_iff:
  "pendingRow db symbol s \<noteq> None \<longleftrightarrow>
     rec_Symbol (sw_record s) = symbol \<and> rec_Action (sw_record s) = ''ALERT'' \<and> exists_action db (sw_id s) [''CONFIRM'']
     \<and> \<not> exists_action db (sw_id s) [''FILL''] \<and> \<not> exists_action db (sw_id s) [''NO'', ''REJECTED'']"
  using exists_action_lastConfirm [of db "sw_id s"] by (auto simp: pendingRow_def)

lemma lastConfirm_in: "lastConfirm db sid = Some a \<Longrightarrow> a \<in> set (db_actions db)"
proof -
  have "foldl (\<lambda>x y. if aw_id x < aw_id y then y else x) a as \<in> set (a # as)" for a and as :: "'d ActionRow list"
    by (induction as arbitrary: a) auto
  moreover assume c: "lastConfirm db sid = Some a"
  ultimately have "a \<in> set (confirms db sid)" by (auto simp: lastConfirm_confirms split: list.splits)
  then show ?thesis by (simp add: confirms_def)
qed

section \<open>Properties\<close>


definition empty_db :: "string DB" where
  "empty_db = \<lparr>db_signals = [], db_actions = [], db_claims = [], db_dismissals = []\<rparr>"


text \<open>Attempts to claim and to complete the order of a signal, from any process, one after another.\<close>

datatype 'd ClaimOp = Claim "string option" int string | CompleteClaim "string option" time int int string 'd

fun claimRun :: "'d ClaimOp list \<Rightarrow> 'd DB \<Rightarrow> (int \<times> (StoreError + bool)) list" where
  "claimRun [] db = []"
| "claimRun (Claim outage sid actor # ops) db = (let (res, db) = ClaimOrder outage sid actor db in (sid, res) # claimRun ops db)"
| "claimRun (CompleteClaim outage now sid oid oidex details # ops) db = claimRun ops (snd (CompleteOrderClaim outage now sid oid oidex details db))"

definition claimed :: "'d DB \<Rightarrow> int \<Rightarrow> bool" where
  "claimed db sid \<longleftrightarrow> list_ex (\<lambda>c. cw_signal c = sid) (db_claims db)"

fun can_claim :: "int \<Rightarrow> 'd ClaimOp \<Rightarrow> bool" where
  "can_claim sid (Claim outage sid' actor) \<longleftrightarrow> sid' = sid \<and> 0 < sid \<and> trim_space actor \<noteq> [] \<and> outage = None"
| "can_claim sid _ \<longleftrightarrow> False"

lemma ClaimOrder_claimed:
  "claimed (snd (ClaimOrder outage sid' actor db)) sid \<longleftrightarrow> claimed db sid \<or> can_claim sid (Claim outage sid' actor)"
  "fst (ClaimOrder outage sid' actor db) = Inr True \<longleftrightarrow> can_claim sid' (Claim outage sid' actor) \<and> \<not> claimed db sid'"
  by (auto simp: ClaimOrder_def claimed_def Let_def split: option.split)

lemma CompleteOrderClaim_claimed [simp]: "claimed (snd (CompleteOrderClaim outage now sid' oid oidex details db)) sid = claimed db sid"
proof -
  have "list_ex (\<lambda>c. cw_signal c = sid) (map (\<lambda>c. if cw_signal c = s then c\<lparr>cw_order := v\<rparr> else c) cs) = list_ex (\<lambda>c. cw_signal c = sid) cs"
    for s v and cs :: "'a ClaimRow list" by (induction cs) auto
  then show ?thesis by (simp add: CompleteOrderClaim_def claimed_def Let_def split: option.split)
qed

text \<open>
  C24: whatever processes and channels compete, a signal's order is claimed by exactly one of the
  attempts that reach the database - the first - and never again, completed or not.
\<close>

theorem claim_once:
  "length (filter (\<lambda>r. r = (sid, Inr True)) (claimRun ops db)) = (if \<not> claimed db sid \<and> list_ex (can_claim sid) ops then 1 else 0)"
proof (induction ops arbitrary: db)
  case (Cons op ops)
  show ?case
  proof (cases op)
    case (Claim outage sid' actor)
    obtain res db' where c: "ClaimOrder outage sid' actor db = (res, db')" by (cases "ClaimOrder outage sid' actor db")
    define cc where "cc = can_claim sid' (Claim outage sid' actor :: 'a ClaimOp)"
    have op: "can_claim sid (Claim outage sid' actor :: 'a ClaimOp) \<longleftrightarrow> sid' = sid \<and> cc" by (auto simp: cc_def)
    have db': "claimed db' sid \<longleftrightarrow> claimed db sid \<or> sid' = sid \<and> cc" and res: "res = Inr True \<longleftrightarrow> cc \<and> \<not> claimed db sid'"
      using ClaimOrder_claimed [of outage sid' actor db] c op by (simp_all add: cc_def)
    have run: "claimRun (Claim outage sid' actor # ops) db = (sid', res) # claimRun ops db'" using c by simp
    show ?thesis unfolding Claim run list_ex_Cons_iff op using Cons [of db'] db' res by (cases "sid' = sid"; cases cc; cases "claimed db sid") simp_all
  qed (use Cons in simp)
qed simp

end
