(* ===== verification/Live_Orders.thy ===== *)
theory Live_Orders
  imports Live_Store Wheel_Decision
begin

text \<open>
  From decision to order: the order facts that \<^verbatim>\<open>cmd/wbot/telegram_scheduler.go\<close> reads off a stored signal, and
  how they and the repository's validation fit the decisions of the wheel.
\<close>

section \<open>Order facts\<close>

record candidateOrder =
  co_Code :: string
  co_Side :: string
  co_Quantity :: int
  co_Direction :: string
  co_OptionType :: string
  co_Strike :: f64
  co_Expiry :: string
  co_Bid :: f64
  co_Ask :: f64
  co_Last :: f64
  co_Delta :: f64
  co_ImpliedVol :: f64
  co_OpenInterest :: int

definition order_of_quote :: "WireQuote \<Rightarrow> string \<Rightarrow> int \<Rightarrow> string \<Rightarrow> f64 \<Rightarrow> candidateOrder" where
  "order_of_quote q side qty direction limit =
     \<lparr>co_Code = wq_Symbol q, co_Side = side, co_Quantity = qty, co_Direction = direction, co_OptionType = wq_OptionType q,
      co_Strike = wq_Strike q, co_Expiry = wq_Expiry q, co_Bid = wq_Bid q, co_Ask = wq_Ask q, co_Last = limit,
      co_Delta = wq_Delta q, co_ImpliedVol = wq_ImpliedVol q, co_OpenInterest = wq_OpenInterest q\<rparr>"

definition executable_candidate :: "Candidate \<Rightarrow> bool" where
  "executable_candidate c \<longleftrightarrow> cd_Accepted c \<and> (case cd_Quote c of None \<Rightarrow> False | Some q \<Rightarrow> trim_space (wq_Symbol q) \<noteq> [])"

definition firstCandidate :: "SignalRecord \<Rightarrow> string + candidateOrder" where
  "firstCandidate sig =
     (if rec_Candidates sig = [] then Inl ''signal has no candidates''
      else case find executable_candidate (rec_Candidates sig) of
        None \<Rightarrow> Inl ''signal has no approved candidate''
      | Some c \<Rightarrow>
          (let q = the (cd_Quote c); direction = to_upper (trim_space (cd_Direction c));
               qty = (if cd_Quantity c < 1 then 1 else cd_Quantity c)
           in if direction = ''PUT'' \<or> direction = ''CALL'' then Inr (order_of_quote q ''sell'' qty direction (wq_Last q))
              else if direction = ''BUY'' then Inr (order_of_quote q ''buy'' qty direction (wq_Last q))
              else if direction = ''SELL'' then Inr (order_of_quote q ''sell'' qty direction (wq_Last q))
              else Inl (''candidate direction '' @ fmt_quote (cd_Direction c) @ '' unsupported'')))"

definition orderFacts :: "SignalRecord \<Rightarrow> string + candidateOrder" where
  "orderFacts sig =
     (if rec_ClosePosition sig then
        (case rec_CloseQuote sig of
           None \<Rightarrow> Inl ''close_position signal has no usable close facts''
         | Some q \<Rightarrow>
             if trim_space (wq_Symbol q) = [] \<or> rec_CloseQty sig < 1 then Inl ''close_position signal has no usable close facts''
             else (let limit = (if wq_Ask q \<le> 0 then wq_Last q else wq_Ask q)
                   in Inr (order_of_quote q ''buy'' (rec_CloseQty sig) ''BUY'' limit)))
      else firstCandidate sig)"

section \<open>The shape of a decision\<close>

text \<open>The capability and its blockers as the repository wants them.\<close>

definition cap_ok :: "Signal \<Rightarrow> bool" where
  "cap_ok s \<longleftrightarrow> s_CapabilityStatus s = ''READY'' \<and> s_BlockedBy s = [] \<or> s_CapabilityStatus s = ''DATA_BLOCKED'' \<and> s_BlockedBy s \<noteq> []"

definition texted :: "string \<Rightarrow> bool" where
  "texted s \<longleftrightarrow> s \<noteq> [] \<and> \<not> is_space (hd s)"

lemma texted_trim: "texted s \<Longrightarrow> trim_space s \<noteq> []"
  by (cases s) (auto simp: texted_def trim_space_def dropWhile_eq_Nil_conv)

lemma texted_Cons [simp]: "texted (c # s) \<longleftrightarrow> \<not> is_space c" by (simp add: texted_def)

lemma letters_text [simp]:
  "\<not> is_space (CHR ''a'')" "\<not> is_space (CHR ''i'')" "\<not> is_space (CHR ''p'')" "\<not> is_space (CHR ''s'')" "\<not> is_space (CHR ''w'')"
  "\<not> is_space (CHR ''n'')" "\<not> is_space (CHR ''P'')" "\<not> is_space (CHR ''C'')"
  by code_simp+

lemma hold_shape:
  "cap_ok base \<Longrightarrow> cap_ok (hold r base) \<and> s_Reason (hold r base) = r \<and> s_Candidates (hold r base) = s_Candidates base"
  by (auto simp: hold_def cap_ok_def Let_def)

lemma cap_ok_updates [simp]:
  "cap_ok (base\<lparr>s_Direction := d\<rparr>) = cap_ok base" "cap_ok (base\<lparr>s_StockSuggestion := ss\<rparr>) = cap_ok base"
  "cap_ok (base\<lparr>s_Candidates := cs\<rparr>) = cap_ok base" "cap_ok (base\<lparr>s_RejectReasons := rs\<rparr>) = cap_ok base"
  "cap_ok (base\<lparr>s_CapabilityStatus := CapabilityDataBlocked, s_BlockedBy := bs @ [b]\<rparr>)"
  "cap_ok (base_signal t g i)"
  by (simp_all add: cap_ok_def CapabilityDataBlocked_def base_signal_def zero_signal_def CapabilityReady_def)

lemma cap_ok_block: "cap_ok base \<Longrightarrow> cap_ok (block b dep base)"
  by (simp add: block_def)

lemma stockSwitch_shape: "cap_ok base \<Longrightarrow> cap_ok (stockSwitch inp gap base) \<and> texted (s_Reason (stockSwitch inp gap base))"
  by (simp add: stockSwitch_def Let_def hold_shape)

lemma entryGate_shape: "cap_ok base \<Longrightarrow> entryGate cfg inp gap base = Some sig \<Longrightarrow> cap_ok sig \<and> texted (s_Reason sig)"
  by (auto simp: entryGate_def hold_shape stockSwitch_shape split: if_splits)

lemma policyGate_shape: "cap_ok base \<Longrightarrow> policyGate cfg inp d base = Some sig \<Longrightarrow> cap_ok sig \<and> texted (s_Reason sig)"
  by (auto simp: policyGate_def hold_shape split: if_splits)

lemma noCandidate_shape: "cap_ok (el_base el) \<Longrightarrow> cap_ok (noCandidate el) \<and> texted (s_Reason (noCandidate el))"
  by (simp add: noCandidate_def Let_def hold_shape cap_ok_block)

lemma entryLoop_base:
  "el_base (entryLoop cfg inp target) = (base_signal target (gapOf inp target) (inventoryOf inp))
     \<lparr>s_Direction := gapDirection (gapOf inp target),
      s_Candidates := map (candidateOf cfg inp (inventoryOf inp) target (gapOf inp target) (gapDirection (gapOf inp target))) (in_Quotes inp),
      s_RejectReasons := concat (map (c_Reasons \<circ> candidateOf cfg inp (inventoryOf inp) target (gapOf inp target) (gapDirection (gapOf inp target))) (in_Quotes inp))\<rparr>"
  by (simp add: entryLoop_def evalLoop_base base_signal_def zero_signal_def)

lemma alertCandidate_shape:
  "s_CapabilityStatus (alertCandidate cfg inp target gap d el c) = s_CapabilityStatus (el_base el)"
  "s_BlockedBy (alertCandidate cfg inp target gap d el c) = s_BlockedBy (el_base el)"
  "s_Candidates (alertCandidate cfg inp target gap d el c) = s_Candidates (el_base el)"
  "d = DirectionPut \<or> d = DirectionCall \<Longrightarrow> texted (s_Reason (alertCandidate cfg inp target gap d el c))"
  by (auto simp: alertCandidate_def alertReason_def DirectionPut_def DirectionCall_def Let_def split: option.split)

lemma takeProfitSignal_shape:
  assumes "takeProfitSignal cfg inp base = Some sig"
  shows "s_CapabilityStatus sig = s_CapabilityStatus base" "s_BlockedBy sig = s_BlockedBy base" "s_Candidates sig = s_Candidates base"
    "texted (s_Reason sig)" "s_ClosePosition sig" "s_Action sig = ActionAlert" "s_Quote sig \<noteq> None"
  using assms by (auto simp: takeProfitSignal_def Let_def split: if_splits option.splits)

lemma gapDirection_cases: "gapDirection gap = DirectionPut \<or> gapDirection gap = DirectionCall"
  by (simp add: gapDirection_def)

text \<open>A decision holds, closes a leg without candidates, or alerts with the candidates of its quotes.\<close>

lemma decide_shape:
  assumes "sig = decide cfg inp target"
  shows "cap_ok sig \<and> texted (s_Reason sig) \<and>
     (s_Action sig = ActionHold \<and> \<not> s_ClosePosition sig
      \<or> s_Action sig = ActionAlert \<and> s_CapabilityStatus sig = ''READY'' \<and> s_ClosePosition sig \<and> s_Candidates sig = [] \<and> s_Quote sig \<noteq> None
      \<or> s_Action sig = ActionAlert \<and> s_CapabilityStatus sig = ''READY'' \<and> \<not> s_ClosePosition sig
        \<and> s_Candidates sig = map (candidateOf cfg inp (inventoryOf inp) target (gapOf inp target) (gapDirection (gapOf inp target))) (in_Quotes inp)
        \<and> (\<exists>q \<in> set (in_Quotes inp). admissible cfg inp (inventoryOf inp) target (gapOf inp target) (gapDirection (gapOf inp target)) q
             \<and> s_Quote sig = Some q))"
proof -
  let ?gap = "gapOf inp target" and ?invt = "inventoryOf inp"
  let ?d = "gapDirection ?gap" and ?base = "base_signal target ?gap ?invt"
  have loop: "cap_ok (el_base (entryLoop cfg inp target))" by (simp add: entryLoop_base)
  consider (tp) "takeProfitSignal cfg inp ?base = Some sig"
    | (gate) "takeProfitSignal cfg inp ?base = None" "\<not> gatesOpen cfg inp ?gap"
    | (none) "takeProfitSignal cfg inp ?base = None" "gatesOpen cfg inp ?gap" "chosenCandidate cfg inp ?invt target ?gap ?d = None"
    | (some) c where "takeProfitSignal cfg inp ?base = None" "gatesOpen cfg inp ?gap"
        "chosenCandidate cfg inp ?invt target ?gap ?d = Some c"
    using assms by (cases "takeProfitSignal cfg inp ?base") (fastforce simp: decide_paths Let_def)+
  then show ?thesis
  proof cases
    case tp
    then show ?thesis using takeProfitSignal_shape [OF tp]
      by (simp add: cap_ok_def base_signal_def zero_signal_def CapabilityReady_def)
  next
    case gate
    then have "cap_ok sig \<and> texted (s_Reason sig) \<and> holding sig"
      using gatesOpen_iff [of cfg inp ?gap ?base "?base\<lparr>s_Direction := ?d\<rparr>"] entryGate_holding [of ?base] assms
        policyGate_holding [of "?base\<lparr>s_Direction := ?d\<rparr>"] entryGate_shape [of ?base] policyGate_shape [of "?base\<lparr>s_Direction := ?d\<rparr>"]
      by (auto simp: decide_paths Let_def split: option.split)
    then show ?thesis by (simp add: holding_def)
  next
    case none
    then show ?thesis using noCandidate_holding [of "entryLoop cfg inp target"] noCandidate_shape [OF loop] assms
      by (simp add: decide_paths Let_def holding_def)
  next
    case some
    obtain q where q: "q \<in> set (in_Quotes inp)" "c = candidateOf cfg inp ?invt target ?gap ?d q" "admissible cfg inp ?invt target ?gap ?d q"
      using chosenCandidate_Some [OF some(3)] by blast
    have "c_Quote c = q" using q(2) by simp
    moreover have "sig = alertCandidate cfg inp target ?gap ?d (entryLoop cfg inp target) c" using some assms by (simp add: decide_paths Let_def)
    ultimately show ?thesis
      using q alertCandidate_shape(4) [OF gapDirection_cases, of cfg inp target ?gap ?gap "entryLoop cfg inp target" c]
      by (simp add: alertCandidate_fields alertCandidate_shape entryLoop_base cap_ok_def base_signal_def zero_signal_def CapabilityReady_def)
  qed
qed

section \<open>Properties\<close>

lemma mapSignal_fields:
  "rec_Symbol (fst (mapSignal rfc symbol version sig price)) = symbol"
  "rec_ConfigVersion (fst (mapSignal rfc symbol version sig price)) = version"
  "rec_Action (fst (mapSignal rfc symbol version sig price)) = to_upper (s_Action sig)"
  "rec_Reason (fst (mapSignal rfc symbol version sig price)) = s_Reason sig"
  "rec_Candidates (fst (mapSignal rfc symbol version sig price)) = map (candidateRecord rfc) (s_Candidates sig)"
  "rec_ClosePosition (fst (mapSignal rfc symbol version sig price)) = (s_ClosePosition sig \<and> s_Quote sig \<noteq> None)"
  "si_CurrentPrice (rec_Inventory (fst (mapSignal rfc symbol version sig price))) = Some price"
  "si_ActualInventory (rec_Inventory (fst (mapSignal rfc symbol version sig price))) = Some (s_ActualInventory sig)"
  "si_OptionDeltaStock (rec_Inventory (fst (mapSignal rfc symbol version sig price))) = Some (s_OptionDeltaStock sig)"
  "si_EffectiveInventory (rec_Inventory (fst (mapSignal rfc symbol version sig price))) = Some (s_EffectiveInventory sig)"
  "si_TargetInventory (rec_Inventory (fst (mapSignal rfc symbol version sig price))) = Some (s_TargetInventory sig)"
  "si_InventoryGap (rec_Inventory (fst (mapSignal rfc symbol version sig price))) = Some (s_InventoryGap sig)"
  by (auto simp: mapSignal_def candidateRecords_def Let_def split: option.split prod.split)

lemma capability_texts [simp]:
  "to_upper (trim_space ''READY'') = ''READY''" "to_upper (trim_space ''DATA_BLOCKED'') = ''DATA_BLOCKED''"
  "to_upper ActionAlert = ''ALERT''" "to_upper ActionHold = ''HOLD''"
  "to_upper (trim_space ''ALERT'') = ''ALERT''" "to_upper (trim_space ''HOLD'') = ''HOLD''"
  by code_simp+

lemma mapSignal_capability:
  assumes "cap_ok sig"
  shows "rec_CapabilityStatus (fst (mapSignal rfc symbol version sig price)) = s_CapabilityStatus sig"
    "rec_BlockedBy (fst (mapSignal rfc symbol version sig price)) = s_BlockedBy sig"
  using assms by (auto simp: cap_ok_def mapSignal_def CapabilityReady_def Let_def split: option.split prod.split)

lemma validate_mapped:
  assumes "cap_ok sig" "texted (s_Reason sig)" "s_Action sig \<in> {ActionHold, ActionAlert}" "trim_space symbol \<noteq> []" "0 < version"
    and "s_Action sig = ActionAlert \<longrightarrow> s_CapabilityStatus sig = ''READY''"
  shows "validateSignal (fst (mapSignal rfc symbol version sig price)) =
     (if s_Action sig = ActionAlert \<and> s_Candidates sig = []
      then Inl (ErrInvalidRecord ''ALERT requires at least one candidate'')
      else Inr (fst (mapSignal rfc symbol version sig price)))"
proof -
  let ?r = "fst (mapSignal rfc symbol version sig price)"
  note f = mapSignal_fields [of rfc symbol version sig price] mapSignal_capability [OF assms(1), of rfc symbol version price]
  have act: "rec_Action ?r = (if s_Action sig = ActionAlert then ''ALERT'' else ''HOLD'')" using assms(3) by (auto simp: f)
  have a: "?r\<lparr>rec_Action := to_upper (trim_space (rec_Action ?r))\<rparr> = ?r" by (rule SignalRecord.equality) (simp_all add: act)
  have c: "?r\<lparr>rec_CapabilityStatus := to_upper (trim_space (rec_CapabilityStatus ?r))\<rparr> = ?r"
    using assms(1) by (intro SignalRecord.equality) (auto simp: f cap_ok_def)
  have t: "trim_space (rec_Reason ?r) \<noteq> []" using texted_trim [OF assms(2)] by (simp add: f)
  show ?thesis
    unfolding validateSignal_def Let_def a c
    using assms(1,4-6) t by (auto simp: f(1,2,4-14) act cap_ok_def)
qed

text \<open>
  C28: what the decision core returns without an error, the repository accepts as it stands -
  except an alert that closes a held leg, which the repository refuses for having no candidate: the close
  path of a live pass never stores a signal.
\<close>

theorem decision_persistable:
  assumes "Evaluate cfg inp = (sig, None)" "trim_space symbol \<noteq> []" "0 < version"
  shows "AppendSignal outage now (fst (mapSignal rfc symbol version sig price)) db
           = (Inl (ErrInvalidRecord ''ALERT requires at least one candidate''), db)
       \<and> s_ClosePosition sig
     \<or> validateSignal (fst (mapSignal rfc symbol version sig price)) = Inr (fst (mapSignal rfc symbol version sig price))
       \<and> \<not> s_ClosePosition sig"
proof -
  consider (price) "sig = zero_signal\<lparr>s_Action := ActionHold, s_Direction := DirectionHold, s_Reason := ''wheel: current price is invalid'',
       s_Reasons := [''wheel: current price is invalid''], s_CapabilityStatus := CapabilityDataBlocked, s_BlockedBy := [''current_price'']\<rparr>"
    | (dec) target where "sig = decide cfg inp target"
    using assms(1) by (auto simp: Evaluate_def split: option.splits if_splits sum.splits)
  then show ?thesis
  proof cases
    case price
    then show ?thesis
      using validate_mapped [of sig symbol version rfc price] assms(2,3)
      by (simp add: cap_ok_def zero_signal_def CapabilityDataBlocked_def)
  next
    case dec
    note s = decide_shape [OF dec]
    have v: "validateSignal (fst (mapSignal rfc symbol version sig price)) =
       (if s_Action sig = ActionAlert \<and> s_Candidates sig = []
        then Inl (ErrInvalidRecord ''ALERT requires at least one candidate'')
        else Inr (fst (mapSignal rfc symbol version sig price)))"
      using s assms(2,3) by (intro validate_mapped) auto
    have "s_ClosePosition sig \<longleftrightarrow> s_Action sig = ActionAlert \<and> s_Candidates sig = []" using s by auto
    then show ?thesis using v by (auto simp: AppendSignal_def)
  qed
qed

text \<open>A short put of the chain, sold at 4 and now asked at 1, with a profit-taking threshold of one half.\<close>

definition live_close_input :: DecisionInput where
  "live_close_input = sample_input\<lparr>in_Positions := [option_position ''P64'' (Fin (- 1)) (Fin 64) ''put'' (Fin 4)]\<rparr>"

theorem decision_persistable_witness:
  "s_ClosePosition (fst (Evaluate sample_config live_close_input)) \<and>
   fst (AppendSignal None 0 (fst (mapSignal (\<lambda>_. []) ''US.JD'' 1 (fst (Evaluate sample_config live_close_input)) (Fin 75))) empty_db)
     = Inl (ErrInvalidRecord ''ALERT requires at least one candidate'')"
proof -
  have e: "snd (Evaluate sample_config live_close_input) = None" "s_ClosePosition (fst (Evaluate sample_config live_close_input))"
    "trim_space ''US.JD'' \<noteq> []"
    by code_simp+
  then have "Evaluate sample_config live_close_input = (fst (Evaluate sample_config live_close_input), None)" by (metis prod.collapse)
  from decision_persistable [OF this e(3), where version = 1 and outage = None and now = 0 and rfc = "\<lambda>_. []" and price = "Fin 75" and db = empty_db]
  show ?thesis using e(2) by auto
qed

lemma candidateRecord_fields [simp]:
  "cd_Accepted (candidateRecord rfc c) = c_Accepted c" "cd_Quote (candidateRecord rfc c) = Some ((quoteRecord rfc (c_Quote c))\<lparr>wq_wireMode := wireFull\<rparr>)"
  "cd_Direction (candidateRecord rfc c) = c_Direction c" "cd_Quantity (candidateRecord rfc c) = c_Quantity c"
  by (simp_all add: candidateRecord_def AsFullCandidate_def AsWireCandidate_def Let_def)


text \<open>The quotes the order facts may take, and what they make of the stored alert of a decision.\<close>

definition orderable :: "Config \<Rightarrow> DecisionInput \<Rightarrow> f64 \<Rightarrow> OptionQuote \<Rightarrow> bool" where
  "orderable cfg inp target q \<longleftrightarrow>
     admissible cfg inp (inventoryOf inp) target (gapOf inp target) (gapDirection (gapOf inp target)) q \<and> trim_space (q_Symbol q) \<noteq> []"

lemma orderFacts_mapped:
  assumes "sig = decide cfg inp target" "s_Action sig = ActionAlert" "\<not> s_ClosePosition sig"
  shows "orderFacts (fst (mapSignal rfc symbol version sig price)) =
    (case find (orderable cfg inp target) (in_Quotes inp) of
       None \<Rightarrow> Inl (if in_Quotes inp = [] then ''signal has no candidates'' else ''signal has no approved candidate'')
     | Some q \<Rightarrow> Inr (order_of_quote ((quoteRecord rfc q)\<lparr>wq_wireMode := wireFull\<rparr>) ''sell'' 1 (gapDirection (gapOf inp target)) (q_Last q)))"
proof -
  let ?d = "gapDirection (gapOf inp target)"
  let ?cand = "candidateOf cfg inp (inventoryOf inp) target (gapOf inp target) ?d"
  let ?r = "fst (mapSignal rfc symbol version sig price)"
  have "s_Candidates sig = map ?cand (in_Quotes inp)" using decide_shape [OF assms(1)] assms(2,3) by auto
  then have r: "rec_Candidates ?r = map (candidateRecord rfc \<circ> ?cand) (in_Quotes inp)" by (simp add: mapSignal_fields)
  have "executable_candidate (candidateRecord rfc (?cand q)) \<longleftrightarrow> orderable cfg inp target q" for q
    by (simp add: executable_candidate_def candidateOf_accepted quoteRecord_def orderable_def)
  then have fd: "find executable_candidate (map (candidateRecord rfc \<circ> ?cand) qs) =
      map_option (candidateRecord rfc \<circ> ?cand) (find (orderable cfg inp target) qs)" for qs
    by (induction qs) simp_all
  have up: "to_upper (trim_space ?d) = ?d"
    using gapDirection_cases [of "gapOf inp target"] by (auto simp: DirectionPut_def DirectionCall_def; code_simp)
  have dd: "?d = ''PUT'' \<or> ?d = ''CALL''" using gapDirection_cases by (simp add: DirectionPut_def DirectionCall_def)
  have "orderFacts ?r = firstCandidate ?r" using assms(3) by (simp add: orderFacts_def mapSignal_fields)
  also have "\<dots> = (case find (orderable cfg inp target) (in_Quotes inp) of
       None \<Rightarrow> Inl (if in_Quotes inp = [] then ''signal has no candidates'' else ''signal has no approved candidate'')
     | Some q \<Rightarrow> Inr (order_of_quote ((quoteRecord rfc q)\<lparr>wq_wireMode := wireFull\<rparr>) ''sell'' 1 ?d (q_Last q)))"
    using dd unfolding firstCandidate_def r fd Let_def
    by (cases "find (orderable cfg inp target) (in_Quotes inp)") (auto simp: up quoteRecord_def)
  finally show ?thesis .
qed

text \<open>
  C29: the order read off the stored alert of a decision sells one contract, in the direction
  of the inventory gap, of a quote that passed every check of the decision; it is the first such quote in
  the order of the snapshot.
\<close>

theorem order_admissible:
  assumes "Evaluate cfg inp = (sig, None)" "s_Action sig = ActionAlert" "\<not> s_ClosePosition sig"
    and "orderFacts (fst (mapSignal rfc symbol version sig price)) = Inr order"
  shows "\<exists>target. TargetInventory cfg (in_CurrentPrice inp) = Inr target
     \<and> (\<exists>q \<in> set (in_Quotes inp).
          admissible cfg inp (inventoryOf inp) target (gapOf inp target) (gapDirection (gapOf inp target)) q
          \<and> find (\<lambda>x. admissible cfg inp (inventoryOf inp) target (gapOf inp target) (gapDirection (gapOf inp target)) x
                \<and> trim_space (q_Symbol x) \<noteq> []) (in_Quotes inp) = Some q
          \<and> co_Code order = q_Symbol q \<and> co_Side order = ''sell'' \<and> co_Quantity order = 1
          \<and> co_Direction order = gapDirection (gapOf inp target))"
proof -
  obtain target where t: "TargetInventory cfg (in_CurrentPrice inp) = Inr target" "sig = decide cfg inp target"
    using assms(1,2) by (auto simp: Evaluate_def zero_signal_def split: option.splits if_splits sum.splits)
  obtain q where q: "find (orderable cfg inp target) (in_Quotes inp) = Some q"
    "order = order_of_quote ((quoteRecord rfc q)\<lparr>wq_wireMode := wireFull\<rparr>) ''sell'' 1 (gapDirection (gapOf inp target)) (q_Last q)"
    using assms(4) unfolding orderFacts_mapped [OF t(2) assms(2,3)] by (auto split: option.splits)
  then have "q \<in> set (in_Quotes inp)" "orderable cfg inp target q" by (auto simp: find_Some_iff)
  then show ?thesis using t(1) q unfolding orderable_def [abs_def]
    by (intro exI [of _ target] conjI bexI [of _ q]) (simp_all add: order_of_quote_def quoteRecord_def)
qed

text \<open>The put at 64 stands first in the snapshot; the one at 66 takes the inventory closer to its target.\<close>

definition sample_p64 :: OptionQuote where "sample_p64 = sample_quote ''P64'' ''put'' 64 (-1/4)"

definition sample_p66 :: OptionQuote where "sample_p66 = sample_quote ''P66'' ''put'' 66 (-3/8)"

definition sample_two_puts :: DecisionInput where
  "sample_two_puts = sample_input\<lparr>in_Quotes := [sample_p64, sample_p66]\<rparr>"

lemma two_puts_admissible:
  assumes "q \<in> {sample_p64, sample_p66}"
  shows "admissible sample_config sample_two_puts (inventoryOf sample_two_puts) (Fin 750) (Fin 750) DirectionPut q"
proof -
  have "quoteError sample_config sample_two_puts sample_p64 = None" "passesMasks sample_config sample_two_puts DirectionPut sample_p64"
    "passesRisk sample_config sample_two_puts (inventoryOf sample_two_puts) (Fin 750) (Fin 750) DirectionPut sample_p64"
    "quoteError sample_config sample_two_puts sample_p66 = None" "passesMasks sample_config sample_two_puts DirectionPut sample_p66"
    "passesRisk sample_config sample_two_puts (inventoryOf sample_two_puts) (Fin 750) (Fin 750) DirectionPut sample_p66"
    by code_simp+
  moreover have "in_Pending sample_two_puts = []" by (simp add: sample_two_puts_def sample_input_def)
  ultimately show ?thesis using assms by (auto simp: admissible_def hasPendingContract_def)
qed

lemma two_puts_values:
  "takeProfitSignal sample_config sample_two_puts b = None" "gatesOpen sample_config sample_two_puts (Fin 750)"
  "gapOf sample_two_puts (Fin 750) = Fin 750" "gapDirection (Fin 750) = DirectionPut"
  "postTrade (inventoryOf sample_two_puts) sample_p64 = Fin 25" "postTrade (inventoryOf sample_two_puts) sample_p66 = Fin (75/2)"
  "trim_space (q_Symbol sample_p64) \<noteq> []" "q_Symbol sample_p64 = ''P64''" "q_Symbol sample_p66 = ''P66''"
  by code_simp+


lemma ranked_first:
  assumes "lt b a" "\<not> lt a b"
  shows "slice_stable lt [a, b] = [b, a]"
  using assms by (simp add: slice_stable_def)

definition sample_signal :: Signal where
  "sample_signal = alertCandidate sample_config sample_two_puts (Fin 750) (Fin 750) DirectionPut
     (entryLoop sample_config sample_two_puts (Fin 750))
     (candidateOf sample_config sample_two_puts (inventoryOf sample_two_puts) (Fin 750) (Fin 750) DirectionPut sample_p66)"

lemma two_puts_decided: "decide sample_config sample_two_puts (Fin 750) = sample_signal"
proof -
  let ?c = "candidateOf sample_config sample_two_puts (inventoryOf sample_two_puts) (Fin 750) (Fin 750) DirectionPut"
  note adm = two_puts_admissible [of sample_p64, simplified] two_puts_admissible [of sample_p66, simplified]
  have "\<bar>Fin 750 - Fin (75/2)\<bar> < \<bar>Fin 750 - Fin 25\<bar>" "\<not> \<bar>Fin 750 - Fin 25\<bar> < \<bar>Fin 750 - Fin (75/2)\<bar>"
    "\<not> feq \<bar>Fin 750 - Fin 25\<bar> \<bar>Fin 750 - Fin (75/2)\<bar>" "\<not> feq \<bar>Fin 750 - Fin (75/2)\<bar> \<bar>Fin 750 - Fin 25\<bar>"
    by code_simp+
  then have b: "betterCandidate (?c sample_p66) (?c sample_p64) sample_config (Fin 750) DirectionPut"
    "\<not> betterCandidate (?c sample_p64) (?c sample_p66) sample_config (Fin 750) DirectionPut"
    by (simp_all add: betterCandidate_def candidateOf_effects(2) [OF adm(1)] candidateOf_effects(2) [OF adm(2)] two_puts_values)
  have "chosenCandidate sample_config sample_two_puts (inventoryOf sample_two_puts) (Fin 750) (Fin 750) DirectionPut = Some (?c sample_p66)"
    using ranked_first [of "\<lambda>a b. betterCandidate a b sample_config (Fin 750) DirectionPut", OF b] adm
    by (simp add: chosenCandidate_def candidateOf_accepted sample_two_puts_def)
  then show ?thesis by (simp add: decide_paths two_puts_values sample_signal_def Let_def)
qed

lemma two_puts_evaluate: "Evaluate sample_config sample_two_puts = (sample_signal, None)"
proof -
  have "Validate sample_config = None" "finite64 (in_CurrentPrice sample_two_puts)" "\<not> in_CurrentPrice sample_two_puts \<le> 0"
    "TargetInventory sample_config (in_CurrentPrice sample_two_puts) = Inr (Fin 750)"
    by code_simp+
  then show ?thesis by (simp add: Evaluate_def two_puts_decided)
qed

lemma two_puts_alert:
  "s_Action sample_signal = ActionAlert" "\<not> s_ClosePosition sample_signal" "s_Quote sample_signal = Some sample_p66"
proof -
  show "s_Action sample_signal = ActionAlert" "s_Quote sample_signal = Some sample_p66"
    by (simp_all add: sample_signal_def alertCandidate_fields)
  show "\<not> s_ClosePosition sample_signal"
    by (simp add: sample_signal_def alertCandidate_fields entryLoop_base base_signal_def zero_signal_def)
qed

lemma two_puts_order:
  "\<exists>order. orderFacts (fst (mapSignal rfc symbol version sample_signal price)) = Inr order \<and> co_Code order = ''P64''"
proof -
  have "orderable sample_config sample_two_puts (Fin 750) sample_p64"
    using two_puts_admissible [of sample_p64] by (simp add: orderable_def two_puts_values(3,4,7))
  then have "find (orderable sample_config sample_two_puts (Fin 750)) (in_Quotes sample_two_puts) = Some sample_p64"
    by (simp add: sample_two_puts_def)
  then show ?thesis
    by (simp add: orderFacts_mapped [OF two_puts_decided [symmetric] two_puts_alert(1,2)] order_of_quote_def quoteRecord_def two_puts_values)
qed

theorem order_admissible_witness:
  "\<exists>order q. orderFacts (fst (mapSignal (\<lambda>_. []) ''US.JD'' 1 sample_signal (Fin 75))) = Inr order
     \<and> q \<in> set (in_Quotes sample_two_puts) \<and> co_Code order = q_Symbol q \<and> co_Side order = ''sell''"
proof -
  obtain order where o1: "orderFacts (fst (mapSignal (\<lambda>_. []) ''US.JD'' 1 sample_signal (Fin 75))) = Inr order"
    using two_puts_order by blast
  from order_admissible [OF two_puts_evaluate two_puts_alert(1,2) o1] show ?thesis using o1 by blast
qed

text \<open>
  C33: the order need not be the decision. With two admissible quotes the decision chooses the
  better one - which its signal, and so the review, carries - while the order facts take the one that
  stands first in the snapshot.
\<close>

theorem order_not_chosen:
  "\<exists>cfg inp sig order q. Evaluate cfg inp = (sig, None) \<and> s_Action sig = ActionAlert \<and> \<not> s_ClosePosition sig
     \<and> s_Quote sig = Some q \<and> orderFacts (fst (mapSignal (\<lambda>_. []) ''US.JD'' 1 sig (Fin 75))) = Inr order
     \<and> co_Code order \<noteq> q_Symbol q"
proof -
  obtain order where "orderFacts (fst (mapSignal (\<lambda>_. []) ''US.JD'' 1 sample_signal (Fin 75))) = Inr order" "co_Code order = ''P64''"
    using two_puts_order by blast
  moreover have "co_Code order \<noteq> q_Symbol sample_p66" using calculation(2) by (simp add: two_puts_values)
  ultimately show ?thesis using two_puts_evaluate two_puts_alert by blast
qed

end
