(* ===== verification/Live_Confirm.thy ===== *)
theory Live_Confirm
  imports Live_Orders Live_Hours
begin

text \<open>
  From a button to the broker: the order path of \<^verbatim>\<open>cmd/wbot/telegram_scheduler.go\<close> - the button data, the
  re-verification and the placing of an order (\<^verbatim>\<open>confirmOrder\<close>), its refusal (\<^verbatim>\<open>reject\<close>), the cancellation
  (\<^verbatim>\<open>declineOrder\<close>) and the dismissal (\<^verbatim>\<open>recordDismiss\<close>).

  A press runs in its own goroutine, beside the other presses and beside other processes. It is therefore a
  machine that performs one interaction at a time - one query, one append, one broker call - and whose
  program counter holds the local variables. The clock, failures of the database and the broker's answers are
  the environment of each step.  The log of broker calls and of pushed notices is part of the world.
\<close>

section \<open>Audit details\<close>

text \<open>The details of an action, as far as the order path reads them: texts and whole numbers.\<close>

datatype detail = DText string | DNumber int

type_synonym details = "(string \<times> detail) list"

definition verdictOf :: "details ActionRow \<Rightarrow> string" where
  "verdictOf a = (case map_of (aw_details a) ''verdict'' of Some (DText v) \<Rightarrow> to_upper (trim_space v) | _ \<Rightarrow> [])"

text \<open>A number read back from the database is a binary64 value, from which the order number is converted.\<close>

fun whole_of :: "f64 \<Rightarrow> int" where
  "whole_of (Fin r) = \<lfloor>r\<rfloor>"
| "whole_of _ = 0"

definition order_number :: "details ActionRow \<Rightarrow> int" where
  "order_number a = (case map_of (aw_details a) ''order_id'' of Some (DNumber n) \<Rightarrow> whole_of (of_int64 n) | _ \<Rightarrow> 0)"

section \<open>The world of a press\<close>

datatype PlaceError = LiveEnvNotAllowed | PlaceFailed string

datatype BrokerCall =
    PlaceCall (call_symbol: string) (call_side: string) (call_qty: int) (call_price: f64)
  | CancelCall (call_symbol: string) (call_order: string) (call_ok: bool)

datatype Notice =
    OrderPlaced string string int f64 string int string
  | OrderRefused string
  | Declined string
  | Dismissed string
  | Filled
  | NotFilled int
  | Unconfirmed
  | CancelFailed string
  | CancelDone string
  | NoOrderNumber string
  | StillPending

record World =
  w_db :: "details DB"
  w_calls :: "(int \<times> BrokerCall) list"
  w_notices :: "(int \<times> Notice) list"

text \<open>What the environment answers to one step.\<close>

record Answers =
  an_now :: time
  an_outage :: "string option"
  an_cancel :: "string option"
  an_place :: "PlaceError + string \<times> int"

definition log_call :: "int \<Rightarrow> BrokerCall \<Rightarrow> World \<Rightarrow> World" where
  "log_call sid c w = w\<lparr>w_calls := w_calls w @ [(sid, c)]\<rparr>"

definition push_notice :: "int \<Rightarrow> Notice \<Rightarrow> World \<Rightarrow> World" where
  "push_notice sid n w = w\<lparr>w_notices := w_notices w @ [(sid, n)]\<rparr>"

text \<open>A failed append is logged by the program and otherwise ignored.\<close>

definition record_action :: "'z Answers_scheme \<Rightarrow> int \<Rightarrow> string \<Rightarrow> string \<Rightarrow> string \<Rightarrow> details \<Rightarrow> World \<Rightarrow> World" where
  "record_action a sid action actor note details w =
     w\<lparr>w_db := snd (AppendAction (an_outage a) (an_now a) sid action actor note details (w_db w))\<rparr>"

section \<open>The order placer\<close>

text \<open>The adapter refuses every call outside the simulation; \<open>gateway\<close> is what the gateway would answer.\<close>

datatype Env = EnvSim | EnvReal

definition placer_PlaceOrder ::
  "Env \<Rightarrow> PlaceError + string \<times> int \<Rightarrow> int \<Rightarrow> candidateOrder \<Rightarrow> World \<Rightarrow> (PlaceError + string \<times> int) \<times> World" where
  "placer_PlaceOrder env gateway sid cand w =
     (if env \<noteq> EnvSim then (Inl LiveEnvNotAllowed, w)
      else (gateway, log_call sid (PlaceCall (co_Code cand) (co_Side cand) (co_Quantity cand) (co_Last cand)) w))"

definition placer_CancelOrder :: "Env \<Rightarrow> string option \<Rightarrow> int \<Rightarrow> string \<Rightarrow> string \<Rightarrow> World \<Rightarrow> string option \<times> World" where
  "placer_CancelOrder env gateway sid symbol orderID w =
     (if env \<noteq> EnvSim then (Some ''live env not allowed'', w)
      else (gateway, log_call sid (CancelCall symbol orderID (gateway = None)) w))"

definition placer_OrderStatus :: "Env \<Rightarrow> string + (string \<times> int) list \<Rightarrow> string \<Rightarrow> string + int option" where
  "placer_OrderStatus env gateway orderIDEx =
     (if env \<noteq> EnvSim then Inl ''live env not allowed''
      else case gateway of
        Inl e \<Rightarrow> Inl e
      | Inr orders \<Rightarrow> Inr (map_option snd (find (\<lambda>o1. fst o1 = orderIDEx) orders)))"

section \<open>Confirming\<close>

definition signalFreshWindow :: duration where
  "signalFreshWindow = 15 * 60 * second_ns"

datatype Outcome = Confirmed candidateOrder string int | Refused string

datatype pc =
    Begin
  | Found SignalRow
  | FreshSignal SignalRow
  | Reviewed SignalRow
  | Ready SignalRow candidateOrder
  | Claimed SignalRow candidateOrder
  | Placing SignalRow candidateOrder string
  | Accepted SignalRow candidateOrder string string int
  | Completed SignalRow candidateOrder string string int
  | Rejecting string
  | Finished Outcome

record Channel =
  ch_orders :: bool
  ch_claims :: bool
  ch_env :: Env
  ch_actor :: string

definition order_details :: "candidateOrder \<Rightarrow> string \<Rightarrow> int \<Rightarrow> details" where
  "order_details cand orderIDEx orderID =
     [(''order_id'', DNumber orderID), (''order_id_ex'', DText orderIDEx), (''symbol'', DText (co_Code cand)),
      (''side'', DText (co_Side cand)), (''qty'', DNumber (co_Quantity cand))]"

definition replace_order :: "SignalRow \<Rightarrow> string option" where
  "replace_order row =
     (case rec_Replace (sw_record row) of Some r \<Rightarrow> if rp_OrderID r \<noteq> [] then Some (rp_OrderID r) else None | None \<Rightarrow> None)"

fun confirm_step :: "tzdata \<Rightarrow> Channel \<Rightarrow> int \<Rightarrow> Answers \<Rightarrow> pc \<Rightarrow> World \<Rightarrow> pc \<times> World" where
  "confirm_step tz ch sid a Begin w =
     (case (an_outage a, GetSignal sid (w_db w)) of
        (None, Inr row) \<Rightarrow> (Found row, w)
      | _ \<Rightarrow> (Rejecting ''signal not found'', w))"
| "confirm_step tz ch sid a (Found row) w =
     (if signalFreshWindow < an_now a - sw_created row then (Rejecting ''signal expired'', w) else (FreshSignal row, w))"
| "confirm_step tz ch sid a (FreshSignal row) w =
     (case (an_outage a, LatestAction sid ''LLM_REVIEW'' (w_db w)) of
        (None, Inr review) \<Rightarrow>
          if verdictOf review \<noteq> ''APPROVE'' then (Rejecting ''llm review not approved'', w) else (Reviewed row, w)
      | _ \<Rightarrow> (Rejecting ''llm review not approved'', w))"
| "confirm_step tz ch sid a (Reviewed row) w =
     (if \<not> MarketIsOpen tz (rec_Symbol (sw_record row)) (an_now a) None then (Rejecting ''market closed'', w)
      else if \<not> ch_orders ch then (Rejecting ''order placer unavailable'', w)
      else case orderFacts (sw_record row) of
        Inl _ \<Rightarrow> (Rejecting ''no usable candidate'', w)
      | Inr cand \<Rightarrow>
          if co_Last cand \<le> 0 then (Rejecting ''no usable limit price'', w)
          else if \<not> ch_claims ch then (Rejecting ''confirm claim unavailable'', w)
          else (Ready row cand, w))"
| "confirm_step tz ch sid a (Ready row cand) w =
     (case ClaimOrder (an_outage a) sid (ch_actor ch) (w_db w) of
        (Inl _, db) \<Rightarrow> (Rejecting ''confirm claim failed'', w\<lparr>w_db := db\<rparr>)
      | (Inr False, db) \<Rightarrow> (Rejecting ''already confirmed'', w\<lparr>w_db := db\<rparr>)
      | (Inr True, db) \<Rightarrow> (Claimed row cand, w\<lparr>w_db := db\<rparr>))"
| "confirm_step tz ch sid a (Claimed row cand) w =
     (case replace_order row of
        None \<Rightarrow> (Placing row cand [], w)
      | Some oid \<Rightarrow>
          (case placer_CancelOrder (ch_env ch) (an_cancel a) sid (rec_Symbol (sw_record row)) oid w of
             (Some _, w) \<Rightarrow> (Rejecting ''cancel pending order failed'', w)
           | (None, w) \<Rightarrow> (Placing row cand oid, w)))"
| "confirm_step tz ch sid a (Placing row cand replaced) w =
     (case placer_PlaceOrder (ch_env ch) (an_place a) sid cand w of
        (Inl LiveEnvNotAllowed, w) \<Rightarrow> (Rejecting ''live env not allowed'', w)
      | (Inl (PlaceFailed _), w) \<Rightarrow> (Rejecting ''place order failed'', w)
      | (Inr (orderIDEx, orderID), w) \<Rightarrow>
          if orderIDEx = [] \<or> orderIDEx = ''0'' \<or> orderID = 0 then (Rejecting ''order unconfirmed'', w)
          else (Accepted row cand replaced orderIDEx orderID, w))"
| "confirm_step tz ch sid a (Accepted row cand replaced orderIDEx orderID) w =
     (Completed row cand replaced orderIDEx orderID,
      w\<lparr>w_db := snd (CompleteOrderClaim (an_outage a) (an_now a) sid orderID orderIDEx (order_details cand orderIDEx orderID) (w_db w))\<rparr>)"
| "confirm_step tz ch sid a (Completed row cand replaced orderIDEx orderID) w =
     (Finished (Confirmed cand orderIDEx orderID),
      push_notice sid (OrderPlaced (co_Code cand) (co_Side cand) (co_Quantity cand) (co_Last cand) orderIDEx orderID replaced)
        (record_action a sid ''CONFIRM'' (ch_actor ch) [] (order_details cand orderIDEx orderID) w))"
| "confirm_step tz ch sid a (Rejecting reason) w =
     (Finished (Refused reason),
      push_notice sid (OrderRefused reason) (record_action a sid ''REJECTED'' (ch_actor ch) reason [] w))"
| "confirm_step tz ch sid a (Finished res) w = (Finished res, w)"

text \<open>One press by itself: nothing else moves while it runs.\<close>

fun confirm_run :: "tzdata \<Rightarrow> Channel \<Rightarrow> int \<Rightarrow> Answers list \<Rightarrow> pc \<Rightarrow> World \<Rightarrow> pc \<times> World" where
  "confirm_run tz ch sid [] p w = (p, w)"
| "confirm_run tz ch sid (a # as) p w = (case confirm_step tz ch sid a p w of (p', w') \<Rightarrow> confirm_run tz ch sid as p' w')"

definition confirmOrder :: "tzdata \<Rightarrow> Channel \<Rightarrow> int \<Rightarrow> Answers list \<Rightarrow> World \<Rightarrow> pc \<times> World" where
  "confirmOrder tz ch sid as w = confirm_run tz ch sid as Begin w"

section \<open>Declining and dismissing\<close>

text \<open>
  The first answers are those to the lookup of the confirmation, the second those to the lookup of the
  signal and to the cancellation, the third those to the append.  The notes are rendered in English.
\<close>

definition decline_note :: "Channel \<Rightarrow> Answers \<Rightarrow> Answers \<Rightarrow> int \<Rightarrow> World \<Rightarrow> string \<times> World" where
  "decline_note ch a1 a2 sid w =
     (case (an_outage a1, LatestAction sid ''CONFIRM'' (w_db w)) of
        (None, Inr confirm) \<Rightarrow>
          (let oid = order_number confirm;
               symbol = (case (an_outage a2, GetSignal sid (w_db w)) of (None, Inr row) \<Rightarrow> rec_Symbol (sw_record row) | _ \<Rightarrow> [])
           in if oid = 0 \<or> symbol = [] then (''cancel failed: no order number or symbol'', w)
              else case placer_CancelOrder (ch_env ch) (an_cancel a2) sid symbol (fmt_int oid) w of
                (Some e, w) \<Rightarrow> (''cancel failed: '' @ e, w)
              | (None, w) \<Rightarrow> (''cancelled '' @ fmt_int oid, w))
      | _ \<Rightarrow> (''waiting for another chance'', w))"

definition declineOrder :: "Channel \<Rightarrow> Answers \<Rightarrow> Answers \<Rightarrow> Answers \<Rightarrow> int \<Rightarrow> World \<Rightarrow> World" where
  "declineOrder ch a1 a2 a3 sid w =
     (let (note, w) = decline_note ch a1 a2 sid w
      in case AppendAction (an_outage a3) (an_now a3) sid ''NO'' (ch_actor ch) note [] (w_db w) of
           (Inl _, db) \<Rightarrow> w\<lparr>w_db := db\<rparr>
         | (Inr _, db) \<Rightarrow> push_notice sid (Declined note) (w\<lparr>w_db := db\<rparr>))"

definition utcDate_tg :: "time \<Rightarrow> time" where
  "utcDate_tg t = t div day_ns * day_ns"

definition recordDismiss :: "Answers \<Rightarrow> Answers \<Rightarrow> int \<Rightarrow> World \<Rightarrow> World" where
  "recordDismiss a1 a2 sid w =
     (case (an_outage a1, GetSignal sid (w_db w)) of
        (None, Inr row) \<Rightarrow>
          (case Dismiss (an_outage a2) (rec_Symbol (sw_record row)) (utcDate_tg (an_now a2)) (w_db w) of
             (Some _, db) \<Rightarrow> w\<lparr>w_db := db\<rparr>
           | (None, db) \<Rightarrow> push_notice sid (Dismissed (rec_Symbol (sw_record row))) (w\<lparr>w_db := db\<rparr>))
      | _ \<Rightarrow> w)"

section \<open>Buttons\<close>

fun split_on :: "char \<Rightarrow> string \<Rightarrow> string list" where
  "split_on c [] = [[]]"
| "split_on c (x # xs) =
     (if x = c then [] # split_on c xs
      else case split_on c xs of [] \<Rightarrow> [[x]] | s # ss \<Rightarrow> (x # s) # ss)"

definition parseCallbackData :: "string \<Rightarrow> string + int \<times> string" where
  "parseCallbackData data =
     (case split_on CHR '':'' data of
        [p, sid, action] \<Rightarrow>
          if p \<noteq> ''wheel'' then Inl ''telegram: malformed callback data''
          else (case parse_int64 sid of
             None \<Rightarrow> Inl ''telegram: malformed callback signal id''
           | Some n \<Rightarrow>
               if n \<le> 0 then Inl ''telegram: malformed callback signal id''
               else if action \<notin> {''yes'', ''no'', ''dismiss''} then Inl ''telegram: malformed callback action''
               else Inr (n, action))
      | _ \<Rightarrow> Inl ''telegram: malformed callback data'')"

definition button_data :: "int \<Rightarrow> string \<Rightarrow> string" where
  "button_data sid action = ''wheel:'' @ fmt_int sid @ '':'' @ action"

definition telegramActor :: "int \<Rightarrow> string" where
  "telegramActor from = ''telegram:'' @ fmt_int from"

datatype Press = Unauthorised | Malformed | ConfirmPress int | DeclinePress int | DismissPress int

definition handleCallback :: "int set \<Rightarrow> int \<Rightarrow> string \<Rightarrow> Press" where
  "handleCallback chatIDs from data =
     (if from \<notin> chatIDs then Unauthorised
      else case parseCallbackData data of
        Inl _ \<Rightarrow> Malformed
      | Inr (sid, action) \<Rightarrow>
          if action = ''yes'' then ConfirmPress sid else if action = ''no'' then DeclinePress sid else DismissPress sid)"


section \<open>Presses beside each other\<close>

record Handler =
  hd_signal :: int
  hd_channel :: Channel
  hd_pc :: pc

record ConfirmSystem =
  cs_handlers :: "Handler list"
  cs_world :: World

text \<open>Whatever else writes to the database adds rows and never takes back a claim.\<close>

definition extends_db :: "details DB \<Rightarrow> details DB \<Rightarrow> bool" where
  "extends_db db db' \<longleftrightarrow> set (db_signals db) \<subseteq> set (db_signals db') \<and> set (db_actions db) \<subseteq> set (db_actions db')
     \<and> (\<forall>sid. claimed db sid \<longrightarrow> claimed db' sid)"

definition quiet :: "details DB \<Rightarrow> ConfirmSystem" where
  "quiet db = \<lparr>cs_handlers = [], cs_world = \<lparr>w_db = db, w_calls = [], w_notices = []\<rparr>\<rparr>"

definition advance :: "tzdata \<Rightarrow> nat \<Rightarrow> Answers \<Rightarrow> ConfirmSystem \<Rightarrow> ConfirmSystem" where
  "advance tz i a s =
     (let h = cs_handlers s ! i; (p, w) = confirm_step tz (hd_channel h) (hd_signal h) a (hd_pc h) (cs_world s)
      in s\<lparr>cs_handlers := (cs_handlers s)[i := h\<lparr>hd_pc := p\<rparr>], cs_world := w\<rparr>)"

inductive presses :: "tzdata \<Rightarrow> details DB \<Rightarrow> ConfirmSystem \<Rightarrow> bool" for tz and db where
  start: "presses tz db (quiet db)"
| press: "presses tz db s \<Longrightarrow> presses tz db (s\<lparr>cs_handlers := cs_handlers s @ [\<lparr>hd_signal = sid, hd_channel = ch, hd_pc = Begin\<rparr>]\<rparr>)"
| step: "presses tz db s \<Longrightarrow> i < length (cs_handlers s) \<Longrightarrow> presses tz db (advance tz i a s)"
| others: "presses tz db s \<Longrightarrow> extends_db (w_db (cs_world s)) db' \<Longrightarrow> presses tz db (s\<lparr>cs_world := (cs_world s)\<lparr>w_db := db'\<rparr>\<rparr>)"

lemma extends_refl [simp]: "extends_db db db" by (simp add: extends_db_def)

lemma AppendAction_extends [simp]: "extends_db db (snd (AppendAction outage now sid action actor note details db))"
  by (auto simp: AppendAction_def extends_db_def claimed_def Let_def split: option.split)

lemma ClaimOrder_extends [simp]: "extends_db db (snd (ClaimOrder outage sid actor db))"
  by (auto simp: ClaimOrder_def extends_db_def claimed_def Let_def split: option.split)

lemma CompleteOrderClaim_extends [simp]: "extends_db db (snd (CompleteOrderClaim outage now sid oid oidex details db))"
  unfolding extends_db_def CompleteOrderClaim_claimed
  by (auto simp: CompleteOrderClaim_def Let_def split: option.split)

lemma world_parts [simp]:
  "w_db (log_call sid c w) = w_db w" "w_calls (log_call sid c w) = w_calls w @ [(sid, c)]"
  "w_db (push_notice sid n w) = w_db w" "w_calls (push_notice sid n w) = w_calls w"
  "w_calls (record_action a sid act actor note d w) = w_calls w"
  "w_db (record_action a sid act actor note d w) = snd (AppendAction (an_outage a) (an_now a) sid act actor note d (w_db w))"
  by (simp_all add: log_call_def push_notice_def record_action_def)

lemma placer_parts [simp]:
  "w_db (snd (placer_PlaceOrder env g sid cand w)) = w_db w" "w_db (snd (placer_CancelOrder env e sid symbol oid w)) = w_db w"
  by (simp_all add: placer_PlaceOrder_def placer_CancelOrder_def)

fun holding_claim :: "pc \<Rightarrow> bool" where
  "holding_claim (Claimed row cand) \<longleftrightarrow> True"
| "holding_claim (Placing row cand replaced) \<longleftrightarrow> True"
| "holding_claim _ \<longleftrightarrow> False"

definition places :: "int \<Rightarrow> (int \<times> BrokerCall) list \<Rightarrow> nat" where
  "places sid calls = length (filter (\<lambda>(s, c). s = sid \<and> is_PlaceCall c) calls)"

lemma places_simps [simp]:
  "places sid [] = 0" "places sid (cs @ [(s, c)]) = places sid cs + of_bool (s = sid \<and> is_PlaceCall c)"
  by (simp_all add: places_def)

lemma placer_cases:
  "placer_PlaceOrder env g sid cand w = (r, w') \<Longrightarrow> w' = w \<and> env \<noteq> EnvSim \<and> r = Inl LiveEnvNotAllowed
     \<or> env = EnvSim \<and> r = g \<and> w' = log_call sid (PlaceCall (co_Code cand) (co_Side cand) (co_Quantity cand) (co_Last cand)) w"
  "placer_CancelOrder env e sid symbol oid w = (r', w'') \<Longrightarrow> w'' = w \<and> env \<noteq> EnvSim \<and> r' \<noteq> None
     \<or> env = EnvSim \<and> r' = e \<and> w'' = log_call sid (CancelCall symbol oid (e = None)) w"
  by (auto simp: placer_PlaceOrder_def placer_CancelOrder_def split: if_splits)

lemma ClaimOrder_result:
  assumes "ClaimOrder outage sid actor db = (r, db')"
  shows "extends_db db db'" "r = Inr True \<Longrightarrow> \<not> claimed db sid \<and> claimed db' sid"
  using assms ClaimOrder_extends [of db outage sid actor] ClaimOrder_claimed [of outage sid actor db] by auto

lemma step_extends: "confirm_step tz ch sid a p w = (p', w') \<Longrightarrow> extends_db (w_db w) (w_db w')"
  by (cases p) (auto split: option.splits sum.splits prod.splits if_splits PlaceError.splits bool.splits
      dest!: placer_cases ClaimOrder_result(1))

text \<open>What a step does to the claim it holds and to the log.\<close>

lemma step_shape:
  assumes "confirm_step tz ch sid a p w = (p', w')"
  shows "w_calls w' = w_calls w \<and> (holding_claim p' \<longrightarrow> holding_claim p)
    \<or> w_calls w' = w_calls w \<and> holding_claim p' \<and> \<not> claimed (w_db w) sid \<and> claimed (w_db w') sid
    \<or> (\<exists>symbol oid ok. w_calls w' = w_calls w @ [(sid, CancelCall symbol oid ok)] \<and> holding_claim p)
    \<or> (\<exists>code side qty price. w_calls w' = w_calls w @ [(sid, PlaceCall code side qty price)] \<and> holding_claim p \<and> \<not> holding_claim p')"
proof (cases p)
  case (Ready row cand)
  obtain r db' where r: "ClaimOrder (an_outage a) sid (ch_actor ch) (w_db w) = (r, db')" by fastforce
  show ?thesis using assms ClaimOrder_result [OF r] by (cases r) (auto simp: Ready r split: bool.splits)
next
  case (Claimed row cand)
  then show ?thesis using assms by (auto split: option.splits prod.splits dest!: placer_cases(2))
next
  case (Placing row cand replaced)
  then show ?thesis using assms by (auto split: sum.splits prod.splits if_splits PlaceError.splits dest!: placer_cases(1))
qed (use assms in \<open>auto split: option.splits sum.splits if_splits\<close>)

lemma step_counts:
  assumes "confirm_step tz ch sid a p w = (p', w')"
  shows "of_bool (holding_claim p') + places sid (w_calls w') + of_bool (claimed (w_db w) sid)
     \<le> of_bool (holding_claim p) + places sid (w_calls w) + (of_bool (claimed (w_db w') sid) :: nat)"
    and "sid' \<noteq> sid \<Longrightarrow> places sid' (w_calls w') = places sid' (w_calls w)"
proof -
  have "claimed (w_db w) sid \<Longrightarrow> claimed (w_db w') sid" using step_extends [OF assms] by (simp add: extends_db_def)
  then show "of_bool (holding_claim p') + places sid (w_calls w') + of_bool (claimed (w_db w) sid)
     \<le> of_bool (holding_claim p) + places sid (w_calls w) + (of_bool (claimed (w_db w') sid) :: nat)"
    using step_shape [OF assms] by (elim disjE conjE exE) simp_all
  show "sid' \<noteq> sid \<Longrightarrow> places sid' (w_calls w') = places sid' (w_calls w)"
    using step_shape [OF assms] by (elim disjE conjE exE) simp_all
qed

definition owners :: "int \<Rightarrow> Handler list \<Rightarrow> nat" where
  "owners sid hs = sum_list (map (\<lambda>h. of_bool (hd_signal h = sid \<and> holding_claim (hd_pc h))) hs)"

lemma owners_Cons: "owners sid (h # hs) = of_bool (hd_signal h = sid \<and> holding_claim (hd_pc h)) + owners sid hs"
  by (simp add: owners_def)

lemma owners_update:
  assumes "i < length hs"
  shows "owners sid (hs[i := h]) + of_bool (hd_signal (hs ! i) = sid \<and> holding_claim (hd_pc (hs ! i)))
    = owners sid hs + of_bool (hd_signal h = sid \<and> holding_claim (hd_pc h))"
  using assms
proof (induction hs arbitrary: i)
  case (Cons x xs)
  then show ?case using Cons.IH [of "i - 1"] by (cases i) (simp_all add: owners_Cons)
qed simp

lemma one_owner:
  assumes "presses tz db s"
  shows "owners sid (cs_handlers s) + places sid (w_calls (cs_world s)) + of_bool (claimed db sid)
    \<le> of_bool (claimed (w_db (cs_world s)) sid)"
  using assms
proof induction
  case (step s i a)
  let ?h = "cs_handlers s ! i"
  obtain p w where e: "confirm_step tz (hd_channel ?h) (hd_signal ?h) a (hd_pc ?h) (cs_world s) = (p, w)" by fastforce
  have mono: "claimed (w_db (cs_world s)) sid \<Longrightarrow> claimed (w_db w) sid" using step_extends [OF e] by (simp add: extends_db_def)
  have adv: "advance tz i a s = s\<lparr>cs_handlers := (cs_handlers s)[i := ?h\<lparr>hd_pc := p\<rparr>], cs_world := w\<rparr>"
    using e by (simp add: advance_def Let_def)
  show ?case
    using step.IH step_counts(1) [OF e] step_counts(2) [OF e, of sid] owners_update [OF step.hyps(2), of sid "?h\<lparr>hd_pc := p\<rparr>"] mono
    unfolding adv by (cases "hd_signal ?h = sid") (auto simp: of_bool_def split: if_splits)
next
  case (others s db')
  have "of_bool (claimed (w_db (cs_world s)) sid) \<le> (of_bool (claimed db' sid) :: nat)"
    using others.hyps(2) by (simp add: extends_db_def)
  from order_trans [OF others.IH this] show ?case by simp
qed (simp_all add: quiet_def owners_def)

text \<open>
  C6: however many presses of any channel and process run beside each other, in any interleaving of
  their queries, appends and broker calls and whatever fails in between, the orders placed for a signal are at
  most one; and none is placed for a signal whose order was claimed before.
\<close>

theorem place_once:
  assumes "presses tz db s"
  shows "places sid (w_calls (cs_world s)) \<le> (if claimed db sid then 0 else 1)"
  using one_owner [OF assms, of sid] by (auto simp: of_bool_def split: if_splits)

section \<open>What a placed order rests on\<close>

definition approved :: "details DB \<Rightarrow> int \<Rightarrow> bool" where
  "approved db sid \<longleftrightarrow> (\<exists>a \<in> set (db_actions db). aw_signal a = sid \<and> aw_action a = ''LLM_REVIEW'' \<and> verdictOf a = ''APPROVE'')"

text \<open>The order that a signal asks to replace has been cancelled.\<close>

definition replaced_first :: "int \<Rightarrow> SignalRow \<Rightarrow> (int \<times> BrokerCall) list \<Rightarrow> bool" where
  "replaced_first sid row calls \<longleftrightarrow>
     (case replace_order row of None \<Rightarrow> True | Some oid \<Rightarrow> (sid, CancelCall (rec_Symbol (sw_record row)) oid True) \<in> set calls)"

definition stored_row :: "details DB \<Rightarrow> int \<Rightarrow> SignalRow \<Rightarrow> bool" where
  "stored_row db sid row \<longleftrightarrow> row \<in> set (db_signals db) \<and> sw_id row = sid"

definition facts_of :: "SignalRow \<Rightarrow> candidateOrder \<Rightarrow> bool" where
  "facts_of row cand \<longleftrightarrow> orderFacts (sw_record row) = Inr cand \<and> \<not> co_Last cand \<le> 0"

definition rests_on :: "details DB \<Rightarrow> (int \<times> BrokerCall) list \<Rightarrow> int \<Rightarrow> BrokerCall \<Rightarrow> bool" where
  "rests_on db calls sid c \<longleftrightarrow>
     (\<exists>row cand. stored_row db sid row \<and> approved db sid \<and> facts_of row cand \<and> replaced_first sid row calls
        \<and> c = PlaceCall (co_Code cand) (co_Side cand) (co_Quantity cand) (co_Last cand))"

lemma rests_onI:
  "stored_row db sid row \<Longrightarrow> approved db sid \<Longrightarrow> facts_of row cand \<Longrightarrow> replaced_first sid row calls
    \<Longrightarrow> rests_on db calls sid (PlaceCall (co_Code cand) (co_Side cand) (co_Quantity cand) (co_Last cand))"
  unfolding rests_on_def by blast

text \<open>What a press knows at each point of its program.\<close>

fun knows :: "details DB \<Rightarrow> (int \<times> BrokerCall) list \<Rightarrow> int \<Rightarrow> pc \<Rightarrow> bool" where
  "knows db calls sid (Found row) \<longleftrightarrow> stored_row db sid row"
| "knows db calls sid (FreshSignal row) \<longleftrightarrow> stored_row db sid row"
| "knows db calls sid (Reviewed row) \<longleftrightarrow> stored_row db sid row \<and> approved db sid"
| "knows db calls sid (Ready row cand) \<longleftrightarrow> stored_row db sid row \<and> approved db sid \<and> facts_of row cand"
| "knows db calls sid (Claimed row cand) \<longleftrightarrow> stored_row db sid row \<and> approved db sid \<and> facts_of row cand"
| "knows db calls sid (Placing row cand replaced) \<longleftrightarrow>
     stored_row db sid row \<and> approved db sid \<and> facts_of row cand \<and> replaced_first sid row calls"
| "knows db calls sid _ \<longleftrightarrow> True"

definition logged_ok :: "details DB \<Rightarrow> (int \<times> BrokerCall) list \<Rightarrow> bool" where
  "logged_ok db calls \<longleftrightarrow>
     (\<forall>k < length calls. is_PlaceCall (snd (calls ! k)) \<longrightarrow> rests_on db (take k calls) (fst (calls ! k)) (snd (calls ! k)))"

lemma logged_ok_simps [simp]:
  "logged_ok db []"
  "logged_ok db (calls @ [(sid, c)]) \<longleftrightarrow> logged_ok db calls \<and> (is_PlaceCall c \<longrightarrow> rests_on db calls sid c)"
  by (auto simp: logged_ok_def nth_append less_Suc_eq)

lemma stored_mono: "extends_db db db' \<Longrightarrow> stored_row db sid row \<Longrightarrow> stored_row db' sid row"
  by (auto simp: stored_row_def extends_db_def)

lemma approved_mono: "extends_db db db' \<Longrightarrow> approved db sid \<Longrightarrow> approved db' sid"
  by (auto simp: approved_def extends_db_def)

lemma replaced_mono: "set calls \<subseteq> set calls' \<Longrightarrow> replaced_first sid row calls \<Longrightarrow> replaced_first sid row calls'"
  by (auto simp: replaced_first_def split: option.splits)

lemma knows_mono:
  "extends_db db db' \<Longrightarrow> set calls \<subseteq> set calls' \<Longrightarrow> knows db calls sid p \<Longrightarrow> knows db' calls' sid p"
  by (cases p) (simp_all add: stored_mono approved_mono replaced_mono)

lemma logged_mono: "extends_db db db' \<Longrightarrow> logged_ok db calls \<Longrightarrow> logged_ok db' calls"
  unfolding logged_ok_def rests_on_def using stored_mono approved_mono by blast

lemma GetSignal_stored: "GetSignal sid db = Inr row \<Longrightarrow> stored_row db sid row"
  by (auto simp: GetSignal_def stored_row_def find_Some_iff split: if_splits option.splits)

lemma foldl_newer_in: "foldl newer_action a as \<in> set (a # as)"
  by (induction as arbitrary: a) (auto simp: newer_action_def split: if_splits)

lemma LatestAction_in:
  assumes "LatestAction sid act db = Inr a"
  shows "a \<in> set (db_actions db)" "aw_signal a = sid" "aw_action a = to_upper (trim_space act)"
proof -
  obtain x xs where "filter (\<lambda>a. aw_signal a = sid \<and> aw_action a = to_upper (trim_space act)) (db_actions db) = x # xs"
    "a = foldl newer_action x xs"
    using assms by (auto simp: LatestAction_def Let_def split: if_splits list.splits)
  then have "a \<in> set (filter (\<lambda>a. aw_signal a = sid \<and> aw_action a = to_upper (trim_space act)) (db_actions db))"
    using foldl_newer_in [of x xs] by simp
  then show "a \<in> set (db_actions db)" "aw_signal a = sid" "aw_action a = to_upper (trim_space act)" by auto
qed

lemma review_text: "to_upper (trim_space ''LLM_REVIEW'') = ''LLM_REVIEW''" by code_simp

lemma LatestAction_approved:
  "LatestAction sid ''LLM_REVIEW'' db = Inr a \<Longrightarrow> verdictOf a = ''APPROVE'' \<Longrightarrow> approved db sid"
  using LatestAction_in [of sid "''LLM_REVIEW''" db a] by (auto simp: approved_def review_text)

lemma step_knows:
  assumes "confirm_step tz ch sid a p w = (p', w')" "knows (w_db w) (w_calls w) sid p" "logged_ok (w_db w) (w_calls w)"
  shows "knows (w_db w') (w_calls w') sid p' \<and> logged_ok (w_db w') (w_calls w') \<and> set (w_calls w) \<subseteq> set (w_calls w')"
proof -
  note ext = step_extends [OF assms(1)]
  show ?thesis
  proof (cases p)
    case (Placing row cand replaced)
    then show ?thesis using assms
      by (auto intro!: rests_onI split: sum.splits prod.splits if_splits PlaceError.splits dest!: placer_cases)
  next
    case (Claimed row cand)
    then show ?thesis using assms
      by (auto simp: replaced_first_def split: option.splits prod.splits dest!: placer_cases)
  next
    case (Ready row cand)
    then show ?thesis using assms ext logged_mono stored_mono approved_mono
      by (auto split: sum.splits prod.splits bool.splits)
  next
    case (Accepted row cand replaced ex oid)
    then show ?thesis using assms logged_mono [OF ext assms(3)] by auto
  next
    case (Completed row cand replaced ex oid)
    then show ?thesis using assms logged_mono [OF ext assms(3)] by auto
  next
    case (Rejecting reason)
    then show ?thesis using assms logged_mono [OF ext assms(3)] by auto
  qed (use assms in \<open>auto simp: facts_of_def GetSignal_stored LatestAction_approved split: option.splits sum.splits if_splits\<close>)
qed

lemma presses_know:
  assumes "presses tz db s"
  shows "(\<forall>h \<in> set (cs_handlers s). knows (w_db (cs_world s)) (w_calls (cs_world s)) (hd_signal h) (hd_pc h))
    \<and> logged_ok (w_db (cs_world s)) (w_calls (cs_world s))"
  using assms
proof induction
  case (step s i a)
  let ?h = "cs_handlers s ! i"
  obtain p w where e: "confirm_step tz (hd_channel ?h) (hd_signal ?h) a (hd_pc ?h) (cs_world s) = (p, w)" by fastforce
  have adv: "advance tz i a s = s\<lparr>cs_handlers := (cs_handlers s)[i := ?h\<lparr>hd_pc := p\<rparr>], cs_world := w\<rparr>"
    using e by (simp add: advance_def Let_def)
  have "?h \<in> set (cs_handlers s)" using step.hyps(2) by simp
  then have k: "knows (w_db w) (w_calls w) (hd_signal ?h) p" "logged_ok (w_db w) (w_calls w)" "set (w_calls (cs_world s)) \<subseteq> set (w_calls w)"
    using step_knows [OF e] step.IH by simp_all
  have "knows (w_db w) (w_calls w) (hd_signal h) (hd_pc h)" if "h \<in> set ((cs_handlers s)[i := ?h\<lparr>hd_pc := p\<rparr>])" for h
    using set_update_subset_insert [of "cs_handlers s" i "?h\<lparr>hd_pc := p\<rparr>"] that k(1) step.IH
      knows_mono [OF step_extends [OF e] k(3)] by auto
  then show ?case unfolding adv using k(2) by simp
next
  case (others s db')
  then show ?case using knows_mono logged_mono by fastforce
qed (simp_all add: quiet_def)

text \<open>
  C7: every order that reaches the broker, in any interleaving of presses, is the order of a stored
  signal that a recorded review approves: its contract, side, quantity and limit are the order facts of that
  signal, the limit is not zero or negative, and an order the signal asks to replace was cancelled before,
  with success.
\<close>

theorem place_checked:
  assumes "presses tz db s" and "k < length (w_calls (cs_world s))"
    and "w_calls (cs_world s) ! k = (sid, PlaceCall code side qty price)"
  shows "\<exists>row cand. row \<in> set (db_signals (w_db (cs_world s))) \<and> sw_id row = sid \<and> approved (w_db (cs_world s)) sid
     \<and> orderFacts (sw_record row) = Inr cand
     \<and> code = co_Code cand \<and> side = co_Side cand \<and> qty = co_Quantity cand \<and> price = co_Last cand \<and> \<not> price \<le> 0
     \<and> replaced_first sid row (take k (w_calls (cs_world s)))"
proof -
  have "rests_on (w_db (cs_world s)) (take k (w_calls (cs_world s))) sid (PlaceCall code side qty price)"
    using presses_know [OF assms(1)] assms(2,3) unfolding logged_ok_def by fastforce
  then show ?thesis unfolding rests_on_def stored_row_def facts_of_def by auto
qed


section \<open>One press by itself\<close>

lemma run_finished [simp]: "confirm_run tz ch sid as (Finished res) w = (Finished res, w)"
  by (induction as) simp_all

text \<open>How a press ends: one action is appended, and \<open>n\<close> orders have been placed.\<close>

definition ends_with :: "int \<Rightarrow> World \<Rightarrow> Outcome \<Rightarrow> nat \<Rightarrow> pc \<times> World \<Rightarrow> bool" where
  "ends_with sid w res n out \<longleftrightarrow> fst out = Finished res
     \<and> (\<exists>act. db_actions (w_db (snd out)) = db_actions (w_db w) @ [act] \<and> aw_signal act = sid
          \<and> aw_action act = (case res of Confirmed _ _ _ \<Rightarrow> ''CONFIRM'' | Refused _ \<Rightarrow> ''REJECTED''))
     \<and> places sid (w_calls (snd out)) = places sid (w_calls w) + n"

lemma disposition_texts:
  "to_upper (trim_space ''REJECTED'') = ''REJECTED''" "to_upper (trim_space ''CONFIRM'') = ''CONFIRM''"
  "validAction ''REJECTED''" "validAction ''CONFIRM''"
  by code_simp+

lemma appended_action:
  assumes "an_outage a = None" "0 < sid" "trim_space actor \<noteq> []" "act \<in> {''REJECTED'', ''CONFIRM''}"
  shows "\<exists>x. db_actions (w_db (record_action a sid act actor note d w)) = db_actions (w_db w) @ [x] \<and> aw_signal x = sid \<and> aw_action x = act"
  using assms by (auto simp: AppendAction_def disposition_texts Let_def)

lemma refused_end:
  assumes "an_outage a = None" "0 < sid" "trim_space (ch_actor ch) \<noteq> []"
    and "db_actions (w_db w') = db_actions (w_db w)" "places sid (w_calls w') = places sid (w_calls w) + n"
  shows "ends_with sid w (Refused r) n (confirm_run tz ch sid (a # as) (Rejecting r) w')"
  using appended_action [OF assms(1-3), of "''REJECTED''" r "[]" w'] assms(4,5) by (simp add: ends_with_def)

lemma ClaimOrder_result_None:
  assumes "0 < sid" "trim_space actor \<noteq> []"
  shows "\<exists>db'. ClaimOrder None sid actor db = (Inr (\<not> claimed db sid), db') \<and> db_actions db' = db_actions db"
  using assms by (auto simp: ClaimOrder_def claimed_def Let_def)

lemma CompleteOrderClaim_actions [simp]: "db_actions (snd (CompleteOrderClaim outage now sid oid ex d db)) = db_actions db"
  by (simp add: CompleteOrderClaim_def Let_def split: option.split)

definition accepted_number :: "PlaceError + string \<times> int \<Rightarrow> bool" where
  "accepted_number r = (case r of Inl _ \<Rightarrow> False | Inr (ex, oid) \<Rightarrow> ex \<noteq> [] \<and> ex \<noteq> ''0'' \<and> oid \<noteq> 0)"

text \<open>From the placing of an order on.\<close>

lemma placing_end:
  assumes "an_outage b = None" "an_outage c = None" "an_outage e = None" "0 < sid" "trim_space (ch_actor ch) \<noteq> []" "ch_env ch = EnvSim"
    and "db_actions (w_db w') = db_actions (w_db w)" "places sid (w_calls w') = places sid (w_calls w)"
  shows "\<exists>res. ends_with sid w res 1 (confirm_run tz ch sid (b # c # e # as) (Placing row cand replaced) w')
     \<and> ((\<exists>cand ex oid. res = Confirmed cand ex oid) \<longleftrightarrow> accepted_number (an_place b))"
proof (cases "accepted_number (an_place b)")
  case True
  then obtain ex oid where p: "an_place b = Inr (ex, oid)" "ex \<noteq> []" "ex \<noteq> ''0''" "oid \<noteq> 0"
    by (auto simp: accepted_number_def split: sum.splits)
  show ?thesis
    using appended_action [OF assms(3-5), of "''CONFIRM''" "[]" "order_details cand ex oid"
        "w'\<lparr>w_db := snd (CompleteOrderClaim (an_outage c) (an_now c) sid oid ex (order_details cand ex oid) (w_db w'))\<rparr>"]
      assms(6-8) p True
    by (intro exI [of _ "Confirmed cand ex oid"]) (simp add: ends_with_def placer_PlaceOrder_def)
next
  case False
  then have "\<exists>r. confirm_step tz ch sid b (Placing row cand replaced) w'
      = (Rejecting r, log_call sid (PlaceCall (co_Code cand) (co_Side cand) (co_Quantity cand) (co_Last cand)) w')"
    using assms(6) by (cases "an_place b") (auto simp: placer_PlaceOrder_def accepted_number_def split: PlaceError.split)
  then obtain r where r: "confirm_step tz ch sid b (Placing row cand replaced) w'
      = (Rejecting r, log_call sid (PlaceCall (co_Code cand) (co_Side cand) (co_Quantity cand) (co_Last cand)) w')"
    by blast
  have "ends_with sid w (Refused r) 1 (confirm_run tz ch sid (c # e # as) (Rejecting r)
      (log_call sid (PlaceCall (co_Code cand) (co_Side cand) (co_Quantity cand) (co_Last cand)) w'))"
    by (rule refused_end) (use assms in simp_all)
  then show ?thesis using False unfolding confirm_run.simps(2) [of tz ch sid b] r by auto
qed

text \<open>An order is placed exactly if \<open>perm\<close>, and confirmed if the broker gives it a real number.\<close>

definition settled :: "int \<Rightarrow> World \<Rightarrow> bool \<Rightarrow> PlaceError + string \<times> int \<Rightarrow> pc \<times> World \<Rightarrow> bool" where
  "settled sid w perm answer out \<longleftrightarrow>
     (\<exists>res. ends_with sid w res (if perm then 1 else 0) out
        \<and> ((\<exists>cand ex oid. res = Confirmed cand ex oid) \<longleftrightarrow> perm \<and> accepted_number answer))"

text \<open>The end game for presses that refuse, and the stages of a press, last stage first.\<close>

lemma settled_refused:
  assumes "an_outage a = None" "0 < sid" "trim_space (ch_actor ch) \<noteq> []"
    and "\<not> perm" "db_actions (w_db w') = db_actions (w_db w)" "places sid (w_calls w') = places sid (w_calls w)"
  shows "settled sid w perm answer (confirm_run tz ch sid (a # as) (Rejecting r) w')"
  using refused_end [OF assms(1-3,5), where n = 0 and r = r and as = as and tz = tz] assms(4,6) by (auto simp: settled_def)

lemma claimed_settled:
  assumes up: "\<forall>a \<in> {b, c, d, e}. an_outage a = None" and sid: "0 < sid" "trim_space (ch_actor ch) \<noteq> []"
    and w': "db_actions (w_db w') = db_actions (w_db w)" "places sid (w_calls w') = places sid (w_calls w)"
  shows "settled sid w (ch_env ch = EnvSim \<and> (replace_order row = None \<or> an_cancel b = None)) (an_place c)
    (confirm_run tz ch sid (b # c # d # e # as) (Claimed row cand) w')"
proof -
  have place: "settled sid w (ch_env ch = EnvSim) (an_place c) (confirm_run tz ch sid (c # d # e # as) (Placing row cand replaced) v)"
    if "db_actions (w_db v) = db_actions (w_db w)" "places sid (w_calls v) = places sid (w_calls w)" for replaced v
  proof (cases "ch_env ch = EnvSim")
    case True
    then show ?thesis using placing_end [OF _ _ _ sid True that] up by (auto simp: settled_def)
  next
    case False
    then show ?thesis using settled_refused [of d sid ch False v w "an_place c" tz "e # as" "''live env not allowed''"] up sid that
      by (simp add: placer_PlaceOrder_def)
  qed
  show ?thesis
  proof (cases "replace_order row")
    case None
    then show ?thesis using place [OF w'] by simp
  next
    case (Some oid)
    show ?thesis
      using settled_refused [of c sid ch False w' w "an_place c" tz "d # e # as" "''cancel pending order failed''"]
        settled_refused [of c sid ch False "log_call sid (CancelCall (rec_Symbol (sw_record row)) oid False) w'" w "an_place c" tz
          "d # e # as" "''cancel pending order failed''"]
        place [of "log_call sid (CancelCall (rec_Symbol (sw_record row)) oid True) w'" oid] up sid w'
      by (cases "ch_env ch = EnvSim"; cases "an_cancel b") (simp_all add: Some placer_CancelOrder_def)
  qed
qed

lemma ready_settled:
  assumes up: "\<forall>x \<in> {a, b, c, d, e}. an_outage x = None" and sid: "0 < sid" "trim_space (ch_actor ch) \<noteq> []"
  shows "settled sid w (\<not> claimed (w_db w) sid \<and> ch_env ch = EnvSim \<and> (replace_order row = None \<or> an_cancel b = None)) (an_place c)
    (confirm_run tz ch sid (a # b # c # d # e # as) (Ready row cand) w)"
proof -
  obtain db' where db': "ClaimOrder None sid (ch_actor ch) (w_db w) = (Inr (\<not> claimed (w_db w) sid), db')"
    "db_actions db' = db_actions (w_db w)" using ClaimOrder_result_None [OF sid] by blast
  show ?thesis
  proof (cases "claimed (w_db w) sid")
    case True
    then show ?thesis
      using settled_refused [of b sid ch False "w\<lparr>w_db := db'\<rparr>" w "an_place c" tz "c # d # e # as" "''already confirmed''"] up sid db'
      by simp
  next
    case False
    then show ?thesis using claimed_settled [of b c d e sid ch "w\<lparr>w_db := db'\<rparr>" w row tz as cand] up sid db' by simp
  qed
qed

lemma reviewed_settled:
  assumes up: "\<forall>x \<in> {z, a, b, c, d, e}. an_outage x = None" and sid: "0 < sid" "trim_space (ch_actor ch) \<noteq> []"
  shows "settled sid w (MarketIsOpen tz (rec_Symbol (sw_record row)) (an_now z) None \<and> ch_orders ch
      \<and> (\<exists>cand. orderFacts (sw_record row) = Inr cand \<and> \<not> co_Last cand \<le> 0) \<and> ch_claims ch
      \<and> \<not> claimed (w_db w) sid \<and> ch_env ch = EnvSim \<and> (replace_order row = None \<or> an_cancel b = None)) (an_place c)
    (confirm_run tz ch sid (z # a # b # c # d # e # as) (Reviewed row) w)"
proof (cases "MarketIsOpen tz (rec_Symbol (sw_record row)) (an_now z) None \<and> ch_orders ch
    \<and> (\<exists>cand. orderFacts (sw_record row) = Inr cand \<and> \<not> co_Last cand \<le> 0) \<and> ch_claims ch")
  case True
  then show ?thesis using ready_settled [of a b c d e sid ch w row tz as] up sid by auto
next
  case False
  then have "\<exists>r. confirm_step tz ch sid z (Reviewed row) w = (Rejecting r, w)" by (auto split: sum.split)
  then obtain r where r: "confirm_step tz ch sid z (Reviewed row) w = (Rejecting r, w)" by blast
  show ?thesis
    using settled_refused [of a sid ch False w w "an_place c" tz "b # c # d # e # as" r] up sid False
    unfolding confirm_run.simps(2) [of tz ch sid z] r by (auto simp: settled_def)
qed

text \<open>What a press requires, in terms of the world it starts in.\<close>

definition permitted :: "tzdata \<Rightarrow> Channel \<Rightarrow> int \<Rightarrow> Answers list \<Rightarrow> World \<Rightarrow> bool" where
  "permitted tz ch sid as w \<longleftrightarrow>
     (\<exists>row review. GetSignal sid (w_db w) = Inr row
        \<and> an_now (as ! 1) - sw_created row \<le> signalFreshWindow
        \<and> LatestAction sid ''LLM_REVIEW'' (w_db w) = Inr review \<and> verdictOf review = ''APPROVE''
        \<and> MarketIsOpen tz (rec_Symbol (sw_record row)) (an_now (as ! 3)) None \<and> ch_orders ch
        \<and> (\<exists>cand. orderFacts (sw_record row) = Inr cand \<and> \<not> co_Last cand \<le> 0) \<and> ch_claims ch
        \<and> \<not> claimed (w_db w) sid \<and> ch_env ch = EnvSim
        \<and> (replace_order row = None \<or> an_cancel (as ! 5) = None))"

lemma confirm_settled:
  assumes "0 < sid" "trim_space (ch_actor ch) \<noteq> []" "9 \<le> length as" "\<forall>a \<in> set as. an_outage a = None"
  shows "settled sid w (permitted tz ch sid as w) (an_place (as ! 6)) (confirmOrder tz ch sid as w)"
proof -
  obtain a0 a1 a2 a3 a4 a5 a6 a7 a8 rest where as: "as = a0 # a1 # a2 # a3 # a4 # a5 # a6 # a7 # a8 # rest"
    using assms(3) by (auto simp: numeral_eq_Suc Suc_le_length_iff)
  note up = assms(4) [unfolded as, simplified]
  note refused = settled_refused [OF _ assms(1,2), where perm = False and w = w and w' = w and answer = "an_place a6" and tz = tz]
  have "settled sid w (permitted tz ch sid as w) (an_place a6) (confirmOrder tz ch sid as w)"
  proof (cases "GetSignal sid (w_db w)")
    case (Inl err)
    then show ?thesis using refused [of a1] up by (simp add: confirmOrder_def as permitted_def)
  next
    case (Inr row)
    show ?thesis
    proof (cases "signalFreshWindow < an_now a1 - sw_created row")
      case True
      then show ?thesis using refused [of a2] up Inr by (simp add: confirmOrder_def as permitted_def)
    next
      case fresh: False
      show ?thesis
      proof (cases "LatestAction sid ''LLM_REVIEW'' (w_db w)")
        case (Inl err)
        then show ?thesis using refused [of a3] up Inr fresh by (simp add: confirmOrder_def as permitted_def)
      next
        case rev: (Inr review)
        show ?thesis
          using refused [of a3] reviewed_settled [of a3 a4 a5 a6 a7 a8 sid ch w tz row rest] assms(1,2) up Inr fresh rev
          by (cases "verdictOf review = ''APPROVE''") (simp_all add: confirmOrder_def as permitted_def not_less)
      qed
    qed
  qed
  then show ?thesis by (simp add: as)
qed

text \<open>
  C17: a press whose queries and appends succeed appends exactly one action and ends: it places one
  order if, and only if, the signal is stored and fresh, its latest review approves, the exchange is open, the
  order facts are usable with a positive limit, the environment is the simulation, the order is not yet
  claimed and an order to replace was cancelled; the action is a confirmation exactly when the broker
  answered with a real order number, and a rejection otherwise.
\<close>

theorem confirm_effect:
  assumes "0 < sid" "trim_space (ch_actor ch) \<noteq> []" "9 \<le> length as" "\<forall>a \<in> set as. an_outage a = None"
  shows "\<exists>res. ends_with sid w res (if permitted tz ch sid as w then 1 else 0) (confirmOrder tz ch sid as w)
     \<and> ((\<exists>cand ex oid. res = Confirmed cand ex oid) \<longleftrightarrow> permitted tz ch sid as w \<and> accepted_number (an_place (as ! 6)))"
  using confirm_settled [OF assms] by (simp add: settled_def)


section \<open>Pressing again, and declining\<close>

lemma run_claimed:
  assumes "confirm_run tz ch sid as p w = (p', w')" "claimed (w_db w) sid" "\<not> holding_claim p"
  shows "w_calls w' = w_calls w"
  using assms
proof (induction as arbitrary: p w)
  case (Cons a as)
  obtain q v where st: "confirm_step tz ch sid a p w = (q, v)" by fastforce
  have "claimed (w_db v) sid" using step_extends [OF st] Cons.prems(2) by (simp add: extends_db_def)
  moreover have "w_calls v = w_calls w" "\<not> holding_claim q" using step_shape [OF st] Cons.prems(2,3) by auto
  ultimately show ?case using Cons.IH [of q v] Cons.prems(1) st by simp
qed simp

lemma closing_action:
  assumes "db_actions db' = db_actions db @ [act]" "aw_signal act = sw_id row" "aw_action act \<in> {''NO'', ''REJECTED''}"
  shows "pendingRow db' symbol row = None"
  using assms by (simp add: pendingRow_def exists_action_def)

text \<open>
  C21: pressing the confirm button again on a signal whose order is open - confirmed, not
  filled, not cancelled - reaches the broker with nothing, but its refusal is recorded as a rejection, and
  the queries for open orders take a rejection for a cancellation: the open order vanishes from them.
\<close>

theorem second_press_hides_order:
  assumes "0 < sid" "trim_space (ch_actor ch) \<noteq> []" "9 \<le> length as" "\<forall>a \<in> set as. an_outage a = None"
    and "claimed (w_db w) sid" "sw_id row = sid" "pendingRow (w_db w) symbol row \<noteq> None"
  shows "w_calls (snd (confirmOrder tz ch sid as w)) = w_calls w
     \<and> pendingRow (w_db (snd (confirmOrder tz ch sid as w))) symbol row = None"
proof -
  obtain p' w' where run: "confirmOrder tz ch sid as w = (p', w')" by fastforce
  have np: "\<not> permitted tz ch sid as w" using assms(5) by (auto simp: permitted_def)
  have "settled sid w False (an_place (as ! 6)) (p', w')"
    using run confirm_settled [OF assms(1-4), of w tz] np by simp
  then obtain res act where "\<not> (\<exists>cand ex oid. res = Confirmed cand ex oid)"
    "db_actions (w_db w') = db_actions (w_db w) @ [act]" "aw_signal act = sid"
    "aw_action act = (case res of Confirmed _ _ _ \<Rightarrow> ''CONFIRM'' | Refused _ \<Rightarrow> ''REJECTED'')"
    by (auto simp: settled_def ends_with_def)
  then have "pendingRow (w_db w') symbol row = None"
    using assms(6) by (intro closing_action [of _ "w_db w" act]) (auto split: Outcome.splits)
  then show ?thesis using run run_claimed [OF run [unfolded confirmOrder_def] assms(5)] by simp
qed

lemma order_number_exact:
  assumes "0 \<le> oid" "oid \<le> 2 ^ 53" "aw_details a = order_details cand ex oid"
  shows "order_number a = oid"
  using assms of_int64_exact [of oid] by (simp add: order_number_def order_details_def)

text \<open>Beyond 2^53 the number read back need not be the number recorded.\<close>

lemma order_number_inexact:
  assumes "aw_details a = order_details cand ex (2 ^ 53 + 1)"
  shows "order_number a = 2 ^ 53"
proof -
  have "whole_of (of_int64 (2 ^ 53 + 1)) = 2 ^ 53" by code_simp
  then show ?thesis using assms by (simp add: order_number_def order_details_def)
qed

text \<open>
  C20: declining a confirmed signal asks the broker to cancel exactly the confirmed order -
  under the number the confirmation recorded, which is read back exactly up to 2^53 - and records the decline,
  whatever the broker answered: the order counts as closed even when its cancellation failed.
\<close>

theorem decline_cancels_order:
  assumes "0 < sid" "trim_space (ch_actor ch) \<noteq> []" "ch_env ch = EnvSim"
    and "an_outage a1 = None" "an_outage a2 = None" "an_outage a3 = None"
    and "LatestAction sid ''CONFIRM'' (w_db w) = Inr confirm" "aw_details confirm = order_details cand ex oid"
    and "0 < oid" "oid \<le> 2 ^ 53" "GetSignal sid (w_db w) = Inr row" "rec_Symbol (sw_record row) \<noteq> []"
  shows "w_calls (declineOrder ch a1 a2 a3 sid w)
       = w_calls w @ [(sid, CancelCall (rec_Symbol (sw_record row)) (fmt_int oid) (an_cancel a2 = None))]
     \<and> pendingRow (w_db (declineOrder ch a1 a2 a3 sid w)) symbol row = None"
proof -
  have oid: "order_number confirm = oid" using order_number_exact [OF _ assms(10,8)] assms(9) by simp
  have no: "to_upper (trim_space ''NO'') = ''NO''" "validAction ''NO''" by code_simp+
  have row: "sw_id row = sid" using GetSignal_stored [OF assms(11)] by (simp add: stored_row_def)
  let ?w = "log_call sid (CancelCall (rec_Symbol (sw_record row)) (fmt_int oid) (an_cancel a2 = None)) w"
  obtain nt where nt: "decline_note ch a1 a2 sid w = (nt, ?w)"
    using assms(3-5,7,9,11,12) oid by (cases "an_cancel a2") (auto simp: decline_note_def placer_CancelOrder_def Let_def)
  obtain nid db' act where app: "AppendAction None (an_now a3) sid ''NO'' (ch_actor ch) nt [] (w_db w) = (Inr nid, db')"
    "db_actions db' = db_actions (w_db w) @ [act]" "aw_signal act = sid" "aw_action act = ''NO''"
    using assms(1,2) no by (auto simp: AppendAction_def Let_def)
  have "declineOrder ch a1 a2 a3 sid w = push_notice sid (Declined nt) (?w\<lparr>w_db := db'\<rparr>)"
    using app(1) assms(6) by (simp add: declineOrder_def nt)
  then show ?thesis using closing_action [OF app(2), of row symbol] app(3,4) row by simp
qed

section \<open>Buttons, once more\<close>

lemma split_on_append:
  assumes "c \<notin> set xs"
  shows "split_on c (xs @ c # ys) = xs # split_on c ys" "split_on c xs = [xs]"
  using assms by (induction xs) (auto split: list.splits)

text \<open>
  C22: the data the program puts on a button is the data it reads back from a press, for every
  signal number and each of the three buttons.
\<close>

theorem callback_roundtrip:
  assumes "0 < sid" "sid < 2 ^ 63" "action \<in> {''yes'', ''no'', ''dismiss''}"
  shows "parseCallbackData (button_data sid action) = Inr (sid, action)"
proof -
  have dig: "CHR '':'' \<notin> set (fmt_int sid)" "list_all (\<lambda>c. \<not> is_space c) (fmt_int sid)"
  proof -
    have "list_all is_digit (dec_digits sid)" "list_all (\<lambda>c. \<not> is_space c) (dec_digits sid)"
      using dec_digits_facts [of sid] assms(1) by (auto simp: list_all_iff)
    moreover have "\<not> is_digit CHR '':''" by code_simp
    ultimately show "CHR '':'' \<notin> set (fmt_int sid)" "list_all (\<lambda>c. \<not> is_space c) (fmt_int sid)"
      using assms(1) by (auto simp: fmt_int_def list_all_iff)
  qed
  have "split_on CHR '':'' action = [action]" using assms(3) by (intro split_on_append(2)) auto
  moreover have "button_data sid action = ''wheel'' @ CHR '':'' # fmt_int sid @ CHR '':'' # action" by (simp add: button_data_def)
  moreover have "CHR '':'' \<notin> set ''wheel''" by simp
  ultimately have "split_on CHR '':'' (button_data sid action) = [''wheel'', fmt_int sid, action]"
    using split_on_append(1) dig(1) by metis
  moreover have "parse_int64 (fmt_int sid) = Some sid"
    using parse_fmt_int [of sid] trim_space_id [OF dig(2)] assms(1,2) by simp
  ultimately show ?thesis using assms(1,3) by (auto simp: parseCallbackData_def)
qed

theorem callback_roundtrip_witness: "parseCallbackData (button_data 42 ''yes'') = Inr (42, ''yes'')"
  by (rule callback_roundtrip) simp_all


section \<open>A sample press\<close>

definition sample_wire :: WireQuote where
  "sample_wire = quoteRecord (\<lambda>_. []) (sample_quote ''P64'' ''put'' 64 (-1/4))"

definition sample_stored :: SignalRecord where
  "sample_stored = \<lparr>rec_Symbol = ''US.JD'', rec_Action = ''ALERT'', rec_ConfigVersion = 1, rec_CapabilityStatus = ''READY'',
     rec_BlockedBy = [], rec_Inventory = no_inventory,
     rec_Candidates = [AsFullCandidate \<lparr>cd_Symbol = [], cd_QuoteSnapshotID = 0, cd_Quote = Some (sample_wire\<lparr>wq_Last := Fin 1\<rparr>), cd_Direction = ''PUT'', cd_Quantity = 1,
        cd_SignedContracts = - 1, cd_Quality = 0, cd_ExpectedGain = 0, cd_PostTradeEffective = 0, cd_AssignmentInventory = 0,
        cd_Accepted = True, cd_Reasons = [], cd_wireMode = wireFull\<rparr>],
     rec_RejectionReasons = [], rec_Reason = ''wheel'', rec_Strategy = ''wheel'', rec_Replace = None,
     rec_ClosePosition = False, rec_CloseQty = 0, rec_CloseQuote = None\<rparr>"

text \<open>A Wednesday, 15:00.\<close>

definition press_time :: time where
  "press_time = unix_epoch + 1786546800 * second_ns"

definition press_row :: SignalRow where
  "press_row = \<lparr>sw_id = 1, sw_record = sample_stored, sw_created = press_time\<rparr>"

definition sample_review :: "details ActionRow" where
  "sample_review = \<lparr>aw_id = 1, aw_signal = 1, aw_action = ''LLM_REVIEW'', aw_actor = ''llm:m'', aw_note = [],
     aw_details = [(''verdict'', DText ''APPROVE'')], aw_created = press_time\<rparr>"

definition press_db :: "details DB" where
  "press_db = \<lparr>db_signals = [press_row], db_actions = [sample_review], db_claims = [], db_dismissals = []\<rparr>"

definition press_world :: World where
  "press_world = \<lparr>w_db = press_db, w_calls = [], w_notices = []\<rparr>"

definition sample_channel :: Channel where
  "sample_channel = \<lparr>ch_orders = True, ch_claims = True, ch_env = EnvSim, ch_actor = ''telegram:7''\<rparr>"

definition sample_answers :: "Answers list" where
  "sample_answers = replicate 9 \<lparr>an_now = press_time, an_outage = None, an_cancel = None, an_place = Inr (''A1'', 77)\<rparr>"

definition pressed_world :: World where
  "pressed_world = snd (confirmOrder (\<lambda>_. None) sample_channel 1 sample_answers press_world)"

lemma pressed_values:
  "w_calls pressed_world = [(1, PlaceCall ''P64'' ''sell'' 1 (Fin 1))]"
  "claimed (w_db pressed_world) 1"
  "pendingRow (w_db pressed_world) ''US.JD'' press_row \<noteq> None"
  "map aw_action (db_actions (w_db pressed_world)) = [''LLM_REVIEW'', ''CONFIRM'']"
  by code_simp+


text \<open>A press is a run of the system.\<close>

lemma presses_run:
  assumes "presses tz db s" "cs_handlers s = [\<lparr>hd_signal = sid, hd_channel = ch, hd_pc = p\<rparr>]"
    and "confirm_run tz ch sid as p (cs_world s) = (p', w')"
  shows "\<exists>t. presses tz db t \<and> cs_world t = w'"
  using assms
proof (induction as arbitrary: s p)
  case (Cons a as)
  obtain q v where st: "confirm_step tz ch sid a p (cs_world s) = (q, v)" by fastforce
  have "presses tz db (advance tz 0 a s)" by (rule presses.step [OF Cons.prems(1)]) (simp add: Cons.prems(2))
  moreover have "cs_handlers (advance tz 0 a s) = [\<lparr>hd_signal = sid, hd_channel = ch, hd_pc = q\<rparr>]" "cs_world (advance tz 0 a s) = v"
    by (simp_all add: advance_def Cons.prems(2) st Let_def)
  ultimately show ?case using Cons.IH [of "advance tz 0 a s" q] Cons.prems(3) st by simp
qed auto

lemma press_reached: "\<exists>t. presses (\<lambda>_. None) press_db t \<and> cs_world t = pressed_world"
proof (rule presses_run)
  show "presses (\<lambda>_. None) press_db (quiet press_db\<lparr>cs_handlers := cs_handlers (quiet press_db) @
      [\<lparr>hd_signal = 1, hd_channel = sample_channel, hd_pc = Begin\<rparr>]\<rparr>)"
    by (rule presses.press) (rule presses.start)
  show "confirm_run (\<lambda>_. None) sample_channel 1 sample_answers Begin
      (cs_world (quiet press_db\<lparr>cs_handlers := cs_handlers (quiet press_db) @ [\<lparr>hd_signal = 1, hd_channel = sample_channel, hd_pc = Begin\<rparr>]\<rparr>))
      = (fst (confirmOrder (\<lambda>_. None) sample_channel 1 sample_answers press_world), pressed_world)"
    by (simp add: pressed_world_def confirmOrder_def quiet_def press_world_def)
qed (simp add: quiet_def)

theorem place_once_witness:
  "\<exists>t :: ConfirmSystem. w_calls (cs_world t) \<noteq> [] \<and> places 1 (w_calls (cs_world t)) \<le> (if claimed press_db 1 then 0 else 1)"
proof -
  obtain t where "presses (\<lambda>_. None) press_db t" "cs_world t = pressed_world" using press_reached by blast
  then show ?thesis using place_once [of "\<lambda>_. None" press_db t 1] pressed_values(1) by (intro exI [of _ t]) simp
qed

theorem place_checked_witness: "\<exists>row. row \<in> set (db_signals (w_db pressed_world)) \<and> sw_id row = 1 \<and> approved (w_db pressed_world) 1"
proof -
  obtain t where t: "presses (\<lambda>_. None) press_db t" "cs_world t = pressed_world" using press_reached by blast
  have "0 < length (w_calls (cs_world t))" "w_calls (cs_world t) ! 0 = (1, PlaceCall ''P64'' ''sell'' 1 (Fin 1))"
    by (simp_all add: t(2) pressed_values(1))
  from place_checked [OF t(1) this] show ?thesis unfolding t(2) by blast
qed

lemma sample_press_ok:
  "(0::int) < 1" "trim_space (ch_actor sample_channel) \<noteq> []" "9 \<le> length sample_answers" "\<forall>a \<in> set sample_answers. an_outage a = None"
proof -
  show "trim_space (ch_actor sample_channel) \<noteq> []" by code_simp
qed (simp_all add: sample_answers_def)

theorem confirm_effect_witness:
  "\<exists>res. ends_with 1 press_world res (if permitted (\<lambda>_. None) sample_channel 1 sample_answers press_world then 1 else 0)
     (confirmOrder (\<lambda>_. None) sample_channel 1 sample_answers press_world)"
  using confirm_effect [OF sample_press_ok, of press_world "\<lambda>_. None"] by blast

theorem second_press_hides_order_witness:
  "pendingRow (w_db pressed_world) ''US.JD'' press_row \<noteq> None
   \<and> pendingRow (w_db (snd (confirmOrder (\<lambda>_. None) sample_channel 1 sample_answers pressed_world))) ''US.JD'' press_row = None"
proof -
  have "sw_id press_row = 1" by (simp add: press_row_def)
  from second_press_hides_order [OF sample_press_ok pressed_values(2) this pressed_values(3), of "\<lambda>_. None"] pressed_values(3)
  show ?thesis by simp
qed

theorem decline_cancels_order_witness:
  "pendingRow (w_db (declineOrder sample_channel (hd sample_answers) (hd sample_answers) (hd sample_answers) 1 pressed_world)) ''US.JD'' press_row = None"
proof -
  let ?a = "hd sample_answers"
  have a: "an_outage ?a = None" "ch_env sample_channel = EnvSim" by (simp_all add: sample_answers_def sample_channel_def)
  have l: "(case LatestAction 1 ''CONFIRM'' (w_db pressed_world) of Inl _ \<Rightarrow> False
      | Inr c \<Rightarrow> aw_details c = [(''order_id'', DNumber 77), (''order_id_ex'', DText ''A1''), (''symbol'', DText ''P64''),
          (''side'', DText ''sell''), (''qty'', DNumber 1)])"
    and r: "(case GetSignal 1 (w_db pressed_world) of Inl _ \<Rightarrow> False | Inr row \<Rightarrow> row = press_row \<and> rec_Symbol (sw_record row) \<noteq> [])"
    by code_simp+
  obtain c where c: "LatestAction 1 ''CONFIRM'' (w_db pressed_world) = Inr c"
    "aw_details c = order_details (order_of_quote sample_wire ''sell'' 1 ''PUT'' (Fin 1)) ''A1'' 77"
    using l by (auto simp: order_details_def order_of_quote_def sample_wire_def quoteRecord_def sample_quote_def split: sum.splits)
  obtain row where row: "GetSignal 1 (w_db pressed_world) = Inr row" "rec_Symbol (sw_record row) \<noteq> []"
    using r by (auto split: sum.splits)
  have "GetSignal 1 (w_db pressed_world) = Inr press_row" using r by (auto split: sum.splits)
  with row have "row = press_row" by simp
  show ?thesis
    using decline_cancels_order [OF sample_press_ok(1,2) a(2,1,1,1) c _ _ row, of "''US.JD''"] by (simp add: \<open>row = press_row\<close>)
qed

end
