(* ===== verification/Live_Watch.thy ===== *)
theory Live_Watch
  imports Live_Confirm
begin

text \<open>
  Watching a placed order: \<^verbatim>\<open>watchFill\<close> and \<^verbatim>\<open>cancelResting\<close> of \<^verbatim>\<open>cmd/wbot/telegram_scheduler.go\<close>.  Each round of
  the loop takes one record of answers: the clock, the order list of the gateway, the answer to a
  cancellation, the state of the database, and whether the process stops while the loop sleeps.
\<close>

section \<open>One round\<close>

record Poll = Answers +
  po_orders :: "string + (string \<times> int) list"
  po_stop :: bool

record Watched =
  wt_signal :: int
  wt_symbol :: string
  wt_side :: string
  wt_qty :: int
  wt_price :: f64
  wt_orderIDEx :: string
  wt_orderID :: int

datatype WatchEnd = AtClose | StatusLost | OnFill | OnStatus int | CancelledUnseen | WithoutNumber | Stopped

definition system_watch :: string where
  "system_watch = ''system:watch''"

text \<open>The states of an order that the loop tells apart, by their numbers in the gateway's protocol.\<close>

definition fill_states :: "int set" where
  "fill_states = {10, 11}"

definition dead_states :: "int set" where
  "dead_states = {14, 15, 12, 13, 3}"

definition cancelResting :: "Env \<Rightarrow> Poll \<Rightarrow> Watched \<Rightarrow> string \<Rightarrow> World \<Rightarrow> World" where
  "cancelResting env po wt why w =
     (if wt_orderID wt = 0 then push_notice (wt_signal wt) (NoOrderNumber why) w
      else case placer_CancelOrder env (an_cancel po) (wt_signal wt) (wt_symbol wt) (fmt_int (wt_orderID wt)) w of
        (Some e, w) \<Rightarrow> push_notice (wt_signal wt) (CancelFailed why) w
      | (None, w) \<Rightarrow>
          push_notice (wt_signal wt) (CancelDone why)
            (record_action po (wt_signal wt) ''NO'' system_watch why
              [(''order_id_ex'', DText (wt_orderIDEx wt)), (''order_id'', DNumber (wt_orderID wt)), (''symbol'', DText (wt_symbol wt))] w))"

text \<open>An order that the broker does not list: from the \<open>limit\<close>th round on it is reported and cancelled.\<close>

definition unseenRound :: "Env \<Rightarrow> Poll \<Rightarrow> Watched \<Rightarrow> nat \<Rightarrow> nat \<Rightarrow> World \<Rightarrow> WatchEnd option \<times> World" where
  "unseenRound env po wt limit missing w =
     (if missing < limit then (None, w)
      else
        (let w = record_action po (wt_signal wt) ''NOTE'' system_watch ''order not visible to broker; attempting cancel''
                   [(''order_id_ex'', DText (wt_orderIDEx wt)), (''order_id'', DNumber (wt_orderID wt)), (''symbol'', DText (wt_symbol wt)),
                    (''side'', DText (wt_side wt)), (''missing_polls'', DNumber (int missing))]
                   (push_notice (wt_signal wt) Unconfirmed w)
         in if wt_orderID wt \<noteq> 0 then
              (case placer_CancelOrder env (an_cancel po) (wt_signal wt) (wt_symbol wt) (fmt_int (wt_orderID wt)) w of
                 (Some e, w) \<Rightarrow> (None, push_notice (wt_signal wt) (CancelFailed ''order not confirmed'') w)
               | (None, w) \<Rightarrow> (Some CancelledUnseen, push_notice (wt_signal wt) (CancelDone ''order not confirmed'') w))
            else (Some WithoutNumber, push_notice (wt_signal wt) (NoOrderNumber []) w)))"

definition recordFill :: "Poll \<Rightarrow> Watched \<Rightarrow> World \<Rightarrow> World" where
  "recordFill po wt w =
     record_action po (wt_signal wt) ''FILL'' system_watch []
       [(''order_id_ex'', DText (wt_orderIDEx wt)), (''symbol'', DText (wt_symbol wt)), (''side'', DText (wt_side wt)),
        (''qty'', DNumber (wt_qty wt))]
       (push_notice (wt_signal wt) Filled w)"

definition watchRound ::
  "tzdata \<Rightarrow> Env \<Rightarrow> Watched \<Rightarrow> nat \<Rightarrow> duration \<Rightarrow> time \<Rightarrow> Poll \<Rightarrow> nat \<times> bool \<Rightarrow> World \<Rightarrow> (WatchEnd + nat \<times> bool) \<times> World" where
  "watchRound tz env wt limit reportAfter started po st w =
     (if \<not> MarketIsOpen tz (wt_symbol wt) (an_now po) None
      then (Inl AtClose, cancelResting env po wt ''market closed'' w)
      else case placer_OrderStatus env (po_orders po) (wt_orderIDEx wt) of
        Inl err \<Rightarrow> (Inl StatusLost, cancelResting env po wt ''order status unknown'' w)
      | Inr status \<Rightarrow>
          (let (done, missing, w) =
             (case status of
                Some s \<Rightarrow>
                  if s \<in> fill_states then (Some OnFill, 0, recordFill po wt w)
                  else if s \<in> dead_states then (Some (OnStatus s), 0, push_notice (wt_signal wt) (NotFilled s) w)
                  else (None, 0, w)
              | None \<Rightarrow> (case unseenRound env po wt limit (fst st + 1) w of (d, w) \<Rightarrow> (d, fst st + 1, w)))
           in case done of
                Some e \<Rightarrow> (Inl e, w)
              | None \<Rightarrow>
                  (let report = (\<not> snd st \<and> reportAfter \<le> an_now po - started);
                       w = (if report then push_notice (wt_signal wt) StillPending w else w)
                   in if po_stop po then (Inl Stopped, w) else (Inr (missing, snd st \<or> report), w))))"

fun watchRounds ::
  "tzdata \<Rightarrow> Env \<Rightarrow> Watched \<Rightarrow> nat \<Rightarrow> duration \<Rightarrow> time \<Rightarrow> Poll list \<Rightarrow> nat \<times> bool \<Rightarrow> World \<Rightarrow> WatchEnd option \<times> World" where
  "watchRounds tz env wt limit reportAfter started [] st w = (None, w)"
| "watchRounds tz env wt limit reportAfter started (po # pos) st w =
     (case watchRound tz env wt limit reportAfter started po st w of
        (Inl e, w) \<Rightarrow> (Some e, w)
      | (Inr st, w) \<Rightarrow> watchRounds tz env wt limit reportAfter started pos st w)"

text \<open>Settings that are not positive stand for their defaults.\<close>

definition watchFill ::
  "tzdata \<Rightarrow> Env \<Rightarrow> Watched \<Rightarrow> int \<Rightarrow> duration \<Rightarrow> time \<Rightarrow> Poll list \<Rightarrow> World \<Rightarrow> WatchEnd option \<times> World" where
  "watchFill tz env wt missingWarnAfter watchReport started pos w =
     watchRounds tz env wt (nat (if missingWarnAfter \<le> 0 then 4 else missingWarnAfter))
       (if watchReport \<le> 0 then 2 * 60 * second_ns else watchReport) started pos (0, False) w"

section \<open>Rounds that end the loop\<close>

definition decisive :: "tzdata \<Rightarrow> Env \<Rightarrow> Watched \<Rightarrow> Poll \<Rightarrow> bool" where
  "decisive tz env wt po \<longleftrightarrow> \<not> MarketIsOpen tz (wt_symbol wt) (an_now po) None
     \<or> (case placer_OrderStatus env (po_orders po) (wt_orderIDEx wt) of
          Inl _ \<Rightarrow> True | Inr None \<Rightarrow> False | Inr (Some s) \<Rightarrow> s \<in> fill_states \<union> dead_states)"

lemma decisive_ends: "decisive tz env wt po \<Longrightarrow> \<exists>e w'. watchRound tz env wt limit reportAfter started po st w = (Inl e, w')"
  by (auto simp: decisive_def watchRound_def split: sum.splits option.splits)

lemma watchRounds_ends:
  "po \<in> set pos \<Longrightarrow> decisive tz env wt po \<Longrightarrow> fst (watchRounds tz env wt limit reportAfter started pos st w) \<noteq> None"
proof (induction pos arbitrary: st w)
  case (Cons p pos)
  obtain r w' where r: "watchRound tz env wt limit reportAfter started p st w = (r, w')" by fastforce
  show ?case
  proof (cases r)
    case (Inr st')
    then have "p \<noteq> po" using decisive_ends [OF Cons.prems(2), of limit reportAfter started st w] r by auto
    then show ?thesis using Cons.IH [of st' w'] Cons.prems r Inr by simp
  qed (simp add: r)
qed simp

section \<open>What the end leaves behind\<close>

lemma order_actions:
  "to_upper (trim_space ''NO'') = ''NO''" "to_upper (trim_space ''FILL'') = ''FILL''" "to_upper (trim_space ''NOTE'') = ''NOTE''"
  "validAction ''NO''" "validAction ''FILL''" "validAction ''NOTE''" "trim_space system_watch \<noteq> []"
  by code_simp+

lemma action_appended:
  assumes "an_outage po = None" "0 < sid" "act \<in> {''NO'', ''FILL'', ''NOTE''}"
  shows "\<exists>x. db_actions (w_db (record_action po sid act system_watch nt d w)) = db_actions (w_db w) @ [x] \<and> aw_signal x = sid \<and> aw_action x = act"
  using assms by (auto simp: AppendAction_def order_actions Let_def)

text \<open>A signal that the queries for open orders report.\<close>

definition books_open :: "details DB \<Rightarrow> string \<Rightarrow> SignalRow \<Rightarrow> bool" where
  "books_open db symbol row \<longleftrightarrow> pendingRow db symbol row \<noteq> None"

lemma pendingRow_append:
  assumes "db_actions db' = db_actions db @ [x]" "aw_signal x = sw_id row" "aw_action x \<in> {''NO'', ''FILL'', ''NOTE''}"
  shows "books_open db' symbol row \<longleftrightarrow> books_open db symbol row \<and> aw_action x = ''NOTE''"
  using assms unfolding books_open_def pendingRow_iff by (auto simp: exists_action_def)

lemma pendingRow_actions: "db_actions db' = db_actions db \<Longrightarrow> pendingRow db' symbol row = pendingRow db symbol row"
  by (simp add: pendingRow_def exists_action_def lastConfirm_def)

text \<open>The ends after which the books show no open order.\<close>

definition cancel_answered :: "Env \<Rightarrow> Poll \<Rightarrow> Watched \<Rightarrow> bool" where
  "cancel_answered env po wt \<longleftrightarrow> wt_orderID wt \<noteq> 0 \<and> env = EnvSim \<and> an_cancel po = None"

definition closes_books :: "Env \<Rightarrow> Poll \<Rightarrow> Watched \<Rightarrow> WatchEnd \<Rightarrow> bool" where
  "closes_books env po wt e \<longleftrightarrow> e = OnFill \<or> (e = AtClose \<or> e = StatusLost) \<and> cancel_answered env po wt"


lemma w_parts_notice [simp]:
  "w_notices (log_call sid c w) = w_notices w" "w_notices (push_notice sid n w) = w_notices w @ [(sid, n)]"
  "w_notices (record_action a sid act actor nt d w) = w_notices w"
  by (simp_all add: log_call_def push_notice_def record_action_def)

lemma cancelResting_books:
  assumes "an_outage po = None" "0 < wt_signal wt" "sw_id row = wt_signal wt"
  shows "books_open (w_db (cancelResting env po wt why w)) symbol row
    \<longleftrightarrow> books_open (w_db w) symbol row \<and> \<not> cancel_answered env po wt"
proof (cases "cancel_answered env po wt")
  case True
  let ?w = "log_call (wt_signal wt) (CancelCall (wt_symbol wt) (fmt_int (wt_orderID wt)) True) w"
  let ?d = "[(''order_id_ex'', DText (wt_orderIDEx wt)), (''order_id'', DNumber (wt_orderID wt)), (''symbol'', DText (wt_symbol wt))]"
  obtain x where x: "db_actions (w_db (record_action po (wt_signal wt) ''NO'' system_watch why ?d ?w)) = db_actions (w_db ?w) @ [x]"
    "aw_signal x = wt_signal wt" "aw_action x = ''NO''"
    using action_appended [OF assms(1,2), of "''NO''" why ?d ?w] by auto
  have "w_db (cancelResting env po wt why w) = w_db (record_action po (wt_signal wt) ''NO'' system_watch why ?d ?w)"
    using True by (simp add: cancelResting_def cancel_answered_def placer_CancelOrder_def)
  then show ?thesis using pendingRow_append [OF x(1), of row symbol] x(2,3) assms(3) True by simp
next
  case False
  then have "w_db (cancelResting env po wt why w) = w_db w"
    by (auto simp: cancelResting_def cancel_answered_def placer_CancelOrder_def split: option.split)
  then show ?thesis using False by simp
qed

lemma recordFill_books:
  assumes "an_outage po = None" "0 < wt_signal wt" "sw_id row = wt_signal wt"
  shows "\<not> books_open (w_db (recordFill po wt w)) symbol row"
proof -
  let ?d = "[(''order_id_ex'', DText (wt_orderIDEx wt)), (''symbol'', DText (wt_symbol wt)), (''side'', DText (wt_side wt)), (''qty'', DNumber (wt_qty wt))]"
  obtain x where x: "db_actions (w_db (recordFill po wt w)) = db_actions (w_db w) @ [x]" "aw_signal x = wt_signal wt" "aw_action x = ''FILL''"
    using action_appended [OF assms(1,2), of "''FILL''" "[]" ?d "push_notice (wt_signal wt) Filled w"] unfolding recordFill_def by auto
  show ?thesis using pendingRow_append [OF x(1), of row symbol] x(2,3) assms(3) by auto
qed

lemma unseenRound_books:
  assumes "an_outage po = None" "0 < wt_signal wt" "sw_id row = wt_signal wt" "unseenRound env po wt limit missing w = (d, w')"
  shows "books_open (w_db w') symbol row \<longleftrightarrow> books_open (w_db w) symbol row" "d \<noteq> Some OnFill" "d \<noteq> Some AtClose" "d \<noteq> Some StatusLost"
    "d \<noteq> Some Stopped"
proof -
  let ?d = "[(''order_id_ex'', DText (wt_orderIDEx wt)), (''order_id'', DNumber (wt_orderID wt)), (''symbol'', DText (wt_symbol wt)),
     (''side'', DText (wt_side wt)), (''missing_polls'', DNumber (int missing))]"
  let ?n = "''order not visible to broker; attempting cancel''" and ?w = "push_notice (wt_signal wt) Unconfirmed w"
  obtain x where x: "db_actions (w_db (record_action po (wt_signal wt) ''NOTE'' system_watch ?n ?d ?w)) = db_actions (w_db w) @ [x]"
    "aw_signal x = wt_signal wt" "aw_action x = ''NOTE''"
    using action_appended [OF assms(1,2), of "''NOTE''" ?n ?d ?w] by auto
  have "w_db w' = w_db w \<or> w_db w' = w_db (record_action po (wt_signal wt) ''NOTE'' system_watch ?n ?d ?w)"
    using assms(4) by (auto simp: unseenRound_def Let_def split: if_splits option.splits prod.splits dest!: placer_cases(2))
  then show "books_open (w_db w') symbol row \<longleftrightarrow> books_open (w_db w) symbol row"
    using pendingRow_append [OF x(1), of row symbol] x(2,3) assms(3) by auto
  show "d \<noteq> Some OnFill" "d \<noteq> Some AtClose" "d \<noteq> Some StatusLost" "d \<noteq> Some Stopped"
    using assms(4) by (auto simp: unseenRound_def Let_def split: if_splits option.splits prod.splits)
qed

lemma watchRound_books:
  assumes "an_outage po = None" "0 < wt_signal wt" "sw_id row = wt_signal wt"
    and "watchRound tz env wt limit reportAfter started po st w = (r, w')"
  shows "books_open (w_db w') symbol row
    \<longleftrightarrow> books_open (w_db w) symbol row \<and> (case r of Inl e \<Rightarrow> \<not> closes_books env po wt e | Inr _ \<Rightarrow> True)"
proof (cases "MarketIsOpen tz (wt_symbol wt) (an_now po) None \<and> placer_OrderStatus env (po_orders po) (wt_orderIDEx wt) = Inr None")
  case True
  obtain d v where u: "unseenRound env po wt limit (fst st + 1) w = (d, v)" by fastforce
  have "r = Inl Stopped \<or> (\<exists>e. d = Some e \<and> r = Inl e) \<or> (\<exists>x. r = Inr x)" "w_db w' = w_db v"
    using assms(4) True u by (auto simp: watchRound_def Let_def split: option.splits if_splits)
  then show ?thesis using unseenRound_books [OF assms(1-3) u] by (auto simp: closes_books_def)
next
  case False
  then show ?thesis
    using assms(4) cancelResting_books [OF assms(1-3), of env _ w symbol] recordFill_books [OF assms(1-3), of w symbol]
    by (auto simp: watchRound_def closes_books_def Let_def split: sum.splits option.splits if_splits)
qed



section \<open>No silent end\<close>

definition told :: "int \<Rightarrow> World \<Rightarrow> World \<Rightarrow> bool" where
  "told sid w w' \<longleftrightarrow> (\<exists>ns n. w_notices w' = w_notices w @ ns @ [(sid, n)])"

lemma placer_notices: "placer_CancelOrder env g sid symbol oid w = (r, w') \<Longrightarrow> w_notices w' = w_notices w"
  by (auto dest: placer_cases(2))

lemma cancelResting_told: "told (wt_signal wt) w (cancelResting env po wt why w)"
  by (auto simp: told_def cancelResting_def split: prod.split option.split dest!: placer_notices)

lemma unseenRound_notices:
  assumes "unseenRound env po wt limit missing w = (d, w')"
  shows "\<exists>ns. w_notices w' = w_notices w @ ns" "d \<noteq> None \<Longrightarrow> told (wt_signal wt) w w'"
  using assms by (auto simp: told_def unseenRound_def Let_def split: if_splits prod.splits option.splits dest!: placer_notices)

lemma watchRound_notices:
  assumes "watchRound tz env wt limit reportAfter started po st w = (r, w')"
  shows "\<exists>ns. w_notices w' = w_notices w @ ns" "r = Inl e \<Longrightarrow> e \<noteq> Stopped \<Longrightarrow> told (wt_signal wt) w w'"
proof -
  have c: "\<exists>ns. w_notices (cancelResting env po wt why w) = w_notices w @ ns" for why
    using cancelResting_told [of wt w env po why] by (auto simp: told_def)
  obtain d v where u: "unseenRound env po wt limit (Suc (fst st)) w = (d, v)" by fastforce
  note n = unseenRound_notices [OF u]
  show "\<exists>ns. w_notices w' = w_notices w @ ns"
    using assms c n(1) by (auto simp: watchRound_def recordFill_def u Let_def split: sum.splits option.splits if_splits)
  show "r = Inl e \<Longrightarrow> e \<noteq> Stopped \<Longrightarrow> told (wt_signal wt) w w'"
    using assms n(2) cancelResting_told [of wt w env po]
    by (auto simp: watchRound_def recordFill_def u Let_def split: sum.splits option.splits if_splits) (auto simp: told_def)
qed

lemma watchRounds_told:
  "watchRounds tz env wt limit reportAfter started pos st w = (Some e, w') \<Longrightarrow> e \<noteq> Stopped \<Longrightarrow> told (wt_signal wt) w w'"
proof (induction pos arbitrary: st w)
  case (Cons p pos)
  obtain r v where r: "watchRound tz env wt limit reportAfter started p st w = (r, v)" by fastforce
  note n = watchRound_notices [OF r]
  show ?case
  proof (cases r)
    case (Inl e')
    then show ?thesis using n(2) Cons.prems r by simp
  next
    case (Inr st')
    then have "told (wt_signal wt) v w'" using Cons.IH [of st' v] Cons.prems r by simp
    then show ?thesis using n(1) by (auto simp: told_def)
  qed
qed simp

text \<open>
  C19: the watch of an order returns no later than in the first round that finds the exchange closed, the
  order list unavailable, or the order filled, cancelled or failed; and unless the process itself stops, its
  end is told: the last notice of the watch concerns this signal.
\<close>

theorem watch_settles:
  assumes "po \<in> set pos" "decisive tz env wt po"
  shows "\<exists>e w'. watchFill tz env wt missingWarnAfter watchReport started pos w = (Some e, w')
     \<and> (e = Stopped \<or> (\<exists>ns n. w_notices w' = w_notices w @ ns @ [(wt_signal wt, n)]))"
proof -
  obtain e w' where e: "watchFill tz env wt missingWarnAfter watchReport started pos w = (Some e, w')"
    using watchRounds_ends [OF assms] unfolding watchFill_def by (metis not_None_eq prod.collapse)
  then have "e \<noteq> Stopped \<Longrightarrow> told (wt_signal wt) w w'" unfolding watchFill_def by (rule watchRounds_told)
  then show ?thesis using e by (auto simp: told_def)
qed

section \<open>A sample watch\<close>

definition sample_watched :: Watched where
  "sample_watched = \<lparr>wt_signal = 1, wt_symbol = ''US.JD'', wt_side = ''sell'', wt_qty = 2, wt_price = Fin 1, wt_orderIDEx = ''A1'', wt_orderID = 77\<rparr>"

text \<open>Two quiet rounds, then the broker reports a partial fill.\<close>

definition sample_polls :: "Poll list" where
  "sample_polls = map (\<lambda>s. \<lparr>an_now = press_time, an_outage = None, an_cancel = None, an_place = Inl LiveEnvNotAllowed,
     po_orders = Inr [(''A1'', s)], po_stop = False\<rparr>) [5, 5, 10]"

definition watched_out :: "WatchEnd option \<times> World" where
  "watched_out = watchFill (\<lambda>_. None) EnvSim sample_watched 0 0 press_time sample_polls pressed_world"

lemma watched_values:
  "fst watched_out = Some OnFill" "w_calls (snd watched_out) = w_calls pressed_world"
  "decisive (\<lambda>_. None) EnvSim sample_watched (sample_polls ! 2)"
  by code_simp+


theorem watch_settles_witness: "\<exists>e. fst watched_out = Some e"
proof -
  have "sample_polls ! 2 \<in> set sample_polls" by (simp add: sample_polls_def)
  from watch_settles [OF this watched_values(3), of 0 0 press_time pressed_world] show ?thesis unfolding watched_out_def by auto
qed

end
