(* ===== verification/Live_Push.thy ===== *)
theory Live_Push
  imports Live_Confirm "HOL-Library.AList"
begin

text \<open>
  Pushing alerts to the chats: \<^verbatim>\<open>pushSignal\<close> and the loop \<^verbatim>\<open>runPush\<close> of \<^verbatim>\<open>cmd/wbot/telegram_scheduler.go\<close>, with the
  cursor query of \<^verbatim>\<open>internal/wheelstore/store.go\<close>.  The loop keeps a waterline, the set of signals handled above
  it, and for every signal being retried the chats that have its card.  The cards that arrived and the
  decisions of the loop are logged.
\<close>

section \<open>One signal\<close>

definition llmReviewRetryWindow :: duration where
  "llmReviewRetryWindow = 6 * 60 * second_ns"

datatype Query = QDismissed | QReview | QRejected | QFailed | QFailedAt

record PushEnv =
  pe_now :: time
  pe_down :: "Query \<Rightarrow> bool"
  pe_send :: "int \<Rightarrow> bool"

text \<open>A query that the database does not answer is an error like any other.\<close>

definition ask :: "PushEnv \<Rightarrow> Query \<Rightarrow> StoreError + 'a \<Rightarrow> StoreError + 'a" where
  "ask env q res = (if pe_down env q then Inl (StoreFailure ''query'') else res)"

datatype Gate = Retry | Skip | Push

definition reviewGate :: "PushEnv \<Rightarrow> SignalRow \<Rightarrow> details DB \<Rightarrow> Gate" where
  "reviewGate env row db =
     (case ask env QReview (LatestAction (sw_id row) ''LLM_REVIEW'' db) of
        Inr review \<Rightarrow> if verdictOf review \<noteq> ''APPROVE'' then Skip else Push
      | Inl e \<Rightarrow>
          if e \<noteq> ErrNotFound then Retry
          else case ask env QRejected (HasAction (sw_id row) ''REJECTED'' db) of
            Inl _ \<Rightarrow> Retry
          | Inr True \<Rightarrow> Skip
          | Inr False \<Rightarrow>
              (case ask env QFailed (HasAction (sw_id row) ''LLM_REVIEW_FAILED'' db) of
                 Inl _ \<Rightarrow> Retry
               | Inr True \<Rightarrow>
                   (case ask env QFailedAt (LatestAction (sw_id row) ''LLM_REVIEW_FAILED'' db) of
                      Inl _ \<Rightarrow> Retry
                    | Inr failedAt \<Rightarrow> if pe_now env - aw_created failedAt < llmReviewRetryWindow then Retry else Skip)
               | Inr False \<Rightarrow> if signalFreshWindow < pe_now env - sw_created row then Skip else Retry))"

text \<open>The card cannot be rendered exactly where the order facts are missing.\<close>

definition pushGate :: "PushEnv \<Rightarrow> SignalRow \<Rightarrow> details DB \<Rightarrow> Gate" where
  "pushGate env row db =
     (case ask env QDismissed (IsDismissed (rec_Symbol (sw_record row)) (utcDate_tg (pe_now env)) db) of
        Inl _ \<Rightarrow> Retry
      | Inr True \<Rightarrow> Skip
      | Inr False \<Rightarrow>
          (case reviewGate env row db of
             Push \<Rightarrow> (case orderFacts (sw_record row) of Inl _ \<Rightarrow> Skip | Inr _ \<Rightarrow> Push)
           | g \<Rightarrow> g))"

text \<open>The chats that still miss the card, in any order: who got it now, and whether some send failed.\<close>

definition sendCards :: "PushEnv \<Rightarrow> int list \<Rightarrow> int list \<Rightarrow> int list \<times> bool" where
  "sendCards env chats delivered =
     (let missing = filter (\<lambda>c. c \<notin> set delivered) chats
      in (filter (pe_send env) missing, list_ex (\<lambda>c. \<not> pe_send env c) missing))"

definition pushSignal :: "PushEnv \<Rightarrow> int list \<Rightarrow> SignalRow \<Rightarrow> int list \<Rightarrow> details DB \<Rightarrow> bool \<times> int list" where
  "pushSignal env chats row delivered db =
     (case pushGate env row db of
        Retry \<Rightarrow> (True, [])
      | Skip \<Rightarrow> (False, [])
      | Push \<Rightarrow> (case sendCards env chats delivered of (got, failed) \<Rightarrow> (failed, got)))"

section \<open>The loop\<close>

definition QuerySignalsSince :: "string \<Rightarrow> int \<Rightarrow> int \<Rightarrow> 'd DB \<Rightarrow> StoreError + SignalRow list" where
  "QuerySignalsSince action after limit db =
     (let limit = (if limit \<le> 0 then 100 else limit); act = to_upper action
      in if trim_space action \<noteq> [] \<and> act \<noteq> ''ALERT'' \<and> act \<noteq> ''HOLD'' then Inl ErrInvalidAction
         else Inr (take (nat limit) (sort_key sw_id
           (filter (\<lambda>s. after < sw_id s \<and> (trim_space action = [] \<or> rec_Action (sw_record s) = act)) (db_signals db)))))"

record PushState =
  ps_cursor :: int
  ps_handled :: "int list"
  ps_delivered :: "(int \<times> int list) list"
  ps_cards :: "(int \<times> int) list"
  ps_decided :: "(int \<times> bool) list"

definition delivered_to :: "PushState \<Rightarrow> int \<Rightarrow> int list" where
  "delivered_to s sid = (case map_of (ps_delivered s) sid of None \<Rightarrow> [] | Some cs \<Rightarrow> cs)"

text \<open>One signal of a batch; the flag tells that an earlier one of the batch is retried.\<close>

definition pushRow :: "(int \<Rightarrow> PushEnv) \<Rightarrow> int list \<Rightarrow> details DB \<Rightarrow> PushState \<times> bool \<Rightarrow> SignalRow \<Rightarrow> PushState \<times> bool" where
  "pushRow env chats db sp row =
     (let (s, pending) = sp; sid = sw_id row in
      if sid \<le> ps_cursor s then (s, pending)
      else if sid \<in> set (ps_handled s) then (if pending then s else s\<lparr>ps_cursor := sid\<rparr>, pending)
      else
        (let old = delivered_to s sid; (retry, got) = pushSignal (env sid) chats row old db;
             s = s\<lparr>ps_cards := ps_cards s @ map (Pair sid) got\<rparr>
         in if retry then (s\<lparr>ps_delivered := AList.update sid (old @ got) (ps_delivered s)\<rparr>, True)
            else
              (let s = s\<lparr>ps_handled := sid # ps_handled s, ps_delivered := AList.delete sid (ps_delivered s),
                         ps_decided := ps_decided s @ [(sid, pushGate (env sid) row db = Push)]\<rparr>
               in (if pending then s else s\<lparr>ps_cursor := sid\<rparr>, pending))))"

definition pruneBelow :: "PushState \<Rightarrow> PushState" where
  "pruneBelow s = s\<lparr>ps_handled := filter (\<lambda>i. ps_cursor s < i) (ps_handled s),
     ps_delivered := filter (\<lambda>(i, _). ps_cursor s < i) (ps_delivered s)\<rparr>"

text \<open>A tick of the loop; \<open>down\<close> tells that the batch query failed.\<close>

definition pushTick :: "bool \<Rightarrow> (int \<Rightarrow> PushEnv) \<Rightarrow> int list \<Rightarrow> details DB \<Rightarrow> PushState \<Rightarrow> PushState" where
  "pushTick down env chats db s =
     (if down then s
      else case QuerySignalsSince ''ALERT'' (ps_cursor s) 50 db of
        Inl _ \<Rightarrow> s
      | Inr rows \<Rightarrow> pruneBelow (fst (foldl (pushRow env chats db) (s, False) rows)))"

definition runPush_start :: "details DB \<Rightarrow> PushState" where
  "runPush_start db = \<lparr>ps_cursor = MaxSignalID db, ps_handled = [], ps_delivered = [], ps_cards = [], ps_decided = []\<rparr>"

text \<open>New signals get larger numbers, actions are only added.\<close>

definition later :: "details DB \<Rightarrow> details DB \<Rightarrow> bool" where
  "later db db' \<longleftrightarrow> (\<exists>new. db_signals db' = db_signals db @ new \<and> (\<forall>r \<in> set new. MaxSignalID db < sw_id r))
     \<and> set (db_actions db) \<subseteq> set (db_actions db')"

inductive runPush :: "int list \<Rightarrow> details DB \<Rightarrow> details DB \<Rightarrow> PushState \<Rightarrow> bool" for chats and db0 where
  start: "runPush chats db0 db0 (runPush_start db0)"
| tick: "runPush chats db0 db s \<Longrightarrow> later db db' \<Longrightarrow> runPush chats db0 db' (pushTick down env chats db' s)"


section \<open>The invariant of the loop\<close>

lemma pushGate_approved: "pushGate env row db = Push \<Longrightarrow> approved db (sw_id row)"
  by (auto simp: pushGate_def reviewGate_def ask_def LatestAction_approved split: sum.splits bool.splits if_splits Gate.splits)

text \<open>What a pass over one signal sends: to chats that miss the card, and to all of them if it is not retried.\<close>

lemma pushSignal_sends:
  assumes "pushSignal env chats row old db = (retry, got)"
  shows "set got \<subseteq> set chats - set old" "distinct chats \<Longrightarrow> distinct got" "got \<noteq> [] \<Longrightarrow> approved db (sw_id row)"
    "\<not> retry \<Longrightarrow> pushGate env row db = Push \<Longrightarrow> set chats \<subseteq> set old \<union> set got"
  using assms pushGate_approved [of env row db]
  by (auto simp: pushSignal_def sendCards_def Let_def list_ex_iff split: Gate.splits)

text \<open>The books of the loop in database \<open>db\<close>, started when the newest signal was \<open>z\<close>.\<close>

record PushBooks =
  pb_chats :: "int list"
  pb_start :: int
  pb_db :: "details DB"

definition cards_ok :: "PushBooks \<Rightarrow> PushState \<Rightarrow> bool" where
  "cards_ok b s \<longleftrightarrow> distinct (ps_cards s)
     \<and> (\<forall>(sid, c) \<in> set (ps_cards s). pb_start b < sid \<and> c \<in> set (pb_chats b) \<and> approved (pb_db b) sid
          \<and> (sid \<le> ps_cursor s \<or> sid \<in> set (ps_handled s) \<or> c \<in> set (delivered_to s sid)))
     \<and> (\<forall>sid. \<forall>c \<in> set (delivered_to s sid). (sid, c) \<in> set (ps_cards s))"

definition decided_ok :: "PushBooks \<Rightarrow> PushState \<Rightarrow> bool" where
  "decided_ok b s \<longleftrightarrow> (\<forall>sid. (sid, True) \<in> set (ps_decided s) \<longrightarrow> (\<forall>c \<in> set (pb_chats b). (sid, c) \<in> set (ps_cards s)))
     \<and> (\<forall>sid \<in> set (ps_handled s). sid \<in> fst ` set (ps_decided s))"

definition alert_row :: "SignalRow \<Rightarrow> bool" where
  "alert_row r \<longleftrightarrow> rec_Action (sw_record r) = ''ALERT''"

definition none_skipped :: "PushBooks \<Rightarrow> PushState \<Rightarrow> bool" where
  "none_skipped b s \<longleftrightarrow> pb_start b \<le> ps_cursor s
     \<and> (\<forall>r \<in> set (db_signals (pb_db b)). alert_row r \<and> pb_start b < sw_id r \<and> sw_id r \<le> ps_cursor s
          \<longrightarrow> sw_id r \<in> fst ` set (ps_decided s))"

lemma delivered_simps [simp]:
  "delivered_to (s\<lparr>ps_delivered := AList.update sid v (ps_delivered t)\<rparr>) x = (if x = sid then v else delivered_to t x)"
  "delivered_to (s\<lparr>ps_delivered := AList.delete sid (ps_delivered t)\<rparr>) x = (if x = sid then [] else delivered_to t x)"
  "delivered_to (s\<lparr>ps_cursor := k\<rparr>) x = delivered_to s x" "delivered_to (s\<lparr>ps_cards := cs\<rparr>) x = delivered_to s x"
  "delivered_to (s\<lparr>ps_handled := hs\<rparr>) x = delivered_to s x" "delivered_to (s\<lparr>ps_decided := ds\<rparr>) x = delivered_to s x"
  by (simp_all add: delivered_to_def update_conv' delete_conv')

text \<open>The four ways to deal with a signal of the batch.\<close>

lemma pushRow_cases:
  assumes "pushRow env chats db (s, pending) row = (s', pending')"
  obtains (old) "sw_id row \<le> ps_cursor s" "s' = s" "pending' = pending"
  | (handled) "ps_cursor s < sw_id row" "sw_id row \<in> set (ps_handled s)" "s' = (if pending then s else s\<lparr>ps_cursor := sw_id row\<rparr>)"
      "pending' = pending"
  | (retried) got where "ps_cursor s < sw_id row" "sw_id row \<notin> set (ps_handled s)" "pending'"
      "pushSignal (env (sw_id row)) chats row (delivered_to s (sw_id row)) db = (True, got)"
      "s' = s\<lparr>ps_cards := ps_cards s @ map (Pair (sw_id row)) got,
              ps_delivered := AList.update (sw_id row) (delivered_to s (sw_id row) @ got) (ps_delivered s)\<rparr>"
  | (decided) got where "ps_cursor s < sw_id row" "sw_id row \<notin> set (ps_handled s)" "pending' = pending"
      "pushSignal (env (sw_id row)) chats row (delivered_to s (sw_id row)) db = (False, got)"
      "s' = s\<lparr>ps_cards := ps_cards s @ map (Pair (sw_id row)) got, ps_handled := sw_id row # ps_handled s,
              ps_delivered := AList.delete (sw_id row) (ps_delivered s),
              ps_decided := ps_decided s @ [(sw_id row, pushGate (env (sw_id row)) row db = Push)],
              ps_cursor := (if pending then ps_cursor s else sw_id row)\<rparr>"
proof -
  obtain retry got where p: "pushSignal (env (sw_id row)) chats row (delivered_to s (sw_id row)) db = (retry, got)" by fastforce
  consider "sw_id row \<le> ps_cursor s" | "ps_cursor s < sw_id row" "sw_id row \<in> set (ps_handled s)"
    | "ps_cursor s < sw_id row" "sw_id row \<notin> set (ps_handled s)" by linarith
  then show thesis
  proof cases
    case 1
    show ?thesis by (rule old) (use 1 assms in \<open>simp_all add: pushRow_def Let_def\<close>)
  next
    case 2
    show ?thesis by (rule handled) (use 2 assms in \<open>auto simp: pushRow_def Let_def split: if_splits\<close>)
  next
    case 3
    show ?thesis
    proof (cases retry)
      case True
      show ?thesis by (rule retried [of got]) (use 3 p True assms in \<open>auto simp: pushRow_def Let_def\<close>)
    next
      case False
      show ?thesis by (rule decided [of got]) (use 3 p False assms in \<open>auto simp: pushRow_def Let_def split: if_splits\<close>)
    qed
  qed
qed

text \<open>Cards of one signal added to the log.\<close>

lemma cards_ok_extend:
  assumes ok: "cards_ok b s" "distinct (pb_chats b)"
    and sid: "pb_start b < sid" "ps_cursor s < sid" "sid \<notin> set (ps_handled s)"
    and got: "set got \<subseteq> set (pb_chats b) - set (delivered_to s sid)" "distinct got" "got \<noteq> [] \<Longrightarrow> approved (pb_db b) sid"
    and s': "ps_cards s' = ps_cards s @ map (Pair sid) got"
    and kept: "\<forall>x. x \<noteq> sid \<longrightarrow> delivered_to s' x = delivered_to s x" "set (ps_handled s) \<subseteq> set (ps_handled s')" "ps_cursor s \<le> ps_cursor s'"
    and mine: "sid \<in> set (ps_handled s') \<and> delivered_to s' sid = [] \<or> delivered_to s' sid = delivered_to s sid @ got"
  shows "cards_ok b s'"
proof -
  have new: "(sid, c) \<notin> set (ps_cards s)" if "c \<in> set got" for c
    using ok(1) sid got(1) that unfolding cards_ok_def by fastforce
  then have "distinct (ps_cards s')" using ok(1) got(2) unfolding cards_ok_def s' by (auto simp: distinct_map inj_on_def)
  moreover have "pb_start b < x \<and> c \<in> set (pb_chats b) \<and> approved (pb_db b) x
      \<and> (x \<le> ps_cursor s' \<or> x \<in> set (ps_handled s') \<or> c \<in> set (delivered_to s' x))" if "(x, c) \<in> set (ps_cards s')" for x c
  proof (cases "(x, c) \<in> set (ps_cards s)")
    case True
    then have "pb_start b < x" "c \<in> set (pb_chats b)" "approved (pb_db b) x"
      "x \<le> ps_cursor s \<or> x \<in> set (ps_handled s) \<or> c \<in> set (delivered_to s x)"
      using ok(1) unfolding cards_ok_def by auto
    then show ?thesis using kept mine by (cases "x = sid") auto
  next
    case False
    then have x: "x = sid" "c \<in> set got" "got \<noteq> []" using that s' by auto
    then show ?thesis using sid(1) got(1) got(3) [OF x(3)] mine by auto
  qed
  moreover have "(x, c) \<in> set (ps_cards s')" if "c \<in> set (delivered_to s' x)" for x c
    using ok(1) that kept(1) mine unfolding cards_ok_def s' by (cases "x = sid") auto
  ultimately show ?thesis unfolding cards_ok_def by auto
qed

lemma pushRow_cards:
  assumes "pushRow env (pb_chats b) (pb_db b) (s, pending) row = (s', pending')" "cards_ok b s" "distinct (pb_chats b)"
    "pb_start b \<le> ps_cursor s"
  shows "cards_ok b s'"
  using assms(1)
proof (cases rule: pushRow_cases)
  case (handled)
  then show ?thesis using assms(2) by (auto simp: cards_ok_def)
next
  case (retried got)
  note p = pushSignal_sends [OF retried(4)]
  show ?thesis
    by (rule cards_ok_extend [OF assms(2,3) _ retried(1,2) p(1) p(2) [OF assms(3)] p(3)]) (use retried assms(4) in simp_all)
next
  case (decided got)
  note p = pushSignal_sends [OF decided(4)]
  show ?thesis
    by (rule cards_ok_extend [OF assms(2,3) _ decided(1,2) p(1) p(2) [OF assms(3)] p(3)]) (use decided assms(4) in auto)
qed (use assms in simp)

lemma pushRow_decided:
  assumes "pushRow env (pb_chats b) (pb_db b) (s, pending) row = (s', pending')" "cards_ok b s" "decided_ok b s"
  shows "decided_ok b s'"
  using assms(1)
proof (cases rule: pushRow_cases)
  case (handled)
  then show ?thesis using assms(3) by (auto simp: decided_ok_def)
next
  case (retried got)
  then show ?thesis using assms(3) by (auto simp: decided_ok_def)
next
  case (decided got)
  have "(sw_id row, c) \<in> set (ps_cards s')" if "pushGate (env (sw_id row)) row (pb_db b) = Push" "c \<in> set (pb_chats b)" for c
    using pushSignal_sends(4) [OF decided(4) _ that(1)] that(2) assms(2) decided(5) by (auto simp: cards_ok_def)
  then show ?thesis using assms(3) decided(5) by (auto simp: decided_ok_def)
qed (use assms in simp)

text \<open>The waterline moves only over signals that the loop has decided.\<close>

lemma pushRow_skips:
  assumes "pushRow env (pb_chats b) (pb_db b) (s, pending) row = (s', pending')" "decided_ok b s" "none_skipped b s"
    and "\<not> pending \<Longrightarrow> \<forall>r \<in> set (db_signals (pb_db b)). alert_row r \<and> pb_start b < sw_id r \<and> sw_id r < sw_id row \<longrightarrow> sw_id r \<le> ps_cursor s"
  shows "none_skipped b s' \<and> ps_cursor s \<le> ps_cursor s' \<and> (\<not> pending' \<longrightarrow> sw_id row \<le> ps_cursor s' \<and> \<not> pending)"
  using assms(1)
proof (cases rule: pushRow_cases)
  case (old)
  then show ?thesis using assms by simp
next
  case (handled)
  then show ?thesis using assms(2-4) by (cases pending) (auto simp: none_skipped_def decided_ok_def le_less)
next
  case (retried got)
  then show ?thesis using assms(3) by (simp add: none_skipped_def)
next
  case (decided got)
  then show ?thesis using assms(3,4) by (cases pending) (auto simp: none_skipped_def le_less)
qed


section \<open>A tick and a run\<close>

definition push_ok :: "PushBooks \<Rightarrow> PushState \<Rightarrow> bool" where
  "push_ok b s \<longleftrightarrow> cards_ok b s \<and> decided_ok b s \<and> none_skipped b s"

text \<open>A batch from \<open>cursor0\<close> on: sorted, and without a gap below any of its signals.\<close>

definition batch_ok :: "PushBooks \<Rightarrow> int \<Rightarrow> SignalRow list \<Rightarrow> bool" where
  "batch_ok b cursor0 rows \<longleftrightarrow>
     (\<forall>pre row post. rows = pre @ row # post \<longrightarrow>
        (\<forall>r \<in> set (db_signals (pb_db b)). alert_row r \<and> cursor0 < sw_id r \<and> sw_id r < sw_id row \<longrightarrow> r \<in> set pre))"

lemma foldl_pushRow:
  assumes "push_ok b s0" "distinct (pb_chats b)" "batch_ok b (ps_cursor s0) rows"
  shows "rows = pre @ post \<Longrightarrow> push_ok b (fst (foldl (pushRow env (pb_chats b) (pb_db b)) (s0, False) pre))
    \<and> ps_cursor s0 \<le> ps_cursor (fst (foldl (pushRow env (pb_chats b) (pb_db b)) (s0, False) pre))
    \<and> (\<not> snd (foldl (pushRow env (pb_chats b) (pb_db b)) (s0, False) pre) \<longrightarrow>
         (\<forall>r \<in> set pre. sw_id r \<le> ps_cursor (fst (foldl (pushRow env (pb_chats b) (pb_db b)) (s0, False) pre))))"
proof (induction pre arbitrary: post rule: rev_induct)
  case (snoc row pre)
  obtain s pending where s: "foldl (pushRow env (pb_chats b) (pb_db b)) (s0, False) pre = (s, pending)" by fastforce
  obtain s' pending' where s': "pushRow env (pb_chats b) (pb_db b) (s, pending) row = (s', pending')" by fastforce
  have ih: "push_ok b s" "ps_cursor s0 \<le> ps_cursor s" "\<not> pending \<Longrightarrow> \<forall>r \<in> set pre. sw_id r \<le> ps_cursor s"
    using snoc.IH [of "row # post"] snoc.prems s by simp_all
  have gap: "\<forall>r \<in> set (db_signals (pb_db b)). alert_row r \<and> pb_start b < sw_id r \<and> sw_id r < sw_id row \<longrightarrow> sw_id r \<le> ps_cursor s"
    if "\<not> pending"
  proof -
    have "r \<in> set pre" if "r \<in> set (db_signals (pb_db b))" "alert_row r" "ps_cursor s0 < sw_id r" "sw_id r < sw_id row" for r
      using assms(3) snoc.prems that unfolding batch_ok_def by (metis append.assoc append_Cons append_Nil)
    then show ?thesis using ih(2) ih(3) [OF that] by (meson le_less_trans not_less)
  qed
  have start: "pb_start b \<le> ps_cursor s" using ih(1) by (simp add: push_ok_def none_skipped_def)
  have "push_ok b s'" "ps_cursor s \<le> ps_cursor s'" "\<not> pending' \<Longrightarrow> sw_id row \<le> ps_cursor s' \<and> \<not> pending"
    using pushRow_cards [OF s' _ assms(2) start] pushRow_decided [OF s'] pushRow_skips [OF s' _ _ gap] ih(1)
    by (simp_all add: push_ok_def)
  then show ?case using ih(2,3) s s' by fastforce
qed (use assms(1) in simp)

lemma pruneBelow_ok:
  assumes "push_ok b s"
  shows "push_ok b (pruneBelow s)"
proof -
  have d: "delivered_to (pruneBelow s) sid = (if ps_cursor s < sid then delivered_to s sid else [])" for sid
  proof -
    have "map_of (filter (\<lambda>(i, _). k < i) al) sid = (if k < sid then map_of al sid else None)" for k and al :: "(int \<times> int list) list"
      by (induction al) auto
    then show ?thesis by (simp add: delivered_to_def pruneBelow_def)
  qed
  have "cards_ok b (pruneBelow s)" using assms unfolding push_ok_def cards_ok_def d by (auto simp: pruneBelow_def)
  then show ?thesis using assms by (simp add: push_ok_def decided_ok_def none_skipped_def pruneBelow_def)
qed

lemma batch_alerts:
  assumes "QuerySignalsSince ''ALERT'' k n db = Inr rows"
  shows "batch_ok \<lparr>pb_chats = chats, pb_start = z, pb_db = db\<rparr> k rows"
proof -
  let ?all = "sort_key sw_id (filter (\<lambda>s. k < sw_id s \<and> alert_row s) (db_signals db))"
  have t: "to_upper ''ALERT'' = ''ALERT''" "trim_space ''ALERT'' \<noteq> []" by code_simp+
  obtain m where rows: "rows = take m ?all"
    using assms t by (auto simp: QuerySignalsSince_def alert_row_def Let_def)
  show ?thesis unfolding batch_ok_def
  proof (intro allI impI ballI, elim conjE)
    fix pre row post r
    assume p: "rows = pre @ row # post" and r: "r \<in> set (db_signals (pb_db \<lparr>pb_chats = chats, pb_start = z, pb_db = db\<rparr>))"
      "alert_row r" "k < sw_id r" "sw_id r < sw_id row"
    have all: "?all = pre @ row # post @ drop m ?all" using p rows by (metis append.assoc append_Cons append_take_drop_id)
    have "sorted (map sw_id ?all)" by simp
    then have "\<forall>x \<in> set (post @ drop m ?all). sw_id row \<le> sw_id x"
      by (subst (asm) all) (auto simp: sorted_append)
    moreover have "r \<in> set ?all" using r by simp
    then have "r \<in> set (pre @ row # post @ drop m ?all)" by (subst (asm) all)
    moreover from calculation have "r \<notin> set (post @ drop m ?all)" using r(4) by fastforce
    ultimately show "r \<in> set pre" using r(4) by auto
  qed
qed

lemma pushTick_ok:
  assumes "push_ok \<lparr>pb_chats = chats, pb_start = z, pb_db = db\<rparr> s" "distinct chats"
  shows "push_ok \<lparr>pb_chats = chats, pb_start = z, pb_db = db\<rparr> (pushTick down env chats db s)"
proof (cases "down \<or> (\<exists>e. QuerySignalsSince ''ALERT'' (ps_cursor s) 50 db = Inl e)")
  case False
  then obtain rows where q: "\<not> down" "QuerySignalsSince ''ALERT'' (ps_cursor s) 50 db = Inr rows"
    by (cases "QuerySignalsSince ''ALERT'' (ps_cursor s) 50 db") auto
  show ?thesis
    using foldl_pushRow [OF assms(1) _ batch_alerts [OF q(2)], of rows "[]" env] assms(2) pruneBelow_ok q by (simp add: pushTick_def)
qed (use assms(1) in \<open>auto simp: pushTick_def\<close>)


lemma foldl_max: "foldl max a xs = Max (insert a (set xs))" for a :: int
proof (induction xs arbitrary: a)
  case (Cons x xs)
  have "Max (insert (max a x) (set xs)) = Max (insert a (insert x (set xs)))"
    by (cases "set xs = {}") (simp_all add: max.assoc)
  then show ?case using Cons [of "max a x"] by simp
qed simp

lemma MaxSignalID_ge: "r \<in> set (db_signals db) \<Longrightarrow> sw_id r \<le> MaxSignalID db"
  by (simp add: MaxSignalID_def foldl_max)

lemma pushRow_cursor: "ps_cursor (fst (pushRow env chats db (s, pending) row)) \<in> {ps_cursor s, sw_id row}"
proof -
  obtain s' pending' where r: "pushRow env chats db (s, pending) row = (s', pending')" by fastforce
  then have "ps_cursor s' \<in> {ps_cursor s, sw_id row}" by (cases rule: pushRow_cases) auto
  then show ?thesis using r by simp
qed

lemma pushTick_cursor:
  assumes "ps_cursor s \<le> MaxSignalID db"
  shows "ps_cursor (pushTick down env chats db s) \<le> MaxSignalID db"
proof -
  have "ps_cursor (fst (foldl (pushRow env chats db) (s, p) rows)) \<le> MaxSignalID db" if "set rows \<subseteq> set (db_signals db)" for rows p
    using that assms
  proof (induction rows arbitrary: s p)
    case (Cons r rows)
    obtain s' p' where s': "pushRow env chats db (s, p) r = (s', p')" by fastforce
    have "ps_cursor s' \<le> MaxSignalID db" using pushRow_cursor [of env chats db s p r] s' Cons.prems MaxSignalID_ge [of r db] by auto
    then show ?case using Cons.IH [of s' p'] Cons.prems(1) s' by simp
  qed simp
  moreover have "set rows \<subseteq> set (db_signals db)" if "QuerySignalsSince ''ALERT'' k n db = Inr rows" for k n rows
    using that by (auto simp: QuerySignalsSince_def Let_def split: if_splits dest!: in_set_takeD)
  ultimately show ?thesis using assms by (auto simp: pushTick_def pruneBelow_def split: sum.split)
qed

lemma later_ok:
  assumes "push_ok \<lparr>pb_chats = chats, pb_start = z, pb_db = db\<rparr> s" "later db db'" "ps_cursor s \<le> MaxSignalID db"
  shows "push_ok \<lparr>pb_chats = chats, pb_start = z, pb_db = db'\<rparr> s"
proof -
  have "approved db sid \<Longrightarrow> approved db' sid" for sid using assms(2) by (auto simp: approved_def later_def)
  moreover have "r \<in> set (db_signals db)" if "r \<in> set (db_signals db')" "sw_id r \<le> ps_cursor s" for r
    using assms(2,3) that by (fastforce simp: later_def)
  ultimately show ?thesis
    using assms(1) unfolding push_ok_def cards_ok_def decided_ok_def none_skipped_def by auto
qed

lemma later_max: "later db db' \<Longrightarrow> MaxSignalID db \<le> MaxSignalID db'"
  unfolding later_def MaxSignalID_def foldl_max by (intro Max_mono) auto

lemma runPush_ok:
  assumes "runPush chats db0 db s" "distinct chats"
  shows "push_ok \<lparr>pb_chats = chats, pb_start = MaxSignalID db0, pb_db = db\<rparr> s \<and> ps_cursor s \<le> MaxSignalID db"
  using assms(1)
proof induction
  case start
  then show ?case by (simp add: push_ok_def cards_ok_def decided_ok_def none_skipped_def runPush_start_def delivered_to_def)
next
  case (tick db s db' down env)
  then show ?case
    using later_ok [of chats "MaxSignalID db0" db s db'] later_max [of db db'] pushTick_ok [OF _ assms(2)] pushTick_cursor [of s db'] by simp
qed

text \<open>
  C16: over all ticks of the push loop, whatever queries and sends fail, no chat gets the card of a
  signal twice, cards are sent only to the configured chats, only for signals newer than the start of the
  loop, and only for signals with an approving review; and the waterline never passes an alert that the
  loop has not decided - refused for good, or delivered to every chat.
\<close>

theorem push_exactly_once:
  assumes "runPush chats db0 db s" "distinct chats"
  shows "distinct (ps_cards s)
     \<and> (\<forall>(sid, c) \<in> set (ps_cards s). MaxSignalID db0 < sid \<and> c \<in> set chats \<and> approved db sid)
     \<and> (\<forall>r \<in> set (db_signals db). rec_Action (sw_record r) = ''ALERT'' \<and> MaxSignalID db0 < sw_id r \<and> sw_id r \<le> ps_cursor s
          \<longrightarrow> sw_id r \<in> fst ` set (ps_decided s))
     \<and> (\<forall>sid. (sid, True) \<in> set (ps_decided s) \<longrightarrow> (\<forall>c \<in> set chats. (sid, c) \<in> set (ps_cards s)))"
  using runPush_ok [OF assms] by (fastforce simp: push_ok_def cards_ok_def decided_ok_def none_skipped_def alert_row_def)

text \<open>The approved sample signal arrives after the start; the send to the second chat fails in the first tick.\<close>

definition empty_push_db :: "details DB" where
  "empty_push_db = \<lparr>db_signals = [], db_actions = [], db_claims = [], db_dismissals = []\<rparr>"

definition push_env :: "bool \<Rightarrow> int \<Rightarrow> PushEnv" where
  "push_env ok sid = \<lparr>pe_now = press_time, pe_down = (\<lambda>_. False), pe_send = (\<lambda>c. ok \<or> c = 1)\<rparr>"

definition push_sample :: PushState where
  "push_sample = pushTick False (push_env True) [1, 2] press_db (pushTick False (push_env False) [1, 2] press_db (runPush_start empty_push_db))"

lemma push_sample_values:
  "ps_cards push_sample = [(1, 1), (1, 2)]" "ps_cursor push_sample = 1" "ps_decided push_sample = [(1, True)]"
  by code_simp+

theorem push_exactly_once_witness:
  "distinct (ps_cards push_sample) \<and> (1, 2) \<in> set (ps_cards push_sample)"
proof -
  have "later empty_push_db press_db" by (auto simp: later_def empty_push_db_def press_db_def MaxSignalID_def press_row_def)
  moreover have "later press_db press_db" by (simp add: later_def)
  moreover have "runPush [1, 2] empty_push_db empty_push_db (runPush_start empty_push_db)" by (rule runPush.start)
  ultimately have "runPush [1, 2] empty_push_db press_db push_sample"
    unfolding push_sample_def by (metis runPush.tick)
  from push_exactly_once [OF this] show ?thesis by (simp add: push_sample_values)
qed

end
