(* ===== verification/Spec2Isabelle.thy ===== *)
theory Spec2Isabelle
  imports Wheel_Safety Backtest_Chunks Backtest_Multi Backtest_Snapshots Strategy_Safety Strategy_Pruning Strategy_Roundtrip
    Live_Limiter Live_Datacheck Live_Hours Live_Review Live_Orders Live_Confirm Live_Watch Live_Push
begin

text \<open>
  Verification of wbot, an option-wheel trading program written in Go: its decision engine, the replay that
  tests it on history, and the live path from quotes to orders.

  \<^bold>\<open>The program.\<close>  \<^verbatim>\<open>internal/wheel\<close> decides: from a configuration, a market input and the quotes of an option
  chain, \<^verbatim>\<open>Evaluate\<close> computes the target inventory, checks every quote and raises an alert for at most one
  contract, or for the purchase of a profitable short leg.  \<^verbatim>\<open>internal/backtest\<close> replays bars and option
  snapshots through a strategy and settles its actions; \<^verbatim>\<open>internal/strategy\<close> adapts the wheel to it and owns the
  parameter format.  Live, \<^verbatim>\<open>internal/futu\<close> paces requests to the broker's gateway, \<^verbatim>\<open>internal/datacheck\<close> and
  \<^verbatim>\<open>internal/ingest\<close> judge the stored data, \<^verbatim>\<open>internal/wheelrun\<close> assembles input and quotes, runs the decision and
  stores the signal through \<^verbatim>\<open>internal/wheelstore\<close>; \<^verbatim>\<open>internal/llmreview\<close> reviews an alert; and \<^verbatim>\<open>cmd/wbot\<close> pushes
  approved alerts to chats and turns a button press into an order, which it then watches.

  \<^bold>\<open>Foundations.\<close>
  \<^item> \<open>Float64\<close>: binary64 with rounding to nearest, so that every comparison and sum of the decision has Go's
    result, NaN and infinities included.  The locale \<open>monotone_rounding\<close> holds what the proofs use of rounding.
  \<^item> \<open>Wbot_Prelude\<close>, \<open>Go_Text\<close>, \<open>Go_Json\<close>: strings, number texts, 64-bit wrap-around (\<open>to_int64\<close>), stable
    sorting by a comparison (locales \<open>strict_weak_order\<close>, \<open>key_order\<close>), Go maps as association lists in iteration
    order (locale \<open>finite_map\<close>), time as nanoseconds, JSON values.

  \<^bold>\<open>Decision\<close> (\<^verbatim>\<open>internal/wheel/wheel.go\<close>).
  \<^item> \<open>Wheel_Config\<close>: \<open>Config\<close>, its validation, \<open>TargetInventory\<close>; the curve is bounded and antitone in binary64.
  \<^item> \<open>Wheel_Quote\<close>: quotes, positions, inventory and commitments.
  \<^item> \<open>Wheel_Evaluate\<close>: candidate masks and risk checks, selection, order replacement, profit taking, \<open>Evaluate\<close>.
  \<^item> \<open>Wheel_Decision\<close>, \<open>Wheel_Safety\<close>: the declarative admission policy that the candidate loop implements
    (refinement), optimality of the chosen contract, cash-secured puts and covered calls, exits.

  \<^bold>\<open>Replay\<close> (\<^verbatim>\<open>internal/backtest\<close>).
  \<^item> \<open>Backtest_Fees\<close>, \<open>Backtest_Unfilled\<close>, \<open>Backtest_State\<close>: bars, fees, the unfilled-attempt draw (on 64-bit
    words), portfolio state.
  \<^item> \<open>Backtest_Settle\<close>, \<open>Backtest_Ledger\<close>: trades and expiry, with the reserve, accounting and delivery lemmas.
  \<^item> \<open>Backtest_Report\<close>, \<open>Backtest_Session\<close>, \<open>Backtest_Replay\<close>, \<open>Backtest_Chunks\<close>: the session and its invariants
    for every strategy that meets the locale \<open>strategy_contract\<close> (interpreted for hold, buy-and-hold and the
    wheel), and the equality of chunked and whole replays.
  \<^item> \<open>Backtest_OptionsData\<close>, \<open>Backtest_Snapshots\<close>, \<open>Backtest_IVRank\<close>: rows to atomic batches, volatility rank.
  \<^item> \<open>Backtest_Multi\<close>: several symbols.

  \<^bold>\<open>Strategy\<close> (\<^verbatim>\<open>internal/strategy/strategy.go\<close>).
  \<^item> \<open>Strategy_Wheel\<close>, \<open>Strategy_Window\<close>, \<open>Strategy_Safety\<close>, \<open>Strategy_Pruning\<close>: \<open>WheelStrategy.OnBar\<close>, the binary
    search of the expiry window, safety of its sales, and the soundness of evaluating the window only.
  \<^item> \<open>Strategy_Params\<close>, \<open>Strategy_Roundtrip\<close>: parameter parsing, migration and the canonical form.

  \<^bold>\<open>Live.\<close>
  \<^item> \<open>Live_Limiter\<close> (\<^verbatim>\<open>internal/futu/ratelimit.go\<close>): iterations of any number of processes in any interleaving.
  \<^item> \<open>Live_Calendar\<close>, \<open>Live_Datacheck\<close>, \<open>Live_Hours\<close> (\<^verbatim>\<open>internal/datacheck\<close>, \<^verbatim>\<open>internal/ingest/freshness.go\<close>,
    \<^verbatim>\<open>internal/wheelrun/market_hours.go\<close>): sessions, completeness, trading hours over a time zone parameter.
  \<^item> \<open>Live_Positions\<close>, \<open>Live_Quotes\<close>, \<open>Live_Signals\<close> (\<^verbatim>\<open>internal/wheelrun\<close>): broker positions, the growing
    quote fetch, and the stored form of a decision.
  \<^item> \<open>Live_Store\<close> (\<^verbatim>\<open>internal/wheelstore/store.go\<close>): the tables of signals, actions, claims and dismissals with the
    operations on them.
  \<^item> \<open>Live_Review\<close> (\<^verbatim>\<open>internal/llmreview\<close>): the gate over a reviewer that is a parameter.
  \<^item> \<open>Live_Orders\<close>, \<open>Live_Confirm\<close>, \<open>Live_Watch\<close>, \<open>Live_Push\<close> (\<^verbatim>\<open>cmd/wbot/telegram_scheduler.go\<close>): the order that a
    stored alert stands for; presses as machines that interleave step by step over one database and broker
    (\<open>presses\<close>); the watch of a placed order; the push loop with its waterline (\<open>runPush\<close>).

  \<^bold>\<open>How effects are modelled.\<close>  State is a record, passed and returned; an error is a value of a sum type with a
  datatype per package; failing reads, the clock, the broker and the reviewer are answers of an environment
  that the theorems quantify over.  Concurrency is an inductive relation whose steps are the critical sections
  or single interactions of the code.  Message texts are kept where the program stores them as reasons, and
  left out where they are only shown.

  \<^bold>\<open>Recursion and bounds.\<close>  Loops are structural recursion over the data they range over; the loop of
  \<^verbatim>\<open>Limiter.Wait\<close>, the watch and a press take a list of environment answers, one per round, and their
  theorems say how many rounds are enough (nine interactions for a press).  The day scan of
  \<^verbatim>\<open>expectedSessionDateWithCalendar\<close> is \<open>partial_function (option)\<close> and is proved to return for the checked-in
  calendar.  \<open>int\<close> stands for Go's 64-bit integers where the values stay small by construction (counters,
  list lengths); where a product or conversion can leave the range the wrap-around is written out.

  \<^bold>\<open>Not modelled.\<close>  The command line and the backtest commands (\<^verbatim>\<open>cmd/wbot/main.go\<close>: flags, wiring, timers); the
  second chat channel (\<^verbatim>\<open>discord_scheduler.go\<close>) and all card texts; publishing of reports; the strategy that asks a
  language model for a decision; the HTTP interface; the gateway's wire protocol and the importers; YAML and
  SQL code for settings; the paper-trading cluster skeleton.  They are input and output around the parts above.
  Of modelled files these parts are left out: the JSON decoders \<^verbatim>\<open>ParseBars\<close> and \<^verbatim>\<open>ParseConfigJSON\<close>, help texts of
  parameters, the HTTP client and prompt of the reviewer, the statements of \<^verbatim>\<open>store.go\<close> for configurations,
  stored quotes and paged lists, and the run loop of \<^verbatim>\<open>internal/wheelrun/runner.go\<close> around the modelled steps.
\<close>

end
